(* ===== verification/Prelude.thy ===== *)
theory Prelude
  imports Complex_Main "HOL-Library.Word" "HOL-Library.List_Lexorder" "HOL-Library.Char_ord"
begin

text \<open>
  The vocabulary every component shares.  ECMAScript strings are sequences of 16-bit code
  units, so \<open>jstring\<close> is a list of 16-bit words and \<open>lit\<close> turns a source literal into one;
  the library's lexicographic order on lists is then the order of
  \<^verbatim>\<open>Array.prototype.sort\<close>.  Exceptions are the left summand of a sum: \<open>bindE\<close>,
  \<open>orE\<close>, \<open>andE\<close>, \<open>everyE\<close> and \<open>foldE\<close> sequence computations that may throw in the
  order in which the source evaluates them.  \<open>set_add\<close> is an insertion-ordered
  ECMAScript \<^verbatim>\<open>Set\<close>.
\<close>

named_theorems exn_simps \<open>computation rules of the exception combinators\<close>
named_theorems exn_iff \<open>inversion rules of the exception combinators\<close>
named_theorems reason_simps \<open>which codes a check can add to a reason set\<close>

section \<open>Strings\<close>

type_synonym code_unit = "16 word"
type_synonym jstring = "code_unit list"

definition lit :: "string \<Rightarrow> jstring" where
  "lit s = map of_char s"

lemma of_char_word16_nat: "unat (of_char c :: 16 word) = (of_char c :: nat)"
proof -
  have "(of_char c :: nat) < 256" by (rule nat_of_char_less_256)
  then have "(of_char c :: nat) mod 65536 = of_char c" by (intro mod_less) linarith
  then have "unat (word_of_nat (of_char c) :: 16 word) = (of_char c :: nat)"
    by (simp add: unat_of_nat)
  then show ?thesis by (simp only: of_nat_of_char)
qed

lemma of_char_word16_eq_iff [simp]: "(of_char c :: 16 word) = of_char d \<longleftrightarrow> c = d"
  by (metis of_char_eq_iff of_char_word16_nat)

lemma of_char_word16_less_iff [simp]: "(of_char c :: 16 word) < of_char d \<longleftrightarrow> c < d"
  by (simp add: word_less_nat_alt of_char_word16_nat less_char_def)

lemma lit_eq_iff [simp]: "lit s = lit t \<longleftrightarrow> s = t"
  unfolding lit_def by (rule inj_map_eq_map) (simp add: inj_def)

lemma lit_less_iff [simp]: "lit s < lit t \<longleftrightarrow> s < t"
proof (induction s arbitrary: t)
  case Nil
  then show ?case by (cases t) (simp_all add: lit_def)
next
  case (Cons c s)
  show ?case
  proof (cases t)
    case (Cons d t')
    then show ?thesis using Cons.IH [of t'] by (simp add: lit_def)
  qed (simp add: lit_def)
qed

lemma lit_le_iff [simp]: "lit s \<le> lit t \<longleftrightarrow> s \<le> t"
  by (simp add: order.order_iff_strict)

lemma length_lit [simp]: "length (lit s) = length s"
  by (simp add: lit_def)

lemma lit_Nil [simp]: "lit [] = []"
  by (simp add: lit_def)

lemma lit_eq_Nil_iff [simp]: "lit s = [] \<longleftrightarrow> s = []" "[] = lit s \<longleftrightarrow> s = []"
  by (auto simp: lit_def)

lemma lit_append: "lit (s @ t) = lit s @ lit t"
  by (simp add: lit_def)

text \<open>Code units the sources test for.\<close>

definition is_digit :: "code_unit \<Rightarrow> bool" where
  "is_digit c \<longleftrightarrow> 48 \<le> c \<and> c \<le> 57"

definition is_upper :: "code_unit \<Rightarrow> bool" where
  "is_upper c \<longleftrightarrow> 65 \<le> c \<and> c \<le> 90"

definition is_lower :: "code_unit \<Rightarrow> bool" where
  "is_lower c \<longleftrightarrow> 97 \<le> c \<and> c \<le> 122"

text \<open>WhiteSpace and LineTerminator of ECMA-262, what \<^verbatim>\<open>String.prototype.trim\<close> removes.\<close>

definition is_space :: "code_unit \<Rightarrow> bool" where
  "is_space c \<longleftrightarrow> c \<in> {9, 10, 11, 12, 13, 32, 160, 0x1680, 0x2028, 0x2029, 0x202f, 0x205f, 0x3000, 0xfeff}
     \<or> 0x2000 \<le> c \<and> c \<le> 0x200a"

definition trim :: "jstring \<Rightarrow> jstring" where
  "trim s = rev (dropWhile is_space (rev (dropWhile is_space s)))"

definition startsWith :: "jstring \<Rightarrow> jstring \<Rightarrow> bool" where
  "startsWith s p \<longleftrightarrow> take (length p) s = p"

text \<open>\<^verbatim>\<open>s.split(c)\<close> for a separator of one code unit: never empty.\<close>

fun split_unit :: "code_unit \<Rightarrow> jstring \<Rightarrow> jstring list" where
  "split_unit c [] = [[]]"
| "split_unit c (x # xs) =
     (if x = c then [] # split_unit c xs
      else (case split_unit c xs of [] \<Rightarrow> [[x]] | p # ps \<Rightarrow> (x # p) # ps))"

definition padStart :: "jstring \<Rightarrow> nat \<Rightarrow> code_unit \<Rightarrow> jstring" where
  "padStart s n c = replicate (n - length s) c @ s"

definition padEnd :: "jstring \<Rightarrow> nat \<Rightarrow> code_unit \<Rightarrow> jstring" where
  "padEnd s n c = s @ replicate (n - length s) c"

text \<open>\<^verbatim>\<open>s.slice(0, -n)\<close> and \<^verbatim>\<open>s.slice(-n)\<close> for a positive \<open>n\<close>.\<close>

definition slice_upto_neg :: "jstring \<Rightarrow> nat \<Rightarrow> jstring" where
  "slice_upto_neg s n = take (length s - n) s"

definition slice_from_neg :: "jstring \<Rightarrow> nat \<Rightarrow> jstring" where
  "slice_from_neg s n = drop (length s - n) s"

fun join :: "jstring \<Rightarrow> jstring list \<Rightarrow> jstring" where
  "join sep [] = []"
| "join sep [x] = x"
| "join sep (x # y # ys) = x @ sep @ join sep (y # ys)"

lemma split_unit_not_Nil [simp]: "split_unit c s \<noteq> []"
  by (induction s) (auto split: list.splits)

lemma split_unit_none: "c \<notin> set s \<Longrightarrow> split_unit c s = [s]"
  by (induction s) auto

lemma split_unit_once: "c \<notin> set s \<Longrightarrow> split_unit c (s @ c # t) = s # split_unit c t"
  by (induction s) auto

lemma startsWith_append [simp]: "startsWith (p @ s) p"
  by (simp add: startsWith_def)

lemma startsWith_iff: "startsWith s p \<longleftrightarrow> (\<exists>r. s = p @ r)"
  unfolding startsWith_def by (metis append_eq_conv_conj append_take_drop_id)

lemma startsWith_lit: "startsWith (lit s) (lit p) \<longleftrightarrow> take (length p) s = p"
  unfolding startsWith_def by (metis length_lit lit_def lit_eq_iff take_map)

section \<open>Exceptions\<close>

definition bindE :: "'e + 'a \<Rightarrow> ('a \<Rightarrow> 'e + 'b) \<Rightarrow> 'e + 'b" where
  "bindE m f = (case m of Inl e \<Rightarrow> Inl e | Inr a \<Rightarrow> f a)"

lemma bindE_simps [simp, exn_simps]: "bindE (Inl e) f = Inl e" "bindE (Inr a) f = f a"
  by (simp_all add: bindE_def)

lemma bindE_Inr_iff [exn_iff]: "bindE m f = Inr b \<longleftrightarrow> (\<exists>a. m = Inr a \<and> f a = Inr b)"
  by (cases m) simp_all

lemma bindE_Inl_iff [exn_iff]:
  "bindE m f = Inl e \<longleftrightarrow> m = Inl e \<or> (\<exists>a. m = Inr a \<and> f a = Inl e)"
  by (cases m) simp_all

lemma bindE_assoc: "bindE (bindE m f) g = bindE m (\<lambda>a. bindE (f a) g)"
  by (cases m) simp_all

lemma bindE_cong [fundef_cong]:
  "m = m' \<Longrightarrow> (\<And>a. m' = Inr a \<Longrightarrow> f a = g a) \<Longrightarrow> bindE m f = bindE m' g"
  by (cases m') simp_all

text \<open>Short-circuit disjunction and conjunction of tests that may throw.\<close>

definition orE :: "'e + bool \<Rightarrow> 'e + bool \<Rightarrow> 'e + bool" where
  "orE p q = bindE p (\<lambda>b. if b then Inr True else q)"

definition andE :: "'e + bool \<Rightarrow> 'e + bool \<Rightarrow> 'e + bool" where
  "andE p q = bindE p (\<lambda>b. if b then q else Inr False)"

definition mapR :: "('a \<Rightarrow> 'b) \<Rightarrow> 'e + 'a \<Rightarrow> 'e + 'b" where
  "mapR f m = bindE m (\<lambda>a. Inr (f a))"

lemma orE_simps [simp, exn_simps]:
  "orE (Inr True) q = Inr True" "orE (Inr False) q = q" "orE (Inl e) q = Inl e"
  by (simp_all add: orE_def)

lemma andE_simps [simp, exn_simps]:
  "andE (Inr True) q = q" "andE (Inr False) q = Inr False" "andE (Inl e) q = Inl e"
  by (simp_all add: andE_def)

lemma mapR_simps [simp, exn_simps]: "mapR f (Inl e) = Inl e" "mapR f (Inr a) = Inr (f a)"
  by (simp_all add: mapR_def)

lemma mapR_Inr_iff [exn_iff]: "mapR f m = Inr b \<longleftrightarrow> (\<exists>a. m = Inr a \<and> b = f a)"
  by (cases m) auto

lemma mapR_Not_False: "mapR Not m = Inr False \<longleftrightarrow> m = Inr True"
  by (cases m) auto

lemma orE_False_iff [exn_iff]: "orE p q = Inr False \<longleftrightarrow> p = Inr False \<and> q = Inr False"
  by (cases p) (auto simp: orE_def)

lemma orE_True_iff [exn_iff]:
  "orE p q = Inr True \<longleftrightarrow> p = Inr True \<or> p = Inr False \<and> q = Inr True"
  by (cases p) (auto simp: orE_def)

lemma andE_True_iff [exn_iff]: "andE p q = Inr True \<longleftrightarrow> p = Inr True \<and> q = Inr True"
  by (cases p) (auto simp: andE_def)

lemma andE_False_iff [exn_iff]:
  "andE p q = Inr False \<longleftrightarrow> p = Inr False \<or> p = Inr True \<and> q = Inr False"
  by (cases p) (auto simp: andE_def)

lemma orE_Inr_pure [simp]: "orE (Inr a) (Inr b) = Inr (a \<or> b)"
  by (cases a) simp_all

lemma andE_Inr_pure [simp]: "andE (Inr a) (Inr b) = Inr (a \<and> b)"
  by (cases a) simp_all

text \<open>\<^verbatim>\<open>every\<close>, \<^verbatim>\<open>map\<close> and a \<^verbatim>\<open>for\<close> loop whose bodies may throw.\<close>

fun everyE :: "('a \<Rightarrow> 'e + bool) \<Rightarrow> 'a list \<Rightarrow> 'e + bool" where
  "everyE p [] = Inr True"
| "everyE p (x # xs) = andE (p x) (everyE p xs)"

fun mapE :: "('a \<Rightarrow> 'e + 'b) \<Rightarrow> 'a list \<Rightarrow> 'e + 'b list" where
  "mapE f [] = Inr []"
| "mapE f (x # xs) = bindE (f x) (\<lambda>y. mapR ((#) y) (mapE f xs))"

fun foldE :: "('a \<Rightarrow> 's \<Rightarrow> 'e + 's) \<Rightarrow> 'a list \<Rightarrow> 's \<Rightarrow> 'e + 's" where
  "foldE f [] s = Inr s"
| "foldE f (x # xs) s = bindE (f x s) (foldE f xs)"

lemma everyE_True_iff: "everyE p xs = Inr True \<longleftrightarrow> (\<forall>x \<in> set xs. p x = Inr True)"
  by (induction xs) (auto simp: exn_iff)

lemma everyE_pure [simp]: "everyE (\<lambda>x. Inr (p x)) xs = Inr (list_all p xs)"
  by (induction xs) auto

lemma everyE_cong [fundef_cong]:
  "xs = ys \<Longrightarrow> (\<And>x. x \<in> set ys \<Longrightarrow> p x = q x) \<Longrightarrow> everyE p xs = everyE q ys"
proof -
  have "(\<And>x. x \<in> set ys \<Longrightarrow> p x = q x) \<Longrightarrow> everyE p ys = everyE q ys"
    by (induction ys) auto
  then show "xs = ys \<Longrightarrow> (\<And>x. x \<in> set ys \<Longrightarrow> p x = q x) \<Longrightarrow> everyE p xs = everyE q ys"
    by simp
qed

lemma mapE_cong [fundef_cong]:
  "xs = ys \<Longrightarrow> (\<And>x. x \<in> set ys \<Longrightarrow> f x = g x) \<Longrightarrow> mapE f xs = mapE g ys"
proof -
  have "(\<And>x. x \<in> set ys \<Longrightarrow> f x = g x) \<Longrightarrow> mapE f ys = mapE g ys"
    by (induction ys) auto
  then show "xs = ys \<Longrightarrow> (\<And>x. x \<in> set ys \<Longrightarrow> f x = g x) \<Longrightarrow> mapE f xs = mapE g ys"
    by simp
qed

lemma mapE_Inr_iff: "mapE f xs = Inr ys \<longleftrightarrow> list_all2 (\<lambda>x y. f x = Inr y) xs ys"
proof (induction xs arbitrary: ys)
  case (Cons x xs)
  then show ?case by (cases ys) (auto simp: exn_iff)
qed auto

lemma mapE_pure [simp]: "mapE (\<lambda>x. Inr (f x)) xs = Inr (map f xs)"
  by (induction xs) auto

lemma foldE_invariant:
  assumes "foldE f xs s = Inr s'" and "P s"
    and "\<And>x s t. x \<in> set xs \<Longrightarrow> P s \<Longrightarrow> f x s = Inr t \<Longrightarrow> P t"
  shows "P s'"
  using assms
proof (induction xs arbitrary: s)
  case (Cons x xs)
  from Cons.prems(1) obtain t where t: "f x s = Inr t" "foldE f xs t = Inr s'"
    by (auto simp: exn_iff)
  have "P t" by (rule Cons.prems(3) [OF _ Cons.prems(2) t(1)]) simp
  then show ?case by (rule Cons.IH [OF t(2)]) (rule Cons.prems(3), simp_all)
qed simp

section \<open>Insertion-ordered sets\<close>

definition set_add :: "'a \<Rightarrow> 'a list \<Rightarrow> 'a list" where
  "set_add x xs = (if x \<in> set xs then xs else xs @ [x])"

lemma set_set_add [simp]: "set (set_add x xs) = insert x (set xs)"
  by (auto simp: set_add_def)

lemma distinct_set_add [simp]: "distinct xs \<Longrightarrow> distinct (set_add x xs)"
  by (simp add: set_add_def)

lemma set_add_not_Nil [simp]: "set_add x xs \<noteq> []"
  by (auto simp: set_add_def)

end
