(* ===== verification/JsNumber.thy ===== *)
theory JsNumber
  imports Prelude
begin

text \<open>
  ECMAScript numbers: IEEE 754 binary64 values.  A finite value is kept as the rational it
  denotes (the sources never observe the sign of zero) and every arithmetic result is
  rounded by \<open>fl\<close>, round to nearest, ties to even, with gradual underflow and overflow to
  infinity.  \<open>num_to_string\<close> is Number::toString in base ten, \<open>string_to_number\<close> is
  StringToNumber.  \<open>fl_of_int_exact\<close> shows that arithmetic on safe integers is exact, which
  is what the counters of the evaluator rely on.
\<close>

datatype jsnum = NaN | Infinity | NegInfinity | Fin rat

section \<open>Rounding\<close>

function bitlen :: "int \<Rightarrow> int" where
  "bitlen n = (if n \<le> 0 then 0 else 1 + bitlen (n div 2))"
  by pat_completeness auto
termination by (relation "measure nat") auto

declare bitlen.simps [simp del]

definition pow2 :: "int \<Rightarrow> rat" where
  "pow2 k = (if 0 \<le> k then 2 ^ nat k else 1 / 2 ^ nat (- k))"

definition ilog2 :: "rat \<Rightarrow> int" where
  "ilog2 x = (let (p, q) = quotient_of x; k = bitlen p - bitlen q
              in if pow2 k \<le> x then k else k - 1)"

definition round_half_even :: "rat \<Rightarrow> int" where
  "round_half_even x = (let f = \<lfloor>x\<rfloor>; d = x - of_int f in
     if d < 1 / 2 then f else if 1 / 2 < d then f + 1 else if even f then f else f + 1)"

definition fl :: "rat \<Rightarrow> jsnum" where
  "fl x = (if x = 0 then Fin 0 else
     let e = max (- 1074) (ilog2 \<bar>x\<bar> - 52);
         y = of_int (round_half_even (x / pow2 e)) * pow2 e
     in if pow2 1024 \<le> \<bar>y\<bar> then (if 0 < y then Infinity else NegInfinity) else Fin y)"

section \<open>Arithmetic and comparison\<close>

fun num_add :: "jsnum \<Rightarrow> jsnum \<Rightarrow> jsnum" where
  "num_add NaN _ = NaN"
| "num_add _ NaN = NaN"
| "num_add Infinity NegInfinity = NaN"
| "num_add NegInfinity Infinity = NaN"
| "num_add Infinity _ = Infinity"
| "num_add _ Infinity = Infinity"
| "num_add NegInfinity _ = NegInfinity"
| "num_add _ NegInfinity = NegInfinity"
| "num_add (Fin a) (Fin b) = fl (a + b)"

fun num_neg :: "jsnum \<Rightarrow> jsnum" where
  "num_neg NaN = NaN"
| "num_neg Infinity = NegInfinity"
| "num_neg NegInfinity = Infinity"
| "num_neg (Fin a) = Fin (- a)"

definition num_sub :: "jsnum \<Rightarrow> jsnum \<Rightarrow> jsnum" where
  "num_sub a b = num_add a (num_neg b)"

fun num_less :: "jsnum \<Rightarrow> jsnum \<Rightarrow> bool" where
  "num_less NaN _ = False"
| "num_less _ NaN = False"
| "num_less Infinity _ = False"
| "num_less NegInfinity b = (b \<noteq> NegInfinity)"
| "num_less (Fin a) Infinity = True"
| "num_less (Fin a) NegInfinity = False"
| "num_less (Fin a) (Fin b) = (a < b)"

text \<open>\<^verbatim>\<open>===\<close> on numbers, and the comparison operators built from it.\<close>

definition num_eq :: "jsnum \<Rightarrow> jsnum \<Rightarrow> bool" where
  "num_eq a b \<longleftrightarrow> a = b \<and> a \<noteq> NaN"

definition num_le :: "jsnum \<Rightarrow> jsnum \<Rightarrow> bool" where
  "num_le a b \<longleftrightarrow> num_less a b \<or> num_eq a b"

text \<open>\<^verbatim>\<open>Math.max(0, x)\<close>.\<close>

definition num_max0 :: "jsnum \<Rightarrow> jsnum" where
  "num_max0 x = (if x = NaN then NaN else if num_less x (Fin 0) then Fin 0 else x)"

fun num_is_integer :: "jsnum \<Rightarrow> bool" where
  "num_is_integer (Fin a) = (of_int \<lfloor>a\<rfloor> = a)"
| "num_is_integer _ = False"

fun num_is_finite :: "jsnum \<Rightarrow> bool" where
  "num_is_finite (Fin a) = True"
| "num_is_finite _ = False"

definition max_safe :: int where
  "max_safe = 2 ^ 53 - 1"

fun num_is_safe_integer :: "jsnum \<Rightarrow> bool" where
  "num_is_safe_integer (Fin a) = (of_int \<lfloor>a\<rfloor> = a \<and> \<bar>\<lfloor>a\<rfloor>\<bar> \<le> max_safe)"
| "num_is_safe_integer _ = False"

definition num_of_int :: "int \<Rightarrow> jsnum" where
  "num_of_int n = Fin (of_int n)"

section \<open>Decimal digits\<close>

definition digit_unit :: "int \<Rightarrow> code_unit" where
  "digit_unit d = word_of_int (48 + d)"

text \<open>The decimal digits of a non-negative integer, without leading zeros.\<close>

function digits_of :: "int \<Rightarrow> jstring" where
  "digits_of n = (if n < 10 then [digit_unit n] else digits_of (n div 10) @ [digit_unit (n mod 10)])"
  by pat_completeness auto
termination by (relation "measure nat") auto

declare digits_of.simps [simp del]

definition int_to_string :: "int \<Rightarrow> jstring" where
  "int_to_string i = (if i < 0 then lit ''-'' @ digits_of (- i) else digits_of i)"

definition digit_val :: "code_unit \<Rightarrow> int" where
  "digit_val c = uint c - 48"

definition digits_val :: "jstring \<Rightarrow> int" where
  "digits_val s = foldl (\<lambda>a c. a * 10 + digit_val c) 0 s"

section \<open>Number::toString\<close>

definition pow10 :: "int \<Rightarrow> rat" where
  "pow10 k = (if 0 \<le> k then 10 ^ nat k else 1 / 10 ^ nat (- k))"

text \<open>The decimal exponent \<open>n\<close> with \<open>10 ^ (n - 1) \<le> x < 10 ^ n\<close>, searched from the binary one.\<close>

definition dec_exponent :: "rat \<Rightarrow> int" where
  "dec_exponent x = (let g = (ilog2 x * 30103) div 100000 in
     case List.find (\<lambda>n. pow10 (n - 1) \<le> x \<and> x < pow10 n) [g - 1, g, g + 1, g + 2] of
       Some n \<Rightarrow> n | None \<Rightarrow> g + 1)"

text \<open>The digits \<open>s\<close> of length \<open>k\<close> nearest to \<open>x\<close> that still read back as \<open>x\<close>.\<close>

definition digits_at :: "rat \<Rightarrow> int \<Rightarrow> nat \<Rightarrow> int option" where
  "digits_at x n k = (let t = x * pow10 (int k - n); f = \<lfloor>t\<rfloor>; d = t - of_int f in
     List.find (\<lambda>s. fl (of_int s * pow10 (n - int k)) = Fin x)
       (if d < 1 / 2 \<or> d = 1 / 2 \<and> even f then [f, f + 1] else [f + 1, f]))"

fun shortest_digits :: "rat \<Rightarrow> int \<Rightarrow> nat list \<Rightarrow> (int \<times> nat \<times> int) option" where
  "shortest_digits x n [] = None"
| "shortest_digits x n (k # ks) =
     (case digits_at x n k of
        Some s \<Rightarrow> Some (if s = 10 ^ k then (10 ^ (k - 1), k, n + 1) else (s, k, n))
      | None \<Rightarrow> shortest_digits x n ks)"

definition zeros :: "nat \<Rightarrow> jstring" where
  "zeros n = replicate n 48"

text \<open>The layout of digits \<open>s\<close> (there are \<open>k\<close>) with decimal point position \<open>n\<close>.\<close>

definition layout_digits :: "int \<Rightarrow> nat \<Rightarrow> int \<Rightarrow> jstring" where
  "layout_digits s k n = (let ds = digits_of s in
     if int k \<le> n \<and> n \<le> 21 then ds @ zeros (nat (n - int k))
     else if 0 < n \<and> n \<le> 21 then take (nat n) ds @ lit ''.'' @ drop (nat n) ds
     else if - 6 < n \<and> n \<le> 0 then lit ''0.'' @ zeros (nat (- n)) @ ds
     else let e = n - 1;
              es = (if e < 0 then lit ''-'' else lit ''+'') @ digits_of \<bar>e\<bar>
          in if k = 1 then ds @ lit ''e'' @ es
             else take 1 ds @ lit ''.'' @ drop 1 ds @ lit ''e'' @ es)"

definition pos_to_string :: "rat \<Rightarrow> jstring" where
  "pos_to_string x =
     (if of_int \<lfloor>x\<rfloor> = x \<and> \<lfloor>x\<rfloor> \<le> 2 ^ 53 then digits_of \<lfloor>x\<rfloor>
      else case shortest_digits x (dec_exponent x) [1..<18] of
             Some (s, k, n) \<Rightarrow> layout_digits s k n | None \<Rightarrow> [])"

fun num_to_string :: "jsnum \<Rightarrow> jstring" where
  "num_to_string NaN = lit ''NaN''"
| "num_to_string Infinity = lit ''Infinity''"
| "num_to_string NegInfinity = lit ''-Infinity''"
| "num_to_string (Fin x) = (if x < 0 then lit ''-'' @ pos_to_string (- x) else pos_to_string x)"

section \<open>StringToNumber\<close>

definition hex_val :: "code_unit \<Rightarrow> int option" where
  "hex_val c = (if is_digit c then Some (uint c - 48)
     else if 97 \<le> c \<and> c \<le> 102 then Some (uint c - 87)
     else if 65 \<le> c \<and> c \<le> 70 then Some (uint c - 55) else None)"

fun radix_val :: "int \<Rightarrow> jstring \<Rightarrow> int \<Rightarrow> int option" where
  "radix_val r [] a = Some a"
| "radix_val r (c # cs) a =
     (case hex_val c of Some d \<Rightarrow> if d < r then radix_val r cs (a * r + d) else None | None \<Rightarrow> None)"

text \<open>An optional exponent part \<open>e[+-]digits\<close>; \<open>None\<close> when the text is not one.\<close>

definition exponent_part :: "jstring \<Rightarrow> int option" where
  "exponent_part s = (case s of [] \<Rightarrow> Some 0
     | c # r \<Rightarrow> if c = 101 \<or> c = 69 then
         (let (sg, ds) = (if r \<noteq> [] \<and> hd r = 43 then (1, tl r) else if r \<noteq> [] \<and> hd r = 45 then (- 1, tl r) else (1, r)) in
          if ds \<noteq> [] \<and> list_all is_digit ds then Some (sg * digits_val ds) else None)
       else None)"

definition unsigned_decimal :: "jstring \<Rightarrow> rat option" where
  "unsigned_decimal s =
     (let w = takeWhile is_digit s; r = dropWhile is_digit s;
          (f, r') = (if r \<noteq> [] \<and> hd r = 46 then (takeWhile is_digit (tl r), dropWhile is_digit (tl r)) else ([], r))
      in if w = [] \<and> f = [] then None
         else map_option (\<lambda>e. of_int (digits_val (w @ f)) * pow10 (e - int (length f))) (exponent_part r'))"

definition num_of_radix :: "int \<Rightarrow> jstring \<Rightarrow> jsnum" where
  "num_of_radix r ds = (case radix_val r ds 0 of Some n \<Rightarrow> fl (of_int n) | None \<Rightarrow> NaN)"

definition num_of_decimal :: "jstring \<Rightarrow> jsnum" where
  "num_of_decimal s = (case unsigned_decimal s of Some x \<Rightarrow> fl x | None \<Rightarrow> NaN)"

definition string_to_number :: "jstring \<Rightarrow> jsnum" where
  "string_to_number s0 = (let s = trim s0 in
     if s = [] then Fin 0
     else if s = lit ''Infinity'' \<or> s = lit ''+Infinity'' then Infinity
     else if s = lit ''-Infinity'' then NegInfinity
     else if 2 < length s \<and> hd s = 48 \<and> s ! 1 \<in> {120, 88} then num_of_radix 16 (drop 2 s)
     else if 2 < length s \<and> hd s = 48 \<and> s ! 1 \<in> {111, 79} then num_of_radix 8 (drop 2 s)
     else if 2 < length s \<and> hd s = 48 \<and> s ! 1 \<in> {98, 66} then num_of_radix 2 (drop 2 s)
     else if hd s = 45 then num_neg (num_of_decimal (tl s))
     else if hd s = 43 then num_of_decimal (tl s)
     else num_of_decimal s)"

section \<open>Digit strings\<close>

lemma is_digit_unat: "is_digit c \<longleftrightarrow> 48 \<le> unat c \<and> unat c \<le> 57"
  by (simp add: is_digit_def word_le_nat_alt)

lemma unat_digit_unit: "0 \<le> d \<Longrightarrow> d < 10 \<Longrightarrow> unat (digit_unit d) = 48 + nat d"
proof -
  assume "0 \<le> d" "d < 10"
  have "uint (word_of_int (48 + d) :: 16 word) = (48 + d) mod 2 ^ 16"
    by (simp only: uint_word_of_int) simp
  also have "\<dots> = 48 + d" using \<open>0 \<le> d\<close> \<open>d < 10\<close> by (intro mod_pos_pos_trivial) simp_all
  finally show ?thesis using \<open>0 \<le> d\<close> by (simp only: digit_unit_def unat_eq_nat_uint nat_add_distrib)
qed

lemma is_digit_digit_unit [simp]: "0 \<le> d \<Longrightarrow> d < 10 \<Longrightarrow> is_digit (digit_unit d)"
  by (simp add: is_digit_unat unat_digit_unit)

lemma digit_val_digit_unit [simp]: "0 \<le> d \<Longrightarrow> d < 10 \<Longrightarrow> digit_val (digit_unit d) = d"
  using unat_digit_unit [of d] by (simp add: digit_val_def uint_nat del: of_nat_unat)

lemma digit_val_bounds: "is_digit c \<Longrightarrow> 0 \<le> digit_val c \<and> digit_val c < 10"
  by (auto simp: is_digit_unat digit_val_def uint_nat simp del: of_nat_unat)

lemma digit_unit_digit_val [simp]: "is_digit c \<Longrightarrow> digit_unit (digit_val c) = c"
  by (simp add: digit_unit_def digit_val_def)

lemma digits_val_Nil [simp]: "digits_val [] = 0"
  by (simp add: digits_val_def)

lemma digits_val_snoc [simp]: "digits_val (s @ [c]) = digits_val s * 10 + digit_val c"
  by (simp add: digits_val_def)

lemma digits_val_append: "digits_val (s @ t) = digits_val s * 10 ^ length t + digits_val t"
proof (induction t rule: rev_induct)
  case (snoc c t)
  then have "digits_val (s @ t @ [c]) = digits_val (s @ t) * 10 + digit_val c"
    by (metis append_assoc digits_val_snoc)
  with snoc show ?case by (simp add: algebra_simps)
qed simp

lemma digits_val_bounds:
  "list_all is_digit s \<Longrightarrow> 0 \<le> digits_val s \<and> digits_val s < 10 ^ length s"
proof (induction s rule: rev_induct)
  case (snoc c s)
  then have "0 \<le> digits_val s" "digits_val s + 1 \<le> 10 ^ length s" "0 \<le> digit_val c" "digit_val c < 10"
    using digit_val_bounds [of c] by simp_all
  moreover have "digits_val s * 10 + 10 \<le> 10 ^ length s * 10"
    using mult_right_mono [OF \<open>digits_val s + 1 \<le> 10 ^ length s\<close>, of 10] by simp
  ultimately show ?case by simp
qed simp

lemmas digits_val_nonneg = digits_val_bounds [THEN conjunct1]
lemmas digits_val_less = digits_val_bounds [THEN conjunct2]

lemma digit_val_eq_0: "is_digit c \<Longrightarrow> digit_val c = 0 \<longleftrightarrow> c = 48"
  by (metis digit_unit_digit_val digit_val_digit_unit digit_unit_def add_0_right
      of_int_numeral zero_less_numeral order_refl)

lemma digits_of_all_digit [simp]: "0 \<le> n \<Longrightarrow> list_all is_digit (digits_of n)"
proof (induction n rule: digits_of.induct)
  case (1 n)
  then show ?case by (subst digits_of.simps) (simp add: pos_imp_zdiv_nonneg_iff)
qed

lemma digits_of_not_Nil [simp]: "digits_of n \<noteq> []"
  by (subst digits_of.simps) simp

lemma digits_val_digits_of [simp]: "0 \<le> n \<Longrightarrow> digits_val (digits_of n) = n"
proof (induction n rule: digits_of.induct)
  case (1 n)
  show ?case
  proof (cases "n < 10")
    case True
    with 1 show ?thesis by (subst digits_of.simps) (simp add: digits_val_def)
  next
    case False
    with 1 show ?thesis by (subst digits_of.simps) (simp add: pos_imp_zdiv_nonneg_iff)
  qed
qed

text \<open>A digit string has no redundant leading zero: the canonical whole part of a decimal.\<close>

definition canonical_whole :: "jstring \<Rightarrow> bool" where
  "canonical_whole w \<longleftrightarrow> w \<noteq> [] \<and> list_all is_digit w \<and> (w = [48] \<or> hd w \<noteq> 48)"

lemma digit_unit_eq_48: "0 \<le> d \<Longrightarrow> d < 10 \<Longrightarrow> digit_unit d = 48 \<longleftrightarrow> d = 0"
  by (metis digit_val_digit_unit digit_val_eq_0 is_digit_digit_unit)

lemma hd_digits_of: "0 \<le> n \<Longrightarrow> hd (digits_of n) = 48 \<longleftrightarrow> n = 0"
proof (induction n rule: digits_of.induct)
  case (1 n)
  show ?case
  proof (cases "n < 10")
    case True
    with 1 show ?thesis by (subst digits_of.simps) (simp add: digit_unit_eq_48)
  next
    case False
    with 1 have "hd (digits_of (n div 10)) = 48 \<longleftrightarrow> n div 10 = 0"
      by (simp add: pos_imp_zdiv_nonneg_iff)
    with False show ?thesis by (subst digits_of.simps) (auto simp: zdiv_eq_0_iff)
  qed
qed

lemma digits_of_0 [simp]: "digits_of 0 = [48]"
  by (subst digits_of.simps) (simp add: digit_unit_def)

lemma canonical_whole_digits_of [simp]: "0 \<le> n \<Longrightarrow> canonical_whole (digits_of n)"
  by (cases "n = 0") (simp_all add: canonical_whole_def hd_digits_of is_digit_def)

lemma canonical_whole_snoc:
  "canonical_whole (w @ [c]) \<Longrightarrow> w \<noteq> [] \<Longrightarrow> canonical_whole w \<and> w \<noteq> [48] \<and> is_digit c"
  by (auto simp: canonical_whole_def)

lemma digits_val_pos: "canonical_whole w \<Longrightarrow> w \<noteq> [48] \<Longrightarrow> 0 < digits_val w"
proof (induction w rule: rev_induct)
  case (snoc c w)
  show ?case
  proof (cases "w = []")
    case True
    with snoc.prems show ?thesis
      using digit_val_eq_0 [of c] digit_val_bounds [of c]
      by (auto simp: canonical_whole_def digits_val_def)
  next
    case False
    with snoc canonical_whole_snoc [of w c] digit_val_bounds [of c] show ?thesis by simp
  qed
qed (simp add: canonical_whole_def)

lemma digits_of_digits_val [simp]: "canonical_whole w \<Longrightarrow> digits_of (digits_val w) = w"
proof (induction w rule: rev_induct)
  case (snoc c w)
  show ?case
  proof (cases "w = []")
    case True
    with snoc.prems digit_val_bounds [of c] show ?thesis
      by (subst digits_of.simps) (simp add: canonical_whole_def digits_val_def)
  next
    case False
    with snoc.prems canonical_whole_snoc [of w c]
    have w: "canonical_whole w" "w \<noteq> [48]" "is_digit c" by simp_all
    then have "0 < digits_val w" "0 \<le> digit_val c" "digit_val c < 10"
      using digits_val_pos [of w] digit_val_bounds [of c] by simp_all
    with w snoc.IH show ?thesis by (subst digits_of.simps) simp
  qed
qed (simp add: canonical_whole_def)

section \<open>Exactness on safe integers\<close>

lemma bitlen_bounds:
  "0 < n \<Longrightarrow> 0 < bitlen n \<and> 2 ^ nat (bitlen n - 1) \<le> n \<and> n < 2 ^ nat (bitlen n)"
proof (induction n rule: bitlen.induct)
  case (1 n)
  show ?case
  proof (cases "n = 1")
    case True
    then show ?thesis by (simp add: bitlen.simps)
  next
    case False
    with 1 have h: "0 < bitlen (n div 2)" "2 ^ nat (bitlen (n div 2) - 1) \<le> n div 2"
        "n div 2 < 2 ^ nat (bitlen (n div 2))" and b: "bitlen n = 1 + bitlen (n div 2)"
      by (simp_all add: bitlen.simps [of n])
    define k where "k = nat (bitlen (n div 2) - 1)"
    have k: "nat (bitlen (n div 2)) = Suc k" "nat (bitlen n - 1) = Suc k" "nat (bitlen n) = Suc (Suc k)"
      using h(1) b by (simp_all add: k_def)
    have "2 ^ k \<le> n div 2" "n div 2 < 2 * 2 ^ k" using h(2,3) k(1) by (simp_all add: k_def)
    then have "2 * 2 ^ k \<le> n" "n < 2 * (2 * 2 ^ k)" by linarith+
    then have "2 ^ nat (bitlen n - 1) \<le> n" "n < 2 ^ nat (bitlen n)" unfolding k by simp_all
    then show ?thesis using h(1) b by simp
  qed
qed

lemma pow2_nonneg [simp]: "0 \<le> k \<Longrightarrow> pow2 k = 2 ^ nat k"
  by (simp add: pow2_def)

lemma ilog2_of_int:
  assumes "0 < n"
  shows "0 \<le> ilog2 (of_int n)" and "pow2 (ilog2 (of_int n)) \<le> of_int n"
proof -
  have b1: "bitlen 1 = 1" by (simp add: bitlen.simps)
  define k where "k = bitlen n - 1"
  have b: "0 \<le> k" "2 ^ nat k \<le> n" using bitlen_bounds [OF assms] by (simp_all add: k_def)
  then have le: "pow2 k \<le> of_int n"
    by (simp add: pow2_def)
  have "ilog2 (of_int n) = k"
    using le by (simp add: ilog2_def b1 k_def)
  with b(1) le show "0 \<le> ilog2 (of_int n)" "pow2 (ilog2 (of_int n)) \<le> of_int n" by simp_all
qed

lemma round_half_even_of_int [simp]: "round_half_even (of_int n) = n"
  by (simp add: round_half_even_def)

lemma div_pow2_integral:
  assumes "e \<le> 0 \<or> e = 1 \<and> even n"
  shows "\<exists>m. (of_int n :: rat) / pow2 e = of_int m"
  using assms
proof
  assume "e \<le> 0"
  then have "(of_int n :: rat) / pow2 e = of_int (n * 2 ^ nat (- e))"
    by (cases "e = 0") (simp_all add: pow2_def)
  then show ?thesis by blast
next
  assume "e = 1 \<and> even n"
  then obtain m where "n = 2 * m" by (auto elim: evenE)
  with \<open>e = 1 \<and> even n\<close> have "(of_int n :: rat) / pow2 e = of_int m" by simp
  then show ?thesis by blast
qed

lemma pow2_pos [simp]: "0 < pow2 e"
  by (simp add: pow2_def)

lemma fl_of_int_exact:
  assumes "\<bar>n\<bar> \<le> 2 ^ 53"
  shows "fl (of_int n) = Fin (of_int n)"
proof (cases "n = 0")
  case False
  define L where "L = ilog2 (of_int \<bar>n\<bar>)"
  define e where "e = max (- 1074) (L - 52)"
  have n: "0 < \<bar>n\<bar>" using False by simp
  have L0: "0 \<le> L" unfolding L_def by (rule ilog2_of_int(1) [OF n])
  have "of_int (2 ^ nat L) \<le> (of_int \<bar>n\<bar> :: rat)"
    using ilog2_of_int(2) [OF n] L0 unfolding L_def by simp
  then have L1: "2 ^ nat L \<le> \<bar>n\<bar>" by (simp only: of_int_le_iff)
  have "(2::int) ^ nat L \<le> 2 ^ 53" using L1 assms by linarith
  then have "nat L \<le> 53" using power_le_imp_le_exp [of "2::int" "nat L" 53] by simp
  then have L2: "L \<le> 53" by simp
  have "even n" if "L = 53"
  proof -
    have "\<bar>n\<bar> = 2 ^ 53" using that L1 assms by simp
    then have "even \<bar>n\<bar>" by simp
    then show ?thesis by simp
  qed
  with L2 have "e \<le> 0 \<or> e = 1 \<and> even n" by (auto simp: e_def)
  then obtain m where m: "(of_int n :: rat) / pow2 e = of_int m" using div_pow2_integral by blast
  then have y: "of_int m * pow2 e = (of_int n :: rat)"
    by (metis less_irrefl nonzero_eq_divide_eq pow2_pos)
  have "(of_int \<bar>n\<bar> :: rat) \<le> 2 ^ 53"
    using assms by (metis of_int_le_iff of_int_numeral of_int_power)
  also have "(2 ^ 53 :: rat) < 2 ^ 1024" by (rule power_strict_increasing) simp_all
  finally have "\<not> pow2 1024 \<le> \<bar>of_int n :: rat\<bar>" by simp
  moreover have "max (- 1074) (ilog2 \<bar>of_int n\<bar> - 52) = e" by (simp add: e_def L_def)
  ultimately show ?thesis
    using False by (simp only: fl_def Let_def m y round_half_even_of_int of_int_eq_0_iff if_False)
qed (simp add: fl_def)

lemma num_add_of_int:
  "\<bar>a + b\<bar> \<le> 2 ^ 53 \<Longrightarrow> num_add (num_of_int a) (num_of_int b) = num_of_int (a + b)"
  using fl_of_int_exact [of "a + b"] by (simp add: num_of_int_def)

lemma num_less_of_int [simp]: "num_less (num_of_int a) (num_of_int b) \<longleftrightarrow> a < b"
  by (simp add: num_of_int_def)

lemma num_to_string_of_int:
  "0 \<le> n \<Longrightarrow> n \<le> 2 ^ 53 \<Longrightarrow> num_to_string (num_of_int n) = digits_of n"
  by (simp add: num_of_int_def pos_to_string_def)

end
