(* ===== verification/JsonValue.thy ===== *)
theory JsonValue
  imports JsNumber
begin

text \<open>
  Values of type \<^verbatim>\<open>unknown\<close> that come out of \<^verbatim>\<open>JSON.parse\<close>, and the language
  operations the sources apply to them: property access (\<open>None\<close> is \<^verbatim>\<open>undefined\<close>),
  \<^verbatim>\<open>===\<close>, \<^verbatim>\<open>Array.prototype.includes\<close>, truthiness, \<^verbatim>\<open>String(x)\<close> and
  \<^verbatim>\<open>Number(x)\<close>.  An object is the list of its own properties.  Two array or object
  values are compared only across separately parsed documents, where \<^verbatim>\<open>===\<close> compares
  identities and is false.
\<close>

datatype json =
    JNull
  | JBool bool
  | JNum jsnum
  | JStr jstring
  | JArr "json list"
  | JObj "(jstring \<times> json) list"

type_synonym jobject = "(jstring \<times> json) list"

definition jget :: "jobject \<Rightarrow> jstring \<Rightarrow> json option" where
  "jget r k = map_of r k"

text \<open>\<^verbatim>\<open>o?.[k]\<close>\<close>

definition jget_opt :: "jobject option \<Rightarrow> jstring \<Rightarrow> json option" where
  "jget_opt r k = (case r of None \<Rightarrow> None | Some x \<Rightarrow> jget x k)"

text \<open>\<^verbatim>\<open>===\<close>\<close>

fun strict_eq :: "json \<Rightarrow> json \<Rightarrow> bool" where
  "strict_eq JNull JNull = True"
| "strict_eq (JBool a) (JBool b) = (a = b)"
| "strict_eq (JNum a) (JNum b) = num_eq a b"
| "strict_eq (JStr a) (JStr b) = (a = b)"
| "strict_eq _ _ = False"

fun strict_eq_opt :: "json option \<Rightarrow> json option \<Rightarrow> bool" where
  "strict_eq_opt None None = True"
| "strict_eq_opt (Some a) (Some b) = strict_eq a b"
| "strict_eq_opt _ _ = False"

text \<open>SameValueZero, the comparison of \<^verbatim>\<open>includes\<close>.\<close>

fun same_value_zero :: "json \<Rightarrow> json \<Rightarrow> bool" where
  "same_value_zero (JNum a) (JNum b) = (a = b)"
| "same_value_zero a b = strict_eq a b"

definition array_includes :: "json list \<Rightarrow> json \<Rightarrow> bool" where
  "array_includes xs v \<longleftrightarrow> list_ex (same_value_zero v) xs"

fun truthy :: "json option \<Rightarrow> bool" where
  "truthy None = False"
| "truthy (Some JNull) = False"
| "truthy (Some (JBool b)) = b"
| "truthy (Some (JNum n)) = (n \<noteq> NaN \<and> n \<noteq> Fin 0)"
| "truthy (Some (JStr s)) = (s \<noteq> [])"
| "truthy (Some (JArr _)) = True"
| "truthy (Some (JObj _)) = True"

text \<open>\<^verbatim>\<open>String(x)\<close>: an array joins its elements with commas, null elements as empty text.\<close>

fun json_to_string :: "json \<Rightarrow> jstring" where
  "json_to_string JNull = lit ''null''"
| "json_to_string (JBool b) = (if b then lit ''true'' else lit ''false'')"
| "json_to_string (JNum n) = num_to_string n"
| "json_to_string (JStr s) = s"
| "json_to_string (JArr xs) = join (lit '','') (map (\<lambda>x. if x = JNull then [] else json_to_string x) xs)"
| "json_to_string (JObj _) = lit ''[object Object]''"

definition String :: "json option \<Rightarrow> jstring" where
  "String v = (case v of None \<Rightarrow> lit ''undefined'' | Some x \<Rightarrow> json_to_string x)"

text \<open>\<^verbatim>\<open>Number(x)\<close>: objects go through their primitive text.\<close>

definition Number :: "json option \<Rightarrow> jsnum" where
  "Number v = (case v of None \<Rightarrow> NaN
     | Some x \<Rightarrow> (case x of JNull \<Rightarrow> Fin 0 | JBool b \<Rightarrow> (if b then Fin 1 else Fin 0) | JNum n \<Rightarrow> n
                 | JStr s \<Rightarrow> string_to_number s | _ \<Rightarrow> string_to_number (json_to_string x)))"

fun is_number :: "json option \<Rightarrow> bool" where
  "is_number (Some (JNum _)) = True"
| "is_number _ = False"

fun is_string :: "json option \<Rightarrow> bool" where
  "is_string (Some (JStr _)) = True"
| "is_string _ = False"

text \<open>The string an optional value holds, when it holds one.\<close>

fun as_string :: "json option \<Rightarrow> jstring option" where
  "as_string (Some (JStr s)) = Some s"
| "as_string _ = None"

fun as_number :: "json option \<Rightarrow> jsnum option" where
  "as_number (Some (JNum n)) = Some n"
| "as_number _ = None"

fun as_object :: "json option \<Rightarrow> jobject option" where
  "as_object (Some (JObj r)) = Some r"
| "as_object _ = None"

fun as_array :: "json option \<Rightarrow> json list option" where
  "as_array (Some (JArr xs)) = Some xs"
| "as_array _ = None"

section \<open>Laws\<close>

lemma strict_eq_JStr [simp]:
  "strict_eq (JStr s) v \<longleftrightarrow> v = JStr s" "strict_eq v (JStr s) \<longleftrightarrow> v = JStr s"
  by (cases v; auto)+

lemma strict_eq_sym: "strict_eq a b = strict_eq b a"
  by (cases a; cases b) (auto simp: num_eq_def)

lemma strict_eq_imp_eq: "strict_eq a b \<Longrightarrow> a = b"
  by (cases a; cases b) (auto simp: num_eq_def)

lemma strict_eq_opt_imp_eq: "strict_eq_opt a b \<Longrightarrow> a = b"
  by (cases a; cases b) (auto dest: strict_eq_imp_eq)

lemma strict_eq_opt_trans: "strict_eq_opt a b \<Longrightarrow> strict_eq_opt b c \<Longrightarrow> strict_eq_opt a c"
  by (metis strict_eq_opt_imp_eq)

lemma same_value_zero_imp_eq: "same_value_zero a b \<Longrightarrow> a = b"
  by (cases "(a, b)" rule: same_value_zero.cases) (auto dest: strict_eq_imp_eq simp: num_eq_def)

lemma array_includes_mem: "array_includes xs v \<Longrightarrow> v \<in> set xs"
  by (auto simp: array_includes_def list_ex_iff dest: same_value_zero_imp_eq)

lemma as_string_Some_iff [simp]: "as_string v = Some s \<longleftrightarrow> v = Some (JStr s)"
  by (cases v rule: as_string.cases) auto

lemma as_number_Some_iff [simp]: "as_number v = Some n \<longleftrightarrow> v = Some (JNum n)"
  by (cases v rule: as_number.cases) auto

lemma as_object_Some_iff [simp]: "as_object v = Some r \<longleftrightarrow> v = Some (JObj r)"
  by (cases v rule: as_object.cases) auto

lemma as_array_Some_iff [simp]: "as_array v = Some r \<longleftrightarrow> v = Some (JArr r)"
  by (cases v rule: as_array.cases) auto

lemma is_string_iff: "is_string v \<longleftrightarrow> (\<exists>s. v = Some (JStr s))"
  by (cases v rule: is_string.cases) auto

lemma is_number_iff: "is_number v \<longleftrightarrow> (\<exists>n. v = Some (JNum n))"
  by (cases v rule: is_number.cases) auto

end
