(* ===== verification/Errors.thy ===== *)
theory Errors
  imports JsonValue
begin

text \<open>
  The error classes of \<^verbatim>\<open>errors.ts\<close> and the exceptions a model may throw.  \<open>OatiError\<close> keeps
  every field the class keeps; the diagnostic \<^verbatim>\<open>cause\<close> is passed to the host's \<^verbatim>\<open>Error\<close>
  and never read by the program.  Errors the language itself raises carry their message; where
  the message is the engine's own it is the empty text.
\<close>

datatype oati_error_code =
    VALIDATION_FAILED | INVALID_CANONICAL_VALUE | CRYPTO_UNAVAILABLE
  | LOOKUP_BAD_REQUEST | LOOKUP_NOT_FOUND | LOOKUP_RATE_LIMITED | LOOKUP_UNAVAILABLE
  | LOOKUP_INVALID_RESPONSE | LOOKUP_TIMEOUT | LOOKUP_CANCELLED
  | MIDDLEWARE_BAD_REQUEST | MIDDLEWARE_UNAUTHENTICATED | MIDDLEWARE_FORBIDDEN
  | MIDDLEWARE_REPLAY | MIDDLEWARE_USAGE_CONFLICT | MIDDLEWARE_UNAVAILABLE
  | ADAPTER_INVALID_INPUT

record rate_limit_info =
  rl_limit :: "jsnum option"
  rl_remaining :: "jsnum option"
  rl_resetAt :: "jstring option"
  rl_retryAfter :: "jsnum option"

datatype cache_state = Hit | Miss | Revalidated

record oati_error_options =
  opt_details :: "json option"
  opt_status :: "int option"
  opt_retryAfter :: "jsnum option"
  opt_rateLimit :: "rate_limit_info option"
  opt_cache :: "cache_state option"

definition no_options :: oati_error_options where
  "no_options = \<lparr>opt_details = None, opt_status = None, opt_retryAfter = None,
     opt_rateLimit = None, opt_cache = None\<rparr>"

record oati_error =
  err_name :: jstring
  err_code :: oati_error_code
  err_message :: jstring
  err_details :: "json option"
  err_status :: "int option"
  err_retryAfter :: "jsnum option"
  err_rateLimit :: "rate_limit_info option"
  err_cache :: "cache_state option"

definition OatiError :: "oati_error_code \<Rightarrow> jstring \<Rightarrow> oati_error_options \<Rightarrow> oati_error" where
  "OatiError code message options =
     \<lparr>err_name = lit ''OatiError'', err_code = code, err_message = message,
      err_details = opt_details options, err_status = opt_status options,
      err_retryAfter = opt_retryAfter options, err_rateLimit = opt_rateLimit options,
      err_cache = opt_cache options\<rparr>"

definition OatiValidationError :: "jstring \<Rightarrow> json \<Rightarrow> oati_error" where
  "OatiValidationError message details =
     (OatiError VALIDATION_FAILED message (no_options\<lparr>opt_details := Some details\<rparr>))
       \<lparr>err_name := lit ''OatiValidationError''\<rparr>"

definition OatiLookupError :: "oati_error_code \<Rightarrow> jstring \<Rightarrow> oati_error_options \<Rightarrow> oati_error" where
  "OatiLookupError code message options =
     (OatiError code message options)\<lparr>err_name := lit ''OatiLookupError''\<rparr>"

datatype exn =
    TypeErr jstring
  | RangeErr jstring
  | SyntaxErr jstring
  | PlainErr jstring
  | OatiErr oati_error

type_synonym 'a result = "exn + 'a"

text \<open>\<^verbatim>\<open>error.message\<close>\<close>

fun exn_message :: "exn \<Rightarrow> jstring" where
  "exn_message (TypeErr m) = m"
| "exn_message (RangeErr m) = m"
| "exn_message (SyntaxErr m) = m"
| "exn_message (PlainErr m) = m"
| "exn_message (OatiErr e) = err_message e"

end
