(* ===== verification/Decimals.thy ===== *)
theory Decimals
  imports Errors
begin

text \<open>
  The decimal-string arithmetic of the SDK, in its two versions: the big-integer one of
  \<^verbatim>\<open>evaluator.ts\<close> (\<open>parseDecimal\<close>, \<open>align\<close>, \<open>compareDecimal\<close>, \<open>addDecimal\<close>,
  \<open>multiplyDecimal\<close>, \<open>formatDecimal\<close>, \<open>isDecimal\<close>) and the text-comparing one of
  \<^verbatim>\<open>index.ts\<close> (\<open>index_compareDecimal\<close>, \<open>index_multiplyDecimal\<close>).  The specification is the
  rational number \<open>dec_val\<close> a decimal text denotes: comparison, addition and multiplication
  are exact on it, every result is again a canonical decimal text, and the two versions agree.
\<close>

section \<open>evaluator.ts\<close>

text \<open>The regular expression \<^verbatim>\<open>/^(0|[1-9][0-9]*)(\.[0-9]+)?$/\<close>, both versions' \<open>isDecimal\<close>.\<close>

definition isDecimal :: "jstring \<Rightarrow> bool" where
  "isDecimal value =
     (let w = takeWhile is_digit value; r = dropWhile is_digit value in
      w \<noteq> [] \<and> (w = [48] \<or> hd w \<noteq> 48) \<and>
      (r = [] \<or> hd r = 46 \<and> tl r \<noteq> [] \<and> list_all is_digit (tl r)))"

record Decimal =
  coefficient :: int
  scale :: nat

text \<open>\<^verbatim>\<open>const [whole, fraction = ""] = value.split(".")\<close>\<close>

definition split_decimal :: "jstring \<Rightarrow> jstring \<times> jstring" where
  "split_decimal value = (case split_unit 46 value of
     [] \<Rightarrow> ([], []) | [whole] \<Rightarrow> (whole, []) | whole # fraction # _ \<Rightarrow> (whole, fraction))"

definition parseDecimal :: "jstring \<Rightarrow> Decimal result" where
  "parseDecimal value =
     (if \<not> isDecimal value then Inl (TypeErr (lit ''Invalid decimal: '' @ value))
      else let (whole, fraction) = split_decimal value
           in Inr \<lparr>coefficient = digits_val (whole @ fraction), scale = length fraction\<rparr>)"

definition align :: "Decimal \<Rightarrow> Decimal \<Rightarrow> int \<times> int \<times> nat" where
  "align left right =
     (let s = max (scale left) (scale right)
      in (coefficient left * 10 ^ (s - scale left), coefficient right * 10 ^ (s - scale right), s))"

definition compareDecimal :: "jstring \<Rightarrow> jstring \<Rightarrow> int result" where
  "compareDecimal left right =
     bindE (parseDecimal left) (\<lambda>l. bindE (parseDecimal right) (\<lambda>r.
       let (a, b, _) = align l r in Inr (if a = b then 0 else if b < a then 1 else - 1)))"

definition formatDecimal :: "int \<Rightarrow> nat \<Rightarrow> jstring" where
  "formatDecimal c s =
     (if s = 0 then int_to_string c
      else let digits = padStart (int_to_string c) (s + 1) 48
           in slice_upto_neg digits s @ lit ''.'' @ slice_from_neg digits s)"

definition addDecimal :: "jstring \<Rightarrow> jstring \<Rightarrow> jstring result" where
  "addDecimal left right =
     bindE (parseDecimal left) (\<lambda>l. bindE (parseDecimal right) (\<lambda>r.
       let (a, b, s) = align l r in Inr (formatDecimal (a + b) s)))"

text \<open>\<^verbatim>\<open>BigInt(n)\<close> throws a RangeError on a number that is not an integer.\<close>

fun BigInt :: "jsnum \<Rightarrow> int result" where
  "BigInt (Fin x) = (if of_int \<lfloor>x\<rfloor> = x then Inr \<lfloor>x\<rfloor> else Inl (RangeErr []))"
| "BigInt _ = Inl (RangeErr [])"

definition multiplyDecimal :: "jstring \<Rightarrow> jsnum \<Rightarrow> jstring result" where
  "multiplyDecimal value multiplier =
     bindE (parseDecimal value) (\<lambda>parsed. bindE (BigInt multiplier) (\<lambda>m.
       Inr (formatDecimal (coefficient parsed * m) (scale parsed))))"

section \<open>index.ts\<close>

definition index_compareDecimal :: "jstring \<Rightarrow> jstring \<Rightarrow> jsnum" where
  "index_compareDecimal left right =
     (if \<not> isDecimal left \<or> \<not> isDecimal right then NaN
      else let (leftWhole, leftFraction) = split_decimal left;
               (rightWhole, rightFraction) = split_decimal right
           in if length leftWhole \<noteq> length rightWhole
              then num_of_int (if length rightWhole < length leftWhole then 1 else - 1)
              else if leftWhole \<noteq> rightWhole
              then num_of_int (if rightWhole < leftWhole then 1 else - 1)
              else let width = max (length leftFraction) (length rightFraction);
                       a = padEnd leftFraction width 48;
                       b = padEnd rightFraction width 48
                   in num_of_int (if a = b then 0 else if b < a then 1 else - 1))"

definition index_multiplyDecimal :: "jstring \<Rightarrow> jsnum \<Rightarrow> jstring" where
  "index_multiplyDecimal value multiplier =
     (if \<not> isDecimal value \<or> \<not> num_is_safe_integer multiplier \<or> num_less multiplier (Fin 0)
      then lit ''invalid''
      else case multiplier of Fin m \<Rightarrow>
             let (whole, fraction) = split_decimal value;
                 c = digits_val (whole @ fraction) * \<lfloor>m\<rfloor>
             in if fraction = [] then int_to_string c
                else let digits = padStart (int_to_string c) (length fraction + 1) 48
                     in slice_upto_neg digits (length fraction) @ lit ''.'' @
                        slice_from_neg digits (length fraction)
           | _ \<Rightarrow> lit ''invalid'')"

section \<open>The specification: the rational a text denotes\<close>

definition dec_of :: "Decimal \<Rightarrow> rat" where
  "dec_of d = of_int (coefficient d) / 10 ^ scale d"

definition dec_val :: "jstring \<Rightarrow> rat" where
  "dec_val s = (let (w, f) = split_decimal s in of_int (digits_val (w @ f)) / 10 ^ length f)"

lemma is_digit_not_dot: "list_all is_digit s \<Longrightarrow> 46 \<notin> set s"
  by (auto simp: list_all_iff is_digit_def)

lemma isDecimal_parts:
  "isDecimal s \<longleftrightarrow> (\<exists>w f. canonical_whole w \<and> list_all is_digit f \<and> split_decimal s = (w, f) \<and>
     s = (if f = [] then w else w @ 46 # f))"
proof
  assume d: "isDecimal s"
  define w r where "w = takeWhile is_digit s" and "r = dropWhile is_digit s"
  have s: "s = w @ r" by (simp add: w_def r_def)
  have w: "canonical_whole w"
    using d by (auto simp: isDecimal_def canonical_whole_def Let_def w_def list_all_iff dest: set_takeWhileD)
  then have nd: "46 \<notin> set w" by (simp add: canonical_whole_def is_digit_not_dot)
  show "\<exists>w f. canonical_whole w \<and> list_all is_digit f \<and> split_decimal s = (w, f) \<and>
     s = (if f = [] then w else w @ 46 # f)"
  proof (cases "r = []")
    case True
    with s nd have "split_decimal s = (w, [])" by (simp add: split_decimal_def split_unit_none)
    with w s True show ?thesis by (intro exI [of _ w] exI [of _ "[]"]) simp
  next
    case False
    with d have r: "r = 46 # tl r" "tl r \<noteq> []" "list_all is_digit (tl r)"
      by (cases r; simp add: isDecimal_def Let_def r_def [symmetric])+
    have s': "s = w @ 46 # tl r" using s r(1) by simp
    then have "split_decimal s = (w, tl r)"
      using nd is_digit_not_dot [OF r(3)] by (simp add: split_decimal_def split_unit_none split_unit_once)
    with w s' r(2,3) show ?thesis by (intro exI [of _ w] exI [of _ "tl r"]) simp
  qed
next
  assume "\<exists>w f. canonical_whole w \<and> list_all is_digit f \<and> split_decimal s = (w, f) \<and>
     s = (if f = [] then w else w @ 46 # f)"
  then obtain w f where *: "canonical_whole w" "list_all is_digit f" "s = (if f = [] then w else w @ 46 # f)"
    by blast
  have "takeWhile is_digit s = w" "dropWhile is_digit s = (if f = [] then [] else 46 # f)"
    using * by (auto simp: canonical_whole_def list_all_iff takeWhile_append dropWhile_append is_digit_def)
  with * show "isDecimal s" by (auto simp: isDecimal_def canonical_whole_def)
qed

lemma list_all_replicate_48 [simp]: "list_all is_digit (replicate n 48)"
  by (simp add: list_all_iff is_digit_def)

lemma isDecimal_obtain:
  assumes "isDecimal s"
  obtains w f where "canonical_whole w" "list_all is_digit f" "split_decimal s = (w, f)"
    "s = (if f = [] then w else w @ 46 # f)"
  using assms unfolding isDecimal_parts by blast

lemma isDecimal_build:
  assumes "canonical_whole w" and "list_all is_digit f"
  shows "isDecimal (if f = [] then w else w @ 46 # f)"
    and "split_decimal (if f = [] then w else w @ 46 # f) = (w, f)"
proof -
  have "46 \<notin> set w" "46 \<notin> set f"
    using assms by (simp_all add: canonical_whole_def is_digit_not_dot)
  then show "split_decimal (if f = [] then w else w @ 46 # f) = (w, f)"
    by (simp add: split_decimal_def split_unit_none split_unit_once)
  with assms show "isDecimal (if f = [] then w else w @ 46 # f)"
    unfolding isDecimal_parts by blast
qed

lemma parseDecimal_ok:
  "isDecimal s \<Longrightarrow> \<exists>d. parseDecimal s = Inr d \<and> dec_of d = dec_val s \<and> 0 \<le> coefficient d"
  by (erule isDecimal_obtain)
    (auto simp: parseDecimal_def dec_of_def dec_val_def isDecimal_parts canonical_whole_def
          intro!: digits_val_nonneg)

lemma parseDecimal_error: "\<not> isDecimal s \<Longrightarrow> parseDecimal s = Inl (TypeErr (lit ''Invalid decimal: '' @ s))"
  by (simp add: parseDecimal_def)

lemma parseDecimal_Inr: "parseDecimal s = Inr d \<Longrightarrow> isDecimal s"
  by (auto simp: parseDecimal_def split: if_splits)

lemma rescale: "m \<le> s \<Longrightarrow> (of_int (c * 10 ^ (s - m)) :: rat) / 10 ^ s = of_int c / 10 ^ m"
  by (auto simp: le_iff_add power_add)

lemma align_value:
  "align l r = (a, b, s) \<Longrightarrow> of_int a / 10 ^ s = dec_of l \<and> of_int b / 10 ^ s = dec_of r"
  unfolding align_def dec_of_def Let_def by (auto simp only: prod.inject rescale max.cobounded1 max.cobounded2)

lemma align_nonneg:
  "align l r = (a, b, s) \<Longrightarrow> 0 \<le> coefficient l \<Longrightarrow> 0 \<le> coefficient r \<Longrightarrow> 0 \<le> a \<and> 0 \<le> b"
  by (auto simp: align_def Let_def)

subsection \<open>Formatting\<close>

lemma digits_val_replicate_0: "digits_val (replicate n 48 @ t) = digits_val t"
proof -
  have "digits_val (replicate n 48) = 0"
    by (induction n) (simp_all add: digits_val_def digit_val_def flip: replicate_append_same)
  then show ?thesis by (simp add: digits_val_append)
qed

lemma formatDecimal_parts:
  assumes "0 \<le> c"
  obtains w f where "canonical_whole w" "list_all is_digit f" "length f = s"
    "formatDecimal c s = (if f = [] then w else w @ 46 # f)" "digits_val (w @ f) = c"
proof (cases "s = 0")
  case True
  with assms show ?thesis
    by (intro that [of "digits_of c" "[]"]) (simp_all add: formatDecimal_def int_to_string_def)
next
  case False
  define D where "D = padStart (digits_of c) (s + 1) 48"
  define w f where "w = take (length D - s) D" and "f = drop (length D - s) D"
  have len: "s < length D" by (simp add: D_def padStart_def)
  have dig: "list_all is_digit D"
    using assms by (simp add: D_def padStart_def)
  have cw: "canonical_whole w"
  proof (cases "s < length (digits_of c)")
    case True
    then have D: "D = digits_of c" by (simp add: D_def padStart_def)
    have "hd D \<noteq> 48"
      using True False assms hd_digits_of [of c] by (auto simp: D)
    moreover have "hd w = hd D" using len by (simp add: w_def hd_take)
    ultimately show ?thesis using dig len by (auto simp: canonical_whole_def w_def list_all_iff dest: in_set_takeD)
  next
    case False
    then have "length D = s + 1" by (simp add: D_def padStart_def)
    moreover have "hd D = 48" using False by (simp add: D_def padStart_def Suc_diff_le)
    ultimately have "w = [48]" by (cases D) (simp_all add: w_def)
    then show ?thesis by (simp add: canonical_whole_def is_digit_def)
  qed
  have f: "list_all is_digit f" "length f = s"
    using dig len by (auto simp: f_def list_all_iff dest: in_set_dropD)
  have "formatDecimal c s = w @ 46 # f"
    using assms False
    by (simp add: formatDecimal_def int_to_string_def D_def slice_upto_neg_def slice_from_neg_def
        w_def f_def Let_def lit_def)
  moreover have "w @ f = D" by (simp add: w_def f_def)
  then have "digits_val (w @ f) = c"
    using assms by (simp add: D_def padStart_def digits_val_replicate_0)
  ultimately show ?thesis using cw f False by (intro that [of w f]) auto
qed

lemma formatDecimal_correct:
  assumes "0 \<le> c"
  shows "isDecimal (formatDecimal c s)" and "dec_val (formatDecimal c s) = of_int c / 10 ^ s"
proof -
  from assms obtain w f where *: "canonical_whole w" "list_all is_digit f" "length f = s"
    "formatDecimal c s = (if f = [] then w else w @ 46 # f)" "digits_val (w @ f) = c"
    by (rule formatDecimal_parts)
  from isDecimal_build [OF *(1,2)] * show "isDecimal (formatDecimal c s)"
    "dec_val (formatDecimal c s) = of_int c / 10 ^ s"
    by (simp_all add: dec_val_def)
qed

subsection \<open>Correctness of the operations\<close>

definition sgn_cmp :: "rat \<Rightarrow> rat \<Rightarrow> int" where
  "sgn_cmp x y = (if x = y then 0 else if y < x then 1 else - 1)"

lemma compareDecimal_value:
  assumes "isDecimal l" and "isDecimal r"
  shows "compareDecimal l r = Inr (sgn_cmp (dec_val l) (dec_val r))"
proof -
  obtain dl dr where d: "parseDecimal l = Inr dl" "dec_of dl = dec_val l"
      "parseDecimal r = Inr dr" "dec_of dr = dec_val r"
    using assms parseDecimal_ok by blast
  obtain a b s where al: "align dl dr = (a, b, s)" by (cases "align dl dr") auto
  note v = align_value [OF al]
  have "a = b \<longleftrightarrow> dec_val l = dec_val r" "b < a \<longleftrightarrow> dec_val r < dec_val l"
    unfolding d(2) [symmetric] d(4) [symmetric]
    by (simp_all add: v [THEN conjunct1, symmetric] v [THEN conjunct2, symmetric] divide_strict_right_mono
        divide_less_cancel)
  with d(1,3) al show ?thesis by (simp add: compareDecimal_def sgn_cmp_def)
qed

lemma addDecimal_value:
  assumes "isDecimal l" and "isDecimal r"
  shows "\<exists>t. addDecimal l r = Inr t \<and> isDecimal t \<and> dec_val t = dec_val l + dec_val r"
proof -
  obtain dl dr where d: "parseDecimal l = Inr dl" "dec_of dl = dec_val l" "0 \<le> coefficient dl"
      "parseDecimal r = Inr dr" "dec_of dr = dec_val r" "0 \<le> coefficient dr"
    using assms parseDecimal_ok by blast
  obtain a b s where al: "align dl dr = (a, b, s)" by (cases "align dl dr") auto
  have "0 \<le> a + b" using align_nonneg [OF al d(3,6)] by simp
  with formatDecimal_correct [of "a + b" s] align_value [OF al] d al show ?thesis
    by (simp add: addDecimal_def add_divide_distrib)
qed

lemma BigInt_of_int [simp]: "BigInt (num_of_int n) = Inr n"
  by (simp add: num_of_int_def)

lemma multiplyDecimal_value:
  assumes "isDecimal v" and "0 \<le> n"
  shows "\<exists>t. multiplyDecimal v (num_of_int n) = Inr t \<and> isDecimal t \<and> dec_val t = dec_val v * of_int n"
proof -
  obtain d where d: "parseDecimal v = Inr d" "dec_of d = dec_val v" "0 \<le> coefficient d"
    using assms parseDecimal_ok by blast
  have "0 \<le> coefficient d * n" using d(3) assms(2) by simp
  from formatDecimal_correct [OF this, of "scale d"] d show ?thesis
    by (simp add: multiplyDecimal_def dec_of_def) (metis times_divide_eq_left)
qed

lemma dec_val_nonneg: "isDecimal s \<Longrightarrow> 0 \<le> dec_val s"
  by (metis dec_of_def divide_nonneg_pos of_int_0_le_iff parseDecimal_ok zero_less_numeral zero_less_power)

lemma dec_val_zero [simp]: "dec_val (lit ''0'') = 0"
  by (simp add: dec_val_def split_decimal_def lit_def digits_val_def digit_val_def)

lemma isDecimal_zero [simp]: "isDecimal (lit ''0'')"
  by (simp add: isDecimal_def lit_def is_digit_def)

text \<open>What a comparison that came back says, whether or not its arguments were checked first.\<close>

lemma compareDecimal_Inr:
  assumes "compareDecimal l r = Inr c"
  shows "isDecimal l" and "isDecimal r" and "c = sgn_cmp (dec_val l) (dec_val r)"
proof -
  show "isDecimal l" "isDecimal r"
    using assms by (auto simp: compareDecimal_def exn_iff dest: parseDecimal_Inr)
  with compareDecimal_value [of l r] assms show "c = sgn_cmp (dec_val l) (dec_val r)" by simp
qed

lemma addDecimal_Inr:
  assumes "addDecimal l r = Inr t"
  shows "isDecimal l" and "isDecimal r" and "isDecimal t" and "dec_val t = dec_val l + dec_val r"
proof -
  show "isDecimal l" "isDecimal r"
    using assms by (auto simp: addDecimal_def exn_iff dest: parseDecimal_Inr)
  with addDecimal_value [of l r] assms show "isDecimal t" "dec_val t = dec_val l + dec_val r" by auto
qed

lemma sgn_cmp_simps [simp]:
  "0 < sgn_cmp x y \<longleftrightarrow> y < x" "sgn_cmp x y \<le> 0 \<longleftrightarrow> x \<le> y" "sgn_cmp x y = 0 \<longleftrightarrow> x = y"
  by (auto simp: sgn_cmp_def)

section \<open>The two versions agree\<close>

lemma digits_val_Cons: "digits_val (c # s) = digit_val c * 10 ^ length s + digits_val s"
  using digits_val_append [of "[c]" s] by (simp add: digits_val_def)

lemma digit_less_iff: "is_digit c \<Longrightarrow> is_digit d \<Longrightarrow> c < d \<longleftrightarrow> digit_val c < digit_val d"
  by (simp add: digit_val_def word_less_def)

text \<open>On digit texts of one length, the order of the texts is the order of the numbers.\<close>

lemma digits_less_iff:
  "length s = length t \<Longrightarrow> list_all is_digit s \<Longrightarrow> list_all is_digit t \<Longrightarrow>
     (s < t \<longleftrightarrow> digits_val s < digits_val t) \<and> (s = t \<longleftrightarrow> digits_val s = digits_val t)"
proof (induction s t rule: list_induct2)
  case (Cons c s d t)
  have b: "0 \<le> digits_val s" "digits_val s < 10 ^ length t" "0 \<le> digits_val t" "digits_val t < 10 ^ length t"
    using Cons digits_val_bounds [of s] digits_val_bounds [of t] by simp_all
  have cd: "is_digit c" "is_digit d" using Cons.prems by simp_all
  consider "c = d" | "digit_val c < digit_val d" | "digit_val d < digit_val c"
    using cd by (metis digit_unit_digit_val linorder_less_linear)
  then show ?case
  proof cases
    case 1
    with Cons show ?thesis by (simp add: digits_val_Cons)
  next
    case 2
    then have "digits_val (c # s) < digits_val (d # t)"
      using b Cons.hyps mult_right_mono [of "digit_val c + 1" "digit_val d" "10 ^ length t"]
      by (simp add: digits_val_Cons algebra_simps)
    with 2 cd show ?thesis by (auto simp: digit_less_iff)
  next
    case 3
    then have "digits_val (d # t) < digits_val (c # s)"
      using b Cons.hyps mult_right_mono [of "digit_val d + 1" "digit_val c" "10 ^ length t"]
      by (simp add: digits_val_Cons algebra_simps)
    with 3 cd show ?thesis by (auto simp: digit_less_iff)
  qed
qed simp

lemma padEnd_value:
  "list_all is_digit f \<Longrightarrow> length f \<le> n \<Longrightarrow>
     digits_val (padEnd f n 48) = digits_val f * 10 ^ (n - length f) \<and> length (padEnd f n 48) = n \<and>
     list_all is_digit (padEnd f n 48)"
  using digits_val_replicate_0 [of "n - length f" "[]"]
  by (simp add: padEnd_def digits_val_append)

lemma fraction_padEnd:
  "list_all is_digit f \<Longrightarrow> length f \<le> n \<Longrightarrow>
     (of_int (digits_val (padEnd f n 48)) :: rat) / 10 ^ n = of_int (digits_val f) / 10 ^ length f"
  by (simp only: padEnd_value rescale)

lemma dec_val_split:
  assumes "split_decimal s = (w, f)"
  shows "dec_val s = of_int (digits_val w) + of_int (digits_val f) / 10 ^ length f"
  using assms by (simp add: dec_val_def digits_val_append add_divide_distrib)

lemma dec_val_bounds:
  assumes "split_decimal s = (w, f)" and "list_all is_digit f"
  shows "of_int (digits_val w) \<le> dec_val s" and "dec_val s < of_int (digits_val w) + 1"
proof -
  have "(of_int (digits_val f) :: rat) < of_int (10 ^ length f)"
    using digits_val_less [OF assms(2)] by (simp only: of_int_less_iff)
  moreover have "0 \<le> (of_int (digits_val f) :: rat)" using digits_val_nonneg [OF assms(2)] by simp
  ultimately show "of_int (digits_val w) \<le> dec_val s" "dec_val s < of_int (digits_val w) + 1"
    unfolding dec_val_split [OF assms(1)] by simp_all
qed

lemma canonical_whole_ge:
  assumes "canonical_whole w" and "w \<noteq> [48]"
  shows "10 ^ (length w - 1) \<le> digits_val w"
proof -
  obtain c v where w: "w = c # v" using assms(1) by (cases w) (auto simp: canonical_whole_def)
  with assms have c: "is_digit c" "c \<noteq> 48" "list_all is_digit v" by (auto simp: canonical_whole_def)
  then have "1 \<le> digit_val c" using digit_val_eq_0 [of c] digit_val_bounds [of c] by linarith
  then have "1 * 10 ^ length v \<le> digit_val c * 10 ^ length v" by (intro mult_right_mono) simp_all
  with digits_val_nonneg [OF c(3)] have "10 ^ length v \<le> digit_val c * 10 ^ length v + digits_val v"
    by linarith
  then show ?thesis by (simp only: w digits_val_Cons length_Cons diff_Suc_Suc One_nat_def diff_zero)
qed

lemma longer_whole_greater:
  assumes "canonical_whole w" and "canonical_whole v" and "length v < length w"
  shows "digits_val v + 1 \<le> digits_val w"
proof -
  have "w \<noteq> [48]" using assms(2,3) by (auto simp: canonical_whole_def)
  then have "10 ^ (length w - 1) \<le> digits_val w" using assms(1) canonical_whole_ge by blast
  moreover have "digits_val v < 10 ^ length v" using assms(2) by (simp add: canonical_whole_def digits_val_less)
  moreover have "(10::int) ^ length v \<le> 10 ^ (length w - 1)" using assms(3) by (intro power_increasing) simp_all
  ultimately show ?thesis by linarith
qed

lemma sgn_cmp_greater: "y < x \<Longrightarrow> sgn_cmp x y = 1"
  by (simp add: sgn_cmp_def)

lemma sgn_cmp_less: "x < y \<Longrightarrow> sgn_cmp x y = - 1"
  by (simp add: sgn_cmp_def)

lemma whole_decides:
  assumes "split_decimal l = (lw, lf)" "list_all is_digit lf" "split_decimal r = (rw, rf)" "list_all is_digit rf"
    and "digits_val lw < digits_val rw"
  shows "dec_val l < dec_val r"
proof -
  have "(of_int (digits_val lw) :: rat) + 1 \<le> of_int (digits_val rw)"
    using assms(5) by (metis of_int_1 of_int_add of_int_le_iff zless_imp_add1_zle)
  with dec_val_bounds [OF assms(1,2)] dec_val_bounds [OF assms(3,4)] show ?thesis by linarith
qed

lemma index_compareDecimal_value:
  assumes "isDecimal l" and "isDecimal r"
  shows "index_compareDecimal l r = num_of_int (sgn_cmp (dec_val l) (dec_val r))"
proof -
  from assms(1) obtain lw lf where l: "canonical_whole lw" "list_all is_digit lf" "split_decimal l = (lw, lf)"
    by (rule isDecimal_obtain)
  from assms(2) obtain rw rf where r: "canonical_whole rw" "list_all is_digit rf" "split_decimal r = (rw, rf)"
    by (rule isDecimal_obtain)
  note less = whole_decides [OF l(3,2) r(3,2)] and greater = whole_decides [OF r(3,2) l(3,2)]
  show ?thesis
  proof (cases "length lw = length rw \<and> lw = rw")
    case False
    consider "length rw < length lw" | "length lw < length rw" | "length lw = length rw" "lw \<noteq> rw" using False by linarith
    then show ?thesis
    proof cases
      case 1
      with longer_whole_greater [OF l(1) r(1)] greater have "dec_val r < dec_val l" by simp
      with 1 assms l r show ?thesis by (simp add: index_compareDecimal_def sgn_cmp_greater)
    next
      case 2
      with longer_whole_greater [OF r(1) l(1)] less have "dec_val l < dec_val r" by simp
      with 2 assms l r show ?thesis by (simp add: index_compareDecimal_def sgn_cmp_less)
    next
      case 3
      with l(1) r(1) digits_less_iff [of rw lw] digits_less_iff [of lw rw]
      have "if rw < lw then digits_val rw < digits_val lw else digits_val lw < digits_val rw"
        by (auto simp: canonical_whole_def)
      with 3 assms l r less greater show ?thesis
        by (cases "rw < lw") (simp_all add: index_compareDecimal_def sgn_cmp_less sgn_cmp_greater)
    qed
  next
    case True
    define n where "n = max (length lf) (length rf)"
    have a: "padEnd lf n 48 = padEnd rf n 48 \<longleftrightarrow> digits_val (padEnd lf n 48) = digits_val (padEnd rf n 48)"
      "padEnd rf n 48 < padEnd lf n 48 \<longleftrightarrow> digits_val (padEnd rf n 48) < digits_val (padEnd lf n 48)"
    proof -
      have p: "length (padEnd rf n 48) = length (padEnd lf n 48)" "list_all is_digit (padEnd rf n 48)"
        "list_all is_digit (padEnd lf n 48)"
        using padEnd_value [OF l(2), of n] padEnd_value [OF r(2), of n] by (simp_all add: n_def)
      show "padEnd lf n 48 = padEnd rf n 48 \<longleftrightarrow> digits_val (padEnd lf n 48) = digits_val (padEnd rf n 48)"
        using digits_less_iff [OF p, THEN conjunct2] by metis
      show "padEnd rf n 48 < padEnd lf n 48 \<longleftrightarrow> digits_val (padEnd rf n 48) < digits_val (padEnd lf n 48)"
        by (rule digits_less_iff [OF p, THEN conjunct1])
    qed
    have v: "dec_val l = of_int (digits_val rw) + of_int (digits_val (padEnd lf n 48)) / 10 ^ n"
      "dec_val r = of_int (digits_val rw) + of_int (digits_val (padEnd rf n 48)) / 10 ^ n"
      using True fraction_padEnd [OF l(2), of n] fraction_padEnd [OF r(2), of n] l(3) r(3)
      by (simp_all add: dec_val_split n_def)
    have c: "sgn_cmp (dec_val l) (dec_val r) =
        (if padEnd lf n 48 = padEnd rf n 48 then 0 else if padEnd rf n 48 < padEnd lf n 48 then 1 else - 1)"
      unfolding v a sgn_cmp_def by (simp add: divide_less_cancel)
    from True assms l(3) r(3) show ?thesis
      unfolding c by (simp add: index_compareDecimal_def n_def [symmetric] Let_def)
  qed
qed

lemma index_multiplyDecimal_value:
  assumes "isDecimal v" and "0 \<le> n" and "n \<le> max_safe"
  shows "multiplyDecimal v (num_of_int n) = Inr (index_multiplyDecimal v (num_of_int n))"
proof -
  from assms(1) obtain w f where "split_decimal v = (w, f)" by (rule isDecimal_obtain)
  with assms show ?thesis
    by (simp add: multiplyDecimal_def index_multiplyDecimal_def parseDecimal_def formatDecimal_def num_of_int_def)
qed

section \<open>Guards built from decimal comparisons\<close>

text \<open>The three shapes of guard the evaluator uses, as statements about rationals.\<close>

definition dec_within :: "jstring \<Rightarrow> jstring \<Rightarrow> bool" where
  "dec_within a b \<longleftrightarrow> isDecimal a \<and> isDecimal b \<and> dec_val a \<le> dec_val b"

definition sum_within :: "jstring \<Rightarrow> jstring \<Rightarrow> jstring \<Rightarrow> bool" where
  "sum_within a b c \<longleftrightarrow> isDecimal a \<and> isDecimal b \<and> isDecimal c \<and> dec_val a + dec_val b \<le> dec_val c"

definition dec_same :: "jstring \<Rightarrow> jstring \<Rightarrow> bool" where
  "dec_same a b \<longleftrightarrow> isDecimal a \<and> isDecimal b \<and> dec_val a = dec_val b"

definition product_is :: "jstring \<Rightarrow> jsnum \<Rightarrow> jstring \<Rightarrow> bool" where
  "product_is p q t \<longleftrightarrow> isDecimal p \<and> isDecimal t \<and> (\<exists>k. q = num_of_int k \<and> dec_val t = dec_val p * of_int k)"

lemma compareDecimal_Inr_iff:
  "compareDecimal a b = Inr n \<longleftrightarrow> isDecimal a \<and> isDecimal b \<and> n = sgn_cmp (dec_val a) (dec_val b)"
  using compareDecimal_Inr [of a b n] compareDecimal_value [of a b] by auto

lemma dec_within_guard: "mapR (\<lambda>n. 0 < n) (compareDecimal a b) = Inr False \<longleftrightarrow> dec_within a b"
  by (auto simp: exn_iff compareDecimal_Inr_iff dec_within_def)

lemma dec_within_guard_le: "mapR (\<lambda>n. n \<le> 0) (compareDecimal a b) = Inr True \<longleftrightarrow> dec_within a b"
  by (auto simp: exn_iff compareDecimal_Inr_iff dec_within_def)

lemma dec_same_guard: "mapR (\<lambda>n. n \<noteq> 0) (compareDecimal a b) = Inr False \<longleftrightarrow> dec_same a b"
  by (auto simp: exn_iff compareDecimal_Inr_iff dec_same_def)

lemma sum_within_guard:
  "bindE (addDecimal a b) (\<lambda>t. mapR (\<lambda>n. 0 < n) (compareDecimal t c)) = Inr False \<longleftrightarrow> sum_within a b c"
proof
  assume "bindE (addDecimal a b) (\<lambda>t. mapR (\<lambda>n. 0 < n) (compareDecimal t c)) = Inr False"
  then obtain t where "addDecimal a b = Inr t" "dec_within t c" by (auto simp: bindE_Inr_iff dec_within_guard)
  with addDecimal_Inr [of a b t] show "sum_within a b c" by (auto simp: sum_within_def dec_within_def)
next
  assume "sum_within a b c"
  with addDecimal_value [of a b] show "bindE (addDecimal a b) (\<lambda>t. mapR (\<lambda>n. 0 < n) (compareDecimal t c)) = Inr False"
    by (auto simp: bindE_Inr_iff dec_within_guard sum_within_def dec_within_def)
qed

lemma isDecimal_units: "isDecimal s \<Longrightarrow> c \<in> set s \<Longrightarrow> is_digit c \<or> c = 46"
  by (erule isDecimal_obtain) (auto simp: canonical_whole_def list_all_iff split: if_splits)

lemma formatDecimal_neg: "c < 0 \<Longrightarrow> \<not> isDecimal (formatDecimal c s)"
proof
  assume c: "c < 0" and d: "isDecimal (formatDecimal c s)"
  have "45 \<in> set (int_to_string c)" using c by (simp add: int_to_string_def lit_def)
  moreover have "set (int_to_string c) \<subseteq> set (formatDecimal c s)"
  proof (cases "s = 0")
    case False
    define D where "D = padStart (int_to_string c) (s + 1) 48"
    have "set D = set (take (length D - s) D @ drop (length D - s) D)" by simp
    also have "\<dots> \<subseteq> set (formatDecimal c s)"
      using False unfolding set_append
      by (auto simp: formatDecimal_def Let_def slice_upto_neg_def slice_from_neg_def D_def)
    finally show ?thesis by (simp add: D_def padStart_def)
  qed (simp add: formatDecimal_def)
  ultimately have "is_digit 45 \<or> (45 :: 16 word) = 46" using isDecimal_units [OF d, of 45] by blast
  then show False by (simp add: is_digit_def)
qed

lemma BigInt_Inr_iff: "BigInt q = Inr k \<longleftrightarrow> q = num_of_int k"
  by (cases q) (auto simp: num_of_int_def split: if_splits)

lemma product_guard:
  "bindE (multiplyDecimal p q) (\<lambda>t. mapR (\<lambda>n. n \<noteq> 0) (compareDecimal tot t)) = Inr False \<longleftrightarrow> product_is p q tot"
    (is "?L \<longleftrightarrow> ?R")
proof
  assume ?L
  then obtain t where t: "multiplyDecimal p q = Inr t" "dec_same tot t"
    by (auto simp: bindE_Inr_iff dec_same_guard)
  then obtain d k where d: "parseDecimal p = Inr d" "q = num_of_int k"
      "t = formatDecimal (coefficient d * k) (scale d)"
    by (auto simp: multiplyDecimal_def bindE_Inr_iff BigInt_Inr_iff)
  have p: "isDecimal p" using parseDecimal_Inr [OF d(1)] .
  have v: "dec_of d = dec_val p" using parseDecimal_ok [OF p] d(1) by auto
  have "isDecimal t" using t(2) by (simp add: dec_same_def)
  then have "0 \<le> coefficient d * k" using d(3) formatDecimal_neg [of "coefficient d * k" "scale d"] by force
  then have "dec_val t = dec_val p * of_int k"
    using formatDecimal_correct(2) [of "coefficient d * k" "scale d"] d(3) v by (simp add: dec_of_def) (metis times_divide_eq_left)
  with t(2) p d(2) show ?R by (auto simp: product_is_def dec_same_def)
next
  assume ?R
  then obtain k where k: "isDecimal p" "isDecimal tot" "q = num_of_int k" "dec_val tot = dec_val p * of_int k"
    by (auto simp: product_is_def)
  obtain d where d: "parseDecimal p = Inr d" "dec_of d = dec_val p" using parseDecimal_ok [OF k(1)] by blast
  have "(of_int (coefficient d * k) :: rat) = dec_val tot * 10 ^ scale d"
    using k(4) d(2) [symmetric] by (simp add: dec_of_def)
  then have "0 \<le> coefficient d * k"
    using dec_val_nonneg [OF k(2)] by (metis mult_nonneg_nonneg of_int_0_le_iff zero_le_numeral zero_le_power)
  from formatDecimal_correct [OF this, of "scale d"] k d
  have "multiplyDecimal p q = Inr (formatDecimal (coefficient d * k) (scale d))"
    "dec_same tot (formatDecimal (coefficient d * k) (scale d))"
    by (auto simp: multiplyDecimal_def dec_same_def dec_of_def d(2) [symmetric])
  then show ?L by (simp add: dec_same_guard)
qed

end
