(* ===== verification/DateTime.thy ===== *)
theory DateTime
  imports Errors
begin

text \<open>
  \<^verbatim>\<open>Date.parse\<close>.  The ECMAScript date-time interchange format with a full date, a time to the
  second, an optional three-digit fraction and an explicit offset (the timestamps of RFC 3339)
  is parsed here; every other text is given to \<open>legacy\<close>, the part of \<^verbatim>\<open>Date.parse\<close> the
  language leaves to its host.  A time value is a number of milliseconds since the epoch,
  \<open>None\<close> is NaN.
\<close>

type_synonym legacy_dates = "jstring \<Rightarrow> int option"

definition leap_year :: "int \<Rightarrow> bool" where
  "leap_year y \<longleftrightarrow> y mod 4 = 0 \<and> (y mod 100 \<noteq> 0 \<or> y mod 400 = 0)"

definition days_in_month :: "int \<Rightarrow> int \<Rightarrow> int" where
  "days_in_month y m = (if m = 2 then (if leap_year y then 29 else 28)
     else if m \<in> {4, 6, 9, 11} then 30 else 31)"

text \<open>Days from 1970-01-01 to a date of the proleptic Gregorian calendar.\<close>

definition days_from_civil :: "int \<Rightarrow> int \<Rightarrow> int \<Rightarrow> int" where
  "days_from_civil y m d =
     (let y' = (if m \<le> 2 then y - 1 else y); m' = (m + 9) mod 12
      in 365 * y' + y' div 4 - y' div 100 + y' div 400 + (153 * m' + 2) div 5 + d - 1 - 719468)"

definition field :: "jstring \<Rightarrow> nat \<Rightarrow> nat \<Rightarrow> int option" where
  "field s i n = (let t = take n (drop i s) in
     if length t = n \<and> list_all is_digit t then Some (digits_val t) else None)"

text \<open>The offset at the end of the text, in minutes.\<close>

definition iso_offset :: "jstring \<Rightarrow> int option" where
  "iso_offset z = (if z = lit ''Z'' then Some 0
     else if length z = 6 \<and> z ! 3 = 58 \<and> (hd z = 43 \<or> hd z = 45) then
       (case (field z 1 2, field z 4 2) of
          (Some h, Some m) \<Rightarrow> if h \<le> 23 \<and> m \<le> 59 then Some ((if hd z = 45 then - 1 else 1) * (h * 60 + m)) else None
        | _ \<Rightarrow> None)
     else None)"

definition iso_parse :: "jstring \<Rightarrow> int option" where
  "iso_parse s =
     (case (field s 0 4, field s 5 2, field s 8 2, field s 11 2, field s 14 2, field s 17 2) of
        (Some y, Some m, Some d, Some h, Some mi, Some se) \<Rightarrow>
          if s ! 4 = 45 \<and> s ! 7 = 45 \<and> s ! 10 = 84 \<and> s ! 13 = 58 \<and> s ! 16 = 58 \<and>
             1 \<le> m \<and> m \<le> 12 \<and> 1 \<le> d \<and> d \<le> days_in_month y m \<and> h \<le> 23 \<and> mi \<le> 59 \<and> se \<le> 59
          then let r = drop 19 s;
                   (ms, z) = (if r \<noteq> [] \<and> hd r = 46 then (field r 1 3, drop 4 r) else (Some 0, r))
               in case (ms, iso_offset z) of
                    (Some f, Some off) \<Rightarrow>
                      Some ((((days_from_civil y m d * 24 + h) * 60 + mi - off) * 60 + se) * 1000 + f)
                  | _ \<Rightarrow> None
          else None
      | _ \<Rightarrow> None)"

definition Date_parse :: "legacy_dates \<Rightarrow> jstring \<Rightarrow> int option" where
  "Date_parse legacy s = (case iso_parse s of Some t \<Rightarrow> Some t | None \<Rightarrow> legacy s)"

text \<open>A host that accepts nothing beyond the interchange format.\<close>

definition no_legacy :: legacy_dates where
  "no_legacy s = None"

end
