(* ===== verification/Objects.thy ===== *)
theory Objects
  imports Errors
begin

text \<open>
  The objects of the standard as \<^verbatim>\<open>index.ts\<close> declares them, one record per interface with
  optional members as options and \<^verbatim>\<open>Record<string, unknown>\<close> members as JSON objects, and the
  builders of \<^verbatim>\<open>builders.ts\<close> and \<^verbatim>\<open>index.ts\<close>.  Members of a literal-union type are datatypes.
\<close>

definition COMMERCE_PROFILE :: jstring where
  "COMMERCE_PROFILE = lit ''https://specs.intelliger.ai/oati/profiles/commerce/v0.1''"

definition RWA_PROFILE :: jstring where
  "RWA_PROFILE = lit ''https://specs.intelliger.ai/oati/profiles/rwa/v0.1''"

definition version_1_0 :: jstring where
  "version_1_0 = lit ''1.0''"

datatype audience = Audience jstring | Audiences "jstring list"

record Proof =
  prf_type :: jstring
  prf_cryptosuite :: "jstring option"
  prf_algorithm :: "jstring option"
  prf_created :: "jstring option"
  prf_expires :: "jstring option"
  prf_verification_method :: "jstring option"
  prf_proof_purpose :: "jstring option"
  prf_audience :: "audience option"
  prf_nonce :: "jstring option"
  prf_signature :: "jstring option"

record VerificationMethod =
  vm_id :: jstring
  vm_type :: jstring
  vm_controller :: jstring
  vm_public_key_jwk :: jobject

datatype passport_status = PActive | PSuspended | PRevoked | PExpired

datatype protocol = Http | Grpc | Mcp | A2a

record AgentPassport =
  psp_oati_version :: jstring
  psp_id :: jstring
  psp_organisation_id :: jstring
  psp_issuer :: jstring
  psp_status :: passport_status
  psp_display_name :: "jstring option"
  psp_capabilities :: "jstring list option"
  psp_protocols :: "protocol list option"
  psp_assurance_level :: "jstring option"
  psp_verification_methods :: "VerificationMethod list"
  psp_issued_at :: jstring
  psp_expires_at :: jstring
  psp_status_endpoint :: "jstring option"
  psp_proof :: "Proof option"

datatype mandate_status = Active | Suspended | Revoked | Expired | Consumed

record Delegation =
  allowed :: bool
  max_depth :: jsnum

record AgentMandate =
  man_oati_version :: jstring
  man_id :: jstring
  man_issuer :: jstring
  man_subject :: jstring
  man_sponsor :: "jstring option"
  man_parent_mandate :: "jstring option"
  man_purpose :: jstring
  man_actions :: "jstring list"
  man_resources :: "jstring list option"
  man_counterparties :: "jstring list option"
  man_destinations :: "jstring list option"
  man_limits :: "jobject option"
  man_data_use :: "jobject option"
  man_delegation :: "Delegation option"
  man_not_before :: jstring
  man_expires_at :: jstring
  man_status :: mandate_status
  man_profile :: "jstring option"
  man_extensions :: "jobject option"
  man_proof :: "Proof option"

record TransactionEnvelope =
  env_oati_version :: jstring
  env_id :: jstring
  env_agent_id :: jstring
  env_organisation_id :: jstring
  env_mandate_id :: jstring
  env_action :: jstring
  env_resource :: jstring
  env_purpose :: "jstring option"
  env_destination :: "jstring option"
  env_counterparty :: "jstring option"
  env_protocol :: "protocol option"
  env_commercial_profile :: "jstring option"
  env_request_digest :: "jstring option"
  env_issued_at :: jstring
  env_nonce :: jstring
  env_profile :: "jstring option"
  env_extensions :: "jobject option"
  env_proof :: "Proof option"

datatype decision_kind = Allow | Deny | Transform | ApprovalRequired

record AuthorisationDecision =
  dec_oati_version :: jstring
  dec_id :: jstring
  dec_transaction_id :: jstring
  dec_decision :: decision_kind
  dec_policy_digest :: jstring
  dec_reason_codes :: "jstring list option"
  dec_obligations :: "jobject list option"
  dec_decided_at :: jstring
  dec_expires_at :: "jstring option"
  dec_issuer :: jstring
  dec_proof :: "Proof option"

datatype outcome = Succeeded | Failed | Denied | Pending | Unknown

record ActionReceipt =
  rcp_oati_version :: jstring
  rcp_id :: jstring
  rcp_transaction_id :: jstring
  rcp_agent_id :: jstring
  rcp_organisation_id :: jstring
  rcp_mandate_id :: jstring
  rcp_decision :: decision_kind
  rcp_outcome :: outcome
  rcp_occurred_at :: jstring
  rcp_issuer :: jstring
  rcp_profile :: "jstring option"
  rcp_extensions :: "jobject option"
  rcp_proof :: "Proof option"
  rcp_policy_digest :: "jstring option"
  rcp_request_digest :: "jstring option"
  rcp_response_digest :: "jstring option"
  rcp_commercial_profile :: "jstring option"

section \<open>Profile objects\<close>

datatype billing_model = PerRequest | PerUnit | Subscription | FixedPrice

record CommerceTerms =
  ct_merchant_organisation_id :: jstring
  ct_service_id :: jstring
  ct_offer_id :: jstring
  ct_currency :: jstring
  ct_max_unit_price :: jstring
  ct_max_total :: jstring
  ct_max_quantity :: jsnum
  ct_billing_model :: "billing_model option"
  ct_terms_digest :: "jstring option"

record PurchaseMandate =
  pm_core :: AgentMandate
  pm_commerce :: CommerceTerms

datatype fulfilment_status = Fulfilled | Partial | FulfilmentFailed | Refunded

record CommerceReceiptTerms =
  crt_merchant_organisation_id :: jstring
  crt_service_id :: jstring
  crt_offer_id :: jstring
  crt_currency :: jstring
  crt_quantity :: jsnum
  crt_unit_price :: jstring
  crt_total_amount :: jstring
  crt_fulfilment_status :: fulfilment_status
  crt_terms_digest :: jstring
  crt_billing_reference :: "jstring option"

text \<open>The validators read \<^verbatim>\<open>extensions?.commerce\<close> defensively, so it may be missing.\<close>

record CommerceReceipt =
  cr_core :: ActionReceipt
  cr_commerce :: "CommerceReceiptTerms option"

datatype claim_type = ReserveBalance | Nav | Eligibility | Covenant | Custody | Collateral

datatype issuer_role = Custodian | Administrator | Oracle | Auditor

record Evidence =
  ev_uri :: "jstring option"
  ev_digest :: jstring
  ev_media_type :: jstring

record AssetStateClaim =
  asc_oati_version :: jstring
  asc_profile :: jstring
  asc_id :: jstring
  asc_asset_id :: jstring
  asc_claim_type :: claim_type
  asc_value :: jstring
  asc_unit :: jstring
  asc_observed_at :: jstring
  asc_valid_until :: jstring
  asc_issuer :: jstring
  asc_issuer_role :: issuer_role
  asc_evidence :: Evidence
  asc_proof :: Proof

datatype rwa_operation = Mint | Burn | Transfer | Redeem | PublishState

record RwaMandateTerms =
  rmt_asset_id :: jstring
  rmt_state_claim_id :: jstring
  rmt_network :: jstring
  rmt_token_contract :: jstring
  rmt_operation :: rwa_operation
  rmt_unit :: jstring
  rmt_max_quantity :: jstring
  rmt_one_time :: bool
  rmt_minimum_approvals :: jsnum
  rmt_required_roles :: "jstring list option"

record AssetMandate =
  am_core :: AgentMandate
  am_rwa :: "RwaMandateTerms option"

record RwaReceiptTerms =
  rrt_asset_id :: jstring
  rrt_state_claim_id :: jstring
  rrt_operation :: rwa_operation
  rrt_network :: jstring
  rrt_token_contract :: jstring
  rrt_quantity :: jstring
  rrt_unit :: jstring
  rrt_chain_transaction_hash :: jstring
  rrt_approval_count :: jsnum
  rrt_resulting_supply :: "jstring option"

record RwaReceipt =
  rr_core :: ActionReceipt
  rr_rwa :: "RwaReceiptTerms option"

section \<open>Builders\<close>

definition createPassport :: "AgentPassport \<Rightarrow> AgentPassport" where
  "createPassport input = input\<lparr>psp_oati_version := version_1_0\<rparr>"

definition createMandate :: "AgentMandate \<Rightarrow> AgentMandate" where
  "createMandate input = input\<lparr>man_oati_version := version_1_0\<rparr>"

definition createTransactionEnvelope :: "TransactionEnvelope \<Rightarrow> TransactionEnvelope" where
  "createTransactionEnvelope input = input\<lparr>env_oati_version := version_1_0\<rparr>"

definition createDecision :: "AuthorisationDecision \<Rightarrow> AuthorisationDecision" where
  "createDecision input = input\<lparr>dec_oati_version := version_1_0\<rparr>"

definition createReceipt :: "ActionReceipt \<Rightarrow> ActionReceipt" where
  "createReceipt input = input\<lparr>rcp_oati_version := version_1_0\<rparr>"

definition billing_model_text :: "billing_model \<Rightarrow> jstring" where
  "billing_model_text b = (case b of PerRequest \<Rightarrow> lit ''per_request'' | PerUnit \<Rightarrow> lit ''per_unit''
     | Subscription \<Rightarrow> lit ''subscription'' | FixedPrice \<Rightarrow> lit ''fixed'')"

text \<open>The terms as the JSON object that ends up under \<^verbatim>\<open>extensions.commerce\<close>.\<close>

definition commerce_json :: "CommerceTerms \<Rightarrow> jobject" where
  "commerce_json c =
     [(lit ''merchant_organisation_id'', JStr (ct_merchant_organisation_id c)),
      (lit ''service_id'', JStr (ct_service_id c)), (lit ''offer_id'', JStr (ct_offer_id c)),
      (lit ''currency'', JStr (ct_currency c)), (lit ''max_unit_price'', JStr (ct_max_unit_price c)),
      (lit ''max_total'', JStr (ct_max_total c)), (lit ''max_quantity'', JNum (ct_max_quantity c))]
     @ (case ct_billing_model c of None \<Rightarrow> [] | Some b \<Rightarrow> [(lit ''billing_model'', JStr (billing_model_text b))])
     @ (case ct_terms_digest c of None \<Rightarrow> [] | Some d \<Rightarrow> [(lit ''terms_digest'', JStr d)])"

definition createPurchaseMandate :: "AgentMandate \<Rightarrow> CommerceTerms \<Rightarrow> PurchaseMandate" where
  "createPurchaseMandate core commerce =
     \<lparr>pm_core = core\<lparr>man_oati_version := version_1_0, man_profile := Some COMMERCE_PROFILE,
        man_extensions := Some [(lit ''commerce'', JObj (commerce_json commerce))]\<rparr>,
      pm_commerce = commerce\<rparr>"

definition createAssetStateClaim :: "AssetStateClaim \<Rightarrow> AssetStateClaim" where
  "createAssetStateClaim claim = claim\<lparr>asc_oati_version := version_1_0, asc_profile := RWA_PROFILE\<rparr>"

end
