(* ===== verification/Evaluator.thy ===== *)
theory Evaluator
  imports Decimals DateTime Objects
begin

text \<open>
  \<^verbatim>\<open>evaluator.ts\<close>: the deterministic authority evaluator.  A check is a function on the reason
  set that may throw; \<open>runAll\<close> runs checks in the order of the source, \<open>addWhen\<close> and
  \<open>addWhenE\<close> are its \<^verbatim>\<open>if (c) reasons.add(code)\<close>, the second for a condition that may
  throw.  The request, the usage snapshot and the profile contexts are records; the members
  typed \<^verbatim>\<open>unknown\<close> stay JSON.
\<close>

section \<open>Interfaces\<close>

record UsageSnapshot =
  us_calls :: "jsnum option"
  us_amount :: "jstring option"
  us_currency :: "jstring option"
  us_quantity :: "jstring option"
  us_consumed :: "bool option"
  us_idempotency_keys :: "jstring list option"
  us_minted_supply :: "jstring option"

text \<open>\<^verbatim>\<open>Required<UsageSnapshot>\<close>\<close>

record Usage =
  u_calls :: jsnum
  u_amount :: jstring
  u_currency :: jstring
  u_quantity :: jstring
  u_consumed :: bool
  u_idempotency_keys :: "jstring list"
  u_minted_supply :: jstring

record Consumption =
  cn_calls :: "jsnum option"
  cn_amount :: "jstring option"
  cn_currency :: "jstring option"
  cn_quantity :: "jstring option"
  cn_idempotency_key :: "jstring option"
  cn_consume :: "bool option"

text \<open>\<^verbatim>\<open>Required<Consumption>\<close>\<close>

record Delta =
  d_calls :: jsnum
  d_amount :: jstring
  d_currency :: jstring
  d_quantity :: jstring
  d_idempotency_key :: jstring
  d_consume :: bool

record CommerceEvaluationContext =
  cec_merchant_organisation_id :: jstring
  cec_service_id :: jstring
  cec_offer_id :: jstring
  cec_currency :: jstring
  cec_quantity :: jsnum
  cec_unit_price :: jstring
  cec_total_amount :: jstring
  cec_idempotency_key :: jstring
  cec_terms_digest :: "jstring option"

record RwaEvaluationContext =
  rec_asset_id :: jstring
  rec_state_claim_id :: jstring
  rec_network :: jstring
  rec_token_contract :: jstring
  rec_operation :: rwa_operation
  rec_unit :: jstring
  rec_quantity :: jstring
  rec_reserve :: jstring
  rec_approval_count :: jsnum
  rec_approval_roles :: "jstring list"
  rec_current_supply :: jstring
  rec_maximum_supply :: "jstring option"
  rec_claim_valid_until :: jstring

record EvaluationRequest =
  er_evaluation_time :: jstring
  er_mandate :: AgentMandate
  er_parent_mandate :: "AgentMandate option"
  er_delegation_depth :: "jsnum option"
  er_envelope :: TransactionEnvelope
  er_usage :: UsageSnapshot
  er_consumption :: "Consumption option"
  er_commerce :: "CommerceEvaluationContext option"
  er_rwa :: "RwaEvaluationContext option"

record EvaluationResult =
  res_oati_version :: jstring
  res_decision :: decision_kind
  res_mandate_id :: jstring
  res_transaction_id :: jstring
  res_reason_codes :: "jstring list"
  res_next_usage :: UsageSnapshot

section \<open>Reasons\<close>

type_synonym reasons = "jstring list"
type_synonym check = "reasons \<Rightarrow> reasons result"

definition addWhen :: "bool \<Rightarrow> jstring \<Rightarrow> check" where
  "addWhen c code rs = Inr (if c then set_add code rs else rs)"

definition addWhenE :: "bool result \<Rightarrow> jstring \<Rightarrow> check" where
  "addWhenE c code rs = bindE c (\<lambda>b. addWhen b code rs)"

definition runAll :: "check list \<Rightarrow> check" where
  "runAll fs rs = foldE (\<lambda>f. f) fs rs"

section \<open>Helpers\<close>

definition timestamp :: "legacy_dates \<Rightarrow> jstring \<Rightarrow> int result" where
  "timestamp legacy value = (case Date_parse legacy value of
     None \<Rightarrow> Inl (TypeErr (lit ''Invalid RFC 3339 timestamp: '' @ value)) | Some t \<Rightarrow> Inr t)"

definition checkSetConstraint :: "jstring list option \<Rightarrow> jstring option \<Rightarrow> jstring \<Rightarrow> check" where
  "checkSetConstraint permitted actual code =
     addWhen (case permitted of None \<Rightarrow> False
              | Some xs \<Rightarrow> (case actual of None \<Rightarrow> True | Some a \<Rightarrow> a = [] \<or> a \<notin> set xs)) code"

definition subset :: "jstring list \<Rightarrow> jstring list \<Rightarrow> bool" where
  "subset child parent \<longleftrightarrow> list_all (\<lambda>item. item \<in> set parent) child"

definition constrainedSubset :: "jstring list option \<Rightarrow> jstring list option \<Rightarrow> bool" where
  "constrainedSubset child parent = (case parent of None \<Rightarrow> True
     | Some p \<Rightarrow> (case child of None \<Rightarrow> False | Some c \<Rightarrow> subset c p))"

definition objectAt :: "jobject option \<Rightarrow> jstring \<Rightarrow> jobject option" where
  "objectAt value key = as_object (jget_opt value key)"

definition stringArray :: "json option \<Rightarrow> jstring list" where
  "stringArray value = (case value of Some (JArr xs) \<Rightarrow> List.map_filter (\<lambda>x. as_string (Some x)) xs | _ \<Rightarrow> [])"

definition sameFields :: "jobject \<Rightarrow> jobject \<Rightarrow> jstring list \<Rightarrow> bool" where
  "sameFields child parent names = list_all (\<lambda>f. strict_eq_opt (jget child f) (jget parent f)) names"

definition sameMappedFields :: "jobject \<Rightarrow> jobject \<Rightarrow> (jstring \<times> jstring) list \<Rightarrow> bool" where
  "sameMappedFields left right names = list_all (\<lambda>(l, r). strict_eq_opt (jget left l) (jget right r)) names"

definition numberAtMost :: "json option \<Rightarrow> json option \<Rightarrow> bool" where
  "numberAtMost child parent = (case (child, parent) of (Some (JNum c), Some (JNum p)) \<Rightarrow> num_le c p | _ \<Rightarrow> False)"

definition numberAtLeast :: "json option \<Rightarrow> json option \<Rightarrow> bool" where
  "numberAtLeast child parent = (case (child, parent) of (Some (JNum c), Some (JNum p)) \<Rightarrow> num_le p c | _ \<Rightarrow> False)"

definition decimalAtMost :: "json option \<Rightarrow> json option \<Rightarrow> bool result" where
  "decimalAtMost child parent = (case (child, parent) of
     (Some (JStr c), Some (JStr p)) \<Rightarrow> mapR (\<lambda>n. n \<le> 0) (compareDecimal c p) | _ \<Rightarrow> Inr False)"

text \<open>
  \<open>narrowerValue\<close> is the body of the loop of \<^verbatim>\<open>narrowerObject\<close> for one parent value; its
  decimal comparison is guarded by \<open>isDecimal\<close> on both sides and cannot throw.
\<close>

fun narrowerValue :: "json option \<Rightarrow> json \<Rightarrow> bool" where
  "narrowerValue cv (JNum p) = (case cv of Some (JNum c) \<Rightarrow> num_le c p | _ \<Rightarrow> False)"
| "narrowerValue cv (JStr p) =
     (if isDecimal p then
        (case cv of Some (JStr c) \<Rightarrow> isDecimal c \<and> (case compareDecimal c p of Inr n \<Rightarrow> n \<le> 0 | Inl _ \<Rightarrow> False)
         | _ \<Rightarrow> False)
      else strict_eq_opt cv (Some (JStr p)))"
| "narrowerValue cv (JArr ps) = (case cv of Some (JArr cs) \<Rightarrow> list_all (array_includes ps) cs | _ \<Rightarrow> False)"
| "narrowerValue cv (JObj po) =
     (case cv of Some (JObj co) \<Rightarrow> list_all (\<lambda>(k, v). narrowerValue (jget co k) v) po | _ \<Rightarrow> False)"
| "narrowerValue cv JNull = strict_eq_opt cv (Some JNull)"
| "narrowerValue cv (JBool b) = strict_eq_opt cv (Some (JBool b))"

definition narrowerObject :: "jobject option \<Rightarrow> jobject option \<Rightarrow> bool" where
  "narrowerObject child parent = (case parent of None \<Rightarrow> True
     | Some p \<Rightarrow> (case child of None \<Rightarrow> False
                 | Some c \<Rightarrow> list_all (\<lambda>(k, v). narrowerValue (jget c k) v) p))"

section \<open>Delegation\<close>

definition checkProfileSubset :: "AgentMandate \<Rightarrow> AgentMandate \<Rightarrow> check" where
  "checkProfileSubset child parent =
     (if man_profile child \<noteq> man_profile parent
      then addWhen (man_profile child \<notin> {None, Some []} \<or> man_profile parent \<notin> {None, Some []})
             (lit ''CHILD_PROFILE_AMPLIFICATION'')
      else
        let childCommerce = objectAt (man_extensions child) (lit ''commerce'');
            parentCommerce = objectAt (man_extensions parent) (lit ''commerce'');
            childRwa = objectAt (man_extensions child) (lit ''rwa'');
            parentRwa = objectAt (man_extensions parent) (lit ''rwa'')
        in runAll
          [addWhenE
             (case parentCommerce of None \<Rightarrow> Inr False
              | Some p \<Rightarrow> (case childCommerce of None \<Rightarrow> Inr True
                | Some c \<Rightarrow>
                    orE (Inr (\<not> sameFields c p [lit ''merchant_organisation_id'', lit ''service_id'', lit ''offer_id'',
                                lit ''currency'', lit ''billing_model'', lit ''terms_digest'']))
                   (orE (mapR Not (decimalAtMost (jget c (lit ''max_unit_price'')) (jget p (lit ''max_unit_price''))))
                   (orE (mapR Not (decimalAtMost (jget c (lit ''max_total'')) (jget p (lit ''max_total''))))
                        (Inr (\<not> numberAtMost (jget c (lit ''max_quantity'')) (jget p (lit ''max_quantity''))))))))
             (lit ''CHILD_COMMERCE_AMPLIFICATION''),
           addWhenE
             (case parentRwa of None \<Rightarrow> Inr False
              | Some p \<Rightarrow> (case childRwa of None \<Rightarrow> Inr True
                | Some c \<Rightarrow>
                    orE (Inr (\<not> sameFields c p [lit ''asset_id'', lit ''state_claim_id'', lit ''network'',
                                lit ''token_contract'', lit ''operation'', lit ''unit'']))
                   (orE (mapR Not (decimalAtMost (jget c (lit ''max_quantity'')) (jget p (lit ''max_quantity''))))
                   (orE (Inr (\<not> numberAtLeast (jget c (lit ''minimum_approvals'')) (jget p (lit ''minimum_approvals''))))
                   (orE (Inr (\<not> subset (stringArray (jget p (lit ''required_roles''))) (stringArray (jget c (lit ''required_roles'')))))
                        (Inr (strict_eq_opt (jget p (lit ''one_time'')) (Some (JBool True)) \<and>
                              \<not> strict_eq_opt (jget c (lit ''one_time'')) (Some (JBool True)))))))))
             (lit ''CHILD_RWA_AMPLIFICATION'')])"

text \<open>The last rule reads \<^verbatim>\<open>parent.delegation!.max_depth\<close>: without a parent delegation it throws.\<close>

definition checkChildMandate :: "legacy_dates \<Rightarrow> AgentMandate \<Rightarrow> AgentMandate \<Rightarrow> jsnum \<Rightarrow> int \<Rightarrow> check" where
  "checkChildMandate legacy child parent depth now =
     runAll
       [addWhen (man_parent_mandate child \<noteq> Some (man_id parent)) (lit ''PARENT_MANDATE_MISMATCH''),
        addWhenE (orE (Inr (man_status parent \<noteq> Active))
                 (orE (mapR (\<lambda>t. now < t) (timestamp legacy (man_not_before parent)))
                      (mapR (\<lambda>t. t \<le> now) (timestamp legacy (man_expires_at parent)))))
          (lit ''PARENT_MANDATE_NOT_ACTIVE''),
        addWhen (case man_delegation parent of None \<Rightarrow> True
                 | Some d \<Rightarrow> \<not> allowed d \<or> num_less (max_depth d) depth) (lit ''DELEGATION_NOT_ALLOWED''),
        addWhen (\<not> subset (man_actions child) (man_actions parent)) (lit ''CHILD_ACTION_AMPLIFICATION''),
        addWhen (\<not> constrainedSubset (man_resources child) (man_resources parent)) (lit ''CHILD_RESOURCE_AMPLIFICATION''),
        addWhen (\<not> constrainedSubset (man_counterparties child) (man_counterparties parent))
          (lit ''CHILD_COUNTERPARTY_AMPLIFICATION''),
        addWhen (\<not> constrainedSubset (man_destinations child) (man_destinations parent))
          (lit ''CHILD_DESTINATION_AMPLIFICATION''),
        addWhen (man_purpose child \<noteq> man_purpose parent) (lit ''CHILD_PURPOSE_AMPLIFICATION''),
        addWhenE (orE (bindE (timestamp legacy (man_not_before child)) (\<lambda>c.
                         mapR (\<lambda>p. c < p) (timestamp legacy (man_not_before parent))))
                      (bindE (timestamp legacy (man_expires_at child)) (\<lambda>c.
                         mapR (\<lambda>p. p < c) (timestamp legacy (man_expires_at parent)))))
          (lit ''CHILD_TIME_AMPLIFICATION''),
        addWhen (\<not> narrowerObject (man_limits child) (man_limits parent)) (lit ''CHILD_LIMIT_AMPLIFICATION''),
        addWhen (\<not> narrowerObject (man_data_use child) (man_data_use parent)) (lit ''CHILD_DATA_USE_AMPLIFICATION''),
        (case man_delegation child of None \<Rightarrow> Inr
         | Some c \<Rightarrow> if allowed c then
             (case man_delegation parent of None \<Rightarrow> (\<lambda>_. Inl (TypeErr []))
              | Some p \<Rightarrow> addWhen (num_less (num_max0 (num_sub (max_depth p) depth)) (max_depth c))
                           (lit ''CHILD_DELEGATION_AMPLIFICATION''))
           else Inr),
        checkProfileSubset child parent]"

section \<open>Consumption\<close>

definition normalizedUsage :: "UsageSnapshot \<Rightarrow> Usage" where
  "normalizedUsage value =
     \<lparr>u_calls = (case us_calls value of None \<Rightarrow> Fin 0 | Some c \<Rightarrow> c),
      u_amount = (case us_amount value of None \<Rightarrow> lit ''0'' | Some a \<Rightarrow> a),
      u_currency = (case us_currency value of None \<Rightarrow> [] | Some c \<Rightarrow> c),
      u_quantity = (case us_quantity value of None \<Rightarrow> lit ''0'' | Some q \<Rightarrow> q),
      u_consumed = (case us_consumed value of None \<Rightarrow> False | Some c \<Rightarrow> c),
      u_idempotency_keys = sort (case us_idempotency_keys value of None \<Rightarrow> [] | Some ks \<Rightarrow> ks),
      u_minted_supply = (case us_minted_supply value of None \<Rightarrow> lit ''0'' | Some s \<Rightarrow> s)\<rparr>"

text \<open>A \<^verbatim>\<open>Required<UsageSnapshot>\<close> used where a \<^verbatim>\<open>UsageSnapshot\<close> is expected.\<close>

definition snapshot_of :: "Usage \<Rightarrow> UsageSnapshot" where
  "snapshot_of u =
     \<lparr>us_calls = Some (u_calls u), us_amount = Some (u_amount u), us_currency = Some (u_currency u),
      us_quantity = Some (u_quantity u), us_consumed = Some (u_consumed u),
      us_idempotency_keys = Some (u_idempotency_keys u), us_minted_supply = Some (u_minted_supply u)\<rparr>"

definition no_consumption :: Consumption where
  "no_consumption = \<lparr>cn_calls = None, cn_amount = None, cn_currency = None, cn_quantity = None,
     cn_idempotency_key = None, cn_consume = None\<rparr>"

text \<open>\<^verbatim>\<open>a ?? b\<close> and \<^verbatim>\<open>a ?? b ?? c\<close>\<close>

definition or_else :: "'a option \<Rightarrow> 'a \<Rightarrow> 'a" where
  "or_else x y = (case x of None \<Rightarrow> y | Some v \<Rightarrow> v)"

definition effectiveConsumption :: "EvaluationRequest \<Rightarrow> Delta" where
  "effectiveConsumption request =
     (let commerce = er_commerce request; rwa = er_rwa request;
          supplied = or_else (er_consumption request) no_consumption
      in \<lparr>d_calls = or_else (cn_calls supplied) (Fin 1),
          d_amount = or_else (map_option cec_total_amount commerce) (or_else (cn_amount supplied) (lit ''0'')),
          d_currency = or_else (map_option cec_currency commerce) (or_else (cn_currency supplied) []),
          d_quantity = (case commerce of Some c \<Rightarrow> num_to_string (cec_quantity c)
             | None \<Rightarrow> or_else (map_option rec_quantity rwa) (or_else (cn_quantity supplied) (lit ''0''))),
          d_idempotency_key = or_else (map_option cec_idempotency_key commerce) (or_else (cn_idempotency_key supplied) []),
          d_consume = truthy (jget_opt (objectAt (man_extensions (er_mandate request)) (lit ''rwa'')) (lit ''one_time'')) \<or>
            truthy (jget_opt (man_limits (er_mandate request)) (lit ''one_time'')) \<or> cn_consume supplied = Some True\<rparr>)"

datatype consumption_field = F_amount | F_currency | F_quantity | F_idempotency_key | F_consume

fun field_differs :: "Consumption \<Rightarrow> Delta \<Rightarrow> consumption_field \<Rightarrow> bool" where
  "field_differs s e F_amount = (cn_amount s \<noteq> None \<and> cn_amount s \<noteq> Some (d_amount e))"
| "field_differs s e F_currency = (cn_currency s \<noteq> None \<and> cn_currency s \<noteq> Some (d_currency e))"
| "field_differs s e F_quantity = (cn_quantity s \<noteq> None \<and> cn_quantity s \<noteq> Some (d_quantity e))"
| "field_differs s e F_idempotency_key =
     (cn_idempotency_key s \<noteq> None \<and> cn_idempotency_key s \<noteq> Some (d_idempotency_key e))"
| "field_differs s e F_consume = (cn_consume s \<noteq> None \<and> cn_consume s \<noteq> Some (d_consume e))"

definition checkConsumptionContext :: "EvaluationRequest \<Rightarrow> Delta \<Rightarrow> check" where
  "checkConsumptionContext request effective =
     (case er_consumption request of None \<Rightarrow> Inr
      | Some supplied \<Rightarrow>
          let constrained = (if er_commerce request \<noteq> None then [F_amount, F_currency, F_quantity, F_idempotency_key]
                             else if er_rwa request \<noteq> None then [F_quantity] else []) @
                            (if d_consume effective \<and> cn_consume supplied = Some False then [F_consume] else [])
          in addWhen (list_ex (field_differs supplied effective) constrained) (lit ''CONSUMPTION_CONTEXT_MISMATCH''))"

definition checkConsumption :: "AgentMandate \<Rightarrow> Usage \<Rightarrow> Delta \<Rightarrow> check" where
  "checkConsumption mandate usage delta =
     (let limits = or_else (man_limits mandate) [];
          max_calls = jget limits (lit ''max_calls'');
          max_quantity = jget limits (lit ''max_quantity'');
          max_total = jget limits (lit ''max_total'')
      in runAll
        [addWhen (u_consumed usage) (lit ''MANDATE_ALREADY_CONSUMED''),
         addWhen (d_idempotency_key delta \<noteq> [] \<and> d_idempotency_key delta \<in> set (u_idempotency_keys usage))
           (lit ''IDEMPOTENCY_REPLAY''),
         addWhen (case as_number max_calls of None \<Rightarrow> False
                  | Some m \<Rightarrow> num_less m (num_add (u_calls usage) (d_calls delta))) (lit ''CALL_LIMIT_EXCEEDED''),
         addWhenE (if man_profile mandate = None \<and> (is_string max_quantity \<or> is_number max_quantity)
                   then bindE (addDecimal (u_quantity usage) (d_quantity delta)) (\<lambda>t.
                          mapR (\<lambda>n. 0 < n) (compareDecimal t (String max_quantity)))
                   else Inr False) (lit ''QUANTITY_LIMIT_EXCEEDED''),
         (case as_string max_total of None \<Rightarrow> Inr
          | Some budget \<Rightarrow>
              if d_amount delta = lit ''0'' then Inr
              else runAll
                [addWhen (case as_string (jget limits (lit ''currency'')) of None \<Rightarrow> False
                          | Some c \<Rightarrow> c \<noteq> [] \<and> (d_currency delta \<noteq> c \<or>
                              u_amount usage \<noteq> lit ''0'' \<and> u_currency usage \<noteq> c)) (lit ''BUDGET_CURRENCY_MISMATCH''),
                 addWhenE (bindE (addDecimal (u_amount usage) (d_amount delta)) (\<lambda>t.
                             mapR (\<lambda>n. 0 < n) (compareDecimal t budget))) (lit ''BUDGET_EXCEEDED'')])])"

definition applyConsumption :: "Usage \<Rightarrow> Delta \<Rightarrow> EvaluationRequest \<Rightarrow> Usage result" where
  "applyConsumption usage delta request =
     bindE (addDecimal (u_amount usage) (d_amount delta)) (\<lambda>amount.
     bindE (addDecimal (u_quantity usage) (d_quantity delta)) (\<lambda>quantity.
     bindE (case er_rwa request of Some r \<Rightarrow> addDecimal (rec_current_supply r) (rec_quantity r)
            | None \<Rightarrow> Inr (u_minted_supply usage)) (\<lambda>minted.
       Inr \<lparr>u_calls = num_add (u_calls usage) (d_calls delta),
            u_amount = amount,
            u_currency = (if d_currency delta \<noteq> [] then d_currency delta else u_currency usage),
            u_quantity = quantity,
            u_consumed = (u_consumed usage \<or> d_consume delta),
            u_idempotency_keys = (if d_idempotency_key delta \<noteq> []
               then sort (u_idempotency_keys usage @ [d_idempotency_key delta]) else u_idempotency_keys usage),
            u_minted_supply = minted\<rparr>)))"

section \<open>Commerce and RWA\<close>

text \<open>\<^verbatim>\<open>context as unknown as Record<string, unknown>\<close>\<close>

definition commerce_context_json :: "CommerceEvaluationContext \<Rightarrow> jobject" where
  "commerce_context_json c =
     [(lit ''merchant_organisation_id'', JStr (cec_merchant_organisation_id c)),
      (lit ''service_id'', JStr (cec_service_id c)), (lit ''offer_id'', JStr (cec_offer_id c)),
      (lit ''currency'', JStr (cec_currency c)), (lit ''quantity'', JNum (cec_quantity c)),
      (lit ''unit_price'', JStr (cec_unit_price c)), (lit ''total_amount'', JStr (cec_total_amount c)),
      (lit ''idempotency_key'', JStr (cec_idempotency_key c))]
     @ (case cec_terms_digest c of None \<Rightarrow> [] | Some d \<Rightarrow> [(lit ''terms_digest'', JStr d)])"

fun operation_text :: "rwa_operation \<Rightarrow> jstring" where
  "operation_text Mint = lit ''mint''"
| "operation_text Burn = lit ''burn''"
| "operation_text Transfer = lit ''transfer''"
| "operation_text Redeem = lit ''redeem''"
| "operation_text PublishState = lit ''publish_state''"

definition rwa_context_json :: "RwaEvaluationContext \<Rightarrow> jobject" where
  "rwa_context_json c =
     [(lit ''asset_id'', JStr (rec_asset_id c)), (lit ''state_claim_id'', JStr (rec_state_claim_id c)),
      (lit ''network'', JStr (rec_network c)), (lit ''token_contract'', JStr (rec_token_contract c)),
      (lit ''operation'', JStr (operation_text (rec_operation c))), (lit ''unit'', JStr (rec_unit c)),
      (lit ''quantity'', JStr (rec_quantity c)), (lit ''reserve'', JStr (rec_reserve c)),
      (lit ''approval_count'', JNum (rec_approval_count c)),
      (lit ''approval_roles'', JArr (map JStr (rec_approval_roles c))),
      (lit ''current_supply'', JStr (rec_current_supply c))]
     @ (case rec_maximum_supply c of None \<Rightarrow> [] | Some m \<Rightarrow> [(lit ''maximum_supply'', JStr m)])
     @ [(lit ''claim_valid_until'', JStr (rec_claim_valid_until c))]"

definition commerce_envelope_mismatch :: "TransactionEnvelope \<Rightarrow> CommerceEvaluationContext \<Rightarrow> bool" where
  "commerce_envelope_mismatch envelope ctx =
     (case objectAt (env_extensions envelope) (lit ''commerce'') of None \<Rightarrow> False
      | Some signedExt \<Rightarrow> env_resource envelope \<noteq> cec_service_id ctx \<or>
          env_counterparty envelope \<noteq> Some (cec_merchant_organisation_id ctx) \<or>
          \<not> sameMappedFields signedExt (commerce_context_json ctx)
            [(lit ''offer_id'', lit ''offer_id''), (lit ''currency'', lit ''currency''), (lit ''quantity'', lit ''quantity''),
             (lit ''quoted_unit_price'', lit ''unit_price''), (lit ''quoted_total'', lit ''total_amount''),
             (lit ''idempotency_key'', lit ''idempotency_key''), (lit ''terms_digest'', lit ''terms_digest'')])"

definition checkCommerce ::
  "AgentMandate \<Rightarrow> TransactionEnvelope \<Rightarrow> CommerceEvaluationContext option \<Rightarrow> Usage \<Rightarrow> check" where
  "checkCommerce mandate envelope commerce usage =
     (case (commerce, objectAt (man_extensions mandate) (lit ''commerce'')) of
        (Some ctx, Some limits) \<Rightarrow> runAll
          [addWhen (\<not> strict_eq_opt (Some (JStr (cec_merchant_organisation_id ctx))) (jget limits (lit ''merchant_organisation_id'')))
             (lit ''COMMERCE_MERCHANT_NOT_ALLOWED''),
           addWhen (\<not> strict_eq_opt (Some (JStr (cec_service_id ctx))) (jget limits (lit ''service_id'')))
             (lit ''COMMERCE_SERVICE_NOT_ALLOWED''),
           addWhen (\<not> strict_eq_opt (Some (JStr (cec_offer_id ctx))) (jget limits (lit ''offer_id'')))
             (lit ''COMMERCE_OFFER_NOT_ALLOWED''),
           addWhen (\<not> strict_eq_opt (Some (JStr (cec_currency ctx))) (jget limits (lit ''currency'')) \<or>
                    u_amount usage \<noteq> lit ''0'' \<and> u_currency usage \<noteq> cec_currency ctx)
             (lit ''COMMERCE_CURRENCY_MISMATCH''),
           addWhenE (mapR (\<lambda>n. 0 < n) (compareDecimal (cec_unit_price ctx) (String (jget limits (lit ''max_unit_price'')))))
             (lit ''COMMERCE_UNIT_PRICE_EXCEEDED''),
           addWhenE (bindE (multiplyDecimal (cec_unit_price ctx) (cec_quantity ctx)) (\<lambda>t.
                       mapR (\<lambda>n. n \<noteq> 0) (compareDecimal (cec_total_amount ctx) t)))
             (lit ''COMMERCE_TOTAL_INVALID''),
           addWhenE (bindE (addDecimal (u_amount usage) (cec_total_amount ctx)) (\<lambda>t.
                       mapR (\<lambda>n. 0 < n) (compareDecimal t (String (jget limits (lit ''max_total''))))))
             (lit ''COMMERCE_BUDGET_EXCEEDED''),
           addWhenE (mapR (\<lambda>n. 0 < n) (compareDecimal (num_to_string (cec_quantity ctx)) (String (jget limits (lit ''max_quantity'')))))
             (lit ''COMMERCE_QUANTITY_EXCEEDED''),
           addWhen (truthy (jget limits (lit ''terms_digest'')) \<and>
                    \<not> strict_eq_opt (map_option JStr (cec_terms_digest ctx)) (jget limits (lit ''terms_digest'')))
             (lit ''COMMERCE_TERMS_MISMATCH''),
           addWhen (cec_idempotency_key ctx \<in> set (u_idempotency_keys usage)) (lit ''IDEMPOTENCY_REPLAY''),
           (\<lambda>rs. addWhen (commerce_envelope_mismatch envelope ctx \<and>
                          \<not> list_ex (\<lambda>code. startsWith code (lit ''COMMERCE_'')) rs)
                    (lit ''COMMERCE_ENVELOPE_CONTEXT_MISMATCH'') rs)]
      | _ \<Rightarrow> addWhen True (lit ''COMMERCE_CONTEXT_REQUIRED''))"

definition rwa_target_fields :: "jstring list" where
  "rwa_target_fields = [lit ''asset_id'', lit ''state_claim_id'', lit ''network'', lit ''token_contract'',
     lit ''operation'', lit ''unit'']"

definition checkRwa ::
  "legacy_dates \<Rightarrow> AgentMandate \<Rightarrow> TransactionEnvelope \<Rightarrow> RwaEvaluationContext option \<Rightarrow> Usage \<Rightarrow> bool \<Rightarrow> int \<Rightarrow> check" where
  "checkRwa legacy mandate envelope rwa usage hasMintedSupply now =
     (case (rwa, objectAt (man_extensions mandate) (lit ''rwa'')) of
        (Some ctx, Some limits) \<Rightarrow>
          let supply = addDecimal (rec_current_supply ctx) (rec_quantity ctx) in runAll
          [addWhen (case objectAt (env_extensions envelope) (lit ''rwa'') of None \<Rightarrow> False
                    | Some signedExt \<Rightarrow> env_resource envelope \<noteq> rec_asset_id ctx \<or>
                        \<not> sameFields signedExt (rwa_context_json ctx) (rwa_target_fields @ [lit ''quantity'']))
             (lit ''RWA_ENVELOPE_CONTEXT_MISMATCH''),
           addWhen (\<not> sameFields (rwa_context_json ctx) limits rwa_target_fields) (lit ''RWA_TARGET_MISMATCH''),
           addWhenE (mapR (\<lambda>t. t \<le> now) (timestamp legacy (rec_claim_valid_until ctx))) (lit ''RWA_STATE_CLAIM_EXPIRED''),
           addWhenE (bindE (addDecimal (u_quantity usage) (rec_quantity ctx)) (\<lambda>t.
                       mapR (\<lambda>n. 0 < n) (compareDecimal t (String (jget limits (lit ''max_quantity''))))))
             (lit ''RWA_QUANTITY_EXCEEDED''),
           addWhenE (bindE supply (\<lambda>t. mapR (\<lambda>n. 0 < n) (compareDecimal t (rec_reserve ctx))))
             (lit ''RWA_RESERVE_EXCEEDED''),
           addWhenE (case rec_maximum_supply ctx of None \<Rightarrow> Inr False
                     | Some m \<Rightarrow> if m = [] then Inr False
                                 else bindE supply (\<lambda>t. mapR (\<lambda>n. 0 < n) (compareDecimal t m)))
             (lit ''RWA_MAXIMUM_SUPPLY_EXCEEDED''),
           addWhenE (if hasMintedSupply
                     then mapR (\<lambda>n. n \<noteq> 0) (compareDecimal (u_minted_supply usage) (rec_current_supply ctx))
                     else Inr False) (lit ''RWA_SUPPLY_STATE_MISMATCH''),
           addWhen (num_less (rec_approval_count ctx) (Number (jget limits (lit ''minimum_approvals''))))
             (lit ''RWA_APPROVAL_THRESHOLD_NOT_MET''),
           runAll (map (\<lambda>role. addWhen (role \<notin> set (rec_approval_roles ctx)) (lit ''RWA_REQUIRED_ROLE_MISSING''))
                     (stringArray (jget limits (lit ''required_roles'')))),
           addWhen (strict_eq_opt (jget limits (lit ''one_time'')) (Some (JBool True)) \<and> u_consumed usage)
             (lit ''MANDATE_ALREADY_CONSUMED'')]
      | _ \<Rightarrow> addWhen True (lit ''RWA_CONTEXT_REQUIRED''))"

section \<open>The evaluator\<close>

text \<open>The rules \<^verbatim>\<open>evaluateAuthority\<close> states itself, up to the delegation check.\<close>

definition checkMandate :: "legacy_dates \<Rightarrow> EvaluationRequest \<Rightarrow> int \<Rightarrow> check" where
  "checkMandate legacy request now =
     (let mandate = er_mandate request; envelope = er_envelope request in runAll
       [addWhen (man_status mandate \<noteq> Active) (lit ''MANDATE_NOT_ACTIVE''),
        addWhenE (mapR (\<lambda>t. now < t) (timestamp legacy (man_not_before mandate))) (lit ''MANDATE_NOT_YET_ACTIVE''),
        addWhenE (mapR (\<lambda>t. t \<le> now) (timestamp legacy (man_expires_at mandate))) (lit ''MANDATE_EXPIRED''),
        addWhen (env_mandate_id envelope \<noteq> man_id mandate) (lit ''MANDATE_REFERENCE_MISMATCH''),
        addWhen (env_agent_id envelope \<noteq> man_subject mandate) (lit ''SUBJECT_MISMATCH''),
        addWhen (env_action envelope \<notin> set (man_actions mandate)) (lit ''ACTION_NOT_ALLOWED''),
        checkSetConstraint (man_resources mandate) (Some (env_resource envelope)) (lit ''RESOURCE_NOT_ALLOWED''),
        addWhen (env_purpose envelope \<noteq> Some (man_purpose mandate)) (lit ''PURPOSE_MISMATCH''),
        checkSetConstraint (man_counterparties mandate) (env_counterparty envelope) (lit ''COUNTERPARTY_NOT_ALLOWED''),
        checkSetConstraint (man_destinations mandate) (env_destination envelope) (lit ''DESTINATION_NOT_ALLOWED''),
        addWhen (env_profile envelope \<noteq> None \<and> env_profile envelope \<noteq> man_profile mandate) (lit ''PROFILE_MISMATCH''),
        (case er_parent_mandate request of
           Some parent \<Rightarrow> checkChildMandate legacy mandate parent (or_else (er_delegation_depth request) (Fin 1)) now
         | None \<Rightarrow> addWhen (man_parent_mandate mandate \<notin> {None, Some []}) (lit ''PARENT_MANDATE_REQUIRED''))])"

definition checkAll :: "legacy_dates \<Rightarrow> EvaluationRequest \<Rightarrow> int \<Rightarrow> check" where
  "checkAll legacy request now =
     (let mandate = er_mandate request; envelope = er_envelope request;
          usage = normalizedUsage (er_usage request); delta = effectiveConsumption request
      in runAll
       [checkMandate legacy request now,
        checkConsumptionContext request delta,
        checkConsumption mandate usage delta,
        (if er_commerce request \<noteq> None \<or> man_profile mandate = Some COMMERCE_PROFILE
         then checkCommerce mandate envelope (er_commerce request) usage else Inr),
        (if er_rwa request \<noteq> None \<or> man_profile mandate = Some RWA_PROFILE
         then checkRwa legacy mandate envelope (er_rwa request) usage (us_minted_supply (er_usage request) \<noteq> None) now
         else Inr)])"

definition evaluateAuthority :: "legacy_dates \<Rightarrow> EvaluationRequest \<Rightarrow> EvaluationResult result" where
  "evaluateAuthority legacy request =
     bindE (timestamp legacy (er_evaluation_time request)) (\<lambda>now.
     bindE (checkAll legacy request now []) (\<lambda>rs.
       let reasonCodes = sort rs; usage = normalizedUsage (er_usage request) in
       bindE (if reasonCodes = [] then applyConsumption usage (effectiveConsumption request) request else Inr usage) (\<lambda>next.
         Inr \<lparr>res_oati_version = version_1_0,
              res_decision = (if reasonCodes = [] then Allow else Deny),
              res_mandate_id = man_id (er_mandate request),
              res_transaction_id = env_id (er_envelope request),
              res_reason_codes = reasonCodes,
              res_next_usage = snapshot_of next\<rparr>)))"

end
