(* ===== verification/EvaluatorChecks.thy ===== *)
theory EvaluatorChecks
  imports Evaluator
begin

text \<open>
  The contract all checks of the evaluator share, as a locale: a check only ever adds reasons
  and keeps the reason set free of duplicates.  It is interpreted on every check of the
  evaluator; from it follow what it means for a sequence of checks to leave the set empty and
  one \<open>accepts\<close> lemma per check that names the conditions under which the check adds nothing.
\<close>

named_theorems grows_rules \<open>checks that only add reasons\<close>
named_theorems accepts_simps \<open>when a check adds nothing to the empty reason set\<close>

definition grows :: "check \<Rightarrow> bool" where
  "grows f \<longleftrightarrow> (\<forall>rs rs'. f rs = Inr rs' \<longrightarrow> set rs \<subseteq> set rs' \<and> (distinct rs \<longrightarrow> distinct rs'))"

lemma grows_Inr [grows_rules]: "grows Inr"
  by (simp add: grows_def)

lemma grows_throw [grows_rules]: "grows (\<lambda>_. Inl e)"
  by (simp add: grows_def)

lemma grows_addWhen [grows_rules]: "grows (addWhen c code)"
  by (auto simp: grows_def addWhen_def)

lemma grows_addWhen_state [grows_rules]: "grows (\<lambda>rs. addWhen (p rs) code rs)"
  by (auto simp: grows_def addWhen_def)

lemma grows_addWhenE [grows_rules]: "grows (addWhenE c code)"
  by (auto simp: grows_def addWhenE_def addWhen_def exn_iff)

lemma grows_checkSetConstraint [grows_rules]: "grows (checkSetConstraint permitted actual code)"
  by (simp add: checkSetConstraint_def grows_rules)

lemma runAll_Nil [simp]: "runAll [] rs = Inr rs"
  by (simp add: runAll_def)

lemma runAll_Cons [simp]: "runAll (f # fs) rs = bindE (f rs) (runAll fs)"
proof -
  have "runAll fs = foldE (\<lambda>f. f) fs" by (simp add: fun_eq_iff runAll_def)
  then show ?thesis by (simp add: runAll_def)
qed

lemma grows_runAll [grows_rules]: "list_all grows fs \<Longrightarrow> grows (runAll fs)"
proof (induction fs)
  case Nil
  then show ?case by (simp add: grows_def)
next
  case (Cons f fs)
  then have f: "grows f" and fs: "grows (runAll fs)" by simp_all
  show ?case unfolding grows_def
  proof (intro allI impI)
    fix rs rs' assume "runAll (f # fs) rs = Inr rs'"
    then obtain m where m: "f rs = Inr m" "runAll fs m = Inr rs'" by (auto simp: exn_iff)
    with f fs show "set rs \<subseteq> set rs' \<and> (distinct rs \<longrightarrow> distinct rs')" unfolding grows_def by blast
  qed
qed

locale reason_check =
  fixes chk :: check
  assumes chk_grows: "grows chk"
begin

lemma keeps_reasons: "chk rs = Inr rs' \<Longrightarrow> c \<in> set rs \<Longrightarrow> c \<in> set rs'"
  using chk_grows unfolding grows_def by blast

lemma keeps_distinct: "chk rs = Inr rs' \<Longrightarrow> distinct rs \<Longrightarrow> distinct rs'"
  using chk_grows unfolding grows_def by blast

lemma accepted_input: "chk rs = Inr [] \<Longrightarrow> rs = []"
  using keeps_reasons by (metis list.set_intros(1) neq_Nil_conv empty_iff list.set(1))

end

lemma accepted_runAll:
  assumes "list_all grows fs"
  shows "runAll fs [] = Inr [] \<longleftrightarrow> list_all (\<lambda>f. f [] = Inr []) fs"
  using assms
proof (induction fs)
  case (Cons f fs)
  have "rs = []" if "runAll fs rs = Inr []" for rs
  proof (rule reason_check.accepted_input [where chk = "runAll fs", OF _ that])
    show "reason_check (runAll fs)" using Cons.prems by unfold_locales (simp add: grows_rules)
  qed
  then have "runAll (f # fs) [] = Inr [] \<longleftrightarrow> f [] = Inr [] \<and> runAll fs [] = Inr []"
    by (auto simp: exn_iff)
  with Cons show ?case by simp
qed simp

lemma accepts_addWhen [accepts_simps]: "addWhen c code [] = Inr [] \<longleftrightarrow> \<not> c"
  by (auto simp: addWhen_def)

lemma accepts_addWhenE [accepts_simps]: "addWhenE c code [] = Inr [] \<longleftrightarrow> c = Inr False"
  by (cases c) (auto simp: addWhenE_def accepts_simps)

text \<open>The constraint a list of permitted values puts on an actual value.\<close>

definition permitted_by :: "jstring list option \<Rightarrow> jstring option \<Rightarrow> bool" where
  "permitted_by permitted actual \<longleftrightarrow> (\<forall>xs. permitted = Some xs \<longrightarrow> (\<exists>a. actual = Some a \<and> a \<noteq> [] \<and> a \<in> set xs))"

lemma accepts_checkSetConstraint [accepts_simps]:
  "checkSetConstraint permitted actual code [] = Inr [] \<longleftrightarrow> permitted_by permitted actual"
  by (auto simp: checkSetConstraint_def accepts_simps permitted_by_def split: option.splits)

section \<open>Every check of the evaluator meets the contract\<close>

lemma grows_checkProfileSubset [grows_rules]: "grows (checkProfileSubset child parent)"
  by (simp add: checkProfileSubset_def Let_def grows_rules)

lemma grows_delegation_rule [grows_rules]:
  "grows (case man_delegation child of None \<Rightarrow> Inr
     | Some c \<Rightarrow> if allowed c then
         (case man_delegation parent of None \<Rightarrow> (\<lambda>_. Inl e) | Some p \<Rightarrow> addWhen (g c p) code) else Inr)"
  by (simp add: grows_rules split: option.split)

lemma grows_checkChildMandate [grows_rules]: "grows (checkChildMandate legacy child parent depth now)"
  by (simp add: checkChildMandate_def grows_rules)

lemma grows_checkMandate [grows_rules]: "grows (checkMandate legacy request now)"
  by (simp add: checkMandate_def Let_def grows_rules split: option.split)

lemma grows_checkConsumptionContext [grows_rules]: "grows (checkConsumptionContext request delta)"
  by (simp add: checkConsumptionContext_def Let_def grows_rules split: option.split)

lemma grows_budget_rule [grows_rules]:
  "grows (case x of None \<Rightarrow> Inr | Some b \<Rightarrow> if p then Inr else runAll [addWhen c k, addWhenE (d b) k'])"
  by (simp add: grows_rules split: option.split)

lemma grows_checkConsumption [grows_rules]: "grows (checkConsumption mandate usage delta)"
  by (simp add: checkConsumption_def Let_def grows_rules)

lemma grows_checkCommerce [grows_rules]: "grows (checkCommerce mandate envelope commerce usage)"
  by (simp add: checkCommerce_def grows_rules split: option.split)

lemma grows_checkRwa [grows_rules]: "grows (checkRwa legacy mandate envelope rwa usage has now)"
  by (simp add: checkRwa_def Let_def grows_rules list_all_iff split: option.split)

lemma grows_checkAll [grows_rules]: "grows (checkAll legacy request now)"
  by (simp add: checkAll_def Let_def grows_rules)

interpretation mandate_check: reason_check "checkMandate legacy request now" for legacy request now
  by unfold_locales (rule grows_checkMandate)

interpretation child_check: reason_check "checkChildMandate legacy child parent depth now"
  for legacy child parent depth now
  by unfold_locales (rule grows_checkChildMandate)

interpretation consumption_check: reason_check "checkConsumption mandate usage delta" for mandate usage delta
  by unfold_locales (rule grows_checkConsumption)

interpretation commerce_check: reason_check "checkCommerce mandate envelope commerce usage"
  for mandate envelope commerce usage
  by unfold_locales (rule grows_checkCommerce)

interpretation rwa_check: reason_check "checkRwa legacy mandate envelope rwa usage has now"
  for legacy mandate envelope rwa usage has now
  by unfold_locales (rule grows_checkRwa)

interpretation all_checks: reason_check "checkAll legacy request now" for legacy request now
  by unfold_locales (rule grows_checkAll)

end
