(* ===== verification/NonAmplification.thy ===== *)
theory NonAmplification
  imports EvaluatorChecks
begin

text \<open>
  The central invariant of the standard: a delegated Mandate may preserve or reduce authority
  and never expands it.  \<open>narrowing\<close> is the contract of a ``no wider than'' relation between
  a child and its parent, with the chain lemma proved once; it is interpreted on the
  comparison of action lists, of optional allow-lists, of limit objects and of whole Mandates.
  \<open>scope_narrowing\<close> extends it with the set of transactions a Mandate covers.
\<close>

section \<open>Narrowing relations\<close>

locale narrowing =
  fixes narrower :: "'a \<Rightarrow> 'a \<Rightarrow> bool"
  assumes narrower_trans: "narrower a b \<Longrightarrow> narrower b c \<Longrightarrow> narrower a c"
begin

lemma chain_narrower:
  "successively (\<lambda>parent child. narrower child parent) (m0 # ms) \<Longrightarrow> ms \<noteq> [] \<Longrightarrow> narrower (last ms) m0"
proof (induction ms arbitrary: m0)
  case (Cons m ms)
  then have link: "narrower m m0" and rest: "successively (\<lambda>parent child. narrower child parent) (m # ms)"
    by simp_all
  show ?case
  proof (cases "ms = []")
    case False
    with Cons.IH [OF rest] link show ?thesis by (auto intro: narrower_trans)
  qed (simp add: link)
qed simp

end

locale scope_narrowing = narrowing narrower for narrower :: "'a \<Rightarrow> 'a \<Rightarrow> bool" +
  fixes scope :: "'a \<Rightarrow> 's set"
  assumes scope_mono: "narrower child parent \<Longrightarrow> scope child \<subseteq> scope parent"
begin

lemma chain_scope:
  "successively (\<lambda>parent child. narrower child parent) (m0 # ms) \<Longrightarrow> scope (last (m0 # ms)) \<subseteq> scope m0"
  using chain_narrower [of m0 ms] scope_mono by (cases "ms = []") auto

end

section \<open>The comparisons of the evaluator\<close>

lemma subset_iff_set: "subset c p \<longleftrightarrow> set c \<subseteq> set p"
  by (auto simp: subset_def list_all_iff)

interpretation actions: narrowing subset
  by unfold_locales (auto simp: subset_iff_set)

interpretation allow_lists: narrowing constrainedSubset
  by unfold_locales (auto simp: constrainedSubset_def subset_iff_set split: option.splits)

lemma num_le_trans: "num_le a b \<Longrightarrow> num_le b c \<Longrightarrow> num_le a c"
  by (cases a; cases b; cases c) (auto simp: num_le_def num_eq_def)

lemma narrowerValue_None: "\<not> narrowerValue None v"
  by (cases v) simp_all

lemma decimal_le_iff:
  "isDecimal c \<Longrightarrow> isDecimal p \<Longrightarrow>
     (case compareDecimal c p of Inr n \<Rightarrow> n \<le> 0 | Inl _ \<Rightarrow> False) \<longleftrightarrow> dec_val c \<le> dec_val p"
  by (simp add: compareDecimal_value)

lemma narrowerValue_trans: "narrowerValue a b \<Longrightarrow> narrowerValue (Some b) c \<Longrightarrow> narrowerValue a c"
proof (induction c arbitrary: a b)
  case (JNum p)
  then show ?case by (auto split: option.splits json.splits intro: num_le_trans)
next
  case (JStr p)
  then show ?case
    by (auto simp: decimal_le_iff split: if_splits option.splits json.splits dest: strict_eq_opt_imp_eq)
next
  case (JArr ps)
  from JArr.prems show ?case
    by (auto simp: list_all_iff split: option.splits json.splits) (blast dest: array_includes_mem)
next
  case (JObj po)
  from JObj.prems(2) obtain bo where b: "b = JObj bo"
    and bp: "list_all (\<lambda>(k, v). narrowerValue (jget bo k) v) po"
    by (auto split: option.splits json.splits)
  from JObj.prems(1) b obtain ao where a: "a = Some (JObj ao)"
    and ab: "list_all (\<lambda>(k, v). narrowerValue (jget ao k) v) bo"
    by (auto split: option.splits json.splits)
  have "narrowerValue (jget ao k) v" if kv: "(k, v) \<in> set po" for k v
  proof -
    from bp kv have bv: "narrowerValue (jget bo k) v" by (auto simp: list_all_iff)
    then obtain w where w: "jget bo k = Some w" using narrowerValue_None by (cases "jget bo k") auto
    then have "(k, w) \<in> set bo" by (simp add: jget_def map_of_SomeD)
    with ab have "narrowerValue (jget ao k) w" by (auto simp: list_all_iff)
    with bv w kv show ?thesis using JObj.IH [of "(k, v)" v] by auto
  qed
  then show ?case by (auto simp: a list_all_iff)
qed (auto dest!: strict_eq_imp_eq)

lemma narrower_entries_trans:
  assumes "list_all (\<lambda>(k, v). narrowerValue (jget a k) v) b" and "list_all (\<lambda>(k, v). narrowerValue (jget b k) v) c"
  shows "list_all (\<lambda>(k, v). narrowerValue (jget a k) v) c"
  using narrowerValue_trans [of "Some (JObj a)" "JObj b" "JObj c"] assms by simp

interpretation limit_objects: narrowing narrowerObject
  by unfold_locales (auto simp: narrowerObject_def split: option.splits intro: narrower_entries_trans)

section \<open>Mandates\<close>

definition window :: "legacy_dates \<Rightarrow> AgentMandate \<Rightarrow> (int \<times> int) option" where
  "window legacy m = (case (timestamp legacy (man_not_before m), timestamp legacy (man_expires_at m)) of
     (Inr s, Inr e) \<Rightarrow> Some (s, e) | _ \<Rightarrow> None)"

text \<open>A Mandate with readable validity times that is no wider than another.\<close>

definition narrower_mandate :: "legacy_dates \<Rightarrow> AgentMandate \<Rightarrow> AgentMandate \<Rightarrow> bool" where
  "narrower_mandate legacy child parent \<longleftrightarrow>
     subset (man_actions child) (man_actions parent) \<and>
     constrainedSubset (man_resources child) (man_resources parent) \<and>
     constrainedSubset (man_counterparties child) (man_counterparties parent) \<and>
     constrainedSubset (man_destinations child) (man_destinations parent) \<and>
     man_purpose child = man_purpose parent \<and>
     (\<exists>cs ce ps pe. window legacy child = Some (cs, ce) \<and> window legacy parent = Some (ps, pe) \<and> ps \<le> cs \<and> ce \<le> pe) \<and>
     narrowerObject (man_limits child) (man_limits parent) \<and>
     narrowerObject (man_data_use child) (man_data_use parent)"

text \<open>The transactions and instants a Mandate covers, apart from who signs and what is consumed.\<close>

definition covers :: "legacy_dates \<Rightarrow> AgentMandate \<Rightarrow> (TransactionEnvelope \<times> int) set" where
  "covers legacy m = {(e, t). env_action e \<in> set (man_actions m) \<and> env_purpose e = Some (man_purpose m) \<and>
     permitted_by (man_resources m) (Some (env_resource e)) \<and>
     permitted_by (man_counterparties m) (env_counterparty e) \<and>
     permitted_by (man_destinations m) (env_destination e) \<and>
     (\<exists>s x. window legacy m = Some (s, x) \<and> s \<le> t \<and> t < x)}"

lemma permitted_by_mono: "constrainedSubset c p \<Longrightarrow> permitted_by c a \<Longrightarrow> permitted_by p a"
  by (auto simp: constrainedSubset_def permitted_by_def subset_iff_set split: option.splits)

lemma narrower_mandate_trans:
  assumes "narrower_mandate legacy a b" and "narrower_mandate legacy b c"
  shows "narrower_mandate legacy a c"
  using assms unfolding narrower_mandate_def
  by (auto intro: actions.narrower_trans allow_lists.narrower_trans limit_objects.narrower_trans)

lemma covers_mono: "narrower_mandate legacy child parent \<Longrightarrow> covers legacy child \<subseteq> covers legacy parent"
  by (fastforce simp: narrower_mandate_def covers_def subset_iff_set intro: permitted_by_mono)

interpretation mandates: scope_narrowing "narrower_mandate legacy" "covers legacy" for legacy
  by unfold_locales (auto intro: narrower_mandate_trans dest: covers_mono [THEN subsetD])

section \<open>What the delegation check establishes\<close>

lemma accepts_delegation_rule [accepts_simps]:
  "(case man_delegation child of None \<Rightarrow> Inr
     | Some c \<Rightarrow> if allowed c then
         (case man_delegation parent of None \<Rightarrow> (\<lambda>_. Inl e) | Some p \<Rightarrow> addWhen (g c p) code) else Inr) [] = Inr []
   \<longleftrightarrow> (\<forall>c. man_delegation child = Some c \<and> allowed c \<longrightarrow> (\<exists>p. man_delegation parent = Some p \<and> \<not> g c p))"
  by (auto simp: accepts_simps split: option.splits)

lemma accepts_checkChildMandate:
  "checkChildMandate legacy child parent depth now [] = Inr [] \<longleftrightarrow>
     man_parent_mandate child = Some (man_id parent) \<and>
     man_status parent = Active \<and>
     (\<exists>s x. timestamp legacy (man_not_before parent) = Inr s \<and> timestamp legacy (man_expires_at parent) = Inr x \<and>
        s \<le> now \<and> now < x) \<and>
     (\<exists>d. man_delegation parent = Some d \<and> allowed d \<and> \<not> num_less (max_depth d) depth) \<and>
     narrower_mandate legacy child parent \<and>
     (\<forall>c. man_delegation child = Some c \<and> allowed c \<longrightarrow>
        (\<exists>p. man_delegation parent = Some p \<and> \<not> num_less (num_max0 (num_sub (max_depth p) depth)) (max_depth c))) \<and>
     checkProfileSubset child parent [] = Inr []"
proof -
  have w: "(\<exists>cs ce ps pe. window legacy child = Some (cs, ce) \<and> window legacy parent = Some (ps, pe) \<and> ps \<le> cs \<and> ce \<le> pe)
     \<longleftrightarrow> (\<exists>cs ce ps pe. timestamp legacy (man_not_before child) = Inr cs \<and> timestamp legacy (man_expires_at child) = Inr ce \<and>
          timestamp legacy (man_not_before parent) = Inr ps \<and> timestamp legacy (man_expires_at parent) = Inr pe \<and> ps \<le> cs \<and> ce \<le> pe)"
    by (auto simp: window_def split: sum.splits)
  show ?thesis
    unfolding checkChildMandate_def narrower_mandate_def w
    by (subst accepted_runAll)
      (auto simp: grows_rules accepts_simps exn_iff not_less not_le split: option.splits)
qed

section \<open>Profile terms\<close>

definition decimal_narrowed :: "json option \<Rightarrow> json option \<Rightarrow> bool" where
  "decimal_narrowed c p \<longleftrightarrow> (\<exists>x y. c = Some (JStr x) \<and> p = Some (JStr y) \<and> dec_within x y)"

definition commerce_narrowed :: "jobject \<Rightarrow> jobject \<Rightarrow> bool" where
  "commerce_narrowed c p \<longleftrightarrow>
     sameFields c p [lit ''merchant_organisation_id'', lit ''service_id'', lit ''offer_id'', lit ''currency'',
       lit ''billing_model'', lit ''terms_digest''] \<and>
     decimal_narrowed (jget c (lit ''max_unit_price'')) (jget p (lit ''max_unit_price'')) \<and>
     decimal_narrowed (jget c (lit ''max_total'')) (jget p (lit ''max_total'')) \<and>
     numberAtMost (jget c (lit ''max_quantity'')) (jget p (lit ''max_quantity''))"

definition rwa_narrowed :: "jobject \<Rightarrow> jobject \<Rightarrow> bool" where
  "rwa_narrowed c p \<longleftrightarrow>
     sameFields c p [lit ''asset_id'', lit ''state_claim_id'', lit ''network'', lit ''token_contract'',
       lit ''operation'', lit ''unit''] \<and>
     decimal_narrowed (jget c (lit ''max_quantity'')) (jget p (lit ''max_quantity'')) \<and>
     numberAtLeast (jget c (lit ''minimum_approvals'')) (jget p (lit ''minimum_approvals'')) \<and>
     subset (stringArray (jget p (lit ''required_roles''))) (stringArray (jget c (lit ''required_roles''))) \<and>
     (strict_eq_opt (jget p (lit ''one_time'')) (Some (JBool True)) \<longrightarrow>
      strict_eq_opt (jget c (lit ''one_time'')) (Some (JBool True)))"

text \<open>Where the parent has an extension, the child has one no wider than it.\<close>

definition extension_narrowed :: "(jobject \<Rightarrow> jobject \<Rightarrow> bool) \<Rightarrow> jobject option \<Rightarrow> jobject option \<Rightarrow> bool" where
  "extension_narrowed narrower child parent \<longleftrightarrow>
     (\<forall>p. parent = Some p \<longrightarrow> (\<exists>c. child = Some c \<and> narrower c p))"

definition profile_narrowed :: "AgentMandate \<Rightarrow> AgentMandate \<Rightarrow> bool" where
  "profile_narrowed child parent \<longleftrightarrow>
     (if man_profile child = man_profile parent then
        extension_narrowed commerce_narrowed (objectAt (man_extensions child) (lit ''commerce''))
          (objectAt (man_extensions parent) (lit ''commerce'')) \<and>
        extension_narrowed rwa_narrowed (objectAt (man_extensions child) (lit ''rwa''))
          (objectAt (man_extensions parent) (lit ''rwa''))
      else man_profile child \<in> {None, Some []} \<and> man_profile parent \<in> {None, Some []})"

lemma accepts_decimalAtMost: "decimalAtMost c p = Inr True \<longleftrightarrow> decimal_narrowed c p"
  by (auto simp: decimalAtMost_def decimal_narrowed_def dec_within_guard_le split: option.splits json.splits)

lemma accepts_checkProfileSubset [accepts_simps]:
  "checkProfileSubset child parent [] = Inr [] \<longleftrightarrow> profile_narrowed child parent"
proof (cases "man_profile child = man_profile parent")
  case True
  have guard: "(case x of None \<Rightarrow> Inr False | Some p \<Rightarrow> (case y of None \<Rightarrow> Inr True | Some c \<Rightarrow> g c p)) = Inr False \<longleftrightarrow>
      (\<forall>p. x = Some p \<longrightarrow> (\<exists>c. y = Some c \<and> g c p = Inr False))" for x y and g :: "jobject \<Rightarrow> jobject \<Rightarrow> bool result"
    by (cases x; cases y) auto
  show ?thesis using True
    by (simp add: checkProfileSubset_def Let_def profile_narrowed_def accepted_runAll grows_rules accepts_simps guard
        extension_narrowed_def commerce_narrowed_def rwa_narrowed_def orE_False_iff mapR_Not_False accepts_decimalAtMost
        conj_ac del: runAll_Cons)
qed (auto simp: checkProfileSubset_def profile_narrowed_def accepts_simps)

lemma strict_fields_trans: "sameFields a b fs \<Longrightarrow> sameFields b c fs \<Longrightarrow> sameFields a c fs"
  by (auto simp: sameFields_def list_all_iff intro: strict_eq_opt_trans)

lemma decimal_narrowed_trans: "decimal_narrowed a b \<Longrightarrow> decimal_narrowed b c \<Longrightarrow> decimal_narrowed a c"
  by (auto simp: decimal_narrowed_def dec_within_def)

lemma numberAtMost_trans: "numberAtMost a b \<Longrightarrow> numberAtMost b c \<Longrightarrow> numberAtMost a c"
  by (auto simp: numberAtMost_def split: option.splits json.splits intro: num_le_trans)

lemma numberAtLeast_trans: "numberAtLeast a b \<Longrightarrow> numberAtLeast b c \<Longrightarrow> numberAtLeast a c"
  by (auto simp: numberAtLeast_def split: option.splits json.splits intro: num_le_trans)

interpretation commerce_terms: narrowing commerce_narrowed
  by unfold_locales
    (auto simp: commerce_narrowed_def intro: strict_fields_trans decimal_narrowed_trans numberAtMost_trans)

interpretation rwa_terms: narrowing rwa_narrowed
  by unfold_locales
    (auto simp: rwa_narrowed_def subset_iff_set dest: strict_eq_opt_imp_eq
      intro: strict_fields_trans decimal_narrowed_trans numberAtLeast_trans)

end
