(* ===== verification/Authority.thy ===== *)
theory Authority
  imports NonAmplification
begin

text \<open>
  The abstract specification of the evaluator: \<open>authorised\<close> states, over rationals and sets,
  when a request is within its Mandate, its parent Mandate, its limits, its budget and its
  profile terms.  \<open>evaluate_allow_iff\<close> shows that the sequence of checks of
  \<^verbatim>\<open>evaluateAuthority\<close> decides exactly that specification.
\<close>

section \<open>The specification\<close>

definition within_mandate :: "legacy_dates \<Rightarrow> AgentMandate \<Rightarrow> TransactionEnvelope \<Rightarrow> int \<Rightarrow> bool" where
  "within_mandate legacy m e now \<longleftrightarrow>
     man_status m = Active \<and> env_mandate_id e = man_id m \<and> env_agent_id e = man_subject m \<and>
     (env_profile e = None \<or> env_profile e = man_profile m) \<and> (e, now) \<in> covers legacy m"

definition delegated_by ::
  "legacy_dates \<Rightarrow> AgentMandate \<Rightarrow> AgentMandate \<Rightarrow> jsnum \<Rightarrow> int \<Rightarrow> bool" where
  "delegated_by legacy child parent depth now \<longleftrightarrow>
     man_parent_mandate child = Some (man_id parent) \<and> man_status parent = Active \<and>
     (\<exists>s x. window legacy parent = Some (s, x) \<and> s \<le> now \<and> now < x) \<and>
     (\<exists>d. man_delegation parent = Some d \<and> allowed d \<and> \<not> num_less (max_depth d) depth \<and>
        (\<forall>c. man_delegation child = Some c \<and> allowed c \<longrightarrow>
           \<not> num_less (num_max0 (num_sub (max_depth d) depth)) (max_depth c))) \<and>
     narrower_mandate legacy child parent \<and> profile_narrowed child parent"

definition within_limits :: "AgentMandate \<Rightarrow> Usage \<Rightarrow> Delta \<Rightarrow> bool" where
  "within_limits m u d \<longleftrightarrow>
     \<not> u_consumed u \<and>
     \<not> (d_idempotency_key d \<noteq> [] \<and> d_idempotency_key d \<in> set (u_idempotency_keys u)) \<and>
     (\<forall>n. jget (or_else (man_limits m) []) (lit ''max_calls'') = Some (JNum n) \<longrightarrow>
        \<not> num_less n (num_add (u_calls u) (d_calls d))) \<and>
     (let q = jget (or_else (man_limits m) []) (lit ''max_quantity'') in
        man_profile m = None \<and> (is_string q \<or> is_number q) \<longrightarrow> sum_within (u_quantity u) (d_quantity d) (String q)) \<and>
     (\<forall>b. jget (or_else (man_limits m) []) (lit ''max_total'') = Some (JStr b) \<and> d_amount d \<noteq> lit ''0'' \<longrightarrow>
        sum_within (u_amount u) (d_amount d) b \<and>
        (\<forall>c. jget (or_else (man_limits m) []) (lit ''currency'') = Some (JStr c) \<and> c \<noteq> [] \<longrightarrow>
           d_currency d = c \<and> (u_amount u = lit ''0'' \<or> u_currency u = c)))"

definition within_commerce :: "jobject \<Rightarrow> TransactionEnvelope \<Rightarrow> CommerceEvaluationContext \<Rightarrow> Usage \<Rightarrow> bool" where
  "within_commerce limits e ctx u \<longleftrightarrow>
     jget limits (lit ''merchant_organisation_id'') = Some (JStr (cec_merchant_organisation_id ctx)) \<and>
     jget limits (lit ''service_id'') = Some (JStr (cec_service_id ctx)) \<and>
     jget limits (lit ''offer_id'') = Some (JStr (cec_offer_id ctx)) \<and>
     jget limits (lit ''currency'') = Some (JStr (cec_currency ctx)) \<and>
     (u_amount u = lit ''0'' \<or> u_currency u = cec_currency ctx) \<and>
     dec_within (cec_unit_price ctx) (String (jget limits (lit ''max_unit_price''))) \<and>
     product_is (cec_unit_price ctx) (cec_quantity ctx) (cec_total_amount ctx) \<and>
     sum_within (u_amount u) (cec_total_amount ctx) (String (jget limits (lit ''max_total''))) \<and>
     dec_within (num_to_string (cec_quantity ctx)) (String (jget limits (lit ''max_quantity''))) \<and>
     (truthy (jget limits (lit ''terms_digest'')) \<longrightarrow>
        strict_eq_opt (map_option JStr (cec_terms_digest ctx)) (jget limits (lit ''terms_digest''))) \<and>
     cec_idempotency_key ctx \<notin> set (u_idempotency_keys u) \<and>
     \<not> commerce_envelope_mismatch e ctx"

definition within_rwa ::
  "legacy_dates \<Rightarrow> jobject \<Rightarrow> TransactionEnvelope \<Rightarrow> RwaEvaluationContext \<Rightarrow> Usage \<Rightarrow> bool \<Rightarrow> int \<Rightarrow> bool" where
  "within_rwa legacy limits e ctx u supply_known now \<longleftrightarrow>
     (\<forall>x. objectAt (env_extensions e) (lit ''rwa'') = Some x \<longrightarrow>
        env_resource e = rec_asset_id ctx \<and> sameFields x (rwa_context_json ctx) (rwa_target_fields @ [lit ''quantity''])) \<and>
     sameFields (rwa_context_json ctx) limits rwa_target_fields \<and>
     (\<exists>t. timestamp legacy (rec_claim_valid_until ctx) = Inr t \<and> now < t) \<and>
     sum_within (u_quantity u) (rec_quantity ctx) (String (jget limits (lit ''max_quantity''))) \<and>
     sum_within (rec_current_supply ctx) (rec_quantity ctx) (rec_reserve ctx) \<and>
     (\<forall>m. rec_maximum_supply ctx = Some m \<and> m \<noteq> [] \<longrightarrow> sum_within (rec_current_supply ctx) (rec_quantity ctx) m) \<and>
     (supply_known \<longrightarrow> dec_same (u_minted_supply u) (rec_current_supply ctx)) \<and>
     \<not> num_less (rec_approval_count ctx) (Number (jget limits (lit ''minimum_approvals''))) \<and>
     set (stringArray (jget limits (lit ''required_roles''))) \<subseteq> set (rec_approval_roles ctx) \<and>
     \<not> (strict_eq_opt (jget limits (lit ''one_time'')) (Some (JBool True)) \<and> u_consumed u)"

text \<open>The decimals the usage is accounted in can be read.\<close>

definition accountable :: "EvaluationRequest \<Rightarrow> Usage \<Rightarrow> Delta \<Rightarrow> bool" where
  "accountable request u d \<longleftrightarrow>
     isDecimal (u_amount u) \<and> isDecimal (d_amount d) \<and> isDecimal (u_quantity u) \<and> isDecimal (d_quantity d) \<and>
     (\<forall>r. er_rwa request = Some r \<longrightarrow> isDecimal (rec_current_supply r) \<and> isDecimal (rec_quantity r))"

definition authorised :: "legacy_dates \<Rightarrow> EvaluationRequest \<Rightarrow> int \<Rightarrow> bool" where
  "authorised legacy request now \<longleftrightarrow>
     (let m = er_mandate request; e = er_envelope request;
          u = normalizedUsage (er_usage request); d = effectiveConsumption request in
      within_mandate legacy m e now \<and>
      (case er_parent_mandate request of
         Some p \<Rightarrow> delegated_by legacy m p (or_else (er_delegation_depth request) (Fin 1)) now
       | None \<Rightarrow> man_parent_mandate m \<in> {None, Some []}) \<and>
      checkConsumptionContext request d [] = Inr [] \<and>
      within_limits m u d \<and>
      (er_commerce request \<noteq> None \<or> man_profile m = Some COMMERCE_PROFILE \<longrightarrow>
         (\<exists>ctx limits. er_commerce request = Some ctx \<and> objectAt (man_extensions m) (lit ''commerce'') = Some limits \<and>
            within_commerce limits e ctx u)) \<and>
      (er_rwa request \<noteq> None \<or> man_profile m = Some RWA_PROFILE \<longrightarrow>
         (\<exists>ctx limits. er_rwa request = Some ctx \<and> objectAt (man_extensions m) (lit ''rwa'') = Some limits \<and>
            within_rwa legacy limits e ctx u (us_minted_supply (er_usage request) \<noteq> None) now)) \<and>
      accountable request u d)"

section \<open>The checks decide the specification\<close>

lemma accepts_childMandate [accepts_simps]:
  "checkChildMandate legacy child parent depth now [] = Inr [] \<longleftrightarrow> delegated_by legacy child parent depth now"
proof -
  have w: "(\<exists>s x. timestamp legacy (man_not_before parent) = Inr s \<and> timestamp legacy (man_expires_at parent) = Inr x \<and>
        s \<le> now \<and> now < x) \<longleftrightarrow> (\<exists>s x. window legacy parent = Some (s, x) \<and> s \<le> now \<and> now < x)"
    by (auto simp: window_def split: sum.splits)
  show ?thesis
    unfolding accepts_checkChildMandate delegated_by_def w accepts_checkProfileSubset by auto
qed

lemma accepts_checkMandate [accepts_simps]:
  "checkMandate legacy request now [] = Inr [] \<longleftrightarrow>
     within_mandate legacy (er_mandate request) (er_envelope request) now \<and>
     (case er_parent_mandate request of
        Some p \<Rightarrow> delegated_by legacy (er_mandate request) p (or_else (er_delegation_depth request) (Fin 1)) now
      | None \<Rightarrow> man_parent_mandate (er_mandate request) \<in> {None, Some []})"
proof -
  let ?m = "er_mandate request"
  have w: "mapR (\<lambda>t. now < t) (timestamp legacy (man_not_before ?m)) = Inr False \<and>
      mapR (\<lambda>t. t \<le> now) (timestamp legacy (man_expires_at ?m)) = Inr False
      \<longleftrightarrow> (\<exists>s x. window legacy ?m = Some (s, x) \<and> s \<le> now \<and> now < x)"
    by (auto simp: window_def exn_iff not_less not_le split: sum.splits)
  show ?thesis unfolding within_mandate_def covers_def mem_Collect_eq case_prod_conv w [symmetric]
    by (cases "er_parent_mandate request")
      (auto simp: checkMandate_def Let_def accepted_runAll grows_rules accepts_simps simp del: runAll_Cons)
qed

lemma accepts_checkConsumption [accepts_simps]:
  "checkConsumption m u d [] = Inr [] \<longleftrightarrow> within_limits m u d"
  unfolding checkConsumption_def within_limits_def Let_def
  by (subst accepted_runAll)
    (auto simp: grows_rules accepts_simps accepted_runAll sum_within_guard simp del: runAll_Cons split: option.splits if_splits)

lemma strict_eq_opt_JStr: "strict_eq_opt (Some (JStr s)) v \<longleftrightarrow> v = Some (JStr s)"
  by (cases v) auto

lemma accepts_checkCommerce [accepts_simps]:
  "checkCommerce m e (Some ctx) u [] = Inr [] \<longleftrightarrow>
     (\<exists>limits. objectAt (man_extensions m) (lit ''commerce'') = Some limits \<and> within_commerce limits e ctx u)"
  by (cases "objectAt (man_extensions m) (lit ''commerce'')")
    (auto simp: checkCommerce_def within_commerce_def accepted_runAll grows_rules accepts_simps dec_within_guard
      sum_within_guard product_guard strict_eq_opt_JStr simp del: runAll_Cons)

lemma accepts_checkCommerce_None [simp]: "checkCommerce m e None u [] \<noteq> Inr []"
  by (simp add: checkCommerce_def accepts_simps)

lemma accepts_checkRwa [accepts_simps]:
  "checkRwa legacy m e (Some ctx) u known now [] = Inr [] \<longleftrightarrow>
     (\<exists>limits. objectAt (man_extensions m) (lit ''rwa'') = Some limits \<and> within_rwa legacy limits e ctx u known now)"
proof (cases "objectAt (man_extensions m) (lit ''rwa'')")
  case (Some limits)
  have t: "mapR (\<lambda>t. t \<le> now) (timestamp legacy s) = Inr False \<longleftrightarrow> (\<exists>t. timestamp legacy s = Inr t \<and> now < t)" for s
    by (auto simp: exn_iff)
  show ?thesis using Some
    by (auto simp: checkRwa_def within_rwa_def Let_def accepted_runAll grows_rules accepts_simps sum_within_guard
      dec_same_guard t list_all_iff simp del: runAll_Cons split: option.splits)
qed (simp add: checkRwa_def accepts_simps)

lemma accepts_checkRwa_None [simp]: "checkRwa legacy m e None u known now [] \<noteq> Inr []"
  by (simp add: checkRwa_def accepts_simps)

lemma addDecimal_defined: "(\<exists>t. addDecimal a b = Inr t) \<longleftrightarrow> isDecimal a \<and> isDecimal b"
  using addDecimal_value [of a b] addDecimal_Inr [of a b] by blast

lemma bindE_defined: "(\<exists>n. bindE m f = Inr n) \<longleftrightarrow> (\<exists>a. m = Inr a \<and> (\<exists>n. f a = Inr n))"
  by (cases m) auto

lemma applyConsumption_defined:
  "(\<exists>n. applyConsumption u d request = Inr n) \<longleftrightarrow> accountable request u d"
  by (cases "er_rwa request") (simp_all add: accountable_def applyConsumption_def bindE_defined addDecimal_defined conj_ac)

lemma accepts_checkAll:
  "checkAll legacy request now [] = Inr [] \<and> (\<exists>n. applyConsumption (normalizedUsage (er_usage request))
     (effectiveConsumption request) request = Inr n) \<longleftrightarrow> authorised legacy request now"
  unfolding applyConsumption_defined authorised_def checkAll_def Let_def
  by (subst accepted_runAll)
    (cases "er_commerce request"; cases "er_rwa request"; auto simp: grows_rules accepts_simps)+

lemma evaluate_cases:
  "evaluateAuthority legacy request = Inr r \<longleftrightarrow>
     (\<exists>now rs n. timestamp legacy (er_evaluation_time request) = Inr now \<and> checkAll legacy request now [] = Inr rs \<and>
        (if rs = [] then applyConsumption (normalizedUsage (er_usage request)) (effectiveConsumption request) request
         else Inr (normalizedUsage (er_usage request))) = Inr n \<and>
        r = \<lparr>res_oati_version = version_1_0, res_decision = (if rs = [] then Allow else Deny),
             res_mandate_id = man_id (er_mandate request), res_transaction_id = env_id (er_envelope request),
             res_reason_codes = sort rs, res_next_usage = snapshot_of n\<rparr>)"
proof -
  have "sort rs = [] \<longleftrightarrow> rs = []" for rs :: reasons by (metis length_0_conv length_sort)
  then show ?thesis by (auto simp: evaluateAuthority_def Let_def exn_iff)
qed

lemma evaluate_allow:
  "(\<exists>r. evaluateAuthority legacy request = Inr r \<and> res_decision r = Allow) \<longleftrightarrow>
     (\<exists>now. timestamp legacy (er_evaluation_time request) = Inr now \<and> authorised legacy request now)"
  unfolding accepts_checkAll [symmetric] evaluate_cases by (auto split: if_splits)

lemma evaluate_allow_next:
  assumes "evaluateAuthority legacy request = Inr r" and "res_decision r = Allow"
  shows "\<exists>n. applyConsumption (normalizedUsage (er_usage request)) (effectiveConsumption request) request = Inr n \<and>
     res_next_usage r = snapshot_of n"
  using assms by (auto simp: evaluate_cases split: if_splits)

end
