(* ===== verification/Accounting.thy ===== *)
theory Accounting
  imports Authority
begin

text \<open>
  Usage over a sequence of evaluations.  \<open>trace\<close> is a run of a step relation with the log of
  its entries; \<open>evaluated\<close> is one call of \<^verbatim>\<open>evaluateAuthority\<close> for a fixed Mandate whose
  \<^verbatim>\<open>next_usage\<close> becomes the usage of the next call, the way the middleware and the reference
  service keep it.  Three locales hold what a run preserves: a meter that every entry
  charges, a cap on such a meter and a register of spent tokens.
\<close>

section \<open>Runs\<close>

inductive trace :: "('s \<Rightarrow> 'q \<Rightarrow> 's \<Rightarrow> bool) \<Rightarrow> 's \<Rightarrow> 'q list \<Rightarrow> 's \<Rightarrow> bool"
  for step :: "'s \<Rightarrow> 'q \<Rightarrow> 's \<Rightarrow> bool" where
  trace_Nil: "trace step s [] s"
| trace_snoc: "trace step s qs t \<Longrightarrow> step t q u \<Longrightarrow> trace step s (qs @ [q]) u"

inductive_cases trace_NilE: "trace step s [] t"
inductive_cases trace_snocE: "trace step s (qs @ [q]) u"

lemma trace_one: "step s q t \<Longrightarrow> trace step s [q] t"
  using trace_snoc [OF trace_Nil, of step s q t] by simp

lemma trace_mono: "trace step s qs t \<Longrightarrow> (\<And>s q t. step s q t \<Longrightarrow> step' s q t) \<Longrightarrow> trace step' s qs t"
  by (induction rule: trace.induct) (auto intro: trace.intros)

lemma trace_last: "trace step s (qs @ [q]) t \<Longrightarrow> \<exists>u. trace step s qs u \<and> step u q t"
  by (erule trace_snocE) auto

locale metered =
  fixes step :: "'s \<Rightarrow> 'q \<Rightarrow> 's \<Rightarrow> bool" and reading :: "'s \<Rightarrow> rat" and charge :: "'q \<Rightarrow> rat"
  assumes step_charges: "step s q t \<Longrightarrow> reading t = reading s + charge q"
begin

lemma run_charges: "trace step s qs t \<Longrightarrow> reading t = reading s + sum_list (map charge qs)"
  by (induction rule: trace.induct) (auto dest: step_charges)

end

locale capped = metered step reading charge
  for step :: "'s \<Rightarrow> 'q \<Rightarrow> 's \<Rightarrow> bool" and reading :: "'s \<Rightarrow> rat" and charge :: "'q \<Rightarrow> rat" +
  fixes cap :: "rat option"
  assumes step_capped: "step s q t \<Longrightarrow> cap = Some c \<Longrightarrow> reading s \<le> c \<Longrightarrow> reading t \<le> c"
begin

lemma run_capped: "trace step s qs t \<Longrightarrow> cap = Some c \<Longrightarrow> reading s \<le> c \<Longrightarrow> reading t \<le> c"
  by (induction rule: trace.induct) (auto dest: step_capped)

lemma total_charge_capped:
  "trace step s qs t \<Longrightarrow> cap = Some c \<Longrightarrow> reading s \<le> c \<Longrightarrow> reading s + sum_list (map charge qs) \<le> c"
  using run_capped run_charges by fastforce

end

locale token_register =
  fixes step :: "'s \<Rightarrow> 'q \<Rightarrow> 's \<Rightarrow> bool" and spent :: "'s \<Rightarrow> 'k set" and tokens :: "'q \<Rightarrow> 'k list"
  assumes step_spends: "step s q t \<Longrightarrow> spent t = spent s \<union> set (tokens q)"
    and step_fresh: "step s q t \<Longrightarrow> distinct (tokens q) \<and> set (tokens q) \<inter> spent s = {}"
begin

lemma run_spends: "trace step s qs t \<Longrightarrow> spent t = spent s \<union> set (concat (map tokens qs))"
  by (induction rule: trace.induct) (auto dest: step_spends)

lemma run_fresh: "trace step s qs t \<Longrightarrow> distinct (concat (map tokens qs)) \<and> set (concat (map tokens qs)) \<inter> spent s = {}"
proof (induction rule: trace.induct)
  case (trace_snoc s qs t q u)
  from step_fresh [OF trace_snoc.hyps(2)] run_spends [OF trace_snoc.hyps(1)] trace_snoc.IH
  show ?case by auto
qed simp

end

section \<open>Evaluations as steps\<close>

definition evaluated ::
  "legacy_dates \<Rightarrow> AgentMandate \<Rightarrow> UsageSnapshot \<Rightarrow> EvaluationRequest \<times> decision_kind \<Rightarrow> UsageSnapshot \<Rightarrow> bool" where
  "evaluated legacy m v qd v' \<longleftrightarrow> er_mandate (fst qd) = m \<and> er_usage (fst qd) = v \<and>
     (\<exists>r. evaluateAuthority legacy (fst qd) = Inr r \<and> res_decision r = snd qd \<and> res_next_usage r = v')"

text \<open>What an entry of the log charges: nothing unless it was allowed.\<close>

definition charged :: "(Delta \<Rightarrow> rat) \<Rightarrow> EvaluationRequest \<times> decision_kind \<Rightarrow> rat" where
  "charged f qd = (if snd qd = Allow then f (effectiveConsumption (fst qd)) else 0)"

definition amount_of :: "UsageSnapshot \<Rightarrow> rat" where
  "amount_of v = dec_val (u_amount (normalizedUsage v))"

definition quantity_of :: "UsageSnapshot \<Rightarrow> rat" where
  "quantity_of v = dec_val (u_quantity (normalizedUsage v))"

definition spent_keys :: "UsageSnapshot \<Rightarrow> jstring set" where
  "spent_keys v = set (u_idempotency_keys (normalizedUsage v)) - {[]}"

definition key_of :: "EvaluationRequest \<times> decision_kind \<Rightarrow> jstring list" where
  "key_of qd = (let k = d_idempotency_key (effectiveConsumption (fst qd)) in if snd qd = Allow \<and> k \<noteq> [] then [k] else [])"

lemma normalizedUsage_snapshot:
  "normalizedUsage (snapshot_of u) = u\<lparr>u_idempotency_keys := sort (u_idempotency_keys u)\<rparr>"
  by (simp add: normalizedUsage_def snapshot_of_def)

lemma normalizedUsage_fields [simp]:
  "u_amount (normalizedUsage (snapshot_of u)) = u_amount u"
  "u_quantity (normalizedUsage (snapshot_of u)) = u_quantity u"
  "u_calls (normalizedUsage (snapshot_of u)) = u_calls u"
  "u_consumed (normalizedUsage (snapshot_of u)) = u_consumed u"
  "u_minted_supply (normalizedUsage (snapshot_of u)) = u_minted_supply u"
  "set (u_idempotency_keys (normalizedUsage (snapshot_of u))) = set (u_idempotency_keys u)"
  by (simp_all add: normalizedUsage_snapshot)

lemma applyConsumption_Inr:
  assumes "applyConsumption u d request = Inr n"
  shows "dec_val (u_amount n) = dec_val (u_amount u) + dec_val (d_amount d)"
    and "dec_val (u_quantity n) = dec_val (u_quantity u) + dec_val (d_quantity d)"
    and "u_calls n = num_add (u_calls u) (d_calls d)"
    and "u_consumed n \<longleftrightarrow> u_consumed u \<or> d_consume d"
    and "set (u_idempotency_keys n) = set (u_idempotency_keys u) \<union> ({d_idempotency_key d} - {[]})"
    and "er_rwa request = Some c \<Longrightarrow> dec_val (u_minted_supply n) = dec_val (rec_current_supply c) + dec_val (rec_quantity c)"
  using assms addDecimal_Inr by (auto simp: applyConsumption_def exn_iff split: option.splits if_splits)

lemma evaluated_Allow:
  assumes "evaluated legacy m v (q, Allow) v'"
  obtains now n where "er_mandate q = m" "er_usage q = v" "authorised legacy q now"
    "timestamp legacy (er_evaluation_time q) = Inr now"
    "applyConsumption (normalizedUsage v) (effectiveConsumption q) q = Inr n" "v' = snapshot_of n"
proof -
  from assms obtain r where r: "er_mandate q = m" "er_usage q = v" "evaluateAuthority legacy q = Inr r"
      "res_decision r = Allow" "res_next_usage r = v'"
    by (auto simp: evaluated_def)
  from evaluate_allow_next [OF r(3,4)] evaluate_allow [of legacy q] r that show thesis by auto
qed

lemma evaluated_other:
  "evaluated legacy m v (q, k) v' \<Longrightarrow> k \<noteq> Allow \<Longrightarrow> v' = snapshot_of (normalizedUsage v)"
  by (auto simp: evaluated_def evaluate_cases split: if_splits)

lemma authorised_limits:
  "authorised legacy q now \<Longrightarrow> within_limits (er_mandate q) (normalizedUsage (er_usage q)) (effectiveConsumption q)"
  by (simp add: authorised_def Let_def)

lemma evaluated_limits:
  assumes "evaluated legacy m v (q, Allow) v'"
  shows "within_limits m (normalizedUsage v) (effectiveConsumption q)"
  using assms by (elim evaluated_Allow) (auto dest: authorised_limits)

interpretation amounts: metered "evaluated legacy m" amount_of "charged (\<lambda>d. dec_val (d_amount d))" for legacy m
proof unfold_locales
  fix s qd t assume e: "evaluated legacy m s qd t"
  obtain q k where qd: "qd = (q, k)" by (cases qd)
  show "amount_of t = amount_of s + charged (\<lambda>d. dec_val (d_amount d)) qd"
    using e evaluated_other [of legacy m s q k t]
    by (cases "k = Allow") (auto simp: qd charged_def amount_of_def applyConsumption_Inr elim!: evaluated_Allow)
qed

interpretation quantities: metered "evaluated legacy m" quantity_of "charged (\<lambda>d. dec_val (d_quantity d))" for legacy m
proof unfold_locales
  fix s qd t assume e: "evaluated legacy m s qd t"
  obtain q k where qd: "qd = (q, k)" by (cases qd)
  show "quantity_of t = quantity_of s + charged (\<lambda>d. dec_val (d_quantity d)) qd"
    using e evaluated_other [of legacy m s q k t]
    by (cases "k = Allow") (auto simp: qd charged_def quantity_of_def applyConsumption_Inr elim!: evaluated_Allow)
qed

interpretation keys: token_register "evaluated legacy m" spent_keys key_of for legacy m
proof unfold_locales
  fix s qd t assume e: "evaluated legacy m s qd t"
  obtain q k where qd: "qd = (q, k)" by (cases qd)
  show "spent_keys t = spent_keys s \<union> set (key_of qd)"
    using e evaluated_other [of legacy m s q k t]
    by (cases "k = Allow") (auto simp: qd key_of_def spent_keys_def applyConsumption_Inr Let_def elim!: evaluated_Allow)
  show "distinct (key_of qd) \<and> set (key_of qd) \<inter> spent_keys s = {}"
    using e evaluated_limits [of legacy m s q t]
    by (cases "k = Allow") (auto simp: qd key_of_def spent_keys_def within_limits_def Let_def)
qed

section \<open>Caps\<close>

text \<open>
  The caps a Mandate puts on its cumulative amount and quantity: the budget and quantity of its
  limits, the total of its commerce terms and the quantity of its RWA terms.
\<close>

definition budget_cap :: "AgentMandate \<Rightarrow> rat option" where
  "budget_cap m = map_option dec_val (as_string (jget (or_else (man_limits m) []) (lit ''max_total'')))"

definition commerce_cap :: "AgentMandate \<Rightarrow> rat option" where
  "commerce_cap m = (if man_profile m = Some COMMERCE_PROFILE
     then map_option (\<lambda>limits. dec_val (String (jget limits (lit ''max_total'')))) (objectAt (man_extensions m) (lit ''commerce''))
     else None)"

definition quantity_cap :: "AgentMandate \<Rightarrow> rat option" where
  "quantity_cap m = (let q = jget (or_else (man_limits m) []) (lit ''max_quantity'') in
     if man_profile m = None \<and> (is_string q \<or> is_number q) then Some (dec_val (String q)) else None)"

lemma amount_after:
  assumes "evaluated legacy m s (q, Allow) t"
  shows "amount_of t = amount_of s + dec_val (d_amount (effectiveConsumption q))"
  using amounts.step_charges [OF assms] by (simp add: charged_def)

lemma quantity_after:
  assumes "evaluated legacy m s (q, Allow) t"
  shows "quantity_of t = quantity_of s + dec_val (d_quantity (effectiveConsumption q))"
  using quantities.step_charges [OF assms] by (simp add: charged_def)

lemma reading_unless_allowed:
  assumes "evaluated legacy m s (q, k) t" and "k \<noteq> Allow"
  shows "amount_of t = amount_of s" and "quantity_of t = quantity_of s"
  using amounts.step_charges [OF assms(1)] quantities.step_charges [OF assms(1)] assms(2) by (simp_all add: charged_def)

lemma evaluated_commerce:
  assumes "evaluated legacy m s (q, Allow) t" and "man_profile m = Some COMMERCE_PROFILE"
  obtains ctx limits where "er_commerce q = Some ctx" "objectAt (man_extensions m) (lit ''commerce'') = Some limits"
    "within_commerce limits (er_envelope q) ctx (normalizedUsage s)"
  using assms by (auto elim!: evaluated_Allow simp: authorised_def Let_def)

interpretation budget: capped "evaluated legacy m" amount_of "charged (\<lambda>d. dec_val (d_amount d))" "budget_cap m" for legacy m
proof unfold_locales
  fix s qd t c assume e: "evaluated legacy m s qd t" and c: "budget_cap m = Some c" and s: "amount_of s \<le> c"
  obtain q k where qd: "qd = (q, k)" by (cases qd)
  show "amount_of t \<le> c"
  proof (cases "k = Allow")
    case True
    with e qd have e': "evaluated legacy m s (q, Allow) t" by simp
    from evaluated_limits [OF this] c s amount_after [OF e'] show ?thesis
      by (cases "d_amount (effectiveConsumption q) = lit ''0''")
        (auto simp: within_limits_def budget_cap_def sum_within_def amount_of_def)
  qed (use e qd s reading_unless_allowed in simp)
qed

interpretation commerce_budget: capped "evaluated legacy m" amount_of "charged (\<lambda>d. dec_val (d_amount d))" "commerce_cap m"
  for legacy m
proof unfold_locales
  fix s qd t c assume e: "evaluated legacy m s qd t" and c: "commerce_cap m = Some c" and s: "amount_of s \<le> c"
  obtain q k where qd: "qd = (q, k)" by (cases qd)
  from c have p: "man_profile m = Some COMMERCE_PROFILE" by (auto simp: commerce_cap_def split: if_splits)
  show "amount_of t \<le> c"
  proof (cases "k = Allow")
    case True
    with e qd have e': "evaluated legacy m s (q, Allow) t" by simp
    obtain ctx limits where w: "er_commerce q = Some ctx" "objectAt (man_extensions m) (lit ''commerce'') = Some limits"
        "within_commerce limits (er_envelope q) ctx (normalizedUsage s)"
      using evaluated_commerce [OF e' p] .
    then have "d_amount (effectiveConsumption q) = cec_total_amount ctx"
      by (simp add: effectiveConsumption_def Let_def or_else_def)
    with w c p amount_after [OF e'] show ?thesis
      by (simp add: commerce_cap_def within_commerce_def sum_within_def amount_of_def)
  qed (use e qd s reading_unless_allowed in simp)
qed

interpretation quantity_limit: capped "evaluated legacy m" quantity_of "charged (\<lambda>d. dec_val (d_quantity d))" "quantity_cap m"
  for legacy m
proof unfold_locales
  fix s qd t c assume e: "evaluated legacy m s qd t" and c: "quantity_cap m = Some c" and s: "quantity_of s \<le> c"
  obtain q k where qd: "qd = (q, k)" by (cases qd)
  show "quantity_of t \<le> c"
  proof (cases "k = Allow")
    case True
    with e qd have e': "evaluated legacy m s (q, Allow) t" by simp
    from evaluated_limits [OF this] c quantity_after [OF e'] show ?thesis
      by (auto simp: within_limits_def quantity_cap_def sum_within_def quantity_of_def Let_def split: if_splits)
  qed (use e qd s reading_unless_allowed in simp)
qed

section \<open>One-time Mandates\<close>

definition one_time :: "AgentMandate \<Rightarrow> bool" where
  "one_time m \<longleftrightarrow> truthy (jget_opt (objectAt (man_extensions m) (lit ''rwa'')) (lit ''one_time'')) \<or>
     truthy (jget_opt (man_limits m) (lit ''one_time''))"

definition consumed_tokens :: "UsageSnapshot \<Rightarrow> unit set" where
  "consumed_tokens v = (if u_consumed (normalizedUsage v) then {()} else {})"

definition consuming :: "EvaluationRequest \<times> decision_kind \<Rightarrow> unit list" where
  "consuming qd = (if snd qd = Allow \<and> d_consume (effectiveConsumption (fst qd)) then [()] else [])"

interpretation consumption: token_register "evaluated legacy m" consumed_tokens consuming for legacy m
proof unfold_locales
  fix s qd t assume e: "evaluated legacy m s qd t"
  obtain q k where qd: "qd = (q, k)" by (cases qd)
  show "consumed_tokens t = consumed_tokens s \<union> set (consuming qd)"
    using e evaluated_other [of legacy m s q k t]
    by (cases "k = Allow") (auto simp: qd consuming_def consumed_tokens_def applyConsumption_Inr elim!: evaluated_Allow)
  show "distinct (consuming qd) \<and> set (consuming qd) \<inter> consumed_tokens s = {}"
    using e evaluated_limits [of legacy m s q t]
    by (cases "k = Allow") (auto simp: qd consuming_def consumed_tokens_def within_limits_def)
qed

lemma one_time_consumes: "one_time (er_mandate q) \<Longrightarrow> consuming (q, Allow) = [()]"
  by (auto simp: one_time_def consuming_def effectiveConsumption_def Let_def)

lemma distinct_units: "distinct (xs :: unit list) \<Longrightarrow> length xs \<le> 1"
  by (cases xs; cases "tl xs") auto

lemma trace_entries: "trace (evaluated legacy m) s qs t \<Longrightarrow> (q, k) \<in> set qs \<Longrightarrow> er_mandate q = m"
  by (induction rule: trace.induct) (auto simp: evaluated_def)

definition allowed_entries :: "(EvaluationRequest \<times> decision_kind) list \<Rightarrow> EvaluationRequest list" where
  "allowed_entries qs = map fst (filter (\<lambda>qd. snd qd = Allow) qs)"

lemma one_time_tokens:
  "one_time m \<Longrightarrow> \<forall>(q, k) \<in> set qs. er_mandate q = m \<Longrightarrow>
     length (concat (map consuming qs)) = length (allowed_entries qs)"
  by (induction qs) (auto simp: allowed_entries_def one_time_consumes, auto simp: consuming_def)

section \<open>Tokenised supply\<close>

definition supply_of :: "UsageSnapshot \<Rightarrow> rat" where
  "supply_of v = dec_val (u_minted_supply (normalizedUsage v))"

definition minted :: "EvaluationRequest \<times> decision_kind \<Rightarrow> rat" where
  "minted qd = (case er_rwa (fst qd) of Some c \<Rightarrow> if snd qd = Allow then dec_val (rec_quantity c) else 0 | None \<Rightarrow> 0)"

text \<open>An evaluation whose usage tracks the supply.\<close>

definition tracked ::
  "legacy_dates \<Rightarrow> AgentMandate \<Rightarrow> UsageSnapshot \<Rightarrow> EvaluationRequest \<times> decision_kind \<Rightarrow> UsageSnapshot \<Rightarrow> bool" where
  "tracked legacy m v qd v' \<longleftrightarrow> evaluated legacy m v qd v' \<and> us_minted_supply v \<noteq> None"

lemma evaluated_rwa:
  assumes "evaluated legacy m s (q, Allow) t" and "er_rwa q = Some ctx"
  obtains limits now where "objectAt (man_extensions m) (lit ''rwa'') = Some limits"
    "within_rwa legacy limits (er_envelope q) ctx (normalizedUsage s) (us_minted_supply s \<noteq> None) now"
  using assms by (auto elim!: evaluated_Allow simp: authorised_def Let_def)

lemma supply_after:
  assumes "evaluated legacy m s (q, Allow) t"
  shows "er_rwa q = Some ctx \<Longrightarrow> supply_of t = dec_val (rec_current_supply ctx) + dec_val (rec_quantity ctx)"
    and "er_rwa q = None \<Longrightarrow> supply_of t = supply_of s"
  using assms by (auto elim!: evaluated_Allow simp: supply_of_def applyConsumption_Inr)
    (auto simp: applyConsumption_def exn_iff split: option.splits)

interpretation minting: metered "tracked legacy m" supply_of minted for legacy m
proof unfold_locales
  fix s qd t assume "tracked legacy m s qd t"
  then have e: "evaluated legacy m s qd t" and k: "us_minted_supply s \<noteq> None" by (auto simp: tracked_def)
  obtain q d where qd: "qd = (q, d)" by (cases qd)
  show "supply_of t = supply_of s + minted qd"
  proof (cases "d = Allow")
    case True
    with e qd have e': "evaluated legacy m s (q, Allow) t" by simp
    show ?thesis
    proof (cases "er_rwa q")
      case (Some ctx)
      from evaluated_rwa [OF e' Some] k have "dec_same (u_minted_supply (normalizedUsage s)) (rec_current_supply ctx)"
        by (auto simp: within_rwa_def)
      with supply_after(1) [OF e' Some] show ?thesis
        by (simp add: supply_of_def minted_def qd Some True dec_same_def)
    qed (use supply_after(2) [OF e'] in \<open>simp add: minted_def qd\<close>)
  next
    case False
    with e qd evaluated_other [of legacy m s q d t] show ?thesis by (simp add: supply_of_def minted_def split: option.split)
  qed
qed

section \<open>Call counters\<close>

definition calls_of :: "UsageSnapshot \<Rightarrow> jsnum" where
  "calls_of v = u_calls (normalizedUsage v)"

lemma calls_after:
  assumes "evaluated legacy m s (q, k) t"
  shows "calls_of t = (if k = Allow then num_add (calls_of s) (d_calls (effectiveConsumption q)) else calls_of s)"
  using assms evaluated_other [OF assms]
  by (cases "k = Allow") (auto elim!: evaluated_Allow simp: calls_of_def applyConsumption_Inr)

text \<open>The calls a request asks for, when it is an integer small enough for exact counting.\<close>

definition counts :: "EvaluationRequest \<Rightarrow> int \<Rightarrow> bool" where
  "counts q k \<longleftrightarrow> d_calls (effectiveConsumption q) = num_of_int k \<and> 1 \<le> k \<and> k \<le> 2 ^ 52"

lemma counter_step:
  assumes e: "evaluated legacy m s (q, Allow) t" and c: "calls_of s = num_of_int n" "0 \<le> n" "n \<le> M" "M \<le> 2 ^ 52"
    and lim: "jget (or_else (man_limits m) []) (lit ''max_calls'') = Some (JNum (num_of_int M))" and k: "counts q k"
  shows "calls_of t = num_of_int (n + k)" and "n + k \<le> M"
proof -
  have "\<bar>n + k\<bar> \<le> 2 ^ 53" using c k by (simp add: counts_def)
  then have add: "num_add (num_of_int n) (num_of_int k) = num_of_int (n + k)" by (rule num_add_of_int)
  then show "calls_of t = num_of_int (n + k)" using calls_after [OF e] c k by (simp add: counts_def)
  from evaluated_limits [OF e] lim c(1) k add show "n + k \<le> M"
    by (auto simp: within_limits_def calls_of_def counts_def)
qed

lemma counter_run:
  assumes "trace (evaluated legacy m) s qs t"
    and "jget (or_else (man_limits m) []) (lit ''max_calls'') = Some (JNum (num_of_int M))" and "M \<le> 2 ^ 52"
    and "calls_of s = num_of_int n" and "0 \<le> n" and "n \<le> M" and "\<forall>q \<in> set (allowed_entries qs). \<exists>k. counts q k"
  shows "\<exists>n'. calls_of t = num_of_int n' \<and> n + int (length (allowed_entries qs)) \<le> n' \<and> n' \<le> M"
  using assms
proof (induction rule: trace.induct)
  case (trace_snoc s qs t qd u)
  obtain q d where qd: "qd = (q, d)" by (cases qd)
  have "set (allowed_entries qs) \<subseteq> set (allowed_entries (qs @ [qd]))" by (auto simp: allowed_entries_def)
  with trace_snoc obtain n' where n': "calls_of t = num_of_int n'" "n + int (length (allowed_entries qs)) \<le> n'" "n' \<le> M"
    by blast
  show ?case
  proof (cases "d = Allow")
    case True
    then obtain k where k: "counts q k" using trace_snoc.prems(6) qd by (auto simp: allowed_entries_def)
    have e: "evaluated legacy m t (q, Allow) u" using trace_snoc.hyps(2) qd True by simp
    have "0 \<le> n'" using n'(2) trace_snoc.prems(4) by linarith
    from counter_step [OF e n'(1) this n'(3) trace_snoc.prems(2,1) k] k n'(2) show ?thesis
      by (auto simp: allowed_entries_def qd True counts_def)
  qed (use n' calls_after [of legacy m t q d u] trace_snoc.hyps(2) qd in \<open>auto simp: allowed_entries_def\<close>)
qed (auto simp: allowed_entries_def)

end
