(* ===== verification/Samples.thy ===== *)
theory Samples
  imports Accounting
begin

text \<open>
  Concrete Mandates, Envelopes and requests, and the bundles of defining equations with which
  the simplifier runs the evaluator on them inside the kernel.  The properties of the other
  theories are instantiated at these objects.
\<close>

section \<open>Evaluation\<close>

lemma digits_of_step:
  "n < 10 \<Longrightarrow> digits_of n = [digit_unit n]"
  "\<not> n < 10 \<Longrightarrow> digits_of n = digits_of (n div 10) @ [digit_unit (n mod 10)]"
  by (simp_all add: digits_of.simps [of n])

lemmas parse_eval = parseDecimal_def isDecimal_def split_decimal_def digits_val_def digit_val_def lit_def is_digit_def Let_def

lemmas format_eval = align_def formatDecimal_def int_to_string_def digits_of_step padStart_def slice_upto_neg_def
  slice_from_neg_def digit_unit_def lit_def Let_def

lemmas decimal_ops = compareDecimal_def addDecimal_def multiplyDecimal_def bindE_simps

lemmas date_eval = timestamp_def Date_parse_def iso_parse_def field_def lit_def is_digit_def digits_val_def digit_val_def
  days_in_month_def iso_offset_def days_from_civil_def Let_def leap_year_def

lemmas evaluator_eval = evaluateAuthority_def checkAll_def checkMandate_def checkChildMandate_def checkSetConstraint_def
  checkConsumptionContext_def checkConsumption_def checkProfileSubset_def checkCommerce_def checkRwa_def
  commerce_envelope_mismatch_def rwa_context_json_def rwa_target_fields_def commerce_context_json_def sameFields_def
  sameMappedFields_def applyConsumption_def effectiveConsumption_def normalizedUsage_def snapshot_of_def addWhen_def
  addWhenE_def no_consumption_def or_else_def objectAt_def jget_opt_def jget_def constrainedSubset_def subset_def
  narrowerObject_def stringArray_def map_filter_def String_def Number_def Let_def COMMERCE_PROFILE_def RWA_PROFILE_def

lemma fl_small: "fl 0 = Fin 0" "fl 1 = Fin 1" "fl 2 = Fin 2"
  using fl_of_int_exact [of 0] fl_of_int_exact [of 1] fl_of_int_exact [of 2] by simp_all

lemma pos_to_string_small: "pos_to_string 1 = lit ''1''" "pos_to_string 2 = lit ''2''"
  using num_to_string_of_int [of 1] num_to_string_of_int [of 2]
  by (simp_all add: num_of_int_def digits_of_step digit_unit_def lit_def int_to_string_def)

section \<open>Objects\<close>

definition sample_mandate :: AgentMandate where
  "sample_mandate =
    \<lparr>man_oati_version = (lit ''1.0''), man_id = (lit ''mandate-1''), man_issuer = (lit ''org-1''),
     man_subject = (lit ''agent-1''), man_sponsor = None, man_parent_mandate = None, man_purpose = (lit ''travel''),
     man_actions = [(lit ''forecast.read'')], man_resources = (Some [(lit ''forecast'')]), man_counterparties = None,
     man_destinations = None, man_limits = (Some [((lit ''max_total''), (JStr (lit ''1.00''))), ((lit ''currency''),
     (JStr (lit ''EUR''))), ((lit ''max_calls''), (JNum (Fin (2))))]), man_data_use = None,
     man_delegation = (Some \<lparr>allowed = True, max_depth = (Fin (2))\<rparr>),
     man_not_before = (lit ''2026-01-01T00:00:00Z''), man_expires_at = (lit ''2026-01-02T00:00:00Z''),
     man_status = Active, man_profile = None, man_extensions = None, man_proof = None\<rparr>"

definition sample_child :: AgentMandate where
  "sample_child =
    \<lparr>man_oati_version = (lit ''1.0''), man_id = (lit ''mandate-2''), man_issuer = (lit ''org-1''),
     man_subject = (lit ''agent-1''), man_sponsor = None, man_parent_mandate = (Some (lit ''mandate-1'')),
     man_purpose = (lit ''travel''), man_actions = [(lit ''forecast.read'')],
     man_resources = (Some [(lit ''forecast'')]), man_counterparties = None, man_destinations = None,
     man_limits = (Some [((lit ''max_total''), (JStr (lit ''0.50''))), ((lit ''currency''), (JStr (lit ''EUR''))),
     ((lit ''max_calls''), (JNum (Fin (1))))]), man_data_use = None, man_delegation = None,
     man_not_before = (lit ''2026-01-01T00:00:00Z''), man_expires_at = (lit ''2026-01-02T00:00:00Z''),
     man_status = Active, man_profile = None, man_extensions = None, man_proof = None\<rparr>"

definition sample_envelope :: TransactionEnvelope where
  "sample_envelope =
    \<lparr>env_oati_version = (lit ''1.0''), env_id = (lit ''tx-1''), env_agent_id = (lit ''agent-1''),
     env_organisation_id = (lit ''org-1''), env_mandate_id = (lit ''mandate-1''),
     env_action = (lit ''forecast.read''), env_resource = (lit ''forecast''), env_purpose = (Some (lit ''travel'')),
     env_destination = None, env_counterparty = None, env_protocol = None, env_commercial_profile = None,
     env_request_digest = None, env_issued_at = (lit ''2026-01-01T12:00:00Z''), env_nonce = (lit ''nonce-1''),
     env_profile = None, env_extensions = None, env_proof = None\<rparr>"

definition fresh_usage :: UsageSnapshot where
  "fresh_usage =
    \<lparr>us_calls = None, us_amount = None, us_currency = None, us_quantity = None, us_consumed = None,
     us_idempotency_keys = None, us_minted_supply = None\<rparr>"

definition sample_request :: EvaluationRequest where
  "sample_request =
     \<lparr>er_evaluation_time = lit ''2026-01-01T12:00:00Z'', er_mandate = sample_mandate, er_parent_mandate = None,
      er_delegation_depth = None, er_envelope = sample_envelope, er_usage = fresh_usage,
      er_consumption = Some (no_consumption\<lparr>cn_amount := Some (lit ''0.20''), cn_currency := Some (lit ''EUR''),
        cn_idempotency_key := Some (lit ''key-1'')\<rparr>),
      er_commerce = None, er_rwa = None\<rparr>"

definition delegated_request :: EvaluationRequest where
  "delegated_request = sample_request\<lparr>er_mandate := sample_child, er_parent_mandate := Some sample_mandate,
     er_envelope := sample_envelope\<lparr>env_mandate_id := lit ''mandate-2''\<rparr>\<rparr>"

definition commerce_mandate :: AgentMandate where
  "commerce_mandate =
    \<lparr>man_oati_version = (lit ''1.0''), man_id = (lit ''mandate-3''), man_issuer = (lit ''org-1''),
     man_subject = (lit ''agent-1''), man_sponsor = None, man_parent_mandate = None, man_purpose = (lit ''travel''),
     man_actions = [(lit ''forecast.read'')], man_resources = (Some [(lit ''forecast'')]), man_counterparties = None,
     man_destinations = None, man_limits = None, man_data_use = None, man_delegation = None,
     man_not_before = (lit ''2026-01-01T00:00:00Z''), man_expires_at = (lit ''2026-01-02T00:00:00Z''),
     man_status = Active, man_profile = (Some (lit ''https://specs.intelliger.ai/oati/profiles/commerce/v0.1'')),
     man_extensions = (Some [((lit ''commerce''), (JObj [((lit ''merchant_organisation_id''),
     (JStr (lit ''org-2''))), ((lit ''service_id''), (JStr (lit ''forecast''))), ((lit ''offer_id''),
     (JStr (lit ''offer-1''))), ((lit ''currency''), (JStr (lit ''EUR''))), ((lit ''max_unit_price''),
     (JStr (lit ''0.25''))), ((lit ''max_total''), (JStr (lit ''1.00''))), ((lit ''max_quantity''),
     (JNum (Fin (2))))]))]), man_proof = None\<rparr>"

definition commerce_context :: CommerceEvaluationContext where
  "commerce_context =
    \<lparr>cec_merchant_organisation_id = (lit ''org-2''), cec_service_id = (lit ''forecast''),
     cec_offer_id = (lit ''offer-1''), cec_currency = (lit ''EUR''), cec_quantity = (Fin (1)),
     cec_unit_price = (lit ''0.20''), cec_total_amount = (lit ''0.20''), cec_idempotency_key = (lit ''key-1''),
     cec_terms_digest = None\<rparr>"

definition commerce_request :: EvaluationRequest where
  "commerce_request = sample_request\<lparr>er_mandate := commerce_mandate, er_consumption := None,
     er_envelope := sample_envelope\<lparr>env_mandate_id := lit ''mandate-3''\<rparr>, er_commerce := Some commerce_context\<rparr>"

definition rwa_mandate :: AgentMandate where
  "rwa_mandate =
    \<lparr>man_oati_version = (lit ''1.0''), man_id = (lit ''mandate-4''), man_issuer = (lit ''org-1''),
     man_subject = (lit ''agent-1''), man_sponsor = None, man_parent_mandate = None, man_purpose = (lit ''reserve''),
     man_actions = [(lit ''asset.mint'')], man_resources = (Some [(lit ''asset-1'')]), man_counterparties = None,
     man_destinations = None, man_limits = None, man_data_use = None, man_delegation = None,
     man_not_before = (lit ''2026-01-01T00:00:00Z''), man_expires_at = (lit ''2026-01-02T00:00:00Z''),
     man_status = Active, man_profile = (Some (lit ''https://specs.intelliger.ai/oati/profiles/rwa/v0.1'')),
     man_extensions = (Some [((lit ''rwa''), (JObj [((lit ''asset_id''), (JStr (lit ''asset-1''))),
     ((lit ''state_claim_id''), (JStr (lit ''claim-1''))), ((lit ''network''), (JStr (lit ''net-1''))),
     ((lit ''token_contract''), (JStr (lit ''token-1''))), ((lit ''operation''), (JStr (lit ''mint''))),
     ((lit ''unit''), (JStr (lit ''gram''))), ((lit ''max_quantity''), (JStr (lit ''5''))), ((lit ''one_time''),
     (JBool True)), ((lit ''minimum_approvals''), (JNum (Fin (2)))), ((lit ''required_roles''),
     (JArr [(JStr (lit ''custodian''))]))]))]), man_proof = None\<rparr>"

definition rwa_context :: RwaEvaluationContext where
  "rwa_context =
    \<lparr>rec_asset_id = (lit ''asset-1''), rec_state_claim_id = (lit ''claim-1''), rec_network = (lit ''net-1''),
     rec_token_contract = (lit ''token-1''), rec_operation = Mint, rec_unit = (lit ''gram''),
     rec_quantity = (lit ''5''), rec_reserve = (lit ''10''), rec_approval_count = (Fin (2)),
     rec_approval_roles = [(lit ''custodian''), (lit ''approver'')], rec_current_supply = (lit ''0''),
     rec_maximum_supply = None, rec_claim_valid_until = (lit ''2026-01-02T00:00:00Z'')\<rparr>"

definition rwa_request :: EvaluationRequest where
  "rwa_request = sample_request\<lparr>er_mandate := rwa_mandate, er_consumption := None,
     er_envelope := sample_envelope\<lparr>env_mandate_id := lit ''mandate-4'', env_action := lit ''asset.mint'',
       env_resource := lit ''asset-1'', env_purpose := Some (lit ''reserve'')\<rparr>,
     er_usage := fresh_usage\<lparr>us_minted_supply := Some (lit ''0'')\<rparr>, er_rwa := Some rwa_context\<rparr>"

lemmas sample_defs = sample_mandate_def sample_child_def sample_envelope_def fresh_usage_def sample_request_def
  delegated_request_def commerce_mandate_def commerce_context_def commerce_request_def rwa_mandate_def rwa_context_def
  rwa_request_def

section \<open>Their evaluation\<close>

lemma sample_times:
  "timestamp no_legacy (lit ''2026-01-01T00:00:00Z'') = Inr 1767225600000"
  "timestamp no_legacy (lit ''2026-01-01T12:00:00Z'') = Inr 1767268800000"
  "timestamp no_legacy (lit ''2026-01-02T00:00:00Z'') = Inr 1767312000000"
  by (simp_all add: date_eval)

lemma sample_parse:
  "parseDecimal (lit ''0'') = Inr \<lparr>coefficient = 0, scale = 0\<rparr>"
  "parseDecimal (lit ''1'') = Inr \<lparr>coefficient = 1, scale = 0\<rparr>"
  "parseDecimal (lit ''2'') = Inr \<lparr>coefficient = 2, scale = 0\<rparr>"
  "parseDecimal (lit ''5'') = Inr \<lparr>coefficient = 5, scale = 0\<rparr>"
  "parseDecimal (lit ''10'') = Inr \<lparr>coefficient = 10, scale = 0\<rparr>"
  "parseDecimal (lit ''0.20'') = Inr \<lparr>coefficient = 20, scale = 2\<rparr>"
  "parseDecimal (lit ''0.25'') = Inr \<lparr>coefficient = 25, scale = 2\<rparr>"
  "parseDecimal (lit ''0.50'') = Inr \<lparr>coefficient = 50, scale = 2\<rparr>"
  "parseDecimal (lit ''1.00'') = Inr \<lparr>coefficient = 100, scale = 2\<rparr>"
  by (simp_all add: parse_eval)

lemma sample_compare:
  "compareDecimal (lit ''0.20'') (lit ''0.20'') = Inr 0"
  "compareDecimal (lit ''0.20'') (lit ''0.25'') = Inr (- 1)"
  "compareDecimal (lit ''0.20'') (lit ''0.50'') = Inr (- 1)"
  "compareDecimal (lit ''0.20'') (lit ''1.00'') = Inr (- 1)"
  "compareDecimal (lit ''0.50'') (lit ''1.00'') = Inr (- 1)"
  "compareDecimal (lit ''0'') (lit ''0'') = Inr 0"
  "compareDecimal (lit ''1'') (lit ''2'') = Inr (- 1)"
  "compareDecimal (lit ''5'') (lit ''5'') = Inr 0"
  "compareDecimal (lit ''5'') (lit ''10'') = Inr (- 1)"
  by (simp_all only: decimal_ops sample_parse) (simp_all add: format_eval)

lemma sample_arith:
  "addDecimal (lit ''0'') (lit ''0.20'') = Inr (lit ''0.20'')"
  "addDecimal (lit ''0'') (lit ''0'') = Inr (lit ''0'')"
  "addDecimal (lit ''0'') (lit ''1'') = Inr (lit ''1'')"
  "addDecimal (lit ''0'') (lit ''5'') = Inr (lit ''5'')"
  "multiplyDecimal (lit ''0.20'') (Fin 1) = Inr (lit ''0.20'')"
  by (simp_all only: decimal_ops sample_parse) (simp_all add: format_eval)

lemma sample_isDecimal:
  "isDecimal (lit ''1.00'')" "isDecimal (lit ''0.50'')" "\<not> isDecimal (lit ''EUR'')"
  by (simp_all add: isDecimal_def lit_def is_digit_def)

lemmas sample_eval = sample_defs evaluator_eval sample_times sample_compare sample_arith sample_isDecimal fl_small
  pos_to_string_small

definition allow_result :: "jstring \<Rightarrow> UsageSnapshot \<Rightarrow> EvaluationResult" where
  "allow_result mandate_id next = \<lparr>res_oati_version = version_1_0, res_decision = Allow, res_mandate_id = mandate_id,
     res_transaction_id = lit ''tx-1'', res_reason_codes = [], res_next_usage = next\<rparr>"

definition purchase_usage :: UsageSnapshot where
  "purchase_usage = \<lparr>us_calls = Some (Fin 1), us_amount = Some (lit ''0.20''), us_currency = Some (lit ''EUR''),
     us_quantity = Some (lit ''0''), us_consumed = Some False, us_idempotency_keys = Some [lit ''key-1''],
     us_minted_supply = Some (lit ''0'')\<rparr>"

definition mint_usage :: UsageSnapshot where
  "mint_usage = \<lparr>us_calls = Some (Fin 1), us_amount = Some (lit ''0''), us_currency = Some [],
     us_quantity = Some (lit ''5''), us_consumed = Some True, us_idempotency_keys = Some [],
     us_minted_supply = Some (lit ''5'')\<rparr>"

lemma sample_allowed: "evaluateAuthority no_legacy sample_request = Inr (allow_result (lit ''mandate-1'') purchase_usage)"
  by (simp add: sample_eval allow_result_def purchase_usage_def)

lemma delegated_allowed: "evaluateAuthority no_legacy delegated_request = Inr (allow_result (lit ''mandate-2'') purchase_usage)"
  by (simp add: sample_eval allow_result_def purchase_usage_def num_max0_def num_sub_def num_le_def)

lemma commerce_allowed:
  "evaluateAuthority no_legacy commerce_request =
     Inr (allow_result (lit ''mandate-3'') (purchase_usage\<lparr>us_quantity := Some (lit ''1'')\<rparr>))"
  by (simp add: sample_eval allow_result_def purchase_usage_def)

lemma rwa_allowed: "evaluateAuthority no_legacy rwa_request = Inr (allow_result (lit ''mandate-4'') mint_usage)"
  by (simp add: sample_eval allow_result_def mint_usage_def)

end
