(* ===== verification/EvaluatorProperties.thy ===== *)
theory EvaluatorProperties
  imports Samples
begin

text \<open>
  The properties of the authority evaluator, each with an instance on the objects of
  \<open>Samples\<close>: what an \<^verbatim>\<open>allow\<close> means, that delegation never amplifies, and what holds of the
  usage after any sequence of evaluations.
\<close>

section \<open>The decision\<close>

text \<open>
  C1: The evaluator allows a request exactly when its evaluation time is readable and the
  request is authorised at that time: the Envelope is within the Mandate, the Mandate is a
  valid delegation of its parent where it has one, limits, budget, commerce and RWA terms
  hold over exact decimal values, and the usage can be accounted.
\<close>

theorem evaluateAuthority_allows_iff_authorised:
  "(\<exists>r. evaluateAuthority legacy request = Inr r \<and> res_decision r = Allow) \<longleftrightarrow>
     (\<exists>now. timestamp legacy (er_evaluation_time request) = Inr now \<and> authorised legacy request now)"
  by (rule evaluate_allow)

text \<open>
  C10: Along every chain of Mandates in which each link passes the delegation check, the last
  Mandate covers no transaction at any time that the first does not cover, and its limits and
  data-use terms are no wider.
\<close>

theorem delegation_chain_never_amplifies:
  assumes "successively (\<lambda>p c. \<exists>depth now. checkChildMandate legacy c p depth now [] = Inr []) (m0 # ms)"
    and "ms \<noteq> []"
  shows "covers legacy (last ms) \<subseteq> covers legacy m0 \<and> narrowerObject (man_limits (last ms)) (man_limits m0) \<and>
     narrowerObject (man_data_use (last ms)) (man_data_use m0)"
proof -
  have "successively (\<lambda>p c. narrower_mandate legacy c p) (m0 # ms)"
    using assms(1) by (rule successively_mono) (auto simp: accepts_checkChildMandate)
  then have "narrower_mandate legacy (last ms) m0" using assms(2) by (rule mandates.chain_narrower)
  with covers_mono [OF this] show ?thesis by (simp add: narrower_mandate_def)
qed

lemma sample_link: "checkChildMandate no_legacy sample_child sample_mandate (Fin 1) 1767268800000 [] = Inr []"
  by (simp add: sample_eval num_le_def num_max0_def num_sub_def)

theorem delegation_chain_never_amplifies_witness:
  "covers no_legacy sample_child \<subseteq> covers no_legacy sample_mandate"
  using delegation_chain_never_amplifies [of no_legacy sample_mandate "[sample_child]"] sample_link by auto

text \<open>
  An allowed request that names a parent Mandate is covered by its own Mandate and by the
  parent, at the evaluation time, while both are active, and the transaction stays within the
  parent's purpose, actions and validity window.
\<close>

theorem allowed_delegated_request_within_parent:
  assumes "evaluateAuthority legacy request = Inr r" and "res_decision r = Allow"
    and "er_parent_mandate request = Some parent"
  shows "\<exists>now. timestamp legacy (er_evaluation_time request) = Inr now \<and>
     (er_envelope request, now) \<in> covers legacy (er_mandate request) \<inter> covers legacy parent \<and>
     man_status (er_mandate request) = Active \<and> man_status parent = Active \<and>
     man_parent_mandate (er_mandate request) = Some (man_id parent)"
proof -
  from evaluate_allow [of legacy request] assms obtain now
    where "timestamp legacy (er_evaluation_time request) = Inr now" and a: "authorised legacy request now" by blast
  moreover from a assms(3) have "within_mandate legacy (er_mandate request) (er_envelope request) now"
    "delegated_by legacy (er_mandate request) parent (or_else (er_delegation_depth request) (Fin 1)) now"
    by (simp_all add: authorised_def Let_def)
  ultimately show ?thesis using covers_mono by (fastforce simp: within_mandate_def delegated_by_def)
qed

theorem allowed_delegated_request_within_parent_witness:
  "\<exists>now. timestamp no_legacy (er_evaluation_time delegated_request) = Inr now \<and>
     (er_envelope delegated_request, now) \<in> covers no_legacy sample_mandate"
  using allowed_delegated_request_within_parent [OF delegated_allowed, of sample_mandate]
  by (auto simp: allow_result_def delegated_request_def)

text \<open>
  Every result carries reason codes that are sorted and free of duplicates; the decision is
  to deny exactly when there is one, and a denial returns the normalised prior usage unchanged.
\<close>

theorem evaluateAuthority_result_wellformed:
  assumes "evaluateAuthority legacy request = Inr r"
  shows "sorted (res_reason_codes r) \<and> distinct (res_reason_codes r) \<and>
     res_decision r = (if res_reason_codes r = [] then Allow else Deny) \<and>
     (res_decision r = Deny \<longrightarrow> res_next_usage r = snapshot_of (normalizedUsage (er_usage request)))"
proof -
  obtain now rs n where e: "checkAll legacy request now [] = Inr rs"
      "(if rs = [] then applyConsumption (normalizedUsage (er_usage request)) (effectiveConsumption request) request
        else Inr (normalizedUsage (er_usage request))) = Inr n"
      "res_reason_codes r = sort rs" "res_decision r = (if rs = [] then Allow else Deny)" "res_next_usage r = snapshot_of n"
    using assms by (auto simp: evaluate_cases)
  have "sort rs = [] \<longleftrightarrow> rs = []" by (metis length_0_conv length_sort)
  with e all_checks.keeps_distinct [OF e(1)]
  show ?thesis by (simp split: if_splits)
qed

lemma expired_denied:
  "evaluateAuthority no_legacy (sample_request\<lparr>er_evaluation_time := lit ''2026-01-02T00:00:00Z''\<rparr>) =
     Inr \<lparr>res_oati_version = version_1_0, res_decision = Deny, res_mandate_id = lit ''mandate-1'',
       res_transaction_id = lit ''tx-1'', res_reason_codes = [lit ''MANDATE_EXPIRED''],
       res_next_usage = snapshot_of (normalizedUsage fresh_usage)\<rparr>"
  by (simp add: sample_eval set_add_def)

theorem evaluateAuthority_result_wellformed_witness:
  "\<exists>r. evaluateAuthority no_legacy (sample_request\<lparr>er_evaluation_time := lit ''2026-01-02T00:00:00Z''\<rparr>) = Inr r \<and>
     res_next_usage r = snapshot_of (normalizedUsage (er_usage sample_request))"
  using evaluateAuthority_result_wellformed [OF expired_denied] expired_denied by (auto simp: sample_request_def)

section \<open>Usage over time\<close>

lemma charged_total:
  "sum_list (map (charged f) qs) = (\<Sum>q\<leftarrow>allowed_entries qs. f (effectiveConsumption q))"
  by (induction qs) (auto simp: charged_def allowed_entries_def)

lemma sample_run: "trace (evaluated no_legacy sample_mandate) fresh_usage [(sample_request, Allow)] purchase_usage"
  by (rule trace_one) (simp add: evaluated_def sample_allowed allow_result_def, simp add: sample_request_def)

lemma commerce_run:
  "trace (evaluated no_legacy commerce_mandate) fresh_usage [(commerce_request, Allow)]
     (purchase_usage\<lparr>us_quantity := Some (lit ''1'')\<rparr>)"
  by (rule trace_one) (simp add: evaluated_def commerce_allowed allow_result_def, simp add: commerce_request_def sample_request_def)

lemma rwa_run:
  "trace (tracked no_legacy rwa_mandate) (er_usage rwa_request) [(rwa_request, Allow)] mint_usage"
  by (rule trace_one) (simp add: tracked_def evaluated_def rwa_allowed allow_result_def, simp add: rwa_request_def)

text \<open>
  C11: Whatever sequence of requests is evaluated under a Mandate with a total budget, the
  accumulated amount is exactly the prior amount plus the amounts of the allowed requests, and
  it never exceeds the budget.
\<close>

theorem total_budget_never_exceeded:
  assumes "trace (evaluated legacy m) v qs v'"
    and "jget (or_else (man_limits m) []) (lit ''max_total'') = Some (JStr budget)"
    and "amount_of v \<le> dec_val budget"
  shows "amount_of v' = amount_of v + (\<Sum>q\<leftarrow>allowed_entries qs. dec_val (d_amount (effectiveConsumption q))) \<and>
     amount_of v' \<le> dec_val budget"
  using amounts.run_charges [OF assms(1)] budget.run_capped [OF assms(1), of "dec_val budget"] assms(2,3)
  by (simp add: charged_total budget_cap_def)

theorem total_budget_never_exceeded_witness: "amount_of purchase_usage \<le> dec_val (lit ''1.00'')"
  using total_budget_never_exceeded [OF sample_run, of "lit ''1.00''"]
  by (simp add: sample_eval amount_of_def dec_val_def split_decimal_def lit_def digits_val_def digit_val_def)

text \<open>
  Under the commerce profile the accumulated amount of any sequence of purchases stays
  within the total of the signed commerce terms.
\<close>

theorem commerce_total_never_exceeded:
  assumes "trace (evaluated legacy m) v qs v'" and "man_profile m = Some COMMERCE_PROFILE"
    and "objectAt (man_extensions m) (lit ''commerce'') = Some terms"
    and "amount_of v \<le> dec_val (String (jget terms (lit ''max_total'')))"
  shows "amount_of v + (\<Sum>q\<leftarrow>allowed_entries qs. dec_val (d_amount (effectiveConsumption q)))
     \<le> dec_val (String (jget terms (lit ''max_total'')))"
  using commerce_budget.total_charge_capped [OF assms(1)] assms(2-4) by (simp add: charged_total commerce_cap_def)

theorem commerce_total_never_exceeded_witness:
  "amount_of fresh_usage + dec_val (lit ''0.20'') \<le> dec_val (lit ''1.00'')"
  using commerce_total_never_exceeded [OF commerce_run]
  by (simp add: sample_eval allowed_entries_def amount_of_def dec_val_def split_decimal_def lit_def digits_val_def digit_val_def)

text \<open>
  C12: Within any sequence of evaluations no idempotency key is accepted twice, and none is
  accepted that the prior usage already held.
\<close>

theorem idempotency_keys_accepted_once:
  assumes "trace (evaluated legacy m) v qs v'"
  shows "distinct (concat (map key_of qs)) \<and>
     set (concat (map key_of qs)) \<inter> set (u_idempotency_keys (normalizedUsage v)) = {}"
proof -
  have "[] \<notin> set (concat (map key_of qs))" by (auto simp: key_of_def Let_def split: if_splits)
  with keys.run_fresh [OF assms] show ?thesis by (auto simp: spent_keys_def)
qed

theorem idempotency_keys_accepted_once_witness: "distinct (concat (map key_of [(sample_request, Allow)]))"
  using idempotency_keys_accepted_once [OF sample_run] by blast

text \<open>C20: A one-time Mandate allows at most one request over any sequence of evaluations.\<close>

theorem one_time_mandate_allows_once:
  assumes "trace (evaluated legacy m) v qs v'" and "one_time m"
  shows "length (allowed_entries qs) \<le> 1"
proof -
  have "\<forall>(q, k) \<in> set qs. er_mandate q = m" using trace_entries [OF assms(1)] by auto
  from one_time_tokens [OF assms(2) this] consumption.run_fresh [OF assms(1)] distinct_units show ?thesis by metis
qed

theorem one_time_mandate_allows_once_witness: "length (allowed_entries [(rwa_request, Allow)]) \<le> 1"
proof -
  have "trace (evaluated no_legacy rwa_mandate) (er_usage rwa_request) [(rwa_request, Allow)] mint_usage"
    using rwa_run by (rule trace_mono) (simp add: tracked_def)
  then show ?thesis by (rule one_time_mandate_allows_once) (simp add: one_time_def sample_eval)
qed

text \<open>
  C19: While usage tracks the supply, the recorded supply is the prior one plus the quantities
  of the allowed operations, and after an allowed operation it is within the verified reserve
  and the maximum supply.
\<close>

theorem minted_supply_within_reserve:
  assumes "trace (tracked legacy m) v (qs @ [(q, Allow)]) v'" and "er_rwa q = Some ctx"
  shows "supply_of v' = supply_of v + sum_list (map minted (qs @ [(q, Allow)])) \<and>
     supply_of v' \<le> dec_val (rec_reserve ctx) \<and>
     (\<forall>cap. rec_maximum_supply ctx = Some cap \<and> cap \<noteq> [] \<longrightarrow> supply_of v' \<le> dec_val cap)"
proof -
  from assms(1) obtain u where "evaluated legacy m u (q, Allow) v'" by (auto simp: tracked_def dest!: trace_last)
  note e = this supply_after(1) [OF this assms(2)]
  obtain limits now where "within_rwa legacy limits (er_envelope q) ctx (normalizedUsage u) (us_minted_supply u \<noteq> None) now"
    using evaluated_rwa [OF e(1) assms(2)] by blast
  with e(2) minting.run_charges [OF assms(1)] show ?thesis by (simp add: within_rwa_def sum_within_def)
qed

theorem minted_supply_within_reserve_witness: "supply_of mint_usage \<le> dec_val (lit ''10'')"
  using minted_supply_within_reserve [of no_legacy rwa_mandate "er_usage rwa_request" "[]" rwa_request mint_usage rwa_context]
    rwa_run by (simp add: rwa_request_def) (simp add: rwa_context_def)

text \<open>
  A call limit bounds the number of allowed requests: starting from a counter within the
  limit, counting is exact and the counter never passes the limit, for limits and per-request
  counts up to 2 ^ 52.
\<close>

theorem call_limit_bounds_allowed_requests:
  assumes "trace (evaluated legacy m) v qs v'"
    and "jget (or_else (man_limits m) []) (lit ''max_calls'') = Some (JNum (num_of_int M))" and "M \<le> 2 ^ 52"
    and "calls_of v = num_of_int n" and "0 \<le> n" and "n \<le> M" and "\<forall>q \<in> set (allowed_entries qs). \<exists>k. counts q k"
  shows "n + int (length (allowed_entries qs)) \<le> M"
  using counter_run [OF assms] by auto

theorem call_limit_bounds_allowed_requests_witness:
  "0 + int (length (allowed_entries [(sample_request, Allow)])) \<le> 2"
  by (rule call_limit_bounds_allowed_requests [OF sample_run, of 2 0])
    (auto simp: sample_eval calls_of_def num_of_int_def allowed_entries_def counts_def intro!: exI [of _ 1])

text \<open>
  Outside the profiles a quantity limit holds cumulatively: the accumulated quantity never
  exceeds it.
\<close>

theorem quantity_limit_never_exceeded:
  assumes "trace (evaluated legacy m) v qs v'" and "man_profile m = None"
    and "jget (or_else (man_limits m) []) (lit ''max_quantity'') = Some (JStr cap)"
    and "quantity_of v \<le> dec_val cap"
  shows "quantity_of v + (\<Sum>q\<leftarrow>allowed_entries qs. dec_val (d_quantity (effectiveConsumption q))) \<le> dec_val cap"
  using quantity_limit.total_charge_capped [OF assms(1)] assms(2-4)
  by (simp add: charged_total quantity_cap_def String_def Let_def)

definition metered_mandate :: AgentMandate where
  "metered_mandate = sample_mandate\<lparr>man_limits := Some [(lit ''max_quantity'', JStr (lit ''5''))]\<rparr>"

definition metered_request :: EvaluationRequest where
  "metered_request = sample_request\<lparr>er_mandate := metered_mandate,
     er_consumption := Some (no_consumption\<lparr>cn_quantity := Some (lit ''5'')\<rparr>)\<rparr>"

lemma metered_run:
  "trace (evaluated no_legacy metered_mandate) fresh_usage [(metered_request, Allow)]
     (mint_usage\<lparr>us_consumed := Some False, us_minted_supply := Some (lit ''0'')\<rparr>)"
  by (rule trace_one)
    (simp add: evaluated_def metered_request_def metered_mandate_def mint_usage_def sample_eval)

theorem quantity_limit_never_exceeded_witness:
  "quantity_of fresh_usage + dec_val (lit ''5'') \<le> dec_val (lit ''5'')"
  using quantity_limit_never_exceeded [OF metered_run, of "lit ''5''"]
  by (simp add: metered_request_def metered_mandate_def sample_eval allowed_entries_def quantity_of_def dec_val_def
      split_decimal_def lit_def digits_val_def digit_val_def)

section \<open>Decimal arithmetic\<close>

text \<open>
  Decimal comparison and addition succeed exactly on decimal texts, are exact on the
  rationals those texts denote, and a sum is again a decimal text.
\<close>

theorem decimal_arithmetic_exact:
  "(compareDecimal a b = Inr n \<longleftrightarrow> isDecimal a \<and> isDecimal b \<and> n = sgn_cmp (dec_val a) (dec_val b)) \<and>
   ((\<exists>t. addDecimal a b = Inr t \<and> isDecimal t \<and> dec_val t = dec_val a + dec_val b) \<longleftrightarrow> isDecimal a \<and> isDecimal b)"
  using compareDecimal_Inr_iff addDecimal_value [of a b] addDecimal_Inr [of a b] by blast

text \<open>
  The text-based decimal comparison and multiplication of the profile validators give, on
  decimal texts and safe multipliers, the results of the big-integer versions of the evaluator.
\<close>

theorem decimal_versions_agree:
  assumes "isDecimal a" and "isDecimal b" and "0 \<le> k" and "k \<le> max_safe"
  shows "(compareDecimal a b = Inr c \<longleftrightarrow> index_compareDecimal a b = num_of_int c) \<and>
     multiplyDecimal a (num_of_int k) = Inr (index_multiplyDecimal a (num_of_int k))"
  using compareDecimal_value [OF assms(1,2)] index_compareDecimal_value [OF assms(1,2)]
    index_multiplyDecimal_value [OF assms(1,3,4)] by (auto simp: num_of_int_def)

theorem decimal_versions_agree_witness:
  "index_compareDecimal (lit ''0.50'') (lit ''1.00'') = num_of_int (- 1)"
  using decimal_versions_agree [of "lit ''0.50''" "lit ''1.00''" 1 "- 1"] sample_isDecimal sample_compare(5)
  by (simp add: max_safe_def)

section \<open>Departures from the documentation\<close>

text \<open>
  C21: When a child Mandate may delegate further and its parent carries no delegation terms,
  the delegation check does not report \<^verbatim>\<open>DELEGATION_NOT_ALLOWED\<close>: it throws a TypeError.
\<close>

theorem missing_parent_delegation_throws:
  assumes "man_delegation child = Some d" and "allowed d" and "man_delegation parent = None"
    and "window legacy child = Some w" and "window legacy parent = Some w'"
  shows "\<exists>e. checkChildMandate legacy child parent depth now rs = Inl (TypeErr e)"
  using assms(1-3) assms(4,5) [unfolded window_def]
  by (auto simp: checkChildMandate_def addWhen_def addWhenE_def split: sum.splits)

theorem missing_parent_delegation_throws_witness:
  "\<exists>e. checkChildMandate no_legacy sample_mandate (sample_mandate\<lparr>man_delegation := None\<rparr>) (Fin 1) 0 [] = Inl (TypeErr e)"
  by (rule missing_parent_delegation_throws) (auto simp: sample_mandate_def window_def sample_times)








end
