(* ===== verification/Profiles.thy ===== *)
theory Profiles
  imports EvaluatorProperties
begin

text \<open>
  The profile validators of \<^verbatim>\<open>index.ts\<close>: \<open>validateCommerceReceipt\<close>,
  \<open>validateMintMandate\<close> and \<open>validateRwaReceipt\<close>, with the two core validators.  Issues
  are pushed in source order.  A comparison of an invalid \<^verbatim>\<open>Date\<close> or of a NaN decimal
  result is false, as in the language, so such a rule does not fire.
\<close>

record ValidationResult =
  valid :: bool
  issues :: "jstring list"

definition result_of :: "jstring list \<Rightarrow> ValidationResult" where
  "result_of xs = \<lparr>valid = (length xs = 0), issues = xs\<rparr>"

text \<open>\<^verbatim>\<open>if (c) issues.push(text)\<close>\<close>

definition push_if :: "bool \<Rightarrow> string \<Rightarrow> jstring list" where
  "push_if c text = (if c then [lit text] else [])"

text \<open>\<^verbatim>\<open>a <= b\<close> and \<^verbatim>\<open>a > b\<close> on \<^verbatim>\<open>Date\<close> values, \<open>None\<close> an invalid one.\<close>

definition date_le :: "int option \<Rightarrow> int option \<Rightarrow> bool" where
  "date_le a b = (case (a, b) of (Some x, Some y) \<Rightarrow> x \<le> y | _ \<Rightarrow> False)"

definition date_gt :: "int option \<Rightarrow> int option \<Rightarrow> bool" where
  "date_gt a b = (case (a, b) of (Some x, Some y) \<Rightarrow> y < x | _ \<Rightarrow> False)"

definition isCurrency :: "jstring \<Rightarrow> bool" where
  "isCurrency value \<longleftrightarrow> length value = 3 \<and> list_all is_upper value"

fun status_text :: "mandate_status \<Rightarrow> jstring" where
  "status_text Active = lit ''active''"
| "status_text Suspended = lit ''suspended''"
| "status_text Revoked = lit ''revoked''"
| "status_text Expired = lit ''expired''"
| "status_text Consumed = lit ''consumed''"

definition validateMandateCore :: "legacy_dates \<Rightarrow> AgentMandate \<Rightarrow> int \<Rightarrow> jstring list" where
  "validateMandateCore legacy mandate now =
     push_if (\<not> startsWith (man_id mandate) (lit ''oati:mandate:'')) ''invalid Mandate id'' @
     push_if (\<not> startsWith (man_subject mandate) (lit ''oati:agent:'')) ''invalid Mandate subject'' @
     push_if (length (man_actions mandate) = 0) ''Mandate needs at least one action'' @
     push_if (date_gt (Date_parse legacy (man_not_before mandate)) (Some now)) ''Mandate is not active yet'' @
     push_if (date_le (Date_parse legacy (man_expires_at mandate)) (Some now)) ''Mandate is expired'' @
     (if man_status mandate \<noteq> Active then [lit ''Mandate status is '' @ status_text (man_status mandate)] else [])"

definition validateReceiptCore :: "ActionReceipt \<Rightarrow> jstring list" where
  "validateReceiptCore receipt =
     push_if (\<not> startsWith (rcp_id receipt) (lit ''oati:receipt:'')) ''invalid Receipt id'' @
     push_if (\<not> startsWith (rcp_transaction_id receipt) (lit ''oati:tx:'')) ''invalid transaction id'' @
     push_if (\<not> startsWith (rcp_mandate_id receipt) (lit ''oati:mandate:'')) ''invalid Mandate reference'' @
     push_if (rcp_proof receipt = None) ''missing Receipt proof''"

section \<open>Commerce\<close>

text \<open>The rules that compare a receipt with the Mandate it was issued under.\<close>

definition commerce_receipt_limits :: "ActionReceipt \<Rightarrow> CommerceReceiptTerms \<Rightarrow> PurchaseMandate \<Rightarrow> jstring list" where
  "commerce_receipt_limits receipt commerce mandate =
     (let limit = pm_commerce mandate in
      push_if (rcp_mandate_id receipt \<noteq> man_id (pm_core mandate)) ''receipt mandate_id does not match Mandate'' @
      push_if (crt_merchant_organisation_id commerce \<noteq> ct_merchant_organisation_id limit) ''merchant is not authorised by Mandate'' @
      push_if (crt_service_id commerce \<noteq> ct_service_id limit) ''service is not authorised by Mandate'' @
      push_if (crt_offer_id commerce \<noteq> ct_offer_id limit) ''offer is not authorised by Mandate'' @
      push_if (crt_currency commerce \<noteq> ct_currency limit) ''receipt currency differs from Mandate'' @
      push_if (ct_terms_digest limit \<notin> {None, Some []} \<and> Some (crt_terms_digest commerce) \<noteq> ct_terms_digest limit)
        ''receipt terms digest differs from Mandate'' @
      push_if (num_less (ct_max_quantity limit) (crt_quantity commerce)) ''quantity exceeds Mandate'' @
      push_if (num_less (Fin 0) (index_compareDecimal (crt_unit_price commerce) (ct_max_unit_price limit))) ''unit price exceeds Mandate'' @
      push_if (num_less (Fin 0) (index_compareDecimal (crt_total_amount commerce) (ct_max_total limit))) ''total amount exceeds Mandate'')"

definition validateCommerceReceipt :: "CommerceReceipt \<Rightarrow> PurchaseMandate option \<Rightarrow> ValidationResult" where
  "validateCommerceReceipt receipt mandate =
     (let core = validateReceiptCore (cr_core receipt) @
            push_if (rcp_profile (cr_core receipt) \<noteq> Some COMMERCE_PROFILE) ''unexpected Commerce profile URI'' in
      case cr_commerce receipt of
        None \<Rightarrow> result_of (core @ [lit ''missing extensions.commerce''])
      | Some commerce \<Rightarrow> result_of (core @
          push_if (\<not> isCurrency (crt_currency commerce)) ''currency must be a three-letter uppercase code'' @
          push_if (num_less (crt_quantity commerce) (Fin 1)) ''quantity must be at least 1'' @
          push_if (\<not> isDecimal (crt_unit_price commerce)) ''unit_price must be a non-negative decimal string'' @
          push_if (\<not> isDecimal (crt_total_amount commerce)) ''total_amount must be a non-negative decimal string'' @
          push_if (isDecimal (crt_unit_price commerce) \<and> isDecimal (crt_total_amount commerce) \<and>
              \<not> num_eq (index_compareDecimal (crt_total_amount commerce)
                  (index_multiplyDecimal (crt_unit_price commerce) (crt_quantity commerce))) (Fin 0))
            ''total amount must equal unit price multiplied by quantity'' @
          (case mandate of None \<Rightarrow> [] | Some m \<Rightarrow> commerce_receipt_limits (cr_core receipt) commerce m)))"

section \<open>Real-world assets\<close>

text \<open>The rules that compare a mint Mandate with the State Claim it relies on.\<close>

definition mint_claim_rules :: "legacy_dates \<Rightarrow> RwaMandateTerms \<Rightarrow> AssetStateClaim \<Rightarrow> int \<Rightarrow> jstring list" where
  "mint_claim_rules legacy rwa claim now =
     (let until = Date_parse legacy (asc_valid_until claim); observed = Date_parse legacy (asc_observed_at claim) in
      push_if (asc_claim_type claim \<noteq> ReserveBalance) ''controlled mint requires a reserve_balance State Claim'' @
      push_if (rmt_asset_id rwa \<noteq> asc_asset_id claim) ''State Claim asset differs from Mandate'' @
      push_if (rmt_state_claim_id rwa \<noteq> asc_id claim) ''State Claim id differs from Mandate'' @
      push_if (rmt_unit rwa \<noteq> asc_unit claim) ''State Claim unit differs from Mandate'' @
      push_if (date_le until (Some now)) ''State Claim is expired'' @
      push_if (date_gt observed (Some now)) ''State Claim observation is in the future'' @
      push_if (date_le until observed) ''State Claim valid_until must be after observed_at'' @
      push_if (num_less (Fin 0) (index_compareDecimal (rmt_max_quantity rwa) (asc_value claim))) ''mint authority exceeds claimed reserve'')"

definition validateMintMandate :: "legacy_dates \<Rightarrow> AssetMandate \<Rightarrow> AssetStateClaim option \<Rightarrow> int \<Rightarrow> ValidationResult" where
  "validateMintMandate legacy mandate claim now =
     (let core = validateMandateCore legacy (am_core mandate) now @
            push_if (man_profile (am_core mandate) \<noteq> Some RWA_PROFILE) ''unexpected RWA profile URI'' in
      case am_rwa mandate of
        None \<Rightarrow> result_of (core @ [lit ''missing extensions.rwa''])
      | Some rwa \<Rightarrow> result_of (core @
          push_if (rmt_operation rwa \<noteq> Mint) ''controlled-mint Mandate operation must be mint'' @
          push_if (\<not> rmt_one_time rwa) ''controlled-mint Mandate must be one-time'' @
          push_if (\<not> isDecimal (rmt_max_quantity rwa) \<or> num_le (index_compareDecimal (rmt_max_quantity rwa) (lit ''0'')) (Fin 0))
            ''max_quantity must be greater than zero'' @
          push_if (num_less (rmt_minimum_approvals rwa) (Fin 1)) ''minimum_approvals must be at least 1'' @
          (case claim of None \<Rightarrow> [] | Some c \<Rightarrow> mint_claim_rules legacy rwa c now)))"

definition rwa_receipt_limits :: "ActionReceipt \<Rightarrow> RwaReceiptTerms \<Rightarrow> AgentMandate \<Rightarrow> RwaMandateTerms \<Rightarrow> jstring list" where
  "rwa_receipt_limits receipt rwa mandate limit =
     push_if (rcp_mandate_id receipt \<noteq> man_id mandate) ''receipt mandate_id does not match Mandate'' @
     push_if (rrt_asset_id rwa \<noteq> rmt_asset_id limit) ''receipt asset differs from Mandate'' @
     push_if (rrt_state_claim_id rwa \<noteq> rmt_state_claim_id limit) ''receipt State Claim differs from Mandate'' @
     push_if (rrt_network rwa \<noteq> rmt_network limit \<or> rrt_token_contract rwa \<noteq> rmt_token_contract limit)
       ''receipt token target differs from Mandate'' @
     push_if (rrt_operation rwa \<noteq> rmt_operation limit) ''receipt operation differs from Mandate'' @
     push_if (rrt_unit rwa \<noteq> rmt_unit limit) ''receipt unit differs from Mandate'' @
     push_if (num_less (Fin 0) (index_compareDecimal (rrt_quantity rwa) (rmt_max_quantity limit))) ''receipt quantity exceeds Mandate'' @
     push_if (num_less (rrt_approval_count rwa) (rmt_minimum_approvals limit)) ''receipt has insufficient approvals''"

text \<open>A Mandate without RWA terms makes the comparison dereference \<^verbatim>\<open>undefined\<close>.\<close>

definition validateRwaReceipt :: "RwaReceipt \<Rightarrow> AssetMandate option \<Rightarrow> ValidationResult result" where
  "validateRwaReceipt receipt mandate =
     (let core = validateReceiptCore (rr_core receipt) @
            push_if (rcp_profile (rr_core receipt) \<noteq> Some RWA_PROFILE) ''unexpected RWA profile URI'' in
      case rr_rwa receipt of
        None \<Rightarrow> Inr (result_of (core @ [lit ''missing extensions.rwa'']))
      | Some rwa \<Rightarrow>
          let own = core @
            push_if (rrt_chain_transaction_hash rwa = []) ''missing chain transaction hash'' @
            push_if (num_less (rrt_approval_count rwa) (Fin 0)) ''approval_count cannot be negative'' @
            push_if (\<not> isDecimal (rrt_quantity rwa) \<or> num_le (index_compareDecimal (rrt_quantity rwa) (lit ''0'')) (Fin 0))
              ''receipt quantity must be greater than zero'' @
            push_if (case rrt_resulting_supply rwa of None \<Rightarrow> True | Some s \<Rightarrow> \<not> isDecimal s)
              ''receipt resulting_supply must be a non-negative decimal string''
          in (case mandate of None \<Rightarrow> Inr (result_of own)
              | Some m \<Rightarrow> (case am_rwa m of None \<Rightarrow> Inl (TypeErr [])
                  | Some limit \<Rightarrow> Inr (result_of (own @ rwa_receipt_limits (rr_core receipt) rwa (am_core m) limit)))))"

section \<open>What a valid result means\<close>

lemma valid_result_of [simp]: "valid (result_of xs) \<longleftrightarrow> xs = []"
  by (simp add: result_of_def)

lemma push_if_Nil [simp]: "push_if c text = [] \<longleftrightarrow> \<not> c"
  by (simp add: push_if_def)

lemma compare_exceeds:
  "num_less (Fin 0) (index_compareDecimal a b) \<longleftrightarrow> isDecimal a \<and> isDecimal b \<and> dec_val b < dec_val a"
proof (cases "isDecimal a \<and> isDecimal b")
  case True
  then have "index_compareDecimal a b = num_of_int (sgn_cmp (dec_val a) (dec_val b))" by (simp add: index_compareDecimal_value)
  with True show ?thesis by (simp add: num_of_int_def sgn_cmp_def)
qed (auto simp: index_compareDecimal_def)

lemma compare_not_positive:
  "isDecimal a \<Longrightarrow> num_le (index_compareDecimal a (lit ''0'')) (Fin 0) \<longleftrightarrow> dec_val a \<le> 0"
  by (simp add: index_compareDecimal_value num_of_int_def num_le_def num_eq_def sgn_cmp_def)

lemma compare_equal:
  "num_eq (index_compareDecimal a b) (Fin 0) \<longleftrightarrow> isDecimal a \<and> isDecimal b \<and> dec_val a = dec_val b"
proof (cases "isDecimal a \<and> isDecimal b")
  case True
  then have "index_compareDecimal a b = num_of_int (sgn_cmp (dec_val a) (dec_val b))" by (simp add: index_compareDecimal_value)
  with True show ?thesis by (simp add: num_of_int_def num_eq_def sgn_cmp_def)
qed (auto simp: index_compareDecimal_def num_eq_def)

lemma safe_integer_obtain:
  assumes "num_is_safe_integer q" obtains k where "q = num_of_int k" "\<bar>k\<bar> \<le> max_safe"
proof (cases q)
  case (Fin a)
  with assms have "q = num_of_int \<lfloor>a\<rfloor>" "\<bar>\<lfloor>a\<rfloor>\<bar> \<le> max_safe" by (auto simp: num_of_int_def)
  then show thesis by (rule that)
qed (use assms in simp_all)

lemma not_decimal_invalid: "\<not> isDecimal (lit ''invalid'')"
  by (simp add: isDecimal_def lit_def is_digit_def)

lemma index_product:
  assumes "isDecimal p" and "isDecimal t"
  shows "num_eq (index_compareDecimal t (index_multiplyDecimal p q)) (Fin 0) \<longleftrightarrow>
     num_is_safe_integer q \<and> \<not> num_less q (Fin 0) \<and> product_is p q t"
proof (cases "num_is_safe_integer q \<and> \<not> num_less q (Fin 0)")
  case True
  then obtain k where k: "q = num_of_int k" "0 \<le> k" "k \<le> max_safe"
    by (auto elim!: safe_integer_obtain) (auto simp: num_of_int_def)
  obtain u where "multiplyDecimal p q = Inr u" "isDecimal u" "dec_val u = dec_val p * of_int k"
    using multiplyDecimal_value [OF assms(1) k(2)] k(1) by auto
  moreover have "multiplyDecimal p q = Inr (index_multiplyDecimal p q)"
    using index_multiplyDecimal_value [OF assms(1) k(2,3)] k(1) by simp
  ultimately show ?thesis using True assms k by (auto simp: compare_equal product_is_def num_of_int_def)
next
  case False
  then have "index_multiplyDecimal p q = lit ''invalid''" by (auto simp: index_multiplyDecimal_def)
  with False not_decimal_invalid show ?thesis by (auto simp: compare_equal)
qed

section \<open>Properties\<close>

text \<open>
  C27: A commerce receipt checked against a Mandate is valid exactly when it is a well-formed
  receipt of the commerce profile, its total is the unit price times a positive safe-integer
  quantity, exactly, and merchant, service, offer, currency, terms, quantity, price and total
  are those of the Mandate or within its limits, wherever the limits are decimals.
\<close>

theorem validateCommerceReceipt_valid_iff:
  "valid (validateCommerceReceipt r (Some m)) \<longleftrightarrow>
     (\<exists>c. cr_commerce r = Some c \<and> validateReceiptCore (cr_core r) = [] \<and> rcp_profile (cr_core r) = Some COMMERCE_PROFILE \<and>
        isCurrency (crt_currency c) \<and> \<not> num_less (crt_quantity c) (Fin 1) \<and>
        num_is_safe_integer (crt_quantity c) \<and> product_is (crt_unit_price c) (crt_quantity c) (crt_total_amount c) \<and>
        rcp_mandate_id (cr_core r) = man_id (pm_core m) \<and>
        crt_merchant_organisation_id c = ct_merchant_organisation_id (pm_commerce m) \<and>
        crt_service_id c = ct_service_id (pm_commerce m) \<and> crt_offer_id c = ct_offer_id (pm_commerce m) \<and>
        crt_currency c = ct_currency (pm_commerce m) \<and>
        ct_terms_digest (pm_commerce m) \<in> {None, Some [], Some (crt_terms_digest c)} \<and>
        \<not> num_less (ct_max_quantity (pm_commerce m)) (crt_quantity c) \<and>
        \<not> (isDecimal (ct_max_unit_price (pm_commerce m)) \<and> dec_val (ct_max_unit_price (pm_commerce m)) < dec_val (crt_unit_price c)) \<and>
        \<not> (isDecimal (ct_max_total (pm_commerce m)) \<and> dec_val (ct_max_total (pm_commerce m)) < dec_val (crt_total_amount c)))"
proof (cases "cr_commerce r")
  case (Some c)
  have q: "\<not> num_less q (Fin 1) \<Longrightarrow> \<not> num_less q (Fin 0)" for q by (cases q) auto
  have d: "isDecimal p \<and> isDecimal t" if "product_is p n t" for p n t using that by (simp add: product_is_def)
  show ?thesis using Some q [of "crt_quantity c"] d [of "crt_unit_price c" "crt_quantity c" "crt_total_amount c"]
    by (auto simp: validateCommerceReceipt_def commerce_receipt_limits_def Let_def compare_exceeds index_product)
qed (simp add: validateCommerceReceipt_def)

text \<open>
  A controlled-mint Mandate that is valid against a State Claim is a one-time, positive
  mint authority with at least one approval, bound to that reserve claim's asset, id and unit,
  and never above the claimed reserve when the claim states a decimal value.
\<close>

theorem validateMintMandate_within_reserve:
  assumes "valid (validateMintMandate legacy m (Some claim) now)"
  shows "\<exists>rwa. am_rwa m = Some rwa \<and> rmt_operation rwa = Mint \<and> rmt_one_time rwa \<and>
     isDecimal (rmt_max_quantity rwa) \<and> 0 < dec_val (rmt_max_quantity rwa) \<and> \<not> num_less (rmt_minimum_approvals rwa) (Fin 1) \<and>
     asc_claim_type claim = ReserveBalance \<and> rmt_asset_id rwa = asc_asset_id claim \<and> rmt_state_claim_id rwa = asc_id claim \<and>
     rmt_unit rwa = asc_unit claim \<and> \<not> (isDecimal (asc_value claim) \<and> dec_val (asc_value claim) < dec_val (rmt_max_quantity rwa)) \<and>
     man_status (am_core m) = Active \<and> man_profile (am_core m) = Some RWA_PROFILE"
proof (cases "am_rwa m")
  case (Some rwa)
  with assms show ?thesis
    by (auto simp: validateMintMandate_def mint_claim_rules_def validateMandateCore_def Let_def compare_exceeds compare_not_positive
        split: if_splits)
qed (use assms in \<open>simp add: validateMintMandate_def\<close>)

definition sample_terms :: RwaMandateTerms where
  "sample_terms = \<lparr>rmt_asset_id = lit ''asset-1'', rmt_state_claim_id = lit ''claim-1'', rmt_network = lit ''net-1'',
     rmt_token_contract = lit ''token-1'', rmt_operation = Mint, rmt_unit = lit ''gram'', rmt_max_quantity = lit ''5'',
     rmt_one_time = True, rmt_minimum_approvals = Fin 2, rmt_required_roles = None\<rparr>"

definition sample_asset_mandate :: AssetMandate where
  "sample_asset_mandate = \<lparr>am_core = rwa_mandate\<lparr>man_id := lit ''oati:mandate:1'', man_subject := lit ''oati:agent:1''\<rparr>,
     am_rwa = Some sample_terms\<rparr>"

definition sample_claim :: AssetStateClaim where
  "sample_claim = \<lparr>asc_oati_version = version_1_0, asc_profile = RWA_PROFILE, asc_id = lit ''claim-1'', asc_asset_id = lit ''asset-1'',
     asc_claim_type = ReserveBalance, asc_value = lit ''10'', asc_unit = lit ''gram'', asc_observed_at = lit ''2026-01-01T00:00:00Z'',
     asc_valid_until = lit ''2026-01-02T00:00:00Z'', asc_issuer = lit ''org-3'', asc_issuer_role = Custodian,
     asc_evidence = \<lparr>ev_uri = None, ev_digest = [], ev_media_type = []\<rparr>,
     asc_proof = \<lparr>prf_type = [], prf_cryptosuite = None, prf_algorithm = None, prf_created = None, prf_expires = None,
       prf_verification_method = None, prf_proof_purpose = None, prf_audience = None, prf_nonce = None, prf_signature = None\<rparr>\<rparr>"

lemma sample_dates:
  "Date_parse no_legacy (lit ''2026-01-01T00:00:00Z'') = Some 1767225600000"
  "Date_parse no_legacy (lit ''2026-01-02T00:00:00Z'') = Some 1767312000000"
  using sample_times by (auto simp: timestamp_def split: option.splits)

lemma sample_values: "isDecimal (lit ''5'')" "isDecimal (lit ''10'')" "dec_val (lit ''5'') = 5" "dec_val (lit ''10'') = 10"
  by (simp_all add: isDecimal_def dec_val_def split_decimal_def lit_def is_digit_def digits_val_def digit_val_def)

lemma sample_mint_valid: "valid (validateMintMandate no_legacy sample_asset_mandate (Some sample_claim) 1767268800000)"
  by (simp add: validateMintMandate_def mint_claim_rules_def validateMandateCore_def sample_asset_mandate_def sample_terms_def
      sample_claim_def rwa_mandate_def sample_dates date_le_def date_gt_def compare_exceeds compare_not_positive sample_values
      startsWith_lit RWA_PROFILE_def)

theorem validateMintMandate_within_reserve_witness:
  "\<exists>rwa. am_rwa sample_asset_mandate = Some rwa \<and> dec_val (rmt_max_quantity rwa) \<le> dec_val (asc_value sample_claim)"
  using validateMintMandate_within_reserve [OF sample_mint_valid] by (auto simp: sample_claim_def sample_values)

text \<open>
  An RWA receipt that is valid against a Mandate binds the Mandate's asset, State Claim,
  network, token contract, operation and unit, has a transaction hash, enough approvals and a
  positive quantity within the Mandate's maximum where that is a decimal.
\<close>

theorem validateRwaReceipt_within_mandate:
  assumes "validateRwaReceipt r (Some m) = Inr v" and "valid v"
  shows "\<exists>c l. rr_rwa r = Some c \<and> am_rwa m = Some l \<and> rcp_mandate_id (rr_core r) = man_id (am_core m) \<and>
     rrt_asset_id c = rmt_asset_id l \<and> rrt_state_claim_id c = rmt_state_claim_id l \<and> rrt_network c = rmt_network l \<and>
     rrt_token_contract c = rmt_token_contract l \<and> rrt_operation c = rmt_operation l \<and> rrt_unit c = rmt_unit l \<and>
     rrt_chain_transaction_hash c \<noteq> [] \<and> \<not> num_less (rrt_approval_count c) (rmt_minimum_approvals l) \<and>
     isDecimal (rrt_quantity c) \<and> 0 < dec_val (rrt_quantity c) \<and>
     \<not> (isDecimal (rmt_max_quantity l) \<and> dec_val (rmt_max_quantity l) < dec_val (rrt_quantity c))"
  using assms
  by (auto simp: validateRwaReceipt_def rwa_receipt_limits_def Let_def compare_exceeds compare_not_positive split: option.splits)

definition sample_rwa_receipt :: RwaReceipt where
  "sample_rwa_receipt = \<lparr>rr_core = \<lparr>rcp_oati_version = version_1_0, rcp_id = lit ''oati:receipt:1'', rcp_transaction_id = lit ''oati:tx:1'',
       rcp_agent_id = lit ''oati:agent:1'', rcp_organisation_id = lit ''org-1'', rcp_mandate_id = lit ''oati:mandate:1'',
       rcp_decision = Allow, rcp_outcome = Succeeded, rcp_occurred_at = lit ''2026-01-01T12:00:00Z'', rcp_issuer = lit ''org-1'',
       rcp_profile = Some RWA_PROFILE, rcp_extensions = None, rcp_proof = Some (asc_proof sample_claim), rcp_policy_digest = None,
       rcp_request_digest = None, rcp_response_digest = None, rcp_commercial_profile = None\<rparr>,
     rr_rwa = Some \<lparr>rrt_asset_id = lit ''asset-1'', rrt_state_claim_id = lit ''claim-1'', rrt_operation = Mint,
       rrt_network = lit ''net-1'', rrt_token_contract = lit ''token-1'', rrt_quantity = lit ''5'', rrt_unit = lit ''gram'',
       rrt_chain_transaction_hash = lit ''0xabc'', rrt_approval_count = Fin 2, rrt_resulting_supply = Some (lit ''5'')\<rparr>\<rparr>"

lemma sample_receipt_valid: "validateRwaReceipt sample_rwa_receipt (Some sample_asset_mandate) = Inr (result_of [])"
  by (simp add: validateRwaReceipt_def rwa_receipt_limits_def validateReceiptCore_def sample_rwa_receipt_def sample_asset_mandate_def
      sample_terms_def push_if_def compare_exceeds compare_not_positive sample_values startsWith_lit)

theorem validateRwaReceipt_within_mandate_witness:
  "\<exists>c. rr_rwa sample_rwa_receipt = Some c \<and> 0 < dec_val (rrt_quantity c)"
  using validateRwaReceipt_within_mandate [OF sample_receipt_valid] by auto

text \<open>
  C29: A mint Mandate whose expiry is not a readable date never expires: once valid without a
  State Claim it is valid at every later time.
\<close>

theorem unreadable_expiry_never_expires:
  assumes "Date_parse legacy (man_expires_at (am_core m)) = None" and "valid (validateMintMandate legacy m None now)"
    and "now \<le> later"
  shows "valid (validateMintMandate legacy m None later)"
  using assms by (auto simp: validateMintMandate_def validateMandateCore_def date_le_def date_gt_def Let_def
      split: option.splits if_splits)

definition unreadable_mandate :: AssetMandate where
  "unreadable_mandate = sample_asset_mandate\<lparr>am_core := (am_core sample_asset_mandate)\<lparr>man_expires_at := lit ''soon''\<rparr>\<rparr>"

theorem unreadable_expiry_never_expires_witness: "valid (validateMintMandate no_legacy unreadable_mandate None 9999999999999)"
proof (rule unreadable_expiry_never_expires)
  show e: "Date_parse no_legacy (man_expires_at (am_core unreadable_mandate)) = None"
    by (simp add: unreadable_mandate_def Date_parse_def iso_parse_def field_def lit_def is_digit_def no_legacy_def)
  show "valid (validateMintMandate no_legacy unreadable_mandate None 1767268800000)"
    using e by (simp add: unreadable_mandate_def validateMintMandate_def validateMandateCore_def sample_asset_mandate_def sample_terms_def
      rwa_mandate_def sample_dates date_le_def date_gt_def compare_not_positive sample_values startsWith_lit RWA_PROFILE_def)
qed simp

end
