(* ===== verification/IsoFormat.thy ===== *)
theory IsoFormat
  imports DateTime Decimals
begin

text \<open>
  \<^verbatim>\<open>Date.prototype.toISOString\<close>: year, month and day of a time value as ECMA-262 defines them
  (the largest year, and in it the largest month, that starts no later than the value), printed
  with fixed-width fields.  Reading the text back with \<open>iso_parse\<close> gives the time value, for
  the years the four-digit form covers.
\<close>

section \<open>Calendar\<close>

definition year_from_days :: "int \<Rightarrow> int" where
  "year_from_days z = (let y = 1970 + (400 * z) div 146097 in
     if z < days_from_civil y 1 1 then y - 1 else if days_from_civil (y + 1) 1 1 \<le> z then y + 1 else y)"

fun month_search :: "int \<Rightarrow> int \<Rightarrow> nat \<Rightarrow> int" where
  "month_search y z 0 = 1"
| "month_search y z (Suc n) = (if days_from_civil y (int n + 2) 1 \<le> z then int n + 2 else month_search y z n)"

definition month_from_days :: "int \<Rightarrow> int \<Rightarrow> int" where
  "month_from_days y z = month_search y z 11"

definition pad_digits :: "nat \<Rightarrow> int \<Rightarrow> jstring" where
  "pad_digits k n = padStart (digits_of n) k 48"

definition year_text :: "int \<Rightarrow> jstring" where
  "year_text y = (if 0 \<le> y \<and> y \<le> 9999 then pad_digits 4 y
     else (if y < 0 then [45] else [43]) @ pad_digits 6 \<bar>y\<bar>)"

definition toISOString :: "int \<Rightarrow> jstring" where
  "toISOString t =
     (let z = t div 86400000; r = t mod 86400000; y = year_from_days z; m = month_from_days y z
      in year_text y @ [45] @ pad_digits 2 m @ [45] @ pad_digits 2 (z - days_from_civil y m 1 + 1) @ [84]
         @ pad_digits 2 (r div 3600000) @ [58] @ pad_digits 2 (r div 60000 mod 60) @ [58]
         @ pad_digits 2 (r div 1000 mod 60) @ [46] @ pad_digits 3 (r mod 1000) @ [90])"

section \<open>The year and month found are the right ones\<close>

lemma jan1: "days_from_civil y 1 1 = 365 * (y - 1) + (y - 1) div 4 - (y - 1) div 100 + (y - 1) div 400 - 719162"
  by (simp add: days_from_civil_def Let_def)

lemma div_bounds:
  assumes "0 < (k::int)"
  shows "k * (x div k) \<le> x" "x < k * (x div k) + k"
  using pos_mod_sign [OF assms, of x] pos_mod_bound [OF assms, of x] mult_div_mod_eq [of k x] by linarith+

lemma jan1_bounds:
  shows jan1_lower: "146097 * y < 400 * days_from_civil y 1 1 + 287811697"
    and jan1_upper: "400 * days_from_civil y 1 1 + 287810497 < 146097 * y"
proof -
  define a b c where "a = (y - 1) div 4" and "b = (y - 1) div 100" and "c = (y - 1) div 400"
  have q: "4 * a \<le> y - 1" "y - 1 < 4 * a + 4" "100 * b \<le> y - 1" "y - 1 < 100 * b + 100" "400 * c \<le> y - 1" "y - 1 < 400 * c + 400"
    unfolding a_def b_def c_def by (rule div_bounds, simp)+
  have d: "days_from_civil y 1 1 = 365 * y + a - b + c - 719527" by (simp add: jan1 a_def b_def c_def)
  from q show "146097 * y < 400 * days_from_civil y 1 1 + 287811697" unfolding d by simp
  from q show "400 * days_from_civil y 1 1 + 287810497 < 146097 * y" unfolding d by simp
qed

lemma year_from_days:
  "days_from_civil (year_from_days z) 1 1 \<le> z \<and> z < days_from_civil (year_from_days z + 1) 1 1"
proof -
  define k where "k = (400 * z) div 146097"
  have k: "146097 * k \<le> 400 * z" "400 * z < 146097 * k + 146097"
    unfolding k_def by (rule div_bounds, simp)+
  have "days_from_civil (k + 1969) 1 1 \<le> z" using jan1_upper [of "k + 1969"] k by simp
  moreover have "z < days_from_civil (k + 1972) 1 1" using jan1_lower [of "k + 1972"] k by simp
  ultimately show ?thesis unfolding year_from_days_def Let_def k_def [symmetric]
    by (auto simp: add.commute)
qed

lemma div_step:
  assumes "0 < (k::int)"
  shows "y div k = (y - 1) div k + (if y mod k = 0 then 1 else 0)"
proof (cases "y mod k = 0")
  case True
  then have "y - 1 = k * (y div k - 1) + (k - 1)" using mult_div_mod_eq [of k y] by (simp add: algebra_simps)
  then have "(y - 1) div k = y div k - 1" using assms by (intro int_div_pos_eq [where r = "k - 1"]) simp_all
  with True show ?thesis by simp
next
  case False
  then have "0 < y mod k" using pos_mod_sign [OF assms, of y] by linarith
  then have "(y - 1) div k = y div k" using mult_div_mod_eq [of k y] pos_mod_bound [OF assms, of y]
    by (intro int_div_pos_eq [where r = "y mod k - 1"]) linarith+
  with False show ?thesis by simp
qed

lemma nested_multiples:
  "(r \<Longrightarrow> q) \<Longrightarrow> (q \<Longrightarrow> p) \<Longrightarrow>
   (a + (if p then 1 else 0)) - (b + (if q then 1 else 0)) + (c + (if r then 1 else 0)) =
   a - b + c + (if p \<and> (\<not> q \<or> r) then 1 else (0::int))"
  by auto

definition leaps :: "int \<Rightarrow> int" where
  "leaps y = y div 4 - y div 100 + y div 400"

lemma days_from_civil_leaps: "days_from_civil y m d =
   (if m \<le> 2 then 365 * (y - 1) + leaps (y - 1) else 365 * y + leaps y) + (153 * ((m + 9) mod 12) + 2) div 5 + d - 719469"
  by (simp add: days_from_civil_def leaps_def Let_def)

lemma leap_days: "leaps y = leaps (y - 1) + (if leap_year y then 1 else 0)"
proof -
  have m: "y mod 400 = 0 \<Longrightarrow> y mod 100 = 0" "y mod 100 = 0 \<Longrightarrow> y mod 4 = 0"
    using dvd_trans [of 100 400 y] dvd_trans [of 4 100 y] by (simp_all add: mod_eq_0_iff_dvd)
  have s: "y div 4 = (y - 1) div 4 + (if y mod 4 = 0 then 1 else 0)" "y div 100 = (y - 1) div 100 + (if y mod 100 = 0 then 1 else 0)"
    "y div 400 = (y - 1) div 400 + (if y mod 400 = 0 then 1 else 0)" by (rule div_step, simp)+
  show ?thesis unfolding leaps_def s leap_year_def by (rule nested_multiples [OF m])
qed

lemma next_month:
  assumes "1 \<le> m" and "m \<le> 11"
  shows "days_from_civil y (m + 1) 1 = days_from_civil y m 1 + days_in_month y m"
proof -
  have "m = 1 \<or> m = 2 \<or> m = 3 \<or> m = 4 \<or> m = 5 \<or> m = 6 \<or> m = 7 \<or> m = 8 \<or> m = 9 \<or> m = 10 \<or> m = 11"
    using assms by presburger
  then show ?thesis using leap_days [of y]
    by (elim disjE) (simp_all add: days_from_civil_leaps days_in_month_def)
qed

lemma next_year: "days_from_civil (y + 1) 1 1 = days_from_civil y 12 1 + days_in_month y 12"
  by (simp add: days_from_civil_def days_in_month_def Let_def)

lemma month_search:
  assumes "n \<le> 11" and "days_from_civil y 1 1 \<le> z"
    and "z < days_from_civil y (int n + 1) 1 + days_in_month y (int n + 1)"
  shows "1 \<le> month_search y z n \<and> month_search y z n \<le> 12 \<and> days_from_civil y (month_search y z n) 1 \<le> z \<and>
    z < days_from_civil y (month_search y z n) 1 + days_in_month y (month_search y z n)"
  using assms
proof (induction n)
  case (Suc n)
  have "days_from_civil y (int n + 2) 1 = days_from_civil y (int n + 1) 1 + days_in_month y (int n + 1)"
    using next_month [of "int n + 1" y] Suc.prems(1) by (simp add: algebra_simps)
  with Suc show ?case by (auto simp: algebra_simps)
qed simp

lemma month_from_days:
  assumes "days_from_civil y 1 1 \<le> z" and "z < days_from_civil (y + 1) 1 1"
  defines "m \<equiv> month_from_days y z"
  shows "1 \<le> m" "m \<le> 12" "days_from_civil y m 1 \<le> z" "z < days_from_civil y m 1 + days_in_month y m"
  using month_search [of 11 y z] assms(1,2) next_year [of y] unfolding m_def month_from_days_def by simp_all

section \<open>Fixed-width fields\<close>

lemma pad_digits:
  assumes "0 \<le> n" and "n < 10 ^ k" and "0 < k"
  shows "length (pad_digits k n) = k" "list_all is_digit (pad_digits k n)" "digits_val (pad_digits k n) = n"
proof -
  have "length (digits_of n) \<le> k"
  proof (cases "n = 0")
    case False
    then have "digits_of n \<noteq> [48]" using assms(1) hd_digits_of [of n] by auto
    with canonical_whole_ge [of "digits_of n"] assms(1) have "10 ^ (length (digits_of n) - 1) \<le> n" by simp
    then have "(10::int) ^ (length (digits_of n) - 1) < 10 ^ k" using assms(2) by linarith
    then have "length (digits_of n) - 1 < k" using power_less_imp_less_exp [of "10::int"] by simp
    then show ?thesis by linarith
  qed (use assms(3) in simp)
  then show "length (pad_digits k n) = k" "list_all is_digit (pad_digits k n)" "digits_val (pad_digits k n) = n"
    using assms(1) by (simp_all add: pad_digits_def padStart_def digits_val_replicate_0)
qed

lemma field_append:
  "length a = i \<Longrightarrow> length b = n \<Longrightarrow> list_all is_digit b \<Longrightarrow> field (a @ b @ c) i n = Some (digits_val b)"
  by (simp add: field_def Let_def)

lemma iso_fields:
  assumes "length y = 4" "length mo = 2" "length d = 2" "length h = 2" "length mi = 2" "length se = 2" "length ms = 3"
    and "list_all is_digit y" "list_all is_digit mo" "list_all is_digit d" "list_all is_digit h" "list_all is_digit mi"
      "list_all is_digit se" "list_all is_digit ms"
    and "1 \<le> digits_val mo" "digits_val mo \<le> 12" "1 \<le> digits_val d" "digits_val d \<le> days_in_month (digits_val y) (digits_val mo)"
      "digits_val h \<le> 23" "digits_val mi \<le> 59" "digits_val se \<le> 59"
  shows "iso_parse (y @ [45] @ mo @ [45] @ d @ [84] @ h @ [58] @ mi @ [58] @ se @ [46] @ ms @ [90]) =
    Some ((((days_from_civil (digits_val y) (digits_val mo) (digits_val d) * 24 + digits_val h) * 60 + digits_val mi) * 60
      + digits_val se) * 1000 + digits_val ms)"
proof -
  let ?s = "y @ [45] @ mo @ [45] @ d @ [84] @ h @ [58] @ mi @ [58] @ se @ [46] @ ms @ [90]"
  have f: "field ?s 0 4 = Some (digits_val y)" "field ?s 5 2 = Some (digits_val mo)" "field ?s 8 2 = Some (digits_val d)"
    "field ?s 11 2 = Some (digits_val h)" "field ?s 14 2 = Some (digits_val mi)" "field ?s 17 2 = Some (digits_val se)"
    using assms(1-14) by (simp_all add: field_def Let_def)
  have c: "?s ! 4 = 45" "?s ! 7 = 45" "?s ! 10 = 84" "?s ! 13 = 58" "?s ! 16 = 58"
    using assms(1-7) by (simp_all add: nth_append)
  have r: "drop 19 ?s = 46 # ms @ [90]" using assms(1-7) by simp
  have m: "field (46 # ms @ [90]) 1 3 = Some (digits_val ms)" "drop 4 (46 # ms @ [90]) = [90]"
    using assms(7,14) by (simp_all add: field_def Let_def)
  have z: "iso_offset [90] = Some 0" by (simp add: iso_offset_def lit_def)
  show ?thesis unfolding iso_parse_def f using assms(15-) by (simp only: option.case prod.case c r Let_def m z) (simp add: m z)
qed

section \<open>Round trip\<close>

lemma clock_sum:
  fixes r z :: int
  shows "(((z * 24 + r div 3600000) * 60 + r div 60000 mod 60) * 60 + r div 1000 mod 60) * 1000 + r mod 1000 = z * 86400000 + r"
proof -
  define h m s where "h = r div 3600000" and "m = r div 60000" and "s = r div 1000"
  have "m div 60 = h" "s div 60 = m" using zdiv_zmult2_eq [of 60 r 60000] zdiv_zmult2_eq [of 60 r 1000] by (simp_all add: h_def m_def s_def)
  then have m: "m = 60 * h + m mod 60" and s: "s = 60 * m + s mod 60" using mult_div_mod_eq [of 60 m] mult_div_mod_eq [of 60 s] by simp_all
  have r: "r = 1000 * s + r mod 1000" by (simp add: s_def)
  define m' s' r' where "m' = m mod 60" and "s' = s mod 60" and "r' = r mod 1000"
  from m s r have "m = 60 * h + m'" "s = 60 * m + s'" "r = 1000 * s + r'" by (simp_all only: m'_def s'_def r'_def)
  then have "(((z * 24 + h) * 60 + m') * 60 + s') * 1000 + r' = z * 86400000 + r" by simp
  then show ?thesis by (simp only: m'_def s'_def r'_def h_def m_def s_def)
qed

lemma iso_parse_toISOString:
  assumes "0 \<le> year_from_days (t div 86400000)" and "year_from_days (t div 86400000) \<le> 9999"
  shows "iso_parse (toISOString t) = Some t"
proof -
  define z r where "z = t div 86400000" and "r = t mod 86400000"
  define y where "y = year_from_days z"
  define m where "m = month_from_days y z"
  define d where "d = z - days_from_civil y m 1 + 1"
  have t: "t = z * 86400000 + r" by (simp add: z_def r_def)
  have r: "0 \<le> r" "r < 86400000" by (simp_all add: r_def)
  have y: "days_from_civil y 1 1 \<le> z" "z < days_from_civil (y + 1) 1 1" using year_from_days [of z] by (simp_all add: y_def)
  note m = month_from_days [OF y, folded m_def]
  have d: "1 \<le> d" "d \<le> days_in_month y m" using m by (simp_all add: d_def)
  then have d': "d < 100" by (auto simp: days_in_month_def split: if_splits)
  have civil: "days_from_civil y m d = z" by (simp add: d_def days_from_civil_def Let_def)
  have yr: "0 \<le> y" "y < 10 ^ 4" using assms by (simp_all add: y_def z_def)
  have clock: "0 \<le> r div 3600000" "r div 3600000 \<le> 23" "0 \<le> r div 60000 mod 60" "r div 60000 mod 60 \<le> 59"
    "0 \<le> r div 1000 mod 60" "r div 1000 mod 60 \<le> 59" "0 \<le> r mod 1000" "r mod 1000 < 10 ^ 3" using r by simp_all
  have sum: "(((z * 24 + r div 3600000) * 60 + r div 60000 mod 60) * 60 + r div 1000 mod 60) * 1000 + r mod 1000 = t"
    unfolding t by (rule clock_sum)
  have b2: "n \<le> 99 \<Longrightarrow> n < 10 ^ 2" for n :: int by simp
  have p: "(0::nat) < 2" "(0::nat) < 3" "(0::nat) < 4" "1 \<le> m \<Longrightarrow> 0 \<le> m" "1 \<le> d \<Longrightarrow> 0 \<le> d" by simp_all
  have up: "m \<le> 99" "d \<le> 99" "r div 3600000 \<le> 99" "r div 60000 mod 60 \<le> 99" "r div 1000 mod 60 \<le> 99"
    using m(2) d' clock(2,4,6) by linarith+
  note Y = pad_digits [OF yr p(3)] and M = pad_digits [OF p(4) [OF m(1)] b2 [OF up(1)] p(1)] and D = pad_digits [OF p(5) [OF d(1)] b2 [OF up(2)] p(1)]
    and H = pad_digits [OF clock(1) b2 [OF up(3)] p(1)] and I = pad_digits [OF clock(3) b2 [OF up(4)] p(1)]
    and S = pad_digits [OF clock(5) b2 [OF up(5)] p(1)] and F = pad_digits [OF clock(7,8) p(2)]
  have "iso_parse (toISOString t) = iso_parse (pad_digits 4 y @ [45] @ pad_digits 2 m @ [45] @ pad_digits 2 d @ [84]
      @ pad_digits 2 (r div 3600000) @ [58] @ pad_digits 2 (r div 60000 mod 60) @ [58] @ pad_digits 2 (r div 1000 mod 60)
      @ [46] @ pad_digits 3 (r mod 1000) @ [90])"
    using yr by (simp add: toISOString_def Let_def z_def [symmetric] r_def [symmetric] y_def [symmetric] m_def [symmetric]
      d_def [symmetric] year_text_def del: append_assoc)
  also have "\<dots> = Some t"
    using iso_fields [OF Y(1) M(1) D(1) H(1) I(1) S(1) F(1) Y(2) M(2) D(2) H(2) I(2) S(2) F(2), unfolded Y(3) M(3) D(3) H(3) I(3) S(3) F(3) civil sum,
      OF m(1,2) d clock(2,4,6)] .
  finally show ?thesis .
qed

end
