(* ===== verification/JsonText.thy ===== *)
theory JsonText
  imports Errors
begin

text \<open>
  The JSON texts of ECMA-262: \<open>quote\<close> is \<^verbatim>\<open>JSON.stringify\<close> of a string, \<open>JSON_parse\<close> is
  \<^verbatim>\<open>JSON.parse\<close>.  The parser is a recursive descent over the code units whose fuel is the
  length of the text plus one; every call consumes a unit before it recurses, so the fuel is
  never what makes it fail.  A repeated key keeps its first position and its last value.
\<close>

section \<open>Printing strings\<close>

definition is_high_surrogate :: "code_unit \<Rightarrow> bool" where
  "is_high_surrogate c \<longleftrightarrow> 0xd800 \<le> c \<and> c \<le> 0xdbff"

definition is_low_surrogate :: "code_unit \<Rightarrow> bool" where
  "is_low_surrogate c \<longleftrightarrow> 0xdc00 \<le> c \<and> c \<le> 0xdfff"

definition hex_unit :: "code_unit \<Rightarrow> code_unit" where
  "hex_unit d = (if d < 10 then d + 48 else d + 87)"

definition u_escape :: "code_unit \<Rightarrow> jstring" where
  "u_escape c = [92, 117, hex_unit (c div 4096), hex_unit (c div 256 mod 16), hex_unit (c div 16 mod 16), hex_unit (c mod 16)]"

definition escape_unit :: "code_unit \<Rightarrow> jstring" where
  "escape_unit c =
     (if c = 34 then [92, 34] else if c = 92 then [92, 92] else if c = 8 then [92, 98]
      else if c = 12 then [92, 102] else if c = 10 then [92, 110] else if c = 13 then [92, 114]
      else if c = 9 then [92, 116] else if c < 32 then u_escape c else [c])"

fun quote_units :: "jstring \<Rightarrow> jstring" where
  "quote_units [] = []"
| "quote_units [c] = (if is_high_surrogate c \<or> is_low_surrogate c then u_escape c else escape_unit c)"
| "quote_units (c # d # cs) =
     (if is_high_surrogate c \<and> is_low_surrogate d then c # d # quote_units cs
      else (if is_high_surrogate c \<or> is_low_surrogate c then u_escape c else escape_unit c) @ quote_units (d # cs))"

definition quote :: "jstring \<Rightarrow> jstring" where
  "quote s = [34] @ quote_units s @ [34]"

section \<open>Reading strings\<close>

fun hex4 :: "jstring \<Rightarrow> code_unit option" where
  "hex4 [a, b, c, d] = (case (hex_val a, hex_val b, hex_val c, hex_val d) of
     (Some w, Some x, Some y, Some z) \<Rightarrow> Some (word_of_int (((w * 16 + x) * 16 + y) * 16 + z)) | _ \<Rightarrow> None)"
| "hex4 _ = None"

definition simple_escape :: "code_unit \<Rightarrow> code_unit option" where
  "simple_escape e = (if e = 34 then Some 34 else if e = 92 then Some 92 else if e = 47 then Some 47
     else if e = 98 then Some 8 else if e = 102 then Some 12 else if e = 110 then Some 10
     else if e = 114 then Some 13 else if e = 116 then Some 9 else None)"

text \<open>The text after an opening quotation mark: the string it spells and what follows it.\<close>

function unquote :: "jstring \<Rightarrow> (jstring \<times> jstring) option" where
  "unquote [] = None"
| "unquote (c # cs) =
     (if c = 34 then Some ([], cs)
      else if c = 92 then
        (case cs of [] \<Rightarrow> None
         | e # es \<Rightarrow>
             if e = 117 then (case hex4 (take 4 es) of None \<Rightarrow> None
                | Some u \<Rightarrow> map_option (\<lambda>(s, r). (u # s, r)) (unquote (drop 4 es)))
             else (case simple_escape e of None \<Rightarrow> None
                | Some u \<Rightarrow> map_option (\<lambda>(s, r). (u # s, r)) (unquote es)))
      else if c < 32 then None
      else map_option (\<lambda>(s, r). (c # s, r)) (unquote cs))"
  by pat_completeness auto
termination by (relation "measure length") auto

section \<open>Numbers\<close>

definition number_unit :: "code_unit \<Rightarrow> bool" where
  "number_unit c \<longleftrightarrow> is_digit c \<or> c = 45 \<or> c = 43 \<or> c = 46 \<or> c = 101 \<or> c = 69"

text \<open>\<^verbatim>\<open>(0|[1-9][0-9]*)(\.[0-9]+)?([eE][+-]?[0-9]+)?\<close>\<close>

definition valid_unsigned :: "jstring \<Rightarrow> bool" where
  "valid_unsigned s =
     (let w = takeWhile is_digit s; r = dropWhile is_digit s in
      w \<noteq> [] \<and> (w = [48] \<or> hd w \<noteq> 48) \<and>
      (if r \<noteq> [] \<and> hd r = 46
       then takeWhile is_digit (tl r) \<noteq> [] \<and> exponent_part (dropWhile is_digit (tl r)) \<noteq> None
       else exponent_part r \<noteq> None))"

definition number_of_token :: "jstring \<Rightarrow> jsnum option" where
  "number_of_token t = (case t of [] \<Rightarrow> None
     | c # u \<Rightarrow> if c = 45 then (if valid_unsigned u then Some (num_neg (num_of_decimal u)) else None)
                else if valid_unsigned t then Some (num_of_decimal t) else None)"

section \<open>Values\<close>

definition skip_space :: "jstring \<Rightarrow> jstring" where
  "skip_space s = dropWhile (\<lambda>c. c = 32 \<or> c = 9 \<or> c = 10 \<or> c = 13) s"

definition put_member :: "jstring \<Rightarrow> json \<Rightarrow> jobject \<Rightarrow> jobject" where
  "put_member k v ps = (if k \<in> fst ` set ps then map (\<lambda>(k', v'). (k', if k' = k then v else v')) ps else ps @ [(k, v)])"

fun expect :: "string \<Rightarrow> 'a \<Rightarrow> jstring \<Rightarrow> ('a \<times> jstring) option" where
  "expect t v s = (if startsWith s (lit t) then Some (v, drop (length t) s) else None)"

text \<open>
  \<open>parse_elements\<close> reads what follows an opening bracket or a comma of an array,
  \<open>parse_members\<close> the same of an object.
\<close>

fun parse_value :: "nat \<Rightarrow> jstring \<Rightarrow> (json \<times> jstring) option"
  and parse_elements :: "nat \<Rightarrow> json list \<Rightarrow> jstring \<Rightarrow> (json list \<times> jstring) option"
  and parse_members :: "nat \<Rightarrow> jobject \<Rightarrow> jstring \<Rightarrow> (jobject \<times> jstring) option" where
  "parse_value 0 s = None"
| "parse_value (Suc n) s0 =
     (let s = skip_space s0 in case s of [] \<Rightarrow> None
      | c # cs \<Rightarrow>
          if c = 123 then
            (case skip_space cs of [] \<Rightarrow> None
             | d # ds \<Rightarrow> if d = 125 then Some (JObj [], ds)
                         else map_option (\<lambda>(ps, r). (JObj ps, r)) (parse_members n [] cs))
          else if c = 91 then
            (case skip_space cs of [] \<Rightarrow> None
             | d # ds \<Rightarrow> if d = 93 then Some (JArr [], ds)
                         else map_option (\<lambda>(xs, r). (JArr xs, r)) (parse_elements n [] cs))
          else if c = 34 then map_option (\<lambda>(t, r). (JStr t, r)) (unquote cs)
          else if c = 116 then expect ''true'' (JBool True) s
          else if c = 102 then expect ''false'' (JBool False) s
          else if c = 110 then expect ''null'' JNull s
          else map_option (\<lambda>x. (JNum x, dropWhile number_unit s)) (number_of_token (takeWhile number_unit s)))"
| "parse_elements 0 acc s = None"
| "parse_elements (Suc n) acc s =
     (case parse_value n s of None \<Rightarrow> None
      | Some (v, r) \<Rightarrow> (case skip_space r of [] \<Rightarrow> None
          | c # cs \<Rightarrow> if c = 44 then parse_elements n (acc @ [v]) cs
                      else if c = 93 then Some (acc @ [v], cs) else None))"
| "parse_members 0 acc s = None"
| "parse_members (Suc n) acc s0 =
     (case skip_space s0 of [] \<Rightarrow> None
      | q # s \<Rightarrow> if q \<noteq> 34 then None else
          (case unquote s of None \<Rightarrow> None
           | Some (k, r) \<Rightarrow> (case skip_space r of [] \<Rightarrow> None
               | c # cs \<Rightarrow> if c \<noteq> 58 then None else
                   (case parse_value n cs of None \<Rightarrow> None
                    | Some (v, r') \<Rightarrow> (case skip_space r' of [] \<Rightarrow> None
                        | d # ds \<Rightarrow> if d = 44 then parse_members n (put_member k v acc) ds
                                    else if d = 125 then Some (put_member k v acc, ds) else None)))))"

definition JSON_parse :: "jstring \<Rightarrow> json result" where
  "JSON_parse s = (case parse_value (Suc (length s)) s of
     Some (v, r) \<Rightarrow> if skip_space r = [] then Inr v else Inl (SyntaxErr [])
   | None \<Rightarrow> Inl (SyntaxErr []))"

section \<open>Strings round-trip\<close>

lemma hex_val_hex_unit:
  fixes d :: code_unit
  assumes "d < 16"
  shows "hex_val (hex_unit d) = Some (uint d)"
proof -
  have u: "unat d < 16" using assms by (simp add: word_less_nat_alt)
  show ?thesis
  proof (cases "d < 10")
    case True
    then have "unat d < 10" by (simp add: word_less_nat_alt)
    moreover have p: "unat (d + 48) = unat d + 48" using u by (simp add: unat_word_ariths)
    ultimately have "is_digit (d + 48)" by (simp add: is_digit_unat)
    moreover have "uint (d + 48) = uint d + 48" using p by (metis of_nat_add of_nat_numeral uint_nat)
    ultimately show ?thesis using True by (simp add: hex_val_def hex_unit_def)
  next
    case False
    then have "10 \<le> unat d" by (simp add: word_less_nat_alt)
    moreover have p: "unat (d + 87) = unat d + 87" using u by (simp add: unat_word_ariths)
    ultimately have "\<not> is_digit (d + 87)" "97 \<le> d + 87" "d + 87 \<le> 102" using u
      by (simp_all add: is_digit_unat word_le_nat_alt)
    moreover have "uint (d + 87) = uint d + 87" using p by (metis of_nat_add of_nat_numeral uint_nat)
    ultimately show ?thesis using False by (simp add: hex_val_def hex_unit_def)
  qed
qed

lemma hex4_u_escape: "hex4 (drop 2 (u_escape c)) = Some c"
proof -
  have i: "uint (c div 4096) = uint c div 4096" "uint (c div 256 mod 16) = uint c div 256 mod 16"
    "uint (c div 16 mod 16) = uint c div 16 mod 16" "uint (c mod 16) = uint c mod 16"
    by (simp_all add: uint_div uint_mod)
  have "uint c < 2 ^ 16" using unsigned_less [of c] by simp
  then have b: "c div 4096 < 16" "c div 256 mod 16 < 16" "c div 16 mod 16 < 16" "c mod 16 < 16"
    by (simp_all add: word_less_def i)
  have "((n div 4096 * 16 + n div 256 mod 16) * 16 + n div 16 mod 16) * 16 + n mod 16 = n" for n :: int
  proof -
    have "n div 4096 = n div 16 div 16 div 16" "n div 256 = n div 16 div 16" by (simp_all add: div_mult2_eq [symmetric])
    then show ?thesis
      using div_mult_mod_eq [of n 16] div_mult_mod_eq [of "n div 16" 16] div_mult_mod_eq [of "n div 16 div 16" 16] by simp
  qed
  from this [of "uint c"] show ?thesis
    by (simp add: u_escape_def hex_val_hex_unit [OF b(1)] hex_val_hex_unit [OF b(2)]
      hex_val_hex_unit [OF b(3)] hex_val_hex_unit [OF b(4)] i)
qed

text \<open>Any unit other than a lone surrogate escape spells itself.\<close>

lemma unquote_u_escape: "unquote (u_escape c @ r) = map_option (\<lambda>(s, r). (c # s, r)) (unquote r)"
proof -
  obtain a b d e where u: "u_escape c = [92, 117, a, b, d, e]" by (simp add: u_escape_def)
  with hex4_u_escape [of c] show ?thesis by simp
qed

lemma unquote_plain:
  "c \<noteq> 34 \<Longrightarrow> c \<noteq> 92 \<Longrightarrow> \<not> c < 32 \<Longrightarrow> unquote (c # r) = map_option (\<lambda>(s, r). (c # s, r)) (unquote r)"
  by simp

lemma unquote_escape: "unquote (escape_unit c @ r) = map_option (\<lambda>(s, r). (c # s, r)) (unquote r)"
  using unquote_u_escape [of c r] unquote_plain [of c r]
  by (auto simp: escape_unit_def simple_escape_def)

lemma surrogate_plain:
  "is_high_surrogate c \<or> is_low_surrogate c \<Longrightarrow> c \<noteq> 34 \<and> c \<noteq> 92 \<and> \<not> c < 32"
  by (auto simp: is_high_surrogate_def is_low_surrogate_def word_le_nat_alt word_less_nat_alt)

lemma unquote_quote_units: "unquote (quote_units s @ 34 # r) = Some (s, r)"
proof (induction s rule: quote_units.induct)
  case (2 c)
  then show ?case using unquote_u_escape [of c "34 # r"] unquote_escape [of c "34 # r"] by simp
next
  case (3 c d cs)
  then show ?case
    using unquote_u_escape [of c "quote_units (d # cs) @ 34 # r"] unquote_escape [of c "quote_units (d # cs) @ 34 # r"]
      surrogate_plain [of c] surrogate_plain [of d]
    by simp
qed simp

section \<open>Numbers round-trip\<close>

lemma takeWhile_digits: "list_all is_digit w \<Longrightarrow> (\<forall>c cs. r = c # cs \<longrightarrow> \<not> is_digit c) \<Longrightarrow>
    takeWhile is_digit (w @ r) = w \<and> dropWhile is_digit (w @ r) = r"
  by (induction w) (cases r, auto)

lemma num_of_decimal_digits:
  assumes "0 \<le> n" and "n \<le> 2 ^ 53"
  shows "num_of_decimal (digits_of n) = num_of_int n" and "valid_unsigned (digits_of n)"
proof -
  note d = digits_of_all_digit [OF assms(1)] and c = canonical_whole_digits_of [OF assms(1)]
  have t: "takeWhile is_digit (digits_of n) = digits_of n" "dropWhile is_digit (digits_of n) = []"
    using takeWhile_digits [OF d, of "[]"] by simp_all
  have "fl (of_int n) = Fin (of_int n)" by (rule fl_of_int_exact) (use assms in simp)
  then show "num_of_decimal (digits_of n) = num_of_int n"
    using assms(1) by (simp add: num_of_decimal_def unsigned_decimal_def t exponent_part_def pow10_def num_of_int_def)
  show "valid_unsigned (digits_of n)" using c by (auto simp: valid_unsigned_def t exponent_part_def canonical_whole_def)
qed

lemma digits_of_head: "0 \<le> n \<Longrightarrow> \<exists>c cs. digits_of n = c # cs \<and> is_digit c"
  using digits_of_all_digit [of n] digits_of_not_Nil [of n] by (cases "digits_of n") auto

lemma number_of_token_int:
  assumes "\<bar>n\<bar> \<le> 2 ^ 53"
  shows "number_of_token (int_to_string n) = Some (num_of_int n)"
proof (cases "n < 0")
  case True
  with num_of_decimal_digits [of "- n"] assms show ?thesis
    by (simp add: int_to_string_def number_of_token_def lit_def num_of_int_def)
next
  case False
  with num_of_decimal_digits [of n] assms digits_of_head [of n] show ?thesis
    by (auto simp: int_to_string_def number_of_token_def is_digit_def)
qed

lemma int_to_string_units: "list_all number_unit (int_to_string n)"
proof -
  have "list_all is_digit (digits_of \<bar>n\<bar>)" by simp
  then show ?thesis by (auto simp: int_to_string_def number_unit_def lit_def list_all_iff split: if_splits)
qed

end
