(* ===== verification/JsonPrinter.thy ===== *)
theory JsonPrinter
  imports JsonText
begin

text \<open>
  Printers of JSON whose text \<^verbatim>\<open>JSON.parse\<close> reads back.  \<open>json_printer\<close> states what a printer
  writes for each kind of value; its one lemma is the round trip on the values it can print.  The
  interpretations are \<^verbatim>\<open>serializeCanonical\<close> and \<^verbatim>\<open>JSON.stringify\<close>.
\<close>

section \<open>Lexical facts\<close>

definition space_unit :: "code_unit \<Rightarrow> bool" where
  "space_unit c \<longleftrightarrow> c = 32 \<or> c = 9 \<or> c = 10 \<or> c = 13"

definition ends_value :: "jstring \<Rightarrow> bool" where
  "ends_value r \<longleftrightarrow> (case r of [] \<Rightarrow> True | c # _ \<Rightarrow> c = 44 \<or> c = 93 \<or> c = 125)"

lemma skip_space_Cons [simp]: "\<not> space_unit c \<Longrightarrow> skip_space (c # s) = c # s"
  by (simp add: skip_space_def space_unit_def)

text \<open>What a serialised value can begin with.\<close>

definition starts_value :: "code_unit \<Rightarrow> bool" where
  "starts_value c \<longleftrightarrow> c \<in> {123, 91, 34, 116, 102, 110, 45} \<or> is_digit c"

lemma starts_value_units: "starts_value c \<Longrightarrow> \<not> space_unit c \<and> c \<noteq> 93 \<and> c \<noteq> 125 \<and> c \<noteq> 44"
  by (auto simp: starts_value_def space_unit_def is_digit_def)

lemma num_to_string_int: "\<bar>k\<bar> \<le> 2 ^ 53 \<Longrightarrow> num_to_string (num_of_int k) = int_to_string k"
proof -
  assume "\<bar>k\<bar> \<le> 2 ^ 53"
  moreover have "pos_to_string (of_int n) = digits_of n" if "n \<le> 2 ^ 53" for n using that by (simp add: pos_to_string_def)
  ultimately show ?thesis
    using \<open>\<And>n. n \<le> 2 ^ 53 \<Longrightarrow> pos_to_string (of_int n) = digits_of n\<close> [of "- k"] by (simp add: num_of_int_def int_to_string_def)
qed

lemma safe_integer_text:
  assumes "num_is_safe_integer n"
  obtains k where "n = num_of_int k" "\<bar>k\<bar> \<le> 2 ^ 53" "num_to_string n = int_to_string k"
proof (cases n)
  case (Fin a)
  with assms have "n = num_of_int \<lfloor>a\<rfloor>" "\<bar>\<lfloor>a\<rfloor>\<bar> \<le> 2 ^ 53" by (auto simp: num_of_int_def max_safe_def)
  moreover from this have "num_to_string n = int_to_string \<lfloor>a\<rfloor>" using num_to_string_int [of "\<lfloor>a\<rfloor>"] by simp
  ultimately show thesis by (rule that)
qed (use assms in simp_all)

lemma int_to_string_starts: "\<exists>c cs. int_to_string k = c # cs \<and> (c = 45 \<or> is_digit c)"
  using digits_of_head [of k] by (auto simp: int_to_string_def lit_def)

lemma takeWhile_number:
  "list_all number_unit w \<Longrightarrow> ends_value r \<Longrightarrow> takeWhile number_unit (w @ r) = w \<and> dropWhile number_unit (w @ r) = r"
  by (induction w) (cases r, auto simp: ends_value_def number_unit_def is_digit_def)

lemma parse_value_Cons: "\<not> space_unit c \<Longrightarrow> parse_value (Suc n) (c # cs) =
     (if c = 123 then
        (case skip_space cs of [] \<Rightarrow> None
         | d # ds \<Rightarrow> if d = 125 then Some (JObj [], ds)
                     else map_option (\<lambda>(ps, r). (JObj ps, r)) (parse_members n [] cs))
      else if c = 91 then
        (case skip_space cs of [] \<Rightarrow> None
         | d # ds \<Rightarrow> if d = 93 then Some (JArr [], ds)
                     else map_option (\<lambda>(xs, r). (JArr xs, r)) (parse_elements n [] cs))
      else if c = 34 then map_option (\<lambda>(t, r). (JStr t, r)) (unquote cs)
      else if c = 116 then expect ''true'' (JBool True) (c # cs)
      else if c = 102 then expect ''false'' (JBool False) (c # cs)
      else if c = 110 then expect ''null'' JNull (c # cs)
      else map_option (\<lambda>x. (JNum x, dropWhile number_unit (c # cs))) (number_of_token (takeWhile number_unit (c # cs))))"
  by simp

section \<open>Reading a text back\<close>

text \<open>Inside any text that can follow a value, the text parses as the value.\<close>

definition reads_as :: "jstring \<Rightarrow> json \<Rightarrow> bool" where
  "reads_as t j \<longleftrightarrow> (\<exists>c cs. t = c # cs \<and> starts_value c) \<and>
     (\<forall>n r. length t < n \<longrightarrow> ends_value r \<longrightarrow> parse_value n (t @ r) = Some (j, r))"

definition member_line :: "jstring \<times> jstring \<Rightarrow> jstring" where
  "member_line = (\<lambda>(k, t). quote k @ [58] @ t)"

lemma parse_elements_reads:
  assumes "list_all2 reads_as ts xs" and "ts \<noteq> []" and "length (join [44] ts) + 1 < n"
  shows "parse_elements n acc (join [44] ts @ 93 # r) = Some (acc @ xs, r)"
  using assms
proof (induction ts xs arbitrary: n acc rule: list_all2_induct)
  case (Cons t ts x xs)
  from Cons.prems(2) obtain m where m: "n = Suc m" by (cases n) auto
  show ?case
  proof (cases ts)
    case Nil
    have "parse_value m (t @ 93 # r) = Some (x, 93 # r)"
      using Cons.hyps(1) Cons.prems(2) m Nil by (simp add: reads_as_def ends_value_def)
    with Nil Cons.hyps(2) m show ?thesis by (simp add: space_unit_def)
  next
    case (Cons t' ts')
    let ?rest = "join [44] ts"
    have j: "join [44] (t # ts) = t @ 44 # ?rest" using Cons by simp
    have "parse_value m (t @ 44 # ?rest @ 93 # r) = Some (x, 44 # ?rest @ 93 # r)"
      using Cons.hyps(1) Cons.prems(2) m j by (simp add: reads_as_def ends_value_def)
    moreover have "parse_elements m (acc @ [x]) (?rest @ 93 # r) = Some ((acc @ [x]) @ xs, r)"
    proof (rule Cons.IH)
      obtain c cs where "t = c # cs" using Cons.hyps(1) by (auto simp: reads_as_def)
      then show "length ?rest + 1 < m" using Cons.prems(2) m j by simp
    qed (simp add: Cons)
    ultimately show ?thesis using m j by (simp add: space_unit_def)
  qed
qed simp

lemma parse_members_reads:
  assumes "list_all2 (\<lambda>(k, t) (k', v). k = k' \<and> reads_as t v) ls ps" and "ls \<noteq> []" and "length (join [44] (map member_line ls)) + 1 < n"
    and "distinct (map fst (acc @ ps))"
  shows "parse_members n acc (join [44] (map member_line ls) @ 125 # r) = Some (acc @ ps, r)"
  using assms
proof (induction ls ps arbitrary: n acc rule: list_all2_induct)
  case (Cons l ls p ps)
  obtain k t v where p: "p = (k, v)" "l = (k, t)" and v: "reads_as t v" using Cons.hyps(1) by auto
  from Cons.prems(2) obtain m where m: "n = Suc m" by (cases n) auto
  obtain c cs where c: "t = c # cs" "starts_value c" using v by (auto simp: reads_as_def)
  have put: "put_member k v acc = acc @ [(k, v)]" using Cons.prems(3) p by (auto simp: put_member_def)
  have key: "unquote (quote_units k @ 34 # u) = Some (k, u)" for u by (rule unquote_quote_units)
  have mt: "member_line l = 34 # quote_units k @ 34 # 58 # t" by (simp add: member_line_def p quote_def)
  show ?case
  proof (cases ls)
    case Nil
    have "parse_value m (t @ 125 # r) = Some (v, 125 # r)"
      using v Cons.prems(2) m Nil mt by (simp add: reads_as_def ends_value_def)
    with Nil Cons.hyps(2) m mt key put p show ?thesis by (simp add: space_unit_def)
  next
    case (Cons q qs)
    let ?rest = "join [44] (map member_line ls)"
    have j: "join [44] (map member_line (l # ls)) = member_line l @ 44 # ?rest" using Cons by simp
    have "parse_value m (t @ 44 # ?rest @ 125 # r) = Some (v, 44 # ?rest @ 125 # r)"
      using v Cons.prems(2) m j mt by (simp add: reads_as_def ends_value_def)
    moreover have "parse_members m (acc @ [(k, v)]) (?rest @ 125 # r) = Some ((acc @ [(k, v)]) @ ps, r)"
    proof (rule Cons.IH)
      show "length ?rest + 1 < m" using Cons.prems(2) m j mt by simp
    qed (use Cons.prems(3) Cons p in auto)
    ultimately show ?thesis using m j mt key put p by (simp add: space_unit_def)
  qed
qed simp

lemma reads_as_array:
  assumes "list_all2 reads_as ts xs"
  shows "reads_as ([91] @ join [44] ts @ [93]) (JArr xs)"
  unfolding reads_as_def
proof (intro conjI allI impI)
  show "\<exists>c cs. [91] @ join [44] ts @ [93] = c # cs \<and> starts_value c" by (simp add: starts_value_def)
  fix n r assume n: "length ([91] @ join [44] ts @ [93]) < n" and "ends_value r"
  then obtain m where m: "n = Suc m" by (cases n) auto
  show "parse_value n (([91] @ join [44] ts @ [93]) @ r) = Some (JArr xs, r)"
  proof (cases ts)
    case Nil
    with assms show ?thesis by (simp add: m space_unit_def)
  next
    case (Cons t ts')
    obtain c cs where c: "t = c # cs" "starts_value c" using assms Cons by (auto simp: reads_as_def list_all2_Cons1)
    obtain ds where "join [44] ts = c # ds" using c(1) Cons by (cases ts') auto
    moreover have "parse_elements m [] (join [44] ts @ 93 # r) = Some (xs, r)"
      using parse_elements_reads [OF assms, of m "[]" r] Cons n m by simp
    ultimately show ?thesis using starts_value_units [OF c(2)] by (simp add: m space_unit_def)
  qed
qed

lemma reads_as_object:
  assumes "list_all2 (\<lambda>(k, t) (k', v). k = k' \<and> reads_as t v) ls ps" and "distinct (map fst ps)"
  shows "reads_as ([123] @ join [44] (map member_line ls) @ [125]) (JObj ps)"
  unfolding reads_as_def
proof (intro conjI allI impI)
  let ?body = "join [44] (map member_line ls)"
  show "\<exists>c cs. [123] @ ?body @ [125] = c # cs \<and> starts_value c" by (simp add: starts_value_def)
  fix n r assume n: "length ([123] @ ?body @ [125]) < n" and "ends_value r"
  then obtain m where m: "n = Suc m" by (cases n) auto
  show "parse_value n (([123] @ ?body @ [125]) @ r) = Some (JObj ps, r)"
  proof (cases ls)
    case Nil
    with assms(1) show ?thesis by (simp add: m space_unit_def)
  next
    case (Cons p qs)
    obtain ds where "?body = 34 # ds" using Cons by (cases p; cases qs) (auto simp: member_line_def quote_def)
    moreover have "parse_members m [] (?body @ 125 # r) = Some (ps, r)"
      using parse_members_reads [OF assms(1), of m "[]" r] Cons n m assms(2) by simp
    ultimately show ?thesis by (simp add: m space_unit_def)
  qed
qed

lemma reads_as_number:
  assumes "num_is_safe_integer n"
  shows "reads_as (num_to_string n) (JNum n)"
  unfolding reads_as_def
proof (intro conjI allI impI)
  from assms obtain k where k: "n = num_of_int k" "\<bar>k\<bar> \<le> 2 ^ 53" "num_to_string n = int_to_string k" by (rule safe_integer_text)
  obtain c cs where c: "int_to_string k = c # cs" "c = 45 \<or> is_digit c" using int_to_string_starts by blast
  then show "\<exists>c cs. num_to_string n = c # cs \<and> starts_value c" using k(3) by (auto simp: starts_value_def)
  fix m r assume "length (num_to_string n) < m" and e: "ends_value r"
  then obtain m' where m: "m = Suc m'" by (cases m) auto
  have t: "takeWhile number_unit (c # cs @ r) = c # cs" "dropWhile number_unit (c # cs @ r) = r"
    using takeWhile_number [OF int_to_string_units e, of k] c(1) by simp_all
  have "\<not> space_unit c" "c \<notin> {123, 91, 34, 116, 102, 110}" using c(2) by (auto simp: space_unit_def is_digit_def)
  then show "parse_value m (num_to_string n @ r) = Some (JNum n, r)"
    using number_of_token_int [OF k(2)] k(1,3) c(1) t m by (simp add: parse_value_Cons del: parse_value.simps)
qed

lemma reads_as_string: "reads_as (quote s) (JStr s)"
  unfolding reads_as_def
proof (intro conjI allI impI)
  show "\<exists>c cs. quote s = c # cs \<and> starts_value c" by (simp add: quote_def starts_value_def)
  fix n r assume "length (quote s) < n"
  then obtain m where m: "n = Suc m" by (cases n) auto
  show "parse_value n (quote s @ r) = Some (JStr s, r)"
    using unquote_quote_units [of s r] by (simp add: m quote_def space_unit_def)
qed

lemma reads_as_constants: "reads_as (lit ''null'') JNull" "reads_as (if b then lit ''true'' else lit ''false'') (JBool b)"
proof -
  have "parse_value n (lit ''null'' @ r) = Some (JNull, r)" "parse_value n ((if b then lit ''true'' else lit ''false'') @ r) = Some (JBool b, r)"
    if "0 < n" for n r using that by (cases n; auto simp: lit_def space_unit_def startsWith_def)+
  then show "reads_as (lit ''null'') JNull" "reads_as (if b then lit ''true'' else lit ''false'') (JBool b)"
    by (auto simp: reads_as_def starts_value_def lit_def)
qed

section \<open>Printers\<close>

locale json_printer =
  fixes text_of :: "json \<Rightarrow> jstring" and printable :: "json \<Rightarrow> bool"
  assumes text_null: "text_of JNull = lit ''null''"
    and text_bool: "text_of (JBool b) = (if b then lit ''true'' else lit ''false'')"
    and text_string: "text_of (JStr s) = quote s"
    and text_number: "printable (JNum n) \<Longrightarrow> num_is_safe_integer n \<and> text_of (JNum n) = num_to_string n"
    and text_array: "printable (JArr xs) \<Longrightarrow> text_of (JArr xs) = [91] @ join [44] (map text_of xs) @ [93] \<and> list_all printable xs"
    and text_object: "printable (JObj ps) \<Longrightarrow> text_of (JObj ps) = [123] @ join [44] (map (\<lambda>(k, v). quote k @ [58] @ text_of v) ps) @ [125] \<and>
      distinct (map fst ps) \<and> list_all (\<lambda>(k, v). printable v) ps"
begin

lemma printed_reads: "printable j \<Longrightarrow> reads_as (text_of j) j"
proof (induction j)
  case (JArr xs)
  from text_array [OF JArr.prems] have t: "text_of (JArr xs) = [91] @ join [44] (map text_of xs) @ [93]" "\<forall>x \<in> set xs. printable x"
    by (auto simp: list_all_iff)
  have "list_all2 reads_as (map text_of xs) xs" using JArr.IH t(2) by (auto simp: list_all2_map1 intro!: list.rel_refl_strong)
  then show ?case unfolding t(1) by (rule reads_as_array)
next
  case (JObj ps)
  from text_object [OF JObj.prems] have t: "text_of (JObj ps) = [123] @ join [44] (map (\<lambda>(k, v). quote k @ [58] @ text_of v) ps) @ [125]"
      "distinct (map fst ps)" "\<forall>(k, v) \<in> set ps. printable v" by (auto simp: list_all_iff)
  let ?ls = "map (\<lambda>(k, v). (k, text_of v)) ps"
  have "list_all2 (\<lambda>(k, t) (k', v). k = k' \<and> reads_as t v) ?ls ps"
    using JObj.IH t(3) by (auto simp: list_all2_map1 case_prod_unfold intro!: list.rel_refl_strong)
  then have "reads_as ([123] @ join [44] (map member_line ?ls) @ [125]) (JObj ps)" using t(2) by (rule reads_as_object)
  moreover have "map member_line ?ls = map (\<lambda>(k, v). quote k @ [58] @ text_of v) ps" by (simp add: member_line_def comp_def case_prod_unfold)
  ultimately show ?case unfolding t(1) by (simp only:)
next
  case (JBool b)
  show ?case unfolding text_bool by (rule reads_as_constants)
qed (use text_number in \<open>auto simp: text_null text_string intro: reads_as_number reads_as_string reads_as_constants\<close>)

lemma printed_parses: "printable j \<Longrightarrow> JSON_parse (text_of j) = Inr j"
proof -
  assume "printable j"
  then have r: "reads_as (text_of j) j" by (rule printed_reads)
  have "ends_value []" by (simp add: ends_value_def)
  with r have "parse_value (Suc (length (text_of j))) (text_of j @ []) = Some (j, [])" unfolding reads_as_def by blast
  then show ?thesis by (simp add: JSON_parse_def skip_space_def del: parse_value.simps)
qed

end

end
