(* ===== verification/Canonical.thy ===== *)
theory Canonical
  imports JsonPrinter Errors
begin

text \<open>
  \<^verbatim>\<open>canonical.ts\<close>: deterministic JSON.  The values it walks are language values that may
  share and may be cyclic, so they are references into a heap; \<open>canonicalValue\<close> carries
  the set of ancestors and the depth exactly as the code does, and terminates because the
  depth is bounded.  The specification is \<open>denotes\<close>, the finite tree a value unfolds to, and
  \<open>canon\<close>, that tree with sorted keys.
\<close>

section \<open>Language values\<close>

datatype jsval =
    VUndefined | VNull | VBool bool | VNum jsnum | VStr jstring
  | VBigInt | VSymbol | VFunction
  | VRef nat

text \<open>An object is an array, a plain object with its own enumerable properties, or neither.\<close>

datatype jsobj = OArr "jsval list" | OPlain "(jstring \<times> jsval) list" | OExotic

type_synonym jsheap = "nat \<Rightarrow> jsobj"

fun typeof :: "jsval \<Rightarrow> jstring" where
  "typeof VUndefined = lit ''undefined''"
| "typeof VNull = lit ''object''"
| "typeof (VBool _) = lit ''boolean''"
| "typeof (VNum _) = lit ''number''"
| "typeof (VStr _) = lit ''string''"
| "typeof VBigInt = lit ''bigint''"
| "typeof VSymbol = lit ''symbol''"
| "typeof VFunction = lit ''function''"
| "typeof (VRef _) = lit ''object''"

section \<open>canonical.ts\<close>

definition invalid :: "jstring \<Rightarrow> exn" where
  "invalid message = OatiErr (OatiError INVALID_CANONICAL_VALUE message no_options)"

fun assertUnicodeScalarString :: "jstring \<Rightarrow> unit result" where
  "assertUnicodeScalarString [] = Inr ()"
| "assertUnicodeScalarString (code # rest) =
     (if code < 0xd800 \<or> 0xdfff < code then assertUnicodeScalarString rest
      else if code \<le> 0xdbff then
        (case rest of [] \<Rightarrow> Inl (invalid (lit ''lone UTF-16 surrogates are not valid I-JSON strings''))
         | next # rest' \<Rightarrow> if 0xdc00 \<le> next \<and> next \<le> 0xdfff then assertUnicodeScalarString rest'
                           else Inl (invalid (lit ''lone UTF-16 surrogates are not valid I-JSON strings'')))
      else Inl (invalid (lit ''lone UTF-16 surrogates are not valid I-JSON strings'')))"

text \<open>
  \<^verbatim>\<open>target[key] = item\<close> on a fresh object literal: assigning to \<^verbatim>\<open>__proto__\<close> goes to the
  accessor of \<^verbatim>\<open>Object.prototype\<close> and creates no own property.
\<close>

definition own_members :: "jobject \<Rightarrow> jobject" where
  "own_members ps = filter (\<lambda>(k, _). k \<noteq> lit ''__proto__'') ps"

function canonicalValue :: "jsheap \<Rightarrow> jsval \<Rightarrow> nat list \<Rightarrow> nat \<Rightarrow> json result" where
  "canonicalValue h value ancestors depth =
     (if 256 < depth then Inl (invalid (lit ''JSON nesting exceeds the canonicalization limit''))
      else case value of
        VNull \<Rightarrow> Inr JNull
      | VBool b \<Rightarrow> Inr (JBool b)
      | VStr s \<Rightarrow> bindE (assertUnicodeScalarString s) (\<lambda>_. Inr (JStr s))
      | VNum n \<Rightarrow> if num_is_finite n then Inr (JNum n) else Inl (invalid (lit ''non-finite numbers are not valid JSON''))
      | VRef a \<Rightarrow>
          if a \<in> set ancestors then Inl (invalid (lit ''cyclic values cannot be canonicalized''))
          else (case h a of
              OArr items \<Rightarrow> bindE (mapE (\<lambda>item. canonicalValue h item (a # ancestors) (depth + 1)) items) (\<lambda>js. Inr (JArr js))
            | OExotic \<Rightarrow> Inl (invalid (lit ''only plain objects and arrays can be canonicalized''))
            | OPlain source \<Rightarrow>
                bindE (mapE (\<lambda>key.
                    bindE (assertUnicodeScalarString key) (\<lambda>_.
                      case map_of source key of
                        None \<Rightarrow> Inl (invalid (lit ''undefined at property '' @ key))
                      | Some item \<Rightarrow>
                          if item = VUndefined then Inl (invalid (lit ''undefined at property '' @ key))
                          else bindE (canonicalValue h item (a # ancestors) (depth + 1)) (\<lambda>j. Inr (key, j))))
                  (sort (map fst source)))
                (\<lambda>ps. Inr (JObj (own_members ps))))
      | other \<Rightarrow> Inl (invalid (typeof other @ lit '' values are not valid JSON'')))"
  by pat_completeness auto
termination by (relation "measure (\<lambda>(h, v, anc, d). 257 - d)") auto

declare canonicalValue.simps [simp del]

fun serializeCanonical :: "json \<Rightarrow> jstring" where
  "serializeCanonical JNull = lit ''null''"
| "serializeCanonical (JBool b) = (if b then lit ''true'' else lit ''false'')"
| "serializeCanonical (JNum n) = num_to_string n"
| "serializeCanonical (JStr s) = quote s"
| "serializeCanonical (JArr xs) = [91] @ join [44] (map serializeCanonical xs) @ [93]"
| "serializeCanonical (JObj ps) =
     [123] @ join [44] (map (\<lambda>(k, t). quote k @ [58] @ t)
        (sort_key fst (map (\<lambda>(k, v). (k, serializeCanonical v)) ps))) @ [125]"

definition canonicalize :: "jsheap \<Rightarrow> jsval \<Rightarrow> json result" where
  "canonicalize h value = canonicalValue h value [] 0"

definition canonicalJson :: "jsheap \<Rightarrow> jsval \<Rightarrow> jstring result" where
  "canonicalJson h value = bindE (canonicalValue h value [] 0) (\<lambda>j. Inr (serializeCanonical j))"

section \<open>The specification\<close>

inductive denotes :: "jsheap \<Rightarrow> jsval \<Rightarrow> json \<Rightarrow> bool" for h :: jsheap where
  denotes_null: "denotes h VNull JNull"
| denotes_bool: "denotes h (VBool b) (JBool b)"
| denotes_num: "denotes h (VNum n) (JNum n)"
| denotes_str: "denotes h (VStr s) (JStr s)"
| denotes_arr: "h a = OArr items \<Longrightarrow> list_all2 (denotes h) items js \<Longrightarrow> denotes h (VRef a) (JArr js)"
| denotes_obj: "h a = OPlain source \<Longrightarrow> map fst source = map fst ps \<Longrightarrow>
    list_all2 (denotes h) (map snd source) (map snd ps) \<Longrightarrow> denotes h (VRef a) (JObj ps)"

inductive_cases denotes_refE: "denotes h (VRef a) j"
inductive_simps denotes_simps [simp]:
  "denotes h VNull j" "denotes h (VBool b) j" "denotes h (VNum n) j" "denotes h (VStr s) j" "denotes h VUndefined j"
  "denotes h VBigInt j" "denotes h VSymbol j" "denotes h VFunction j"

fun canon :: "json \<Rightarrow> json" where
  "canon (JArr xs) = JArr (map canon xs)"
| "canon (JObj ps) = JObj (own_members (sort_key fst (map (\<lambda>(k, v). (k, canon v)) ps)))"
| "canon j = j"

definition is_scalar :: "jstring \<Rightarrow> bool" where
  "is_scalar s \<longleftrightarrow> assertUnicodeScalarString s = Inr ()"

text \<open>Finite numbers, strings without lone surrogates.\<close>

fun i_json :: "json \<Rightarrow> bool" where
  "i_json (JNum n) = num_is_finite n"
| "i_json (JStr s) = is_scalar s"
| "i_json (JArr xs) = list_all i_json xs"
| "i_json (JObj ps) = list_all (\<lambda>(k, v). is_scalar k \<and> i_json v) ps"
| "i_json _ = True"

fun depth_le :: "nat \<Rightarrow> json \<Rightarrow> bool" where
  "depth_le n (JArr xs) = list_all (\<lambda>x. 0 < n \<and> depth_le (n - 1) x) xs"
| "depth_le n (JObj ps) = list_all (\<lambda>(k, v). 0 < n \<and> depth_le (n - 1) v) ps"
| "depth_le n _ = True"

text \<open>Own property keys are unique.\<close>

definition heap_ok :: "jsheap \<Rightarrow> bool" where
  "heap_ok h \<longleftrightarrow> (\<forall>a source. h a = OPlain source \<longrightarrow> distinct (map fst source))"

section \<open>Canonicalisation computes the specification\<close>

lemma list_all2_choice:
  assumes "list_all2 P xs ys" and "\<And>x y. x \<in> set xs \<Longrightarrow> P x y \<Longrightarrow> \<exists>z. Q x z \<and> y = f z"
  shows "\<exists>zs. list_all2 Q xs zs \<and> ys = map f zs"
  using assms
proof (induction rule: list_all2_induct)
  case (Cons x xs y ys)
  then obtain z zs where "Q x z" "y = f z" "list_all2 Q xs zs" "ys = map f zs" by (meson list.set_intros)
  then show ?case by (intro exI [of _ "z # zs"]) simp
qed simp

lemma list_all2_partner: "list_all2 P xs ys \<Longrightarrow> x \<in> set xs \<Longrightarrow> \<exists>y. P x y"
  by (induction rule: list_all2_induct) auto

lemma list_all2_split: "list_all2 (\<lambda>x z. P x z \<and> Q z) xs zs \<Longrightarrow> list_all2 P xs zs \<and> (\<forall>z \<in> set zs. Q z)"
  by (induction rule: list_all2_induct) auto

lemma list_all2_function: "list_all2 P xs ys \<Longrightarrow> (\<And>x y. x \<in> set xs \<Longrightarrow> P x y \<Longrightarrow> y = g x) \<Longrightarrow> ys = map g xs"
  by (induction rule: list_all2_induct) auto

lemma insort_graph: "insort_key fst (k, f k) (map (\<lambda>k. (k, f k)) ks) = map (\<lambda>k. (k, f k)) (insort k ks)"
  by (induction ks) auto

lemma sort_graph: "sort_key fst (map (\<lambda>k. (k, f k)) ks) = map (\<lambda>k. (k, f k)) (sort ks)"
  by (induction ks) (simp_all add: insort_graph)

lemma sort_members:
  assumes "\<And>k v. (k, v) \<in> set ps \<Longrightarrow> v = f k"
  shows "sort_key fst ps = map (\<lambda>k. (k, f k)) (sort (map fst ps))"
proof -
  have "map (\<lambda>k. (k, f k)) (map fst ps) = ps" using assms by (auto intro!: map_idI)
  then show ?thesis using sort_graph [of f "map fst ps"] by simp
qed

lemma denotes_functional: "denotes h v j \<Longrightarrow> denotes h v j' \<Longrightarrow> j = j'"
proof (induction arbitrary: j' rule: denotes.induct)
  case (denotes_arr a items js)
  from denotes_arr.prems denotes_arr.hyps obtain js' where j': "j' = JArr js'" "list_all2 (denotes h) items js'"
    by (auto elim: denotes_refE)
  have "js = js'" using denotes_arr.IH j'(2)
    by (auto simp: list_all2_conv_all_nth intro!: nth_equalityI)
  with j'(1) show ?case by simp
next
  case (denotes_obj a source ps)
  from denotes_obj.prems denotes_obj.hyps obtain ps' where j': "j' = JObj ps'" "map fst source = map fst ps'"
      "list_all2 (denotes h) (map snd source) (map snd ps')"
    by (auto elim: denotes_refE)
  have "map snd ps = map snd ps'" using denotes_obj.IH j'(3) by (auto simp: list_all2_conv_all_nth intro!: nth_equalityI)
  moreover have "map fst ps = map fst ps'" using denotes_obj.hyps(2) j'(2) by simp
  ultimately have "ps = ps'" by (metis zip_map_fst_snd)
  with j'(1) show ?case by simp
qed auto

definition good :: "nat \<Rightarrow> json \<Rightarrow> bool" where
  "good d j \<longleftrightarrow> i_json j \<and> d \<le> 256 \<and> depth_le (256 - d) j"

lemma good_below: "good (Suc d) j \<Longrightarrow> depth_le (256 - d - 1) j \<and> 0 < 256 - d \<and> i_json j"
  by (simp add: good_def)

text \<open>One member of a plain object, then all of them in the order of the sorted keys.\<close>

lemma canonical_member:
  assumes "bindE (assertUnicodeScalarString key) (\<lambda>_. case map_of source key of None \<Rightarrow> Inl e
       | Some item \<Rightarrow> if item = VUndefined then Inl e' else bindE (f item) (\<lambda>j. Inr (key, j))) = Inr y"
  shows "is_scalar key \<and> (\<exists>item j. map_of source key = Some item \<and> item \<noteq> VUndefined \<and> f item = Inr j \<and> y = (key, j))"
  using assms by (auto simp: exn_iff is_scalar_def split: option.splits if_splits)

lemma canonical_members:
  assumes dist: "distinct (map fst source)"
    and run: "mapE (\<lambda>key. bindE (assertUnicodeScalarString key) (\<lambda>_. case map_of source key of None \<Rightarrow> Inl (e key)
       | Some item \<Rightarrow> if item = VUndefined then Inl (e' key) else bindE (f item) (\<lambda>j. Inr (key, j)))) (sort (map fst source)) = Inr ps"
    and IH: "\<And>k item r. map_of source k = Some item \<Longrightarrow> is_scalar k \<Longrightarrow> item \<noteq> VUndefined \<Longrightarrow> f item = Inr r \<Longrightarrow>
       \<exists>j. denotes h item j \<and> good (Suc d) j \<and> r = canon j"
  shows "\<exists>qs. map fst source = map fst qs \<and> list_all2 (denotes h) (map snd source) (map snd qs) \<and>
     (\<forall>(k, v) \<in> set qs. is_scalar k \<and> good (Suc d) v) \<and> ps = sort_key fst (map (\<lambda>(k, v). (k, canon v)) qs)"
proof -
  let ?R = "\<lambda>key y. is_scalar key \<and> (\<exists>item j. map_of source key = Some item \<and> item \<noteq> VUndefined \<and> f item = Inr j \<and> y = (key, j))"
  let ?G = "\<lambda>k j. \<exists>item. is_scalar k \<and> map_of source k = Some item \<and> denotes h item j \<and> good (Suc d) j \<and> f item = Inr (canon j)"
  have m: "list_all2 ?R (sort (map fst source)) ps"
    using run unfolding mapE_Inr_iff by (rule list_all2_mono) (rule canonical_member)
  have "\<exists>j. ?G k j" if "k \<in> fst ` set source" for k
  proof -
    have "k \<in> set (sort (map fst source))" using that by simp
    from list_all2_partner [OF m this] obtain y item j where "is_scalar k" "map_of source k = Some item" "item \<noteq> VUndefined"
      "f item = Inr j" by blast
    with IH [OF this(2,1,3,4)] show ?thesis by auto
  qed
  then obtain J where J: "\<And>k. k \<in> fst ` set source \<Longrightarrow> ?G k (J k)" by metis
  have "ps = map (\<lambda>k. (k, canon (J k))) (sort (map fst source))"
    using m by (rule list_all2_function) (use J in force)
  also have "\<dots> = sort_key fst (map (\<lambda>k. (k, canon (J k))) (map fst source))" by (rule sort_graph [symmetric])
  also have "\<dots> = sort_key fst (map (\<lambda>(k, v). (k, canon v)) (map (\<lambda>k. (k, J k)) (map fst source)))" by (simp add: comp_def)
  finally have ps: "ps = sort_key fst (map (\<lambda>(k, v). (k, canon v)) (map (\<lambda>k. (k, J k)) (map fst source)))" .
  have "denotes h (snd x) (J (fst x))" if "x \<in> set source" for x
    using J [of "fst x"] that dist by (cases x) force
  then have "list_all2 (denotes h) (map snd source) (map snd (map (\<lambda>k. (k, J k)) (map fst source)))"
    by (simp add: list.rel_map list.rel_refl_strong)
  moreover have "\<forall>(k, v) \<in> set (map (\<lambda>k. (k, J k)) (map fst source)). is_scalar k \<and> good (Suc d) v" using J by fastforce
  ultimately show ?thesis using ps by (intro exI [of _ "map (\<lambda>k. (k, J k)) (map fst source)"]) (simp add: comp_def)
qed

lemma canonicalValue_sound:
  assumes "heap_ok h" and "canonicalValue h v anc d = Inr r"
  shows "\<exists>j. denotes h v j \<and> good d j \<and> r = canon j"
  using assms
proof (induction h v anc d arbitrary: r rule: canonicalValue.induct)
  case (1 h v anc d)
  note run = "1.prems"(2) [unfolded canonicalValue.simps [of h v anc d]]
  then have d: "\<not> 256 < d" by (auto split: if_splits)
  show ?case
  proof (cases v)
    case (VRef a)
    with run d have fresh: "a \<notin> set anc" by (auto split: if_splits)
    show ?thesis
    proof (cases "h a")
      case (OArr items)
      with run d VRef fresh obtain js where js: "r = JArr js"
          "list_all2 (\<lambda>x y. canonicalValue h x (a # anc) (d + 1) = Inr y) items js"
        by (auto simp: exn_iff mapE_Inr_iff)
      have "\<exists>zs. list_all2 (\<lambda>x z. denotes h x z \<and> good (Suc d) z) items zs \<and> js = map canon zs"
        using js(2) by (rule list_all2_choice) (use "1.IH"(1) [OF d VRef fresh OArr] "1.prems"(1) in auto)
      then obtain zs where zs: "list_all2 (denotes h) items zs" "\<forall>z \<in> set zs. good (Suc d) z" "js = map canon zs"
        by (auto dest: list_all2_split)
      with js(1) VRef OArr d show ?thesis
        by (intro exI [of _ "JArr zs"]) (auto simp: good_def list_all_iff intro: denotes_arr)
    next
      case (OPlain source)
      have dist: "distinct (map fst source)" using "1.prems"(1) OPlain by (auto simp: heap_ok_def)
      from run d VRef fresh OPlain obtain ps where ps: "r = JObj (own_members ps)"
        "mapE (\<lambda>key. bindE (assertUnicodeScalarString key) (\<lambda>_. case map_of source key of
            None \<Rightarrow> Inl (invalid (lit ''undefined at property '' @ key))
          | Some item \<Rightarrow> if item = VUndefined then Inl (invalid (lit ''undefined at property '' @ key))
              else bindE (canonicalValue h item (a # anc) (d + 1)) (\<lambda>j. Inr (key, j)))) (sort (map fst source)) = Inr ps"
        by (auto simp: exn_iff)
      have member: "\<exists>j. denotes h item j \<and> good (Suc d) j \<and> y = canon j"
        if "map_of source k = Some item" "is_scalar k" "item \<noteq> VUndefined" "canonicalValue h item (a # anc) (d + 1) = Inr y"
        for k item y
      proof -
        have "k \<in> set (sort (map fst source))" using map_of_SomeD [OF that(1)] by force
        from "1.IH"(2) [OF d VRef fresh OPlain this _ that(1,3) "1.prems"(1) that(4)] that(2) show ?thesis
          by (simp add: is_scalar_def)
      qed
      have "\<exists>qs. map fst source = map fst qs \<and> list_all2 (denotes h) (map snd source) (map snd qs) \<and>
          (\<forall>(k, v) \<in> set qs. is_scalar k \<and> good (Suc d) v) \<and> ps = sort_key fst (map (\<lambda>(k, v). (k, canon v)) qs)"
        using dist ps(2) by (rule canonical_members) (rule member)
      then obtain qs where qs: "map fst source = map fst qs" "list_all2 (denotes h) (map snd source) (map snd qs)"
          "\<forall>(k, v) \<in> set qs. is_scalar k \<and> good (Suc d) v" "ps = sort_key fst (map (\<lambda>(k, v). (k, canon v)) qs)" by blast
      with ps(1) VRef OPlain d show ?thesis
        by (intro exI [of _ "JObj qs"]) (auto simp: good_def list_all_iff intro: denotes_obj)
    qed (use run d VRef fresh in auto)
  qed (use run d in \<open>auto simp: good_def is_scalar_def exn_iff split: if_splits\<close>)
qed

text \<open>The other direction: a finite tree within the bounds is canonicalised.\<close>

lemma size_JArr: "x \<in> set xs \<Longrightarrow> size x < size (JArr xs)"
  by (induction xs) auto

lemma size_JObj: "(k, v) \<in> set ps \<Longrightarrow> size v < size (JObj ps)"
  by (induction ps) auto

lemma map_of_related:
  "map fst s = map fst p \<Longrightarrow> list_all2 D (map snd s) (map snd p) \<Longrightarrow> map_of p k = Some y \<Longrightarrow>
     \<exists>x. map_of s k = Some x \<and> D x y"
proof (induction s arbitrary: p)
  case (Cons a s)
  then show ?case by (cases p; cases a; cases "hd p") (auto split: if_splits)
qed simp

text \<open>No ancestor is the value itself or part of it: the trees of ancestors are larger.\<close>

definition ancestors_larger :: "jsheap \<Rightarrow> nat list \<Rightarrow> json \<Rightarrow> bool" where
  "ancestors_larger h anc j \<longleftrightarrow> (\<forall>a \<in> set anc. \<forall>k. denotes h (VRef a) k \<longrightarrow> size j < size k)"

lemma ancestors_fresh: "ancestors_larger h anc j \<Longrightarrow> denotes h (VRef a) j \<Longrightarrow> a \<notin> set anc"
  unfolding ancestors_larger_def by blast

lemma ancestors_larger_child:
  assumes "ancestors_larger h anc j" and "denotes h (VRef a) j" and "size c < size j"
  shows "ancestors_larger h (a # anc) c"
  unfolding ancestors_larger_def
proof (intro ballI allI impI)
  fix b k assume b: "b \<in> set (a # anc)" and k: "denotes h (VRef b) k"
  show "size c < size k"
  proof (cases "b = a")
    case True
    with k denotes_functional [OF assms(2)] assms(3) show ?thesis by auto
  next
    case False
    with b k assms(1) have "size j < size k" by (auto simp: ancestors_larger_def)
    with assms(3) show ?thesis by simp
  qed
qed

lemma canonicalValue_complete:
  "denotes h v j \<Longrightarrow> good d j \<Longrightarrow> heap_ok h \<Longrightarrow> ancestors_larger h anc j \<Longrightarrow> canonicalValue h v anc d = Inr (canon j)"
proof (induction j arbitrary: v anc d)
  case (JArr xs)
  from JArr.prems(1) obtain a items where v: "v = VRef a" "h a = OArr items" "list_all2 (denotes h) items xs"
    by (cases v) (auto elim: denotes_refE)
  note a = JArr.prems(4) JArr.prems(1) [unfolded v(1)]
  have fresh: "a \<notin> set anc" using a by (rule ancestors_fresh)
  have "list_all2 (\<lambda>x y. canonicalValue h x (a # anc) (d + 1) = Inr (canon y)) items xs"
    using v(3)
  proof (rule list.rel_mono_strong)
    fix x y assume xy: "x \<in> set items" "y \<in> set xs" "denotes h x y"
    have "good (d + 1) y" using JArr.prems(2) xy(2) by (auto simp: good_def list_all_iff)
    then show "canonicalValue h x (a # anc) (d + 1) = Inr (canon y)"
      using JArr.IH [OF xy(2,3)] JArr.prems(3) ancestors_larger_child [OF a size_JArr [OF xy(2)]] by simp
  qed
  then have "mapE (\<lambda>item. canonicalValue h item (a # anc) (d + 1)) items = Inr (map canon xs)"
    by (simp add: mapE_Inr_iff list.rel_map)
  then show ?case using JArr.prems(2) fresh v(1,2) by (simp add: canonicalValue.simps [of h "VRef a"] good_def)
next
  case (JObj ps)
  from JObj.prems(1) obtain a source where v: "v = VRef a" "h a = OPlain source" "map fst source = map fst ps"
      "list_all2 (denotes h) (map snd source) (map snd ps)"
    by (cases v) (auto elim: denotes_refE)
  note a = JObj.prems(4) JObj.prems(1) [unfolded v(1)]
  have fresh: "a \<notin> set anc" using a by (rule ancestors_fresh)
  have dist: "distinct (map fst ps)" using JObj.prems(3) v(2,3) by (metis heap_ok_def)
  let ?J = "\<lambda>k. canon (the (map_of ps k))"
  have sorted: "sort_key fst (map (\<lambda>(k, v). (k, canon v)) ps) = map (\<lambda>k. (k, ?J k)) (sort (map fst source))"
  proof -
    have "sort_key fst (map (\<lambda>(k, v). (k, canon v)) ps) = map (\<lambda>k. (k, ?J k)) (sort (map fst (map (\<lambda>(k, v). (k, canon v)) ps)))"
      by (rule sort_members) (use dist in auto)
    then show ?thesis using v(3) by (simp add: comp_def case_prod_unfold)
  qed
  have "assertUnicodeScalarString k = Inr () \<and> (\<exists>item. map_of source k = Some item \<and> item \<noteq> VUndefined \<and>
      canonicalValue h item (a # anc) (d + 1) = Inr (?J k))" if k: "k \<in> set (map fst ps)" for k
  proof -
    obtain w where w: "(k, w) \<in> set ps" "map_of ps k = Some w" using k dist by auto
    obtain item where item: "map_of source k = Some item" "denotes h item w" using map_of_related [OF v(3,4) w(2)] by blast
    have "good (d + 1) w" "is_scalar k" using JObj.prems(2) w(1) by (auto simp: good_def list_all_iff)
    then show ?thesis
      using JObj.IH [OF w(1), of w item "d + 1" "a # anc"] item JObj.prems(3) ancestors_larger_child [OF a size_JObj [OF w(1)]] w(2)
      by (auto simp: is_scalar_def)
  qed
  then have "mapE (\<lambda>key. bindE (assertUnicodeScalarString key) (\<lambda>_. case map_of source key of
            None \<Rightarrow> Inl (invalid (lit ''undefined at property '' @ key))
          | Some item \<Rightarrow> if item = VUndefined then Inl (invalid (lit ''undefined at property '' @ key))
              else bindE (canonicalValue h item (a # anc) (d + 1)) (\<lambda>j. Inr (key, j)))) (sort (map fst source))
      = Inr (map (\<lambda>k. (k, ?J k)) (sort (map fst source)))"
    unfolding mapE_Inr_iff list.rel_map by (intro list.rel_refl_strong) (fastforce simp: v(3))
  then show ?case using JObj.prems(2) fresh v(1,2) sorted by (simp add: canonicalValue.simps [of h "VRef a"] good_def)
qed (auto simp: canonicalValue.simps good_def is_scalar_def elim: denotes.cases)

lemma canonicalize_iff:
  assumes "heap_ok h"
  shows "canonicalize h v = Inr r \<longleftrightarrow> (\<exists>j. denotes h v j \<and> i_json j \<and> depth_le 256 j \<and> r = canon j)"
proof -
  have "ancestors_larger h [] j" for j by (simp add: ancestors_larger_def)
  with canonicalValue_sound [OF assms, of v "[]" 0 r] canonicalValue_complete [OF _ _ assms, of v _ 0 "[]"] show ?thesis
    by (auto simp: canonicalize_def good_def)
qed

section \<open>Cycles\<close>

text \<open>One object refers to another.\<close>

definition refers :: "jsheap \<Rightarrow> nat \<Rightarrow> nat \<Rightarrow> bool" where
  "refers h a b \<longleftrightarrow> (case h a of OArr items \<Rightarrow> VRef b \<in> set items | OPlain source \<Rightarrow> VRef b \<in> snd ` set source | OExotic \<Rightarrow> False)"

lemma list_all2_member: "list_all2 P xs ys \<Longrightarrow> x \<in> set xs \<Longrightarrow> \<exists>y \<in> set ys. P x y"
  by (induction rule: list_all2_induct) auto

lemma refers_smaller:
  assumes "refers h a b" and "denotes h (VRef a) j"
  shows "\<exists>k. denotes h (VRef b) k \<and> size k < size j"
  using assms(2)
proof (rule denotes_refE)
  fix items js assume a: "j = JArr js" "h a = OArr items" "list_all2 (denotes h) items js"
  with assms(1) obtain y where "y \<in> set js" "denotes h (VRef b) y"
    by (auto simp: refers_def dest!: list_all2_member)
  with a(1) show ?thesis using size_JArr by blast
next
  fix source ps assume a: "j = JObj ps" "h a = OPlain source" "list_all2 (denotes h) (map snd source) (map snd ps)"
  with assms(1) have "VRef b \<in> set (map snd source)" by (auto simp: refers_def)
  from list_all2_member [OF a(3) this] obtain k y where "(k, y) \<in> set ps" "denotes h (VRef b) y" by auto
  with a(1) show ?thesis using size_JObj by blast
qed

lemma reaches_smaller: "(refers h)\<^sup>+\<^sup>+ a b \<Longrightarrow> denotes h (VRef a) j \<Longrightarrow> \<exists>k. denotes h (VRef b) k \<and> size k < size j"
proof (induction rule: tranclp_induct)
  case (step b c)
  then obtain k where "denotes h (VRef b) k" "size k < size j" by blast
  with refers_smaller [OF step.hyps(2)] show ?case by (meson less_trans)
qed (rule refers_smaller)

lemma cyclic_denotes_nothing: "(refers h)\<^sup>+\<^sup>+ a a \<Longrightarrow> \<not> denotes h (VRef a) j"
  using reaches_smaller [of h a a j] denotes_functional by blast

section \<open>The text reads back\<close>

text \<open>Sorted unique keys and integers that binary64 represents exactly.\<close>

fun canonical_form :: "json \<Rightarrow> bool" where
  "canonical_form (JNum n) = num_is_safe_integer n"
| "canonical_form (JArr xs) = list_all canonical_form xs"
| "canonical_form (JObj ps) = (sorted (map fst ps) \<and> distinct (map fst ps) \<and> list_all (\<lambda>(k, v). canonical_form v) ps)"
| "canonical_form _ = True"

text \<open>A member of an object in the canonical text.\<close>

definition member_text :: "jstring \<times> json \<Rightarrow> jstring" where
  "member_text = (\<lambda>(k, v). quote k @ [58] @ serializeCanonical v)"

lemma serialize_object:
  "sorted (map fst ps) \<Longrightarrow> serializeCanonical (JObj ps) = 123 # join [44] (map member_text ps) @ [125]"
proof -
  assume "sorted (map fst ps)"
  then have "sort_key fst (map (\<lambda>(k, v). (k, serializeCanonical v)) ps) = map (\<lambda>(k, v). (k, serializeCanonical v)) ps"
    by (intro sort_key_id_if_sorted) (simp add: comp_def case_prod_unfold)
  then show ?thesis by (simp add: member_text_def comp_def case_prod_unfold)
qed

interpretation canonical_text: json_printer serializeCanonical canonical_form
  by unfold_locales (auto simp: serialize_object [unfolded member_text_def] simp del: serializeCanonical.simps(6))

lemma serialize_starts: "canonical_form j \<Longrightarrow> \<exists>c cs. serializeCanonical j = c # cs \<and> starts_value c"
  using canonical_text.printed_reads by (simp add: reads_as_def)

lemmas JSON_parse_serialize = canonical_text.printed_parses

text \<open>Integer documents with unique keys, the shape every OATI object has.\<close>

fun integer_json :: "json \<Rightarrow> bool" where
  "integer_json (JNum n) = num_is_safe_integer n"
| "integer_json (JArr xs) = list_all integer_json xs"
| "integer_json (JObj ps) = (distinct (map fst ps) \<and> list_all (\<lambda>(k, v). integer_json v) ps)"
| "integer_json _ = True"

lemma set_own_members: "set (own_members ps) \<subseteq> set ps"
  by (auto simp: own_members_def)

lemma canonical_form_canon: "integer_json j \<Longrightarrow> canonical_form (canon j)"
proof (induction j)
  case (JObj ps)
  let ?qs = "map (\<lambda>(k, v). (k, canon v)) ps"
  have keys: "map fst ?qs = map fst ps" by (simp add: comp_def case_prod_unfold)
  have "distinct (map fst (sort_key fst ?qs))"
  proof -
    have "distinct (map fst ?qs)" unfolding keys using JObj.prems by simp
    then show ?thesis unfolding distinct_map set_sort distinct_sort .
  qed
  moreover have "sorted (map fst (sort_key fst ?qs))" by simp
  moreover have "\<forall>(k, v) \<in> set (own_members (sort_key fst ?qs)). canonical_form v"
    using JObj set_own_members [of "sort_key fst ?qs"] by (fastforce simp: list_all_iff)
  ultimately show ?case
    by (auto simp: own_members_def list_all_iff sorted_filter distinct_map_filter)
qed (auto simp: list_all_iff)

section \<open>Properties\<close>




text \<open>
  The canonical text determines the document: reading it back with \<^verbatim>\<open>JSON.parse\<close> gives the
  canonical document, for every document whose numbers are safe integers, so two such
  documents have the same canonical text exactly when they are the same up to member order.
\<close>

theorem canonical_text_roundtrip:
  assumes "integer_json j" and "integer_json j'"
  shows "JSON_parse (serializeCanonical (canon j)) = Inr (canon j) \<and>
     (serializeCanonical (canon j) = serializeCanonical (canon j') \<longleftrightarrow> canon j = canon j')"
  using JSON_parse_serialize [OF canonical_form_canon [OF assms(1)]] JSON_parse_serialize [OF canonical_form_canon [OF assms(2)]]
  by (metis Inr_inject)

theorem canonical_text_roundtrip_witness:
  "JSON_parse (serializeCanonical (canon (JObj [(lit ''b'', JNum (Fin 2)), (lit ''a'', JNull)]))) =
     Inr (JObj [(lit ''a'', JNull), (lit ''b'', JNum (Fin 2))])"
  using canonical_text_roundtrip [of "JObj [(lit ''b'', JNum (Fin 2)), (lit ''a'', JNull)]" JNull]
  by (simp add: max_safe_def own_members_def)

text \<open>
  C26: A value that contains itself, directly or through other objects, is rejected: the
  canonicaliser always returns and never produces a text for it.
\<close>

theorem cyclic_values_rejected:
  assumes "heap_ok h" and "(refers h)\<^sup>+\<^sup>+ a a"
  shows "\<exists>e. canonicalJson h (VRef a) = Inl e"
proof (cases "canonicalValue h (VRef a) [] 0")
  case (Inr r)
  with canonicalize_iff [OF assms(1), of "VRef a" r] cyclic_denotes_nothing [OF assms(2)] show ?thesis
    by (auto simp: canonicalize_def)
qed (simp add: canonicalJson_def)

theorem cyclic_values_rejected_witness: "\<exists>e. canonicalJson (\<lambda>_. OArr [VRef 0]) (VRef 0) = Inl e"
  by (rule cyclic_values_rejected) (auto simp: heap_ok_def refers_def intro: tranclp.r_into_trancl)


end
