(* ===== verification/Documents.thy ===== *)
theory Documents
  imports Canonical
begin

text \<open>
  JSON documents as trees.  Documents that come out of \<^verbatim>\<open>JSON.parse\<close> or object literals share
  nothing and contain no cycle; on them \<open>canonicalTree\<close> computes what \<open>canonicalValue\<close>
  computes on the heap, error for error, and \<open>canonicalJson_tree\<close> is \<^verbatim>\<open>canonicalJson\<close>.  Object
  spread and rest destructuring are \<open>put_member\<close> and \<open>drop_member\<close>.
\<close>

function canonicalTree :: "nat \<Rightarrow> json \<Rightarrow> json result" where
  "canonicalTree depth j =
     (if 256 < depth then Inl (invalid (lit ''JSON nesting exceeds the canonicalization limit''))
      else case j of
        JNull \<Rightarrow> Inr JNull
      | JBool b \<Rightarrow> Inr (JBool b)
      | JStr s \<Rightarrow> bindE (assertUnicodeScalarString s) (\<lambda>_. Inr (JStr s))
      | JNum n \<Rightarrow> if num_is_finite n then Inr (JNum n) else Inl (invalid (lit ''non-finite numbers are not valid JSON''))
      | JArr items \<Rightarrow> bindE (mapE (canonicalTree (depth + 1)) items) (\<lambda>js. Inr (JArr js))
      | JObj source \<Rightarrow>
          bindE (mapE (\<lambda>key.
              bindE (assertUnicodeScalarString key) (\<lambda>_.
                case map_of source key of
                  None \<Rightarrow> Inl (invalid (lit ''undefined at property '' @ key))
                | Some item \<Rightarrow> bindE (canonicalTree (depth + 1) item) (\<lambda>j. Inr (key, j))))
            (sort (map fst source)))
          (\<lambda>ps. Inr (JObj (own_members ps))))"
  by pat_completeness auto
termination by (relation "measure (\<lambda>(d, j). 257 - d)") auto

declare canonicalTree.simps [simp del]

definition canonicalJson_tree :: "json \<Rightarrow> jstring result" where
  "canonicalJson_tree j = bindE (canonicalTree 0 j) (\<lambda>c. Inr (serializeCanonical c))"

definition drop_member :: "jstring \<Rightarrow> jobject \<Rightarrow> jobject" where
  "drop_member k ps = filter (\<lambda>(k', _). k' \<noteq> k) ps"

text \<open>Every object of the document has unique keys, which \<^verbatim>\<open>JSON.parse\<close> and literals ensure.\<close>

fun unique_keys :: "json \<Rightarrow> bool" where
  "unique_keys (JArr xs) = list_all unique_keys xs"
| "unique_keys (JObj ps) = (distinct (map fst ps) \<and> list_all (\<lambda>(k, v). unique_keys v) ps)"
| "unique_keys _ = True"

section \<open>Members\<close>

definition set_member :: "jstring \<Rightarrow> json \<Rightarrow> jobject \<Rightarrow> jobject" where
  "set_member k v ps = map (\<lambda>(k', v'). (k', if k' = k then v else v')) ps"

lemma put_member_alt: "put_member k v ps = (if k \<in> fst ` set ps then set_member k v ps else ps @ [(k, v)])"
  by (simp add: put_member_def set_member_def)

lemma set_member_keys [simp]: "map fst (set_member k v ps) = map fst ps" "fst ` set (set_member k v ps) = fst ` set ps"
  by (auto simp: set_member_def image_iff split: if_splits intro: rev_image_eqI)

lemma set_member_twice: "set_member k v (set_member k w ps) = set_member k v ps"
  by (auto simp: set_member_def)

lemma set_member_absent: "k \<notin> fst ` set ps \<Longrightarrow> set_member k v ps = ps"
  by (induction ps) (auto simp: set_member_def)

lemma map_of_set_member: "map_of (set_member k v ps) k' = (if k' = k then map_option (\<lambda>_. v) (map_of ps k) else map_of ps k')"
  by (induction ps) (auto simp: set_member_def)

lemma jget_put_member [simp]: "jget (put_member k v ps) k' = (if k' = k then Some v else jget ps k')"
proof (cases "k \<in> fst ` set ps")
  case True
  then obtain w where "map_of ps k = Some w" by (metis map_of_eq_None_iff not_None_eq)
  with True show ?thesis by (simp add: jget_def put_member_alt map_of_set_member)
next
  case False
  then have "map_of ps k = None" by (simp add: map_of_eq_None_iff)
  with False show ?thesis by (auto simp: jget_def put_member_alt map_add_def split: option.splits)
qed

lemma put_member_twice [simp]: "put_member k v (put_member k w ps) = put_member k v ps"
proof (cases "k \<in> fst ` set ps")
  case False
  then show ?thesis using set_member_absent [of k ps v] by (simp add: put_member_alt) (simp add: set_member_def)
qed (simp add: put_member_alt set_member_twice)

lemma drop_member_append: "drop_member k (ps @ [(k, v)]) = drop_member k ps"
  by (simp add: drop_member_def)

lemma drop_member_absent: "k \<notin> fst ` set ps \<Longrightarrow> drop_member k ps = ps"
  by (force simp: drop_member_def filter_id_conv)

lemma jget_drop_member: "jget (drop_member k ps) k' = (if k' = k then None else jget ps k')"
  by (induction ps) (auto simp: drop_member_def jget_def)

section \<open>Agreement with the heap\<close>

lemma mapE_list_all2: "list_all2 (\<lambda>x y. f x = g y) xs ys \<Longrightarrow> mapE f xs = mapE g ys"
  by (induction rule: list_all2_induct) simp_all

lemma canonicalTree_canonicalValue:
  "denotes h v j \<Longrightarrow> heap_ok h \<Longrightarrow> ancestors_larger h anc j \<Longrightarrow> canonicalValue h v anc d = canonicalTree d j"
proof (induction j arbitrary: v anc d)
  case (JArr xs)
  from JArr.prems(1) obtain a items where v: "v = VRef a" "h a = OArr items" "list_all2 (denotes h) items xs"
    by (cases v) (auto elim: denotes_refE)
  note a = JArr.prems(3) JArr.prems(1) [unfolded v(1)]
  have "a \<notin> set anc" using a by (rule ancestors_fresh)
  moreover have "mapE (\<lambda>item. canonicalValue h item (a # anc) (d + 1)) items = mapE (canonicalTree (d + 1)) xs"
    by (rule mapE_list_all2, rule list.rel_mono_strong [OF v(3)])
      (use JArr.IH JArr.prems(2) ancestors_larger_child [OF a size_JArr] in blast)
  ultimately show ?case using v(1,2) by (simp add: canonicalValue.simps [of h "VRef a"] canonicalTree.simps [of d])
next
  case (JObj ps)
  from JObj.prems(1) obtain a source where v: "v = VRef a" "h a = OPlain source" "map fst source = map fst ps"
      "list_all2 (denotes h) (map snd source) (map snd ps)"
    by (cases v) (auto elim: denotes_refE)
  note a = JObj.prems(3) JObj.prems(1) [unfolded v(1)]
  have fresh: "a \<notin> set anc" using a by (rule ancestors_fresh)
  have member: "(case map_of source key of None \<Rightarrow> Inl (invalid (lit ''undefined at property '' @ key))
          | Some item \<Rightarrow> if item = VUndefined then Inl (invalid (lit ''undefined at property '' @ key))
              else bindE (canonicalValue h item (a # anc) (d + 1)) (\<lambda>j. Inr (key, j))) =
      (case map_of ps key of None \<Rightarrow> Inl (invalid (lit ''undefined at property '' @ key))
          | Some item \<Rightarrow> bindE (canonicalTree (d + 1) item) (\<lambda>j. Inr (key, j)))" (is "?l = ?r")
    if key: "key \<in> set (map fst ps)" for key
  proof -
    obtain w where w: "map_of ps key = Some w" using key by (auto simp: image_iff dest: weak_map_of_SomeI)
    obtain item where item: "map_of source key = Some item" "denotes h item w" using map_of_related [OF v(3,4) w] by blast
    note mem = map_of_SomeD [OF w]
    have "canonicalValue h item (a # anc) (d + 1) = canonicalTree (d + 1) w"
      using JObj.IH [OF mem _ item(2) JObj.prems(2) ancestors_larger_child [OF a size_JObj [OF mem]]] by simp
    with w item show ?thesis by (cases item) auto
  qed
  have "mapE (\<lambda>key. bindE (assertUnicodeScalarString key) (\<lambda>_. case map_of source key of
            None \<Rightarrow> Inl (invalid (lit ''undefined at property '' @ key))
          | Some item \<Rightarrow> if item = VUndefined then Inl (invalid (lit ''undefined at property '' @ key))
              else bindE (canonicalValue h item (a # anc) (d + 1)) (\<lambda>j. Inr (key, j)))) (sort (map fst source)) =
     mapE (\<lambda>key. bindE (assertUnicodeScalarString key) (\<lambda>_. case map_of ps key of
            None \<Rightarrow> Inl (invalid (lit ''undefined at property '' @ key))
          | Some item \<Rightarrow> bindE (canonicalTree (d + 1) item) (\<lambda>j. Inr (key, j)))) (sort (map fst ps))"
    unfolding v(3) by (rule mapE_cong [OF refl]) (simp only: set_sort member)
  then show ?case using fresh v(1,2) by (simp only: canonicalValue.simps [of h "VRef a"] canonicalTree.simps [of d]) simp
qed (auto simp: canonicalValue.simps canonicalTree.simps elim: denotes.cases)

theorem canonicalJson_tree_heap:
  assumes "denotes h v j" and "heap_ok h"
  shows "canonicalJson_tree j = canonicalJson h v"
  using canonicalTree_canonicalValue [OF assms, of "[]" 0]
  by (simp add: canonicalJson_tree_def canonicalJson_def ancestors_larger_def)

section \<open>The canonical tree\<close>

lemma sorted_canon_members:
  assumes "distinct (map fst ps)"
  shows "map (\<lambda>k. (k, canon (the (map_of ps k)))) (sort (map fst ps)) = sort_key fst (map (\<lambda>(k, v). (k, canon v)) ps)"
proof -
  let ?cs = "map (\<lambda>(k, v). (k, canon v)) ps"
  have "map fst ?cs = map fst ps" by (simp add: comp_def case_prod_unfold)
  moreover have "sort_key fst ?cs = map (\<lambda>k. (k, canon (the (map_of ps k)))) (sort (map fst ?cs))"
    by (rule sort_members) (use assms in auto)
  ultimately show ?thesis by (simp only:)
qed

lemma canonicalTree_canon: "canonicalTree d j = Inr r \<Longrightarrow> unique_keys j \<Longrightarrow> r = canon j"
proof (induction d j arbitrary: r rule: canonicalTree.induct)
  case (1 d j)
  note run = "1.prems"(1) [unfolded canonicalTree.simps [of d j]]
  then have d: "\<not> 256 < d" by (auto split: if_splits)
  show ?case
  proof (cases j)
    case (JArr xs)
    with run d obtain js where js: "r = JArr js" "list_all2 (\<lambda>x y. canonicalTree (d + 1) x = Inr y) xs js"
      by (auto simp: exn_iff mapE_Inr_iff)
    have "js = map canon xs" using js(2)
      by (rule list_all2_function) (use "1.IH"(1) [OF d JArr] "1.prems"(2) JArr in \<open>auto simp: list_all_iff\<close>)
    with js(1) JArr show ?thesis by simp
  next
    case (JObj ps)
    have dist: "distinct (map fst ps)" and sub: "\<And>k v. map_of ps k = Some v \<Longrightarrow> unique_keys v"
      using "1.prems"(2) JObj by (auto simp: list_all_iff dest!: map_of_SomeD)
    from run d JObj obtain qs where qs: "r = JObj (own_members qs)"
      "list_all2 (\<lambda>key y. bindE (assertUnicodeScalarString key) (\<lambda>_. case map_of ps key of
            None \<Rightarrow> Inl (invalid (lit ''undefined at property '' @ key))
          | Some item \<Rightarrow> bindE (canonicalTree (d + 1) item) (\<lambda>j. Inr (key, j))) = Inr y) (sort (map fst ps)) qs"
      by (auto simp: exn_iff mapE_Inr_iff)
    have "qs = map (\<lambda>k. (k, canon (the (map_of ps k)))) (sort (map fst ps))"
      using qs(2)
    proof (rule list_all2_function)
      fix key y
      assume key: "key \<in> set (sort (map fst ps))"
        and "bindE (assertUnicodeScalarString key) (\<lambda>_. case map_of ps key of
            None \<Rightarrow> Inl (invalid (lit ''undefined at property '' @ key))
          | Some item \<Rightarrow> bindE (canonicalTree (d + 1) item) (\<lambda>j. Inr (key, j))) = Inr y"
      then obtain item c where i: "assertUnicodeScalarString key = Inr ()" "map_of ps key = Some item"
          "canonicalTree (d + 1) item = Inr c" "y = (key, c)"
        by (auto simp: exn_iff split: option.splits)
      from "1.IH"(2) [OF d JObj key i(1,2,3) sub [OF i(2)]] i(2,4) show "y = (key, canon (the (map_of ps key)))" by simp
    qed
    also have "\<dots> = sort_key fst (map (\<lambda>(k, v). (k, canon v)) ps)" by (rule sorted_canon_members [OF dist])
    finally show ?thesis using qs(1) JObj by simp
  qed (use run d in \<open>auto simp: exn_iff split: if_splits\<close>)
qed

lemma canonicalTree_complete:
  "i_json j \<Longrightarrow> depth_le (256 - d) j \<Longrightarrow> d \<le> 256 \<Longrightarrow> unique_keys j \<Longrightarrow> canonicalTree d j = Inr (canon j)"
proof (induction j arbitrary: d)
  case (JArr xs)
  have "mapE (canonicalTree (d + 1)) xs = Inr (map canon xs)"
    unfolding mapE_Inr_iff list.rel_map
    by (intro list.rel_refl_strong) (use JArr in \<open>auto simp: list_all_iff\<close>)
  then show ?case using JArr.prems(3) by (simp add: canonicalTree.simps [of d])
next
  case (JObj ps)
  have dist: "distinct (map fst ps)" using JObj.prems(4) by simp
  let ?J = "\<lambda>k. canon (the (map_of ps k))"
  have "bindE (assertUnicodeScalarString k) (\<lambda>_. case map_of ps k of None \<Rightarrow> Inl (invalid (lit ''undefined at property '' @ k))
      | Some item \<Rightarrow> bindE (canonicalTree (d + 1) item) (\<lambda>j. Inr (k, j))) = Inr (k, ?J k)" if k: "k \<in> set (sort (map fst ps))" for k
  proof -
    obtain w where w: "(k, w) \<in> set ps" "map_of ps k = Some w" using k dist by auto
    have "i_json w" "depth_le (256 - (d + 1)) w" "d + 1 \<le> 256" "unique_keys w" "is_scalar k"
      using JObj.prems w(1) by (auto simp: list_all_iff)
    with JObj.IH [OF w(1), of w "d + 1"] w(2) show ?thesis by (simp add: is_scalar_def)
  qed
  then have "mapE (\<lambda>k. bindE (assertUnicodeScalarString k) (\<lambda>_. case map_of ps k of None \<Rightarrow> Inl (invalid (lit ''undefined at property '' @ k))
      | Some item \<Rightarrow> bindE (canonicalTree (d + 1) item) (\<lambda>j. Inr (k, j)))) (sort (map fst ps)) = Inr (map (\<lambda>k. (k, ?J k)) (sort (map fst ps)))"
    unfolding mapE_Inr_iff list.rel_map by (intro list.rel_refl_strong)
  moreover have "map (\<lambda>k. (k, ?J k)) (sort (map fst ps)) = sort_key fst (map (\<lambda>(k, v). (k, canon v)) ps)"
    by (rule sorted_canon_members [OF dist])
  ultimately show ?case using JObj.prems(3) by (simp add: canonicalTree.simps [of d])
qed (auto simp: canonicalTree.simps is_scalar_def)

lemma canonicalJson_tree_complete:
  "i_json j \<Longrightarrow> depth_le 256 j \<Longrightarrow> unique_keys j \<Longrightarrow> canonicalJson_tree j = Inr (serializeCanonical (canon j))"
  using canonicalTree_complete [of j 0] by (simp add: canonicalJson_tree_def)

lemma put_member_list_all: "list_all P ps \<Longrightarrow> P (k, v) \<Longrightarrow> list_all P (put_member k v ps)"
  by (auto simp: put_member_def list_all_iff)

lemma distinct_put_member: "distinct (map fst ps) \<Longrightarrow> distinct (map fst (put_member k v ps))"
  by (auto simp: put_member_alt)

end
