(* ===== verification/Encoding.thy ===== *)
theory Encoding
  imports JsonText
begin

text \<open>
  Bytes and their encodings: \<^verbatim>\<open>TextEncoder\<close> and \<^verbatim>\<open>TextDecoder\<close> (UTF-8 with replacement of
  what is malformed), and the base64url helpers of \<^verbatim>\<open>crypto.ts\<close> built on \<^verbatim>\<open>btoa\<close> and
  \<^verbatim>\<open>atob\<close>.  Bytes are 8-bit words; the arithmetic on them is done on their values.
\<close>

type_synonym byte = "8 word"

definition byte_of :: "int \<Rightarrow> byte" where
  "byte_of n = word_of_int n"

lemma uint_byte_of [simp]: "0 \<le> n \<Longrightarrow> n < 256 \<Longrightarrow> uint (byte_of n) = n"
  unfolding byte_of_def by (simp add: uint_word_of_int)

lemma byte_of_uint [simp]: "byte_of (uint b) = b"
  by (simp add: byte_of_def)

lemma uint_byte_bounds: "0 \<le> uint (b :: byte)" "uint (b :: byte) < 256"
  using unsigned_less [of b] by simp_all

section \<open>Base64\<close>

definition b64_unit :: "int \<Rightarrow> code_unit" where
  "b64_unit n = (if n < 26 then word_of_int (65 + n) else if n < 52 then word_of_int (71 + n)
     else if n < 62 then word_of_int (n - 4) else if n = 62 then 43 else 47)"

definition b64_value :: "code_unit \<Rightarrow> int option" where
  "b64_value c = (if is_upper c then Some (uint c - 65) else if is_lower c then Some (uint c - 71)
     else if is_digit c then Some (uint c + 4) else if c = 43 then Some 62 else if c = 47 then Some 63 else None)"

text \<open>The sextets of a byte string; a final short group is padded with zero bits.\<close>

fun sextets :: "byte list \<Rightarrow> int list" where
  "sextets [] = []"
| "sextets [a] = [uint a div 4, uint a mod 4 * 16]"
| "sextets [a, b] = [uint a div 4, uint a mod 4 * 16 + uint b div 16, uint b mod 16 * 4]"
| "sextets (a # b # c # r) =
     [uint a div 4, uint a mod 4 * 16 + uint b div 16, uint b mod 16 * 4 + uint c div 64, uint c mod 64] @ sextets r"

fun unsextets :: "int list \<Rightarrow> byte list option" where
  "unsextets [] = Some []"
| "unsextets [p] = None"
| "unsextets [p, q] = Some [byte_of (p * 4 + q div 16)]"
| "unsextets [p, q, s] = Some [byte_of (p * 4 + q div 16), byte_of (q mod 16 * 16 + s div 4)]"
| "unsextets (p # q # s # t # r) =
     map_option (\<lambda>bs. [byte_of (p * 4 + q div 16), byte_of (q mod 16 * 16 + s div 4), byte_of (s mod 4 * 64 + t)] @ bs) (unsextets r)"

definition btoa :: "byte list \<Rightarrow> jstring" where
  "btoa bs = map b64_unit (sextets bs) @ replicate ((3 - length bs mod 3) mod 3) 61"

text \<open>Forgiving-base64 decode; the callers pass no white space.\<close>

definition strip_padding :: "jstring \<Rightarrow> jstring" where
  "strip_padding s = (if length s mod 4 = 0 \<and> s \<noteq> [] \<and> last s = 61
     then (if butlast s \<noteq> [] \<and> last (butlast s) = 61 then butlast (butlast s) else butlast s) else s)"

definition atob :: "jstring \<Rightarrow> byte list result" where
  "atob s = (let vs = map b64_value (strip_padding s) in
     if None \<in> set vs then Inl (PlainErr []) else
     case unsextets (map the vs) of Some bs \<Rightarrow> Inr bs | None \<Rightarrow> Inl (PlainErr []))"

definition url_unit :: "code_unit \<Rightarrow> bool" where
  "url_unit c \<longleftrightarrow> is_upper c \<or> is_lower c \<or> is_digit c \<or> c = 95 \<or> c = 45"

definition to_url :: "code_unit \<Rightarrow> code_unit" where
  "to_url c = (if c = 43 then 45 else if c = 47 then 95 else c)"

definition from_url :: "code_unit \<Rightarrow> code_unit" where
  "from_url c = (if c = 45 then 43 else if c = 95 then 47 else c)"

definition base64url :: "byte list \<Rightarrow> jstring" where
  "base64url value = map to_url (filter (\<lambda>c. c \<noteq> 61) (btoa value))"

definition fromBase64url :: "jstring \<Rightarrow> byte list result" where
  "fromBase64url value =
     (if value = [] \<or> \<not> list_all url_unit value then Inl (PlainErr (lit ''invalid base64url''))
      else atob (map from_url value @ replicate ((4 - length value mod 4) mod 4) 61))"

section \<open>The round trip\<close>

definition sextet :: "int \<Rightarrow> bool" where
  "sextet n \<longleftrightarrow> 0 \<le> n \<and> n < 64"

lemma byte_parts:
  fixes b :: byte
  shows "0 \<le> uint b div 4" "uint b div 4 < 64" "0 \<le> uint b div 16" "uint b div 16 < 16" "0 \<le> uint b div 64" "uint b div 64 < 4"
proof -
  have "0 \<le> n div 4" "n div 4 < 64" "0 \<le> n div 16" "n div 16 < 16" "0 \<le> n div 64" "n div 64 < 4" if "0 \<le> n" "n < 256" for n :: int
    using that by presburger+
  from this [OF uint_byte_bounds] show "0 \<le> uint b div 4" "uint b div 4 < 64" "0 \<le> uint b div 16" "uint b div 16 < 16"
    "0 \<le> uint b div 64" "uint b div 64 < 4" by blast+
qed

lemma mod_bounds:
  fixes n :: int
  shows "0 \<le> n mod 4" "n mod 4 < 4" "0 \<le> n mod 16" "n mod 16 < 16" "0 \<le> n mod 64" "n mod 64 < 64"
  by simp_all

lemma byte_digits:
  fixes a b c :: byte
  shows "sextet (uint a div 4)" "sextet (uint a mod 4 * 16)" "sextet (uint a mod 4 * 16 + uint b div 16)"
    "sextet (uint b mod 16 * 4)" "sextet (uint b mod 16 * 4 + uint c div 64)" "sextet (uint c mod 64)"
  unfolding sextet_def
  using byte_parts(1,2) [of a] byte_parts(3,4) [of b] byte_parts(5,6) [of c] mod_bounds(1,2) [of "uint a"]
    mod_bounds(3,4) [of "uint b"] mod_bounds(5,6) [of "uint c"] by auto

lemma sextets_range: "n \<in> set (sextets bs) \<Longrightarrow> sextet n"
  by (induction bs rule: sextets.induct) (auto simp: byte_digits)

lemma byte_quotients [simp]:
  fixes b :: byte
  shows "uint b div 16 div 16 = 0" "uint b div 16 mod 16 = uint b div 16" "uint b div 64 div 4 = 0" "uint b div 64 mod 4 = uint b div 64"
  using byte_parts [of b] by (simp_all add: div_pos_pos_trivial mod_pos_pos_trivial)

lemma byte_sum [simp]:
  fixes b :: byte
  shows "uint b div 16 * 16 + uint b mod 16 = uint b" "uint b div 64 * 64 + uint b mod 64 = uint b"
  by (rule div_mult_mod_eq)+

lemma unsextets_sextets: "unsextets (sextets bs) = Some bs"
  by (induction bs rule: sextets.induct) simp_all

lemma b64_value_unit: "sextet n \<Longrightarrow> b64_value (b64_unit n) = Some n"
proof -
  assume n: "sextet n"
  have u: "uint (word_of_int k :: 16 word) = k" if "0 \<le> k" "k < 65536" for k using that by (simp add: uint_word_of_int)
  consider "n < 26" | "26 \<le> n" "n < 52" | "52 \<le> n" "n < 62" | "n = 62" | "n = 63" using n by (auto simp: sextet_def) linarith
  then show ?thesis
  proof cases
    case 1
    with n u [of "65 + n"] show ?thesis by (simp add: b64_unit_def b64_value_def is_upper_def word_le_def sextet_def)
  next
    case 2
    with n u [of "71 + n"] show ?thesis by (simp add: b64_unit_def b64_value_def is_upper_def is_lower_def word_le_def sextet_def)
  next
    case 3
    with n u [of "n - 4"] show ?thesis
      by (simp add: b64_unit_def b64_value_def is_upper_def is_lower_def is_digit_def word_le_def sextet_def)
  qed (simp_all add: b64_unit_def b64_value_def is_upper_def is_lower_def is_digit_def)
qed

lemma b64_unit_not_pad: "sextet n \<Longrightarrow> b64_unit n \<noteq> 61 \<and> b64_unit n \<noteq> 45 \<and> b64_unit n \<noteq> 95"
  using b64_value_unit [of n] by (auto simp: b64_value_def is_upper_def is_lower_def is_digit_def)

lemma to_url_unit: "sextet n \<Longrightarrow> url_unit (to_url (b64_unit n)) \<and> from_url (to_url (b64_unit n)) = b64_unit n"
  using b64_value_unit [of n] b64_unit_not_pad [of n]
  by (auto simp: to_url_def from_url_def url_unit_def b64_value_def split: if_splits)

lemma base64url_sextets: "base64url bs = map (to_url \<circ> b64_unit) (sextets bs)"
proof -
  have "filter (\<lambda>c. c \<noteq> 61) (map b64_unit (sextets bs)) = map b64_unit (sextets bs)"
    using sextets_range b64_unit_not_pad by (auto simp: filter_id_conv)
  then show ?thesis by (simp add: base64url_def btoa_def)
qed

lemma length_sextets: "length (sextets bs) mod 4 = (if length bs mod 3 = 0 then 0 else length bs mod 3 + 1)"
  by (induction bs rule: sextets.induct) (auto simp: mod_Suc)

lemma strip_padding_replicate:
  assumes "\<forall>c \<in> set u. c \<noteq> 61" and "length u mod 4 \<noteq> 1"
  shows "strip_padding (u @ replicate ((4 - length u mod 4) mod 4) 61) = u"
proof -
  have last: "last u \<noteq> 61" if "u \<noteq> []" using assms(1) that by simp
  have m: "length u mod 4 = 0 \<or> length u mod 4 = 2 \<or> length u mod 4 = 3" using assms(2) by arith
  have len: "(length u + k) mod 4 = (length u mod 4 + k) mod 4" for k by (simp add: mod_add_left_eq)
  from m show ?thesis
  proof (elim disjE)
    assume "length u mod 4 = 0"
    then show ?thesis using last by (auto simp: strip_padding_def)
  next
    assume l: "length u mod 4 = 2"
    then have "u \<noteq> []" by auto
    with l last len [of 2] show ?thesis by (simp add: strip_padding_def numeral_2_eq_2 butlast_append)
  next
    assume l: "length u mod 4 = 3"
    then have "u \<noteq> []" by auto
    with l last len [of 1] show ?thesis by (simp add: strip_padding_def)
  qed
qed

lemma base64url_units: "list_all url_unit (base64url bs)"
  by (auto simp: base64url_sextets list_all_iff dest!: sextets_range to_url_unit)

lemma base64url_not_Nil: "bs \<noteq> [] \<Longrightarrow> base64url bs \<noteq> []"
  by (cases bs rule: sextets.cases) (simp_all add: base64url_sextets)

lemma fromBase64url_base64url:
  assumes "bs \<noteq> []"
  shows "fromBase64url (base64url bs) = Inr bs"
proof -
  let ?u = "map b64_unit (sextets bs)"
  have r: "\<forall>n \<in> set (sextets bs). sextet n" using sextets_range by blast
  have "base64url bs \<noteq> []" using assms by (cases bs rule: sextets.cases) (simp_all add: base64url_sextets)
  have url: "list_all url_unit (base64url bs)" "map from_url (base64url bs) = ?u" "length (base64url bs) = length ?u"
    using r to_url_unit by (auto simp: base64url_sextets list_all_iff)
  have strip: "strip_padding (?u @ replicate ((4 - length ?u mod 4) mod 4) 61) = ?u"
    by (rule strip_padding_replicate) (use r b64_unit_not_pad length_sextets [of bs] in auto)
  have v: "map b64_value ?u = map Some (sextets bs)" using r b64_value_unit by auto
  have "atob (?u @ replicate ((4 - length ?u mod 4) mod 4) 61) = Inr bs"
    unfolding atob_def strip Let_def v by (simp add: unsextets_sextets comp_def)
  with url \<open>base64url bs \<noteq> []\<close> show ?thesis by (simp only: fromBase64url_def) simp
qed

section \<open>UTF-8\<close>

text \<open>The scalar values of a string; a lone surrogate becomes U+FFFD.\<close>

fun code_points :: "jstring \<Rightarrow> int list" where
  "code_points [] = []"
| "code_points [c] = [if is_high_surrogate c \<or> is_low_surrogate c then 0xfffd else uint c]"
| "code_points (c # d # r) =
     (if is_high_surrogate c \<and> is_low_surrogate d
      then (0x10000 + (uint c - 0xd800) * 0x400 + (uint d - 0xdc00)) # code_points r
      else (if is_high_surrogate c \<or> is_low_surrogate c then 0xfffd else uint c) # code_points (d # r))"

definition utf8_bytes :: "int \<Rightarrow> byte list" where
  "utf8_bytes cp =
     (if cp < 0x80 then [byte_of cp]
      else if cp < 0x800 then [byte_of (0xc0 + cp div 64), byte_of (0x80 + cp mod 64)]
      else if cp < 0x10000 then [byte_of (0xe0 + cp div 4096), byte_of (0x80 + cp div 64 mod 64), byte_of (0x80 + cp mod 64)]
      else [byte_of (0xf0 + cp div 262144), byte_of (0x80 + cp div 4096 mod 64), byte_of (0x80 + cp div 64 mod 64),
            byte_of (0x80 + cp mod 64)])"

definition TextEncoder_encode :: "jstring \<Rightarrow> byte list" where
  "TextEncoder_encode s = concat (map utf8_bytes (code_points s))"

text \<open>
  The decoder of the Encoding standard: how many continuation bytes are still needed, the bounds
  on the next one and the bits so far.  A byte that does not fit yields U+FFFD and is read again.
\<close>

record utf8_state =
  needed :: int
  lower :: int
  upper :: int
  bits :: int

definition utf8_lead :: "int \<Rightarrow> utf8_state option" where
  "utf8_lead b =
     (if 0xc2 \<le> b \<and> b \<le> 0xdf then Some \<lparr>needed = 1, lower = 0x80, upper = 0xbf, bits = b - 0xc0\<rparr>
      else if 0xe0 \<le> b \<and> b \<le> 0xef then
        Some \<lparr>needed = 2, lower = (if b = 0xe0 then 0xa0 else 0x80), upper = (if b = 0xed then 0x9f else 0xbf), bits = b - 0xe0\<rparr>
      else if 0xf0 \<le> b \<and> b \<le> 0xf4 then
        Some \<lparr>needed = 3, lower = (if b = 0xf0 then 0x90 else 0x80), upper = (if b = 0xf4 then 0x8f else 0xbf), bits = b - 0xf0\<rparr>
      else None)"

function utf8_decode :: "utf8_state option \<Rightarrow> byte list \<Rightarrow> int list" where
  "utf8_decode None [] = []"
| "utf8_decode (Some _) [] = [0xfffd]"
| "utf8_decode None (b # bs) =
     (if uint b < 0x80 then uint b # utf8_decode None bs
      else case utf8_lead (uint b) of None \<Rightarrow> 0xfffd # utf8_decode None bs | Some st \<Rightarrow> utf8_decode (Some st) bs)"
| "utf8_decode (Some st) (b # bs) =
     (if uint b < lower st \<or> upper st < uint b then 0xfffd # utf8_decode None (b # bs)
      else let cp = bits st * 64 + (uint b - 0x80) in
        if needed st = 1 then cp # utf8_decode None bs
        else utf8_decode (Some \<lparr>needed = needed st - 1, lower = 0x80, upper = 0xbf, bits = cp\<rparr>) bs)"
  by pat_completeness auto
termination by (relation "measures [\<lambda>(st, bs). length bs, \<lambda>(st, bs). if st = None then 0 else 1]") auto

definition units_of :: "int \<Rightarrow> jstring" where
  "units_of cp = (if cp < 0x10000 then [word_of_int cp]
     else [word_of_int (0xd800 + (cp - 0x10000) div 0x400), word_of_int (0xdc00 + (cp - 0x10000) mod 0x400)])"

text \<open>A leading byte order mark is dropped.\<close>

definition TextDecoder_decode :: "byte list \<Rightarrow> jstring" where
  "TextDecoder_decode bs =
     concat (map units_of (utf8_decode None (if take 3 bs = [0xef, 0xbb, 0xbf] then drop 3 bs else bs)))"

text \<open>Scalar values: code points that are not surrogates.\<close>

definition scalar_value :: "int \<Rightarrow> bool" where
  "scalar_value cp \<longleftrightarrow> 0 \<le> cp \<and> cp < 0x110000 \<and> \<not> (0xd800 \<le> cp \<and> cp \<le> 0xdfff)"

lemma mod_64_range [simp]: "\<not> n mod 64 < (0 :: int)" "\<not> 63 < n mod (64 :: int)"
  using pos_mod_bound [of 64 n] pos_mod_sign [of 64 n] by linarith+

declare utf8_decode.simps(3,4) [simp del]

lemma utf8_lead_step:
  "0x80 \<le> b \<Longrightarrow> b < 256 \<Longrightarrow> utf8_lead b = Some st \<Longrightarrow> utf8_decode None (byte_of b # bs) = utf8_decode (Some st) bs"
  by (simp add: utf8_decode.simps)

lemma utf8_continue:
  assumes "0 \<le> v" "v < 64" "l \<le> 0x80 + v" "0x80 + v \<le> u"
  shows "utf8_decode (Some \<lparr>needed = n, lower = l, upper = u, bits = c\<rparr>) (byte_of (0x80 + v) # bs) =
    (if n = 1 then (c * 64 + v) # utf8_decode None bs
     else utf8_decode (Some \<lparr>needed = n - 1, lower = 0x80, upper = 0xbf, bits = c * 64 + v\<rparr>) bs)"
  using assms by (simp add: utf8_decode.simps)

lemma mod_64_bounds: "0 \<le> n mod (64 :: int)" "n mod (64 :: int) < 64"
  by simp_all

lemma utf8_decode_two:
  assumes "0x80 \<le> cp" "cp < 0x800"
  shows "utf8_decode None (utf8_bytes cp @ bs) = cp # utf8_decode None bs"
proof -
  have q: "2 \<le> cp div 64" "cp div 64 < 32" using assms by presburger+
  have "utf8_lead (0xc0 + cp div 64) = Some \<lparr>needed = 1, lower = 0x80, upper = 0xbf, bits = cp div 64\<rparr>"
    using q by (simp add: utf8_lead_def)
  from utf8_lead_step [OF _ _ this] q assms show ?thesis by (simp add: utf8_bytes_def utf8_continue)
qed

lemma utf8_decode_three:
  assumes "0x800 \<le> cp" "cp < 0x10000" "\<not> (0xd800 \<le> cp \<and> cp \<le> 0xdfff)"
  shows "utf8_decode None (utf8_bytes cp @ bs) = cp # utf8_decode None bs"
proof -
  define h where "h = cp div 64"
  have "32 \<le> h" "h < 1024" "h < 864 \<or> 896 \<le> h" using assms unfolding h_def by presburger+
  then have q: "0 \<le> h div 64" "h div 64 < 16" "h div 64 = 0 \<Longrightarrow> 32 \<le> h mod 64" "h div 64 = 13 \<Longrightarrow> h mod 64 < 32"
    by presburger+
  have d: "cp div 4096 = h div 64" using zdiv_zmult2_eq [of 64 cp 64] by (simp add: h_def)
  have j: "h * 64 + cp mod 64 = cp" "h div 64 * 64 + h mod 64 = h" unfolding h_def by (rule div_mult_mod_eq)+
  define l u where "l = (if h div 64 = 0 then 0xa0 else 0x80 :: int)" and "u = (if h div 64 = 13 then 0x9f else 0xbf :: int)"
  have lead: "utf8_lead (0xe0 + h div 64) = Some \<lparr>needed = 2, lower = l, upper = u, bits = h div 64\<rparr>"
    using q(1,2) by (auto simp: utf8_lead_def l_def u_def)
  have "l \<le> 0x80 + h mod 64" "0x80 + h mod 64 \<le> u" using q(3,4) mod_64_bounds [of h] by (auto simp: l_def u_def)
  note c = utf8_continue [OF mod_64_bounds this] utf8_continue [OF mod_64_bounds [of cp], of "0x80" "0xbf"]
  have "utf8_bytes cp = [byte_of (0xe0 + h div 64), byte_of (0x80 + h mod 64), byte_of (0x80 + cp mod 64)]"
    using assms by (simp add: utf8_bytes_def d h_def)
  then show ?thesis using utf8_lead_step [OF _ _ lead] q(1,2) by (simp add: c j)
qed

lemma utf8_decode_four:
  assumes "0x10000 \<le> cp" "cp < 0x110000"
  shows "utf8_decode None (utf8_bytes cp @ bs) = cp # utf8_decode None bs"
proof -
  define h g where "h = cp div 64" and "g = cp div 4096"
  have "16 \<le> g" "g < 272"
    using assms zdiv_mono1 [of "0x10000" cp 4096] zdiv_mono1 [of cp "0x10ffff" 4096] by (simp_all add: g_def)
  then have q: "0 \<le> g div 64" "g div 64 < 5" "g div 64 = 0 \<Longrightarrow> 16 \<le> g mod 64" "g div 64 = 4 \<Longrightarrow> g mod 64 < 16"
    by presburger+
  have d: "cp div 262144 = g div 64" "h div 64 = g"
    using zdiv_zmult2_eq [of 64 cp 4096] zdiv_zmult2_eq [of 64 cp 64] by (simp_all add: g_def h_def)
  have j: "h * 64 + cp mod 64 = cp" "g * 64 + h mod 64 = h" "g div 64 * 64 + g mod 64 = g"
    using div_mult_mod_eq [of h 64] unfolding d(2) by (simp_all add: h_def)
  define l u where "l = (if g div 64 = 0 then 0x90 else 0x80 :: int)" and "u = (if g div 64 = 4 then 0x8f else 0xbf :: int)"
  have lead: "utf8_lead (0xf0 + g div 64) = Some \<lparr>needed = 3, lower = l, upper = u, bits = g div 64\<rparr>"
    using q(1,2) by (auto simp: utf8_lead_def l_def u_def)
  have "l \<le> 0x80 + g mod 64" "0x80 + g mod 64 \<le> u" using q(3,4) mod_64_bounds [of g] by (auto simp: l_def u_def)
  note c = utf8_continue [OF mod_64_bounds this] utf8_continue [OF mod_64_bounds [of h], of "0x80" "0xbf"]
    utf8_continue [OF mod_64_bounds [of cp], of "0x80" "0xbf"]
  have "utf8_bytes cp = [byte_of (0xf0 + g div 64), byte_of (0x80 + g mod 64), byte_of (0x80 + h mod 64), byte_of (0x80 + cp mod 64)]"
    using assms by (simp add: utf8_bytes_def d(1) h_def g_def)
  then show ?thesis using utf8_lead_step [OF _ _ lead] q(1,2) by (simp add: c j)
qed

lemma utf8_decode_one: "scalar_value cp \<Longrightarrow> utf8_decode None (utf8_bytes cp @ bs) = cp # utf8_decode None bs"
proof -
  assume cp: "scalar_value cp"
  then consider "0 \<le> cp" "cp < 0x80" | "0x80 \<le> cp" "cp < 0x800" | "0x800 \<le> cp" "cp < 0x10000" | "0x10000 \<le> cp" "cp < 0x110000"
    unfolding scalar_value_def by linarith
  then show ?thesis
  proof cases
    case 1
    then show ?thesis by (simp add: utf8_bytes_def utf8_decode.simps)
  next
    case 3
    then show ?thesis by (rule utf8_decode_three) (use cp in \<open>simp add: scalar_value_def\<close>)
  qed (rule utf8_decode_two utf8_decode_four; assumption)+
qed

fun well_formed :: "jstring \<Rightarrow> bool" where
  "well_formed [] = True"
| "well_formed [c] = (\<not> is_high_surrogate c \<and> \<not> is_low_surrogate c)"
| "well_formed (c # d # r) =
     (if is_high_surrogate c \<and> is_low_surrogate d then well_formed r
      else \<not> is_high_surrogate c \<and> \<not> is_low_surrogate c \<and> well_formed (d # r))"

lemma unit_bounds: "0 \<le> uint (c :: code_unit)" "uint (c :: code_unit) < 65536"
  using unsigned_less [of c] by simp_all

lemma plain_unit:
  "\<not> is_high_surrogate c \<Longrightarrow> \<not> is_low_surrogate c \<Longrightarrow> scalar_value (uint c) \<and> units_of (uint c) = [c]"
  using unit_bounds [of c]
  by (auto simp: scalar_value_def units_of_def is_high_surrogate_def is_low_surrogate_def word_le_def)

lemma surrogate_pair:
  assumes "is_high_surrogate c" and "is_low_surrogate d"
  shows "scalar_value (0x10000 + (uint c - 0xd800) * 0x400 + (uint d - 0xdc00)) \<and>
     units_of (0x10000 + (uint c - 0xd800) * 0x400 + (uint d - 0xdc00)) = [c, d]"
proof -
  have b: "0xd800 \<le> uint c" "uint c \<le> 0xdbff" "0xdc00 \<le> uint d" "uint d \<le> 0xdfff"
    using assms by (auto simp: is_high_surrogate_def is_low_surrogate_def word_le_def)
  define h l where "h = uint c - 0xd800" and "l = uint d - 0xdc00"
  have hl: "0 \<le> h" "h < 0x400" "0 \<le> l" "l < 0x400" using b by (simp_all add: h_def l_def)
  then have "(h * 0x400 + l) div 0x400 = h" "(h * 0x400 + l) mod 0x400 = l" by simp_all
  then have "units_of (0x10000 + h * 0x400 + l) = [word_of_int (0xd800 + h), word_of_int (0xdc00 + l)]"
    using hl by (simp add: units_of_def add.assoc)
  moreover have "scalar_value (0x10000 + h * 0x400 + l)" using hl by (simp add: scalar_value_def)
  ultimately show ?thesis by (simp add: h_def l_def)
qed

lemma code_points_units:
  "well_formed s \<Longrightarrow> (\<forall>cp \<in> set (code_points s). scalar_value cp) \<and> concat (map units_of (code_points s)) = s"
  by (induction s rule: code_points.induct) (auto simp: plain_unit surrogate_pair [simplified] split: if_splits)

lemma utf8_decode_encode: "\<forall>cp \<in> set cps. scalar_value cp \<Longrightarrow> utf8_decode None (concat (map utf8_bytes cps)) = cps"
  by (induction cps) (simp_all add: utf8_decode_one)

lemma bom_code_point:
  assumes "scalar_value cp" and "take 3 (utf8_bytes cp @ bs) = [0xef, 0xbb, 0xbf]"
  shows "cp = 0xfeff"
proof -
  have d: "utf8_bytes cp @ bs = [0xef, 0xbb, 0xbf] @ drop 3 (utf8_bytes cp @ bs)" using assms(2) by (metis append_take_drop_id)
  have "utf8_decode None ([0xef, 0xbb, 0xbf] @ r) = 0xfeff # utf8_decode None r" for r by (simp add: utf8_lead_def utf8_decode.simps)
  with d utf8_decode_one [OF assms(1), of bs] show ?thesis by (metis list.inject)
qed

lemma no_byte_order_mark:
  assumes "well_formed s" and "\<forall>r. s \<noteq> 0xfeff # r"
  shows "take 3 (TextEncoder_encode s) \<noteq> [0xef, 0xbb, 0xbf]"
proof (cases "code_points s")
  case (Cons p ps)
  note cp = code_points_units [OF assms(1)]
  show ?thesis
  proof
    assume "take 3 (TextEncoder_encode s) = [0xef, 0xbb, 0xbf]"
    with Cons cp have "p = 0xfeff" by (auto simp: TextEncoder_encode_def intro: bom_code_point)
    then have "units_of p = [0xfeff]" by (simp add: units_of_def)
    with Cons cp have "s = 0xfeff # concat (map units_of ps)" by simp
    with assms(2) show False by blast
  qed
qed (simp add: TextEncoder_encode_def)

lemma TextDecoder_encode:
  assumes "well_formed s" and "\<forall>r. s \<noteq> 0xfeff # r"
  shows "TextDecoder_decode (TextEncoder_encode s) = s"
  using no_byte_order_mark [OF assms] code_points_units [OF assms(1)] utf8_decode_encode [of "code_points s"]
  by (simp add: TextDecoder_decode_def TextEncoder_encode_def)

section \<open>Properties\<close>

text \<open>
  Decoding the URL-safe base64 text of a non-empty byte sequence gives the bytes back, and
  the text consists only of the letters, digits, hyphens and underscores the decoder accepts.
\<close>

theorem base64url_roundtrip:
  assumes "bs \<noteq> []"
  shows "fromBase64url (base64url bs) = Inr bs \<and> base64url bs \<noteq> [] \<and> list_all url_unit (base64url bs)"
  using fromBase64url_base64url [OF assms] base64url_not_Nil [OF assms] base64url_units by simp

theorem base64url_roundtrip_witness: "fromBase64url (base64url [0xff, 0xfe, 7, 0]) = Inr [0xff, 0xfe, 7, 0]"
  using base64url_roundtrip [of "[0xff, 0xfe, 7, 0]"] by simp

end
