(* ===== verification/Ed25519.thy ===== *)
theory Ed25519
  imports Encoding
begin

text \<open>
  The point validation of \<^verbatim>\<open>crypto.ts\<close> on unbounded integers: the remainder operator of
  \<^verbatim>\<open>bigint\<close> truncates, \<open>mod_pos\<close> is the helper \<^verbatim>\<open>mod\<close>, \<open>modPow\<close> is square-and-multiply,
  and \<open>isValidEd25519PublicKey\<close> decodes a point and rejects small orders.
\<close>

definition bigint_rem :: "int \<Rightarrow> int \<Rightarrow> int" where
  "bigint_rem a m = (if a < 0 then - ((- a) mod m) else a mod m)"

definition mod_pos :: "int \<Rightarrow> int \<Rightarrow> int" where
  "mod_pos value modulus = (let r = bigint_rem value modulus in if r < 0 then r + modulus else r)"

function modPow_loop :: "int \<Rightarrow> int \<Rightarrow> int \<Rightarrow> int \<Rightarrow> int" where
  "modPow_loop acc factor pw modulus =
     (if pw \<le> 0 then acc
      else modPow_loop (if odd pw then bigint_rem (acc * factor) modulus else acc)
             (bigint_rem (factor * factor) modulus) (pw div 2) modulus)"
  by pat_completeness auto
termination by (relation "measure (\<lambda>(acc, f, p, m). nat p)") auto

declare modPow_loop.simps [simp del]

definition modPow :: "int \<Rightarrow> int \<Rightarrow> int \<Rightarrow> int" where
  "modPow base exponent modulus = modPow_loop 1 (mod_pos base modulus) exponent modulus"

definition inverse_mod :: "int \<Rightarrow> int \<Rightarrow> int" where
  "inverse_mod value modulus = modPow (mod_pos value modulus) (modulus - 2) modulus"

definition ED25519_P :: int where
  "ED25519_P = 2 ^ 255 - 19"

definition ED25519_D :: int where
  "ED25519_D = mod_pos (- 121665 * inverse_mod 121666 ED25519_P) ED25519_P"

definition ED25519_I :: int where
  "ED25519_I = modPow 2 ((ED25519_P - 1) div 4) ED25519_P"

type_synonym EdwardsPoint = "int \<times> int"

definition addEdwards :: "EdwardsPoint \<Rightarrow> EdwardsPoint \<Rightarrow> EdwardsPoint" where
  "addEdwards p q = (case (p, q) of ((x1, y1), (x2, y2)) \<Rightarrow>
     let factor = mod_pos (ED25519_D * x1 * x2 * y1 * y2) ED25519_P in
     (mod_pos ((x1 * y2 + y1 * x2) * inverse_mod (1 + factor) ED25519_P) ED25519_P,
      mod_pos ((y1 * y2 + x1 * x2) * inverse_mod (1 - factor) ED25519_P) ED25519_P))"

text \<open>The little-endian value of the bytes, the loop from index 31 down to 0.\<close>

definition little_endian :: "byte list \<Rightarrow> int" where
  "little_endian bs = foldl (\<lambda>y b. y * 256 + uint b) 0 (rev bs)"

text \<open>The test on the decoded coordinate \<open>y\<close> and the sign bit.\<close>

definition valid_point :: "int \<Rightarrow> int \<Rightarrow> bool" where
  "valid_point y sign =
     (if ED25519_P \<le> y then False else
      let y2 = mod_pos (y * y) ED25519_P;
          x2 = mod_pos ((y2 - 1) * inverse_mod (ED25519_D * y2 + 1) ED25519_P) ED25519_P;
          x0 = modPow x2 ((ED25519_P + 3) div 8) ED25519_P;
          x1 = (if mod_pos (x0 * x0 - x2) ED25519_P \<noteq> 0 then mod_pos (x0 * ED25519_I) ED25519_P else x0)
      in if mod_pos (x1 * x1 - x2) ED25519_P \<noteq> 0 then False else
      let x = (if x1 mod 2 \<noteq> sign then ED25519_P - x1 else x1)
      in if x = 0 \<and> sign = 1 then False else
      let p2 = addEdwards (x, y) (x, y); p4 = addEdwards p2 p2; p8 = addEdwards p4 p4
      in fst p8 \<noteq> 0 \<or> snd p8 \<noteq> 1)"

definition isValidEd25519PublicKey :: "jstring option \<Rightarrow> bool" where
  "isValidEd25519PublicKey encoded = (case encoded of None \<Rightarrow> False | Some e \<Rightarrow>
     if e = [] then False else
     case fromBase64url e of Inl _ \<Rightarrow> False
     | Inr bytes \<Rightarrow>
         if length bytes \<noteq> 32 then False
         else let sign = uint (bytes ! 31) div 128;
                  copy = bytes[31 := byte_of (uint (bytes ! 31) mod 128)]
              in valid_point (little_endian copy) sign)"

section \<open>Modular arithmetic\<close>

lemma bigint_rem_nonneg: "0 \<le> a \<Longrightarrow> bigint_rem a m = a mod m"
  by (simp add: bigint_rem_def)

lemma mod_pos_eq:
  assumes "0 < m"
  shows "mod_pos a m = a mod m"
proof (cases "a < 0")
  case True
  have "0 \<le> (- a) mod m" using assms by simp
  with True zmod_zminus1_eq_if [of "- a" m] show ?thesis
    by (cases "(- a) mod m = 0") (simp_all add: mod_pos_def bigint_rem_def Let_def)
qed (use assms in \<open>simp add: mod_pos_def bigint_rem_def Let_def not_less\<close>)

lemma modPow_loop_correct:
  assumes "0 < m" and "0 \<le> acc" and "acc < m" and "0 \<le> f" and "0 \<le> p"
  shows "modPow_loop acc f p m = (acc * f ^ nat p) mod m"
  using assms
proof (induction acc f p m rule: modPow_loop.induct)
  case (1 acc f p m)
  show ?case
  proof (cases "p \<le> 0")
    case True
    with "1.prems" show ?thesis by (simp add: modPow_loop.simps)
  next
    case False
    let ?acc = "if odd p then bigint_rem (acc * f) m else acc" and ?f = "bigint_rem (f * f) m"
    have acc: "0 \<le> ?acc" "?acc < m" "?acc mod m = (acc * (if odd p then f else 1)) mod m" and f: "0 \<le> ?f" "?f = f * f mod m"
      using "1.prems" by (simp_all add: bigint_rem_nonneg)
    have p: "nat p = 2 * nat (p div 2) + (if odd p then 1 else 0)"
      using False by (cases "odd p") (auto elim!: oddE evenE simp: nat_add_distrib nat_mult_distrib)
    have "modPow_loop acc f p m = (?acc * ?f ^ nat (p div 2)) mod m"
      using "1.IH" [OF False "1.prems"(1) acc(1,2) f(1)] False by (simp add: modPow_loop.simps [of acc])
    also have "\<dots> = ((acc * (if odd p then f else 1)) * (f * f) ^ nat (p div 2)) mod m"
      unfolding f(2) by (metis acc(3) mod_mult_eq power_mod)
    also have "\<dots> = (acc * f ^ nat p) mod m"
      by (subst p) (simp add: power_add power_mult power2_eq_square mult_ac)
    finally show ?thesis .
  qed
qed

lemma modPow_correct: "1 < m \<Longrightarrow> 0 \<le> e \<Longrightarrow> modPow b e m = b ^ nat e mod m"
  using modPow_loop_correct [of m 1 "b mod m" e] by (simp add: modPow_def mod_pos_eq power_mod)

text \<open>
  Square-and-multiply computes modular exponentiation: for a modulus above one and a
  non-negative exponent the loop returns the power reduced by the modulus.
\<close>

theorem modPow_is_modular_power:
  assumes "1 < modulus" and "0 \<le> exponent"
  shows "modPow base exponent modulus = base ^ nat exponent mod modulus"
  using assms by (rule modPow_correct)

theorem modPow_is_modular_power_witness: "modPow (- 3) 5 7 = (- 3) ^ nat 5 mod 7"
  by (rule modPow_is_modular_power) simp_all

end
