(* ===== verification/Signing.thy ===== *)
theory Signing
  imports IsoFormat Documents Ed25519 Objects
begin

text \<open>
  The signing half of \<^verbatim>\<open>crypto.ts\<close>.  Documents and proofs are JSON objects, because members the
  code does not know are signed too.  The Web Crypto API is not part of the program: a provider
  is a record of the three operations the code calls, over an opaque type of keys, and it may be
  absent.  \<open>now\<close> is the host's clock, \<open>legacy\<close> the host's part of \<^verbatim>\<open>Date.parse\<close>; time values
  are whole milliseconds.
\<close>

section \<open>Constants and types\<close>

definition OATI_CRYPTO_PROFILE :: jstring where
  "OATI_CRYPTO_PROFILE = lit ''https://specs.intelliger.ai/oati/crypto/v1''"

definition OATI_PROOF_TYPE :: jstring where
  "OATI_PROOF_TYPE = lit ''OatiJwsProof2026''"

abbreviation EdDSA :: jstring where
  "EdDSA \<equiv> lit ''EdDSA''"

abbreviation ES256 :: jstring where
  "ES256 \<equiv> lit ''ES256''"

definition OATI_SUPPORTED_ALGORITHMS :: "jstring list" where
  "OATI_SUPPORTED_ALGORITHMS = [EdDSA, ES256]"

datatype date_input = DateValue "int option" | DateText jstring

record SigningOptions =
  so_algorithm :: jstring
  so_verificationMethod :: jstring
  so_audience :: audience
  so_nonce :: jstring
  so_created :: "date_input option"
  so_expires :: date_input

text \<open>A private key is a key object of the host or a JSON web key.\<close>

datatype 'k signing_key = KeyObject 'k | Jwk jobject

record 'k crypto_provider =
  subtle_importKey :: "json \<Rightarrow> jobject \<Rightarrow> jstring \<Rightarrow> 'k result"
  subtle_sign :: "jobject \<Rightarrow> 'k \<Rightarrow> byte list \<Rightarrow> byte list result"
  subtle_verify :: "jobject \<Rightarrow> 'k \<Rightarrow> byte list \<Rightarrow> byte list \<Rightarrow> bool result"

type_synonym 'k host_crypto = "'k crypto_provider option"

section \<open>Helpers\<close>

definition suite :: "jstring \<Rightarrow> jstring" where
  "suite algorithm = (if algorithm = EdDSA then lit ''eddsa-jcs-2022'' else lit ''ecdsa-jcs-2019'')"

definition instant :: "legacy_dates \<Rightarrow> date_input \<Rightarrow> jstring \<Rightarrow> int result" where
  "instant legacy value name =
     (case (case value of DateValue t \<Rightarrow> t | DateText s \<Rightarrow> Date_parse legacy s) of
        None \<Rightarrow> Inl (TypeErr (name @ lit '' must be a valid date'')) | Some t \<Rightarrow> Inr t)"

definition audience_json :: "audience \<Rightarrow> json" where
  "audience_json a = (case a of Audience s \<Rightarrow> JStr s | Audiences ss \<Rightarrow> JArr (map JStr ss))"

fun nonempty_text :: "json \<Rightarrow> jstring option" where
  "nonempty_text (JStr s) = (if s = [] then None else Some s)"
| "nonempty_text _ = None"

definition normalizeAudience :: "json option \<Rightarrow> jstring list" where
  "normalizeAudience value = List.map_filter nonempty_text
     (case value of Some (JArr xs) \<Rightarrow> xs | Some v \<Rightarrow> [v] | None \<Rightarrow> [])"

definition webCryptoImportAlgorithm :: "jstring \<Rightarrow> jobject" where
  "webCryptoImportAlgorithm algorithm = (if algorithm = EdDSA then [(lit ''name'', JStr (lit ''Ed25519''))]
     else [(lit ''name'', JStr (lit ''ECDSA'')), (lit ''namedCurve'', JStr (lit ''P-256''))])"

definition webCryptoAlgorithm :: "jstring \<Rightarrow> jobject" where
  "webCryptoAlgorithm algorithm = (if algorithm = EdDSA then [(lit ''name'', JStr (lit ''Ed25519''))]
     else [(lit ''name'', JStr (lit ''ECDSA'')), (lit ''hash'', JStr (lit ''SHA-256''))])"

definition cryptoProvider :: "'k host_crypto \<Rightarrow> 'k crypto_provider result" where
  "cryptoProvider host = (case host of None \<Rightarrow> Inl (OatiErr (OatiError CRYPTO_UNAVAILABLE (lit ''Web Crypto API is required'') no_options))
     | Some c \<Rightarrow> Inr c)"

definition isCryptoKey :: "'k signing_key \<Rightarrow> bool" where
  "isCryptoKey value = (case value of KeyObject _ \<Rightarrow> True
     | Jwk j \<Rightarrow> {lit ''type'', lit ''algorithm'', lit ''usages''} \<subseteq> fst ` set j)"

definition importSigningKey :: "'k host_crypto \<Rightarrow> 'k signing_key \<Rightarrow> jstring \<Rightarrow> 'k signing_key result" where
  "importSigningKey host key algorithm =
     (if isCryptoKey key then Inr key
      else bindE (cryptoProvider host) (\<lambda>c.
        case key of KeyObject k \<Rightarrow> Inr key
        | Jwk j \<Rightarrow> mapR KeyObject (subtle_importKey c (JObj j) (webCryptoImportAlgorithm algorithm) (lit ''sign''))))"

definition joinSigningInput :: "jstring \<Rightarrow> byte list \<Rightarrow> byte list" where
  "joinSigningInput protectedHeader payload = TextEncoder_encode (protectedHeader @ lit ''.'') @ payload"

section \<open>Signing\<close>

definition proof_members :: "SigningOptions \<Rightarrow> int \<Rightarrow> int \<Rightarrow> jobject" where
  "proof_members options created expires =
     [(lit ''type'', JStr OATI_PROOF_TYPE), (lit ''cryptosuite'', JStr (suite (so_algorithm options))),
      (lit ''algorithm'', JStr (so_algorithm options)), (lit ''created'', JStr (toISOString created)),
      (lit ''expires'', JStr (toISOString expires)), (lit ''verification_method'', JStr (so_verificationMethod options)),
      (lit ''proof_purpose'', JStr (lit ''assertionMethod'')), (lit ''audience'', audience_json (so_audience options)),
      (lit ''nonce'', JStr (so_nonce options))]"

definition protected_header :: "SigningOptions \<Rightarrow> json" where
  "protected_header options =
     JObj [(lit ''alg'', JStr (so_algorithm options)), (lit ''b64'', JBool False), (lit ''crit'', JArr [JStr (lit ''b64'')]),
       (lit ''kid'', JStr (so_verificationMethod options)), (lit ''typ'', JStr (lit ''oati+jws''))]"

definition signing_window :: "legacy_dates \<Rightarrow> int \<Rightarrow> SigningOptions \<Rightarrow> (int \<times> int) result" where
  "signing_window legacy now options =
     (if so_algorithm options \<notin> set OATI_SUPPORTED_ALGORITHMS
        then Inl (RangeErr (lit ''Unsupported algorithm '' @ so_algorithm options))
      else if trim (so_verificationMethod options) = [] then Inl (TypeErr (lit ''verificationMethod is required''))
      else if length (so_nonce options) < 16 then Inl (TypeErr (lit ''nonce must contain at least 16 characters''))
      else if normalizeAudience (Some (audience_json (so_audience options))) = [] then Inl (TypeErr (lit ''audience is required''))
      else bindE (instant legacy (case so_created options of None \<Rightarrow> DateValue (Some now) | Some d \<Rightarrow> d) (lit ''created'')) (\<lambda>created.
        bindE (instant legacy (so_expires options) (lit ''expires'')) (\<lambda>expires.
        if expires \<le> created then Inl (RangeErr (lit ''expires must be after created''))
        else Inr (created, expires))))"

definition signPreparedDocument ::
  "legacy_dates \<Rightarrow> int \<Rightarrow> jobject \<Rightarrow> SigningOptions \<Rightarrow> (byte list \<Rightarrow> byte list option result) \<Rightarrow> jobject result" where
  "signPreparedDocument legacy now document options signer =
     bindE (signing_window legacy now options) (\<lambda>(created, expires).
     let proofWithoutSignature = proof_members options created expires;
         unsigned = put_member (lit ''proof'') (JObj proofWithoutSignature) document
     in bindE (canonicalJson_tree (protected_header options)) (\<lambda>headerText.
        let protectedHeader = base64url (TextEncoder_encode headerText) in
        bindE (canonicalJson_tree (JObj unsigned)) (\<lambda>payload.
        bindE (signer (joinSigningInput protectedHeader (TextEncoder_encode payload))) (\<lambda>signature.
        case signature of
          None \<Rightarrow> Inl (TypeErr (so_algorithm options @ lit '' signer must return a 64-byte JWS signature''))
        | Some s \<Rightarrow>
            if length s \<noteq> 64 then Inl (TypeErr (so_algorithm options @ lit '' signer must return a 64-byte JWS signature''))
            else Inr (put_member (lit ''proof'')
              (JObj (put_member (lit ''signature'') (JStr (protectedHeader @ lit ''..'' @ base64url s)) proofWithoutSignature)) unsigned)))))"

definition signDocument ::
  "legacy_dates \<Rightarrow> int \<Rightarrow> 'k host_crypto \<Rightarrow> 'k signing_key \<Rightarrow> jobject \<Rightarrow> SigningOptions \<Rightarrow> jobject result" where
  "signDocument legacy now host privateKey document options =
     signPreparedDocument legacy now document options (\<lambda>input.
       bindE (importSigningKey host privateKey (so_algorithm options)) (\<lambda>key.
       bindE (cryptoProvider host) (\<lambda>c.
       case key of KeyObject k \<Rightarrow> mapR Some (subtle_sign c (webCryptoAlgorithm (so_algorithm options)) k input)
       | Jwk _ \<Rightarrow> Inl (TypeErr []))))"

definition signDocumentWithSigner ::
  "legacy_dates \<Rightarrow> int \<Rightarrow> (byte list \<Rightarrow> jstring \<Rightarrow> jstring \<Rightarrow> byte list option result) \<Rightarrow> jobject \<Rightarrow> SigningOptions \<Rightarrow> jobject result" where
  "signDocumentWithSigner legacy now sign document options =
     signPreparedDocument legacy now document options
       (\<lambda>input. sign input (so_algorithm options) (so_verificationMethod options))"

section \<open>What a signed document consists of\<close>

lemma signPreparedDocument_Inr:
  assumes "signPreparedDocument legacy now document options signer = Inr doc"
  obtains created expires headerText payload s where
    "signing_window legacy now options = Inr (created, expires)"
    "canonicalJson_tree (protected_header options) = Inr headerText"
    "canonicalJson_tree (JObj (put_member (lit ''proof'') (JObj (proof_members options created expires)) document)) = Inr payload"
    "signer (joinSigningInput (base64url (TextEncoder_encode headerText)) (TextEncoder_encode payload)) = Inr (Some s)"
    "length s = 64"
    "doc = put_member (lit ''proof'') (JObj (proof_members options created expires @
       [(lit ''signature'', JStr (base64url (TextEncoder_encode headerText) @ lit ''..'' @ base64url s))])) document"
proof -
  from assms obtain created expires headerText payload s where r:
    "signing_window legacy now options = Inr (created, expires)"
    "canonicalJson_tree (protected_header options) = Inr headerText"
    "canonicalJson_tree (JObj (put_member (lit ''proof'') (JObj (proof_members options created expires)) document)) = Inr payload"
    "signer (joinSigningInput (base64url (TextEncoder_encode headerText)) (TextEncoder_encode payload)) = Inr (Some s)"
    "length s = 64"
    "doc = put_member (lit ''proof'') (JObj (put_member (lit ''signature'')
       (JStr (base64url (TextEncoder_encode headerText) @ lit ''..'' @ base64url s)) (proof_members options created expires)))
       (put_member (lit ''proof'') (JObj (proof_members options created expires)) document)"
    by (auto simp: signPreparedDocument_def exn_iff Let_def simp del: put_member_twice split: option.splits if_splits)
  have "put_member (lit ''signature'') v (proof_members options created expires) =
      proof_members options created expires @ [(lit ''signature'', v)]" for v
    by (simp add: put_member_def proof_members_def)
  with r(6) show ?thesis by (intro that [OF r(1-5)]) simp
qed

end
