(* ===== verification/OrderedMap.thy ===== *)
theory OrderedMap
  imports Prelude
begin

text \<open>
  The ECMAScript \<^verbatim>\<open>Map\<close>: an association list in insertion order.  \<open>om_set\<close> keeps the position
  of a key that is present and appends a new one, \<open>om_delete\<close> removes a key, and a lookup is
  \<open>map_of\<close>.  \<open>om_keys\<close> unique is the invariant every operation keeps.
\<close>

definition om_set :: "'k \<Rightarrow> 'v \<Rightarrow> ('k \<times> 'v) list \<Rightarrow> ('k \<times> 'v) list" where
  "om_set k v m = (if k \<in> fst ` set m then map (\<lambda>(k', v'). (k', if k' = k then v else v')) m else m @ [(k, v)])"

definition om_delete :: "'k \<Rightarrow> ('k \<times> 'v) list \<Rightarrow> ('k \<times> 'v) list" where
  "om_delete k m = filter (\<lambda>(k', _). k' \<noteq> k) m"

definition om_keys :: "('k \<times> 'v) list \<Rightarrow> 'k list" where
  "om_keys m = map fst m"

definition om_wf :: "('k \<times> 'v) list \<Rightarrow> bool" where
  "om_wf m \<longleftrightarrow> distinct (om_keys m)"

lemma map_of_replace:
  "map_of (map (\<lambda>(k', v'). (k', if k' = k then v else v')) m) j = (if j = k then map_option (\<lambda>_. v) (map_of m k) else map_of m j)"
  by (induction m) auto

lemma map_of_om_set [simp]: "map_of (om_set k v m) j = (if j = k then Some v else map_of m j)"
proof (cases "k \<in> fst ` set m")
  case True
  then obtain w where "map_of m k = Some w" by (metis map_of_eq_None_iff not_None_eq)
  with True show ?thesis by (simp add: om_set_def map_of_replace)
next
  case False
  then have "map_of m k = None" by (simp add: map_of_eq_None_iff)
  with False show ?thesis by (auto simp: om_set_def map_add_def split: option.splits)
qed

lemma map_of_om_delete [simp]: "map_of (om_delete k m) j = (if j = k then None else map_of m j)"
  by (induction m) (auto simp: om_delete_def)

lemma om_keys_replace: "map fst (map (\<lambda>(k', v'). (k', if k' = k then v else v')) m) = map fst m"
  by (induction m) auto

lemma om_keys_set: "om_keys (om_set k v m) = set_add k (om_keys m)"
  using om_keys_replace [of k v m] by (auto simp: om_keys_def om_set_def set_add_def simp del: map_map)

lemma om_keys_delete: "om_keys (om_delete k m) = filter (\<lambda>j. j \<noteq> k) (om_keys m)"
  by (induction m) (auto simp: om_keys_def om_delete_def)

lemma om_wf_Nil [simp]: "om_wf []"
  by (simp add: om_wf_def om_keys_def)

lemma om_wf_set [simp]: "om_wf m \<Longrightarrow> om_wf (om_set k v m)"
  by (simp add: om_wf_def om_keys_set)

lemma om_wf_delete [simp]: "om_wf m \<Longrightarrow> om_wf (om_delete k m)"
  by (simp add: om_wf_def om_keys_delete)

lemma om_wf_filter [simp]: "om_wf m \<Longrightarrow> om_wf (filter P m)"
  by (simp add: om_wf_def om_keys_def distinct_map_filter)

lemma om_wf_tl [simp]: "om_wf m \<Longrightarrow> om_wf (tl m)"
  by (cases m) (simp_all add: om_wf_def om_keys_def)

lemma om_wf_drop [simp]: "om_wf m \<Longrightarrow> om_wf (drop n m)"
  by (simp add: om_wf_def om_keys_def drop_map [symmetric])

lemma map_of_filter_wf:
  assumes "om_wf m"
  shows "map_of (filter P m) k = (case map_of m k of Some v \<Rightarrow> if P (k, v) then Some v else None | None \<Rightarrow> None)"
  using assms by (induction m) (auto simp: om_wf_def om_keys_def map_of_eq_None_iff split: option.splits dest: map_of_SomeD)

lemma length_om_set: "length (om_set k v m) = (if k \<in> set (om_keys m) then length m else Suc (length m))"
  by (simp add: om_set_def om_keys_def)

lemma length_om_delete: "length (om_delete k m) \<le> length m"
  by (simp add: om_delete_def)

end
