(* ===== verification/Verification.thy ===== *)
theory Verification
  imports Signing OrderedMap
begin

text \<open>
  The verifying half of \<^verbatim>\<open>crypto.ts\<close>: \<open>verifyDocument\<close> with the proof parser, the time, key,
  trust chain, revocation and signer checks, the replay cache and the three resolvers.  A
  resolver is a record of functions whose results may be errors, a replay cache is a state with
  an operation \<open>checkAndStore\<close>; both are arguments of the policy.  Messages that the engine
  itself produces are empty.
\<close>

section \<open>Data\<close>

datatype VerificationCode =
    PROOF_MISSING | PROOF_MALFORMED | ALGORITHM_NOT_ALLOWED | SIGNATURE_INVALID
  | KEY_NOT_FOUND | KEY_INVALID | KEY_REVOKED | ISSUER_NOT_TRUSTED | ISSUER_REVOKED
  | DOCUMENT_REVOKED | REVOCATION_UNAVAILABLE | PROOF_NOT_YET_VALID | PROOF_EXPIRED | PROOF_TOO_OLD
  | DOCUMENT_NOT_YET_VALID | DOCUMENT_EXPIRED | AUDIENCE_MISMATCH | REPLAY_DETECTED

record VerificationIssue =
  vi_code :: VerificationCode
  vi_message :: jstring

type_synonym issues = "VerificationIssue list"

record OatiJwsProof =
  op_algorithm :: jstring
  op_created :: jstring
  op_expires :: jstring
  op_verification_method :: jstring
  op_audience :: json
  op_nonce :: jstring
  op_signature :: jstring
  op_members :: jobject

record VerificationKey =
  vk_id :: jstring
  vk_controller :: jstring
  vk_issuer :: jstring
  vk_algorithm :: jstring
  vk_publicKeyJwk :: json
  vk_status :: jstring
  vk_validFrom :: jstring
  vk_validUntil :: "jstring option"
  vk_revokedAt :: "jstring option"
  vk_proofStatus :: "jstring option"

record TrustedIssuer =
  ti_id :: jstring
  ti_parent :: "jstring option"
  ti_status :: jstring
  ti_validFrom :: "jstring option"
  ti_validUntil :: "jstring option"
  ti_revokedAt :: "jstring option"
  ti_proofStatus :: "jstring option"

record RevocationStatus =
  rs_target :: jstring
  rs_status :: jstring
  rs_effectiveAt :: "jstring option"

record TrustResolver =
  resolveKey :: "jstring \<Rightarrow> VerificationKey option result"
  resolveIssuer :: "jstring \<Rightarrow> TrustedIssuer option result"
  resolveRevocation :: "jstring \<Rightarrow> RevocationStatus option result"

record 'c VerificationPolicy =
  vp_resolver :: TrustResolver
  vp_trustAnchors :: "jstring list"
  vp_expectedAudience :: jstring
  vp_checkAndStore :: "'c \<Rightarrow> jstring \<Rightarrow> int option \<Rightarrow> int \<Rightarrow> (bool \<times> 'c) result"
  vp_now :: "int option"
  vp_allowedAlgorithms :: "jstring list option"
  vp_clockSkewMs :: "int option"
  vp_maxProofAgeMs :: "int option"
  vp_maxTrustDepth :: "int option"

record VerificationResult =
  vr_verified :: bool
  vr_algorithm :: "jstring option"
  vr_verificationMethod :: "jstring option"
  vr_issuer :: "jstring option"
  vr_issues :: issues

section \<open>Helpers\<close>

definition issue :: "VerificationCode \<Rightarrow> jstring \<Rightarrow> issues \<Rightarrow> issues" where
  "issue code message issues = set_add \<lparr>vi_code = code, vi_message = message\<rparr> issues"

text \<open>A conditional \<^verbatim>\<open>if (c) issue(...)\<close>.\<close>

definition issue_if :: "bool \<Rightarrow> VerificationCode \<Rightarrow> jstring \<Rightarrow> issues \<Rightarrow> issues" where
  "issue_if c code message issues = (if c then issue code message issues else issues)"

text \<open>A time taken from an optional text: \<open>None\<close> when the text is missing or empty.\<close>

definition opt_time :: "legacy_dates \<Rightarrow> jstring option \<Rightarrow> int option option" where
  "opt_time legacy s = (case s of None \<Rightarrow> None | Some t \<Rightarrow> if t = [] then None else Some (Date_parse legacy t))"

text \<open>\<^verbatim>\<open>!s\<close> for an optional text.\<close>

definition no_text :: "jstring option \<Rightarrow> bool" where
  "no_text s \<longleftrightarrow> s = None \<or> s = Some []"

text \<open>\<^verbatim>\<open><\<close> on time values, false when either is NaN.\<close>

fun time_less :: "int option \<Rightarrow> int option \<Rightarrow> bool" where
  "time_less (Some a) (Some b) = (a < b)"
| "time_less _ _ = False"

fun time_le :: "int option \<Rightarrow> int option \<Rightarrow> bool" where
  "time_le (Some a) (Some b) = (a \<le> b)"
| "time_le _ _ = False"

definition documentId :: "jobject \<Rightarrow> jstring" where
  "documentId document = (case as_string (jget document (lit ''id'')) of Some s \<Rightarrow> s | None \<Rightarrow> [])"

definition withoutSignature :: "OatiJwsProof \<Rightarrow> jobject" where
  "withoutSignature p = drop_member (lit ''signature'') (op_members p)"

definition result_of :: "OatiJwsProof \<Rightarrow> jstring option \<Rightarrow> issues \<Rightarrow> VerificationResult" where
  "result_of p issuer issues =
     \<lparr>vr_verified = (issues = []), vr_algorithm = Some (op_algorithm p),
      vr_verificationMethod = Some (op_verification_method p),
      vr_issuer = (case issuer of Some i \<Rightarrow> if i = [] then None else Some i | None \<Rightarrow> None), vr_issues = issues\<rparr>"

fun jwk_member :: "json \<Rightarrow> jstring \<Rightarrow> json option result" where
  "jwk_member JNull k = Inl (TypeErr [])"
| "jwk_member (JObj o') k = Inr (jget o' k)"
| "jwk_member _ k = Inr None"

definition jwkMatches :: "json \<Rightarrow> jstring \<Rightarrow> bool result" where
  "jwkMatches jwk algorithm =
     (if algorithm = EdDSA
      then bindE (jwk_member jwk (lit ''kty'')) (\<lambda>kty. bindE (jwk_member jwk (lit ''crv'')) (\<lambda>crv. bindE (jwk_member jwk (lit ''x'')) (\<lambda>x.
        Inr (kty = Some (JStr (lit ''OKP'')) \<and> crv = Some (JStr (lit ''Ed25519'')) \<and> isValidEd25519PublicKey (as_string x)))))
      else bindE (jwk_member jwk (lit ''kty'')) (\<lambda>kty. bindE (jwk_member jwk (lit ''crv'')) (\<lambda>crv.
        Inr (kty = Some (JStr (lit ''EC'')) \<and> crv = Some (JStr (lit ''P-256''))))))"

definition algorithmFromJwk :: "jobject \<Rightarrow> jstring result" where
  "algorithmFromJwk jwk =
     (if jget jwk (lit ''kty'') = Some (JStr (lit ''OKP'')) \<and> jget jwk (lit ''crv'') = Some (JStr (lit ''Ed25519'')) then Inr EdDSA
      else if jget jwk (lit ''kty'') = Some (JStr (lit ''EC'')) \<and> jget jwk (lit ''crv'') = Some (JStr (lit ''P-256'')) then Inr ES256
      else Inl (PlainErr (lit ''unsupported Passport JWK'')))"

section \<open>Checks\<close>

definition detached_jws :: "jstring \<Rightarrow> bool" where
  "detached_jws s = (case split_unit 46 s of
     [h, e, t] \<Rightarrow> h \<noteq> [] \<and> list_all url_unit h \<and> e = [] \<and> t \<noteq> [] \<and> list_all url_unit t | _ \<Rightarrow> False)"

definition proof_fields :: "jobject \<Rightarrow> OatiJwsProof option" where
  "proof_fields p =
     (case (jget p (lit ''algorithm''), jget p (lit ''created''), jget p (lit ''expires''), jget p (lit ''verification_method''),
            jget p (lit ''audience''), jget p (lit ''nonce''), jget p (lit ''signature'')) of
        (Some (JStr algorithm), Some (JStr created), Some (JStr expires), Some (JStr method), Some audience, Some (JStr nonce), Some (JStr signature)) \<Rightarrow>
          if jget p (lit ''type'') = Some (JStr OATI_PROOF_TYPE) \<and> algorithm \<in> set OATI_SUPPORTED_ALGORITHMS
             \<and> jget p (lit ''cryptosuite'') = Some (JStr (suite algorithm)) \<and> method \<noteq> []
             \<and> jget p (lit ''proof_purpose'') = Some (JStr (lit ''assertionMethod''))
             \<and> normalizeAudience (Some audience) \<noteq> []
             \<and> (case audience of JArr xs \<Rightarrow> list_all (\<lambda>x. nonempty_text x \<noteq> None) xs | _ \<Rightarrow> True)
             \<and> 16 \<le> length nonce \<and> detached_jws signature
          then Some \<lparr>op_algorithm = algorithm, op_created = created, op_expires = expires, op_verification_method = method,
                     op_audience = audience, op_nonce = nonce, op_signature = signature, op_members = p\<rparr>
          else None
      | _ \<Rightarrow> None)"

definition parseProof :: "json option \<Rightarrow> issues \<Rightarrow> OatiJwsProof option \<times> issues" where
  "parseProof value issues =
     (case value of
        None \<Rightarrow> (None, issue PROOF_MISSING (lit ''OATI proof is required'') issues)
      | Some JNull \<Rightarrow> (None, issue PROOF_MISSING (lit ''OATI proof is required'') issues)
      | Some (JObj p) \<Rightarrow>
          (case proof_fields p of
             None \<Rightarrow> (None, issue PROOF_MALFORMED (lit ''proof does not conform to the OATI JWS profile'') issues)
           | Some q \<Rightarrow> (Some q, issues))
      | Some _ \<Rightarrow> (None, issue PROOF_MALFORMED (lit ''proof does not conform to the OATI JWS profile'') issues))"

definition checkProofTime :: "legacy_dates \<Rightarrow> OatiJwsProof \<Rightarrow> int \<Rightarrow> int \<Rightarrow> int \<Rightarrow> issues \<Rightarrow> issues" where
  "checkProofTime legacy p now skew maxAge issues =
     (case (Date_parse legacy (op_created p), Date_parse legacy (op_expires p)) of
        (Some created, Some expires) \<Rightarrow>
          if expires \<le> created then issue PROOF_MALFORMED (lit ''proof timestamps are invalid'') issues
          else issue_if (maxAge + skew < now - created) PROOF_TOO_OLD (lit ''proof exceeds the maximum accepted age'')
            (issue_if (expires \<le> now - skew) PROOF_EXPIRED (lit ''proof has expired'')
            (issue_if (now + skew < created) PROOF_NOT_YET_VALID (lit ''proof creation time is in the future'') issues))
      | _ \<Rightarrow> issue PROOF_MALFORMED (lit ''proof timestamps are invalid'') issues)"

definition document_start :: "legacy_dates \<Rightarrow> jobject \<Rightarrow> int option option" where
  "document_start legacy document =
     (case as_string (jget document (lit ''not_before'')) of Some s \<Rightarrow> Some (Date_parse legacy s)
      | None \<Rightarrow> map_option (Date_parse legacy) (as_string (jget document (lit ''issued_at''))))"

definition document_end :: "legacy_dates \<Rightarrow> jobject \<Rightarrow> int option option" where
  "document_end legacy document = map_option (Date_parse legacy) (as_string (jget document (lit ''expires_at'')))"

text \<open>Bounds that are absent restrict nothing; bounds that cannot be read reject.\<close>

definition after_start :: "int option option \<Rightarrow> int \<Rightarrow> bool" where
  "after_start start t = (case start of None \<Rightarrow> True | Some None \<Rightarrow> False | Some (Some s) \<Rightarrow> s \<le> t)"

definition before_end :: "int option option \<Rightarrow> int \<Rightarrow> bool" where
  "before_end stop t = (case stop of None \<Rightarrow> True | Some None \<Rightarrow> False | Some (Some e) \<Rightarrow> t < e)"

definition checkDocumentTime :: "legacy_dates \<Rightarrow> jobject \<Rightarrow> int \<Rightarrow> int \<Rightarrow> issues \<Rightarrow> issues" where
  "checkDocumentTime legacy document now skew issues =
     issue_if (\<not> before_end (document_end legacy document) (now - skew)) DOCUMENT_EXPIRED (lit ''document has expired'')
       (issue_if (\<not> after_start (document_start legacy document) (now + skew)) DOCUMENT_NOT_YET_VALID (lit ''document is not active yet'') issues)"

definition bad_proof_status :: "jstring option \<Rightarrow> bool" where
  "bad_proof_status s = (case s of None \<Rightarrow> False | Some t \<Rightarrow> t \<noteq> [] \<and> t \<noteq> lit ''verified'')"

definition checkKey :: "legacy_dates \<Rightarrow> VerificationKey \<Rightarrow> OatiJwsProof \<Rightarrow> int \<Rightarrow> int \<Rightarrow> issues \<Rightarrow> issues result" where
  "checkKey legacy key p now skew issues =
     bindE (orE (Inr (vk_algorithm key \<noteq> op_algorithm p \<or> vk_id key \<noteq> op_verification_method p \<or> bad_proof_status (vk_proofStatus key)))
                (mapR Not (jwkMatches (vk_publicKeyJwk key) (op_algorithm p)))) (\<lambda>mismatch.
     let created = Date_parse legacy (op_created p); from_t = Date_parse legacy (vk_validFrom key);
         until = opt_time legacy (vk_validUntil key); revoked = opt_time legacy (vk_revokedAt key)
     in Inr (issue_if (vk_status key = lit ''revoked'' \<or> (case revoked of Some t \<Rightarrow> time_le t (Some now) | None \<Rightarrow> False))
               KEY_REVOKED (lit ''verification key is revoked'')
            (issue_if (revoked = Some None) KEY_INVALID (lit ''verification key has an invalid revocation timestamp'')
            (issue_if (from_t = None \<or> time_less created (map_option (\<lambda>t. t - skew) from_t)
                 \<or> (case until of None \<Rightarrow> False | Some u \<Rightarrow> u = None \<or> time_le (map_option (\<lambda>t. t + skew) u) created))
               KEY_INVALID (lit ''key was not valid when the proof was created'')
            (issue_if (vk_status key = lit ''retired'' \<and> no_text (vk_validUntil key))
               KEY_INVALID (lit ''retired verification keys require validUntil'')
            (issue_if (vk_status key \<noteq> lit ''active'' \<and> vk_status key \<noteq> lit ''retired'' \<and> vk_status key \<noteq> lit ''revoked'')
               KEY_INVALID (lit ''verification key has an unsupported status'')
            (issue_if mismatch KEY_INVALID (lit ''resolved key metadata does not match the proof'') issues)))))))"

definition revocation_code :: "nat \<Rightarrow> VerificationCode" where
  "revocation_code index = (if index = 0 then KEY_REVOKED else if index = 1 then ISSUER_REVOKED else DOCUMENT_REVOKED)"

definition check_target :: "legacy_dates \<Rightarrow> TrustResolver \<Rightarrow> int \<Rightarrow> nat \<Rightarrow> jstring \<Rightarrow> issues \<Rightarrow> issues" where
  "check_target legacy resolver now index target issues =
     (if target = [] then issues
      else case resolveRevocation resolver target of
        Inl _ \<Rightarrow> issue REVOCATION_UNAVAILABLE (lit ''revocation status for '' @ target @ lit '' is unavailable'') issues
      | Inr None \<Rightarrow> issues
      | Inr (Some status) \<Rightarrow>
          (case opt_time legacy (rs_effectiveAt status) of
             Some None \<Rightarrow> issue REVOCATION_UNAVAILABLE (lit ''revocation status for '' @ target @ lit '' has an invalid effective time'') issues
           | effective \<Rightarrow>
               issue_if (rs_status status \<noteq> lit ''good'' \<and> (case effective of None \<Rightarrow> True | Some t \<Rightarrow> time_le t (Some now)))
                 (revocation_code index) (target @ lit '' is '' @ rs_status status) issues))"

fun check_targets :: "legacy_dates \<Rightarrow> TrustResolver \<Rightarrow> int \<Rightarrow> nat \<Rightarrow> jstring list \<Rightarrow> issues \<Rightarrow> issues" where
  "check_targets legacy resolver now index [] issues = issues"
| "check_targets legacy resolver now index (target # targets) issues =
     check_targets legacy resolver now (Suc index) targets (check_target legacy resolver now index target issues)"

definition checkRevocation :: "legacy_dates \<Rightarrow> TrustResolver \<Rightarrow> jstring list \<Rightarrow> int \<Rightarrow> issues \<Rightarrow> issues" where
  "checkRevocation legacy resolver targets now issues = check_targets legacy resolver now 0 targets issues"

definition issuer_inactive :: "legacy_dates \<Rightarrow> TrustedIssuer \<Rightarrow> int \<Rightarrow> bool" where
  "issuer_inactive legacy issuer now \<longleftrightarrow> ti_status issuer \<noteq> lit ''active'' \<or>
     (case opt_time legacy (ti_revokedAt issuer) of None \<Rightarrow> False | Some None \<Rightarrow> True | Some (Some t) \<Rightarrow> t \<le> now)"

definition issuer_outside :: "legacy_dates \<Rightarrow> TrustedIssuer \<Rightarrow> int \<Rightarrow> int \<Rightarrow> bool" where
  "issuer_outside legacy issuer now skew \<longleftrightarrow>
     \<not> after_start (opt_time legacy (ti_validFrom issuer)) (now + skew) \<or> \<not> before_end (opt_time legacy (ti_validUntil issuer)) (now - skew)"

text \<open>The loop of \<^verbatim>\<open>validateTrustChain\<close>: \<open>n\<close> iterations are left.\<close>

fun trust_chain :: "legacy_dates \<Rightarrow> TrustResolver \<Rightarrow> jstring set \<Rightarrow> jstring \<Rightarrow> int \<Rightarrow> int \<Rightarrow> nat \<Rightarrow> jstring set \<Rightarrow> jstring \<Rightarrow> issues
    \<Rightarrow> jstring option \<times> issues" where
  "trust_chain legacy resolver anchors start now skew 0 visited current issues =
     (None, issue ISSUER_NOT_TRUSTED (lit ''issuer chain from '' @ start @ lit '' does not reach a configured trust anchor'') issues)"
| "trust_chain legacy resolver anchors start now skew (Suc n) visited current issues =
     (let not_trusted = (\<lambda>is. (None, issue ISSUER_NOT_TRUSTED (lit ''issuer chain from '' @ start @ lit '' does not reach a configured trust anchor'') is))
      in if current \<in> visited then not_trusted issues
      else let is = checkRevocation legacy resolver [[], current] now issues in
        if current \<in> anchors then (Some current, is)
        else case resolveIssuer resolver current of
          Inl _ \<Rightarrow> (None, issue ISSUER_NOT_TRUSTED (lit ''issuer '' @ current @ lit '' could not be resolved'') is)
        | Inr None \<Rightarrow> not_trusted is
        | Inr (Some issuer) \<Rightarrow>
            if bad_proof_status (ti_proofStatus issuer) then not_trusted is
            else if issuer_inactive legacy issuer now then (None, issue ISSUER_REVOKED (lit ''issuer '' @ current @ lit '' is not active'') is)
            else if issuer_outside legacy issuer now skew
              then (None, issue ISSUER_REVOKED (lit ''issuer '' @ current @ lit '' is outside its validity period'') is)
            else (case ti_parent issuer of
                None \<Rightarrow> not_trusted is
              | Some parent \<Rightarrow> if parent = [] then not_trusted is
                  else trust_chain legacy resolver anchors start now skew n (insert current visited) parent is))"

definition validateTrustChain :: "legacy_dates \<Rightarrow> jstring \<Rightarrow> 'c VerificationPolicy \<Rightarrow> int \<Rightarrow> int \<Rightarrow> issues \<Rightarrow> jstring option \<times> issues" where
  "validateTrustChain legacy start policy now skew issues =
     trust_chain legacy (vp_resolver policy) (set (vp_trustAnchors policy)) start now skew
       (nat ((case vp_maxTrustDepth policy of None \<Rightarrow> 8 | Some d \<Rightarrow> d) + 1)) {} start issues"

definition claimed_signer :: "jobject \<Rightarrow> jstring option" where
  "claimed_signer document = (case as_string (jget document (lit ''issuer'')) of Some s \<Rightarrow> Some s
     | None \<Rightarrow> as_string (jget document (lit ''agent_id'')))"

definition checkSignerBinding :: "jobject \<Rightarrow> VerificationKey \<Rightarrow> issues \<Rightarrow> issues" where
  "checkSignerBinding document key issues =
     (case claimed_signer document of None \<Rightarrow> issues
      | Some claimed \<Rightarrow> issue_if (claimed \<noteq> [] \<and> claimed \<noteq> vk_controller key \<and> claimed \<noteq> vk_issuer key) KEY_INVALID
          (lit ''key controller '' @ vk_controller key @ lit '' is not bound to document signer '' @ claimed) issues)"

section \<open>The signature\<close>

fun header_matches :: "json \<Rightarrow> OatiJwsProof \<Rightarrow> bool result" where
  "header_matches JNull p = Inl (TypeErr [])"
| "header_matches (JObj header) p =
     Inr (jget header (lit ''alg'') = Some (JStr (op_algorithm p)) \<and> jget header (lit ''kid'') = Some (JStr (op_verification_method p))
       \<and> jget header (lit ''b64'') = Some (JBool False) \<and> jget header (lit ''typ'') = Some (JStr (lit ''oati+jws''))
       \<and> jget header (lit ''crit'') = Some (JArr [JStr (lit ''b64'')]))"
| "header_matches _ p = Inr False"

definition verify_signature :: "'k host_crypto \<Rightarrow> jobject \<Rightarrow> OatiJwsProof \<Rightarrow> VerificationKey \<Rightarrow> bool result" where
  "verify_signature host document p key =
     (case split_unit 46 (op_signature p) of
        protectedHeader # gap # encodedSignature # _ \<Rightarrow>
          if protectedHeader = [] \<or> gap \<noteq> [] \<or> encodedSignature = [] then Inl (PlainErr (lit ''invalid detached JWS''))
          else bindE (fromBase64url protectedHeader) (\<lambda>bytes.
            bindE (JSON_parse (TextDecoder_decode bytes)) (\<lambda>header.
            bindE (header_matches header p) (\<lambda>matches.
            if \<not> matches then Inl (PlainErr (lit ''protected header does not match proof''))
            else bindE (canonicalJson_tree (JObj (put_member (lit ''proof'') (JObj (withoutSignature p)) document))) (\<lambda>payload.
              let input = joinSigningInput protectedHeader (TextEncoder_encode payload) in
              bindE (cryptoProvider host) (\<lambda>c.
              bindE (subtle_importKey c (vk_publicKeyJwk key) (webCryptoImportAlgorithm (op_algorithm p)) (lit ''verify'')) (\<lambda>publicKey.
              bindE (fromBase64url encodedSignature) (\<lambda>signature.
              subtle_verify c (webCryptoAlgorithm (op_algorithm p)) publicKey signature input)))))))
      | _ \<Rightarrow> Inl (PlainErr (lit ''invalid detached JWS'')))"

definition checkSignature :: "'k host_crypto \<Rightarrow> jobject \<Rightarrow> OatiJwsProof \<Rightarrow> VerificationKey \<Rightarrow> issues \<Rightarrow> issues" where
  "checkSignature host document p key issues =
     (if list_ex (\<lambda>entry. vi_code entry = PROOF_MALFORMED \<or> vi_code entry = ALGORITHM_NOT_ALLOWED) issues then issues
      else case verify_signature host document p key of
        Inl error \<Rightarrow> issue SIGNATURE_INVALID (exn_message error) issues
      | Inr valid \<Rightarrow> issue_if (\<not> valid) SIGNATURE_INVALID (lit ''detached JWS signature is invalid'') issues)"

section \<open>Verification\<close>

definition replayKey :: "OatiJwsProof \<Rightarrow> jstring \<Rightarrow> jstring" where
  "replayKey p audience = op_verification_method p @ [0] @ audience @ [0] @ op_nonce p"

text \<open>The checks up to the replay cache, for a resolved key.\<close>

definition check_resolved :: "legacy_dates \<Rightarrow> 'k host_crypto \<Rightarrow> jobject \<Rightarrow> 'c VerificationPolicy \<Rightarrow> OatiJwsProof \<Rightarrow> VerificationKey
    \<Rightarrow> int \<Rightarrow> int \<Rightarrow> issues \<Rightarrow> (jstring option \<times> issues) result" where
  "check_resolved legacy host document policy p key now skew issues =
     bindE (checkKey legacy key p now skew issues) (\<lambda>is1.
     let (issuer, is2) = validateTrustChain legacy (vk_issuer key) policy now skew is1;
         is3 = checkRevocation legacy (vp_resolver policy) [vk_id key, vk_issuer key, documentId document] now is2;
         is4 = checkSignerBinding document key is3
     in Inr (issuer, checkSignature host document p key is4))"

definition check_proof :: "legacy_dates \<Rightarrow> jobject \<Rightarrow> 'c VerificationPolicy \<Rightarrow> OatiJwsProof \<Rightarrow> int \<Rightarrow> int \<Rightarrow> issues \<Rightarrow> issues" where
  "check_proof legacy document policy p now skew issues =
     issue_if (vp_expectedAudience policy \<notin> set (normalizeAudience (Some (op_audience p)))) AUDIENCE_MISMATCH
         (lit ''proof is not addressed to '' @ vp_expectedAudience policy)
       (checkDocumentTime legacy document now skew
       (checkProofTime legacy p now skew (case vp_maxProofAgeMs policy of None \<Rightarrow> 300000 | Some a \<Rightarrow> a)
       (issue_if (op_algorithm p \<notin> set (case vp_allowedAlgorithms policy of None \<Rightarrow> OATI_SUPPORTED_ALGORITHMS | Some as \<Rightarrow> as))
          ALGORITHM_NOT_ALLOWED (op_algorithm p @ lit '' is not allowed'') issues)))"

definition policy_now :: "int \<Rightarrow> 'c VerificationPolicy \<Rightarrow> int" where
  "policy_now clock policy = (case vp_now policy of None \<Rightarrow> clock | Some t \<Rightarrow> t)"

definition policy_skew :: "'c VerificationPolicy \<Rightarrow> int" where
  "policy_skew policy = (case vp_clockSkewMs policy of None \<Rightarrow> 30000 | Some s \<Rightarrow> s)"

definition verifyDocument :: "legacy_dates \<Rightarrow> int \<Rightarrow> 'k host_crypto \<Rightarrow> jobject \<Rightarrow> 'c VerificationPolicy \<Rightarrow> 'c \<Rightarrow> (VerificationResult \<times> 'c) result" where
  "verifyDocument legacy clock host document policy cache =
     (case parseProof (jget document (lit ''proof'')) [] of
        (None, issues) \<Rightarrow>
          Inr (\<lparr>vr_verified = False, vr_algorithm = None, vr_verificationMethod = None, vr_issuer = None, vr_issues = issues\<rparr>, cache)
      | (Some p, issues) \<Rightarrow>
          let now = policy_now clock policy; skew = policy_skew policy;
              is1 = check_proof legacy document policy p now skew issues
          in case resolveKey (vp_resolver policy) (op_verification_method p) of
            Inl _ \<Rightarrow> Inr (result_of p None (issue KEY_NOT_FOUND
              (lit ''verification key '' @ op_verification_method p @ lit '' could not be resolved'') is1), cache)
          | Inr None \<Rightarrow> Inr (result_of p None (issue KEY_NOT_FOUND
              (lit ''verification key '' @ op_verification_method p @ lit '' was not found'') is1), cache)
          | Inr (Some key) \<Rightarrow>
              bindE (check_resolved legacy host document policy p key now skew is1) (\<lambda>(issuer, is2).
              if is2 \<noteq> [] then Inr (result_of p issuer is2, cache)
              else bindE (vp_checkAndStore policy cache (replayKey p (vp_expectedAudience policy)) (Date_parse legacy (op_expires p)) now)
                (\<lambda>(fresh, cache').
                  Inr (result_of p issuer (issue_if (\<not> fresh) REPLAY_DETECTED (lit ''proof nonce has already been accepted'') is2), cache'))))"

section \<open>Replay cache and resolvers\<close>

type_synonym replay_entries = "(jstring \<times> int option) list"

definition MemoryReplayCache_checkAndStore :: "replay_entries \<Rightarrow> jstring \<Rightarrow> int option \<Rightarrow> int \<Rightarrow> bool \<times> replay_entries" where
  "MemoryReplayCache_checkAndStore entries key expiresAt now =
     (if (case map_of entries key of Some existing \<Rightarrow> time_less (Some now) existing | None \<Rightarrow> False) then (False, entries)
      else let stored = om_set key expiresAt entries
           in (True, if 10000 < length stored then filter (\<lambda>(_, expiry). \<not> time_le expiry (Some now)) stored else stored))"

definition StaticTrustResolver :: "VerificationKey list \<Rightarrow> TrustedIssuer list \<Rightarrow> RevocationStatus list \<Rightarrow> TrustResolver" where
  "StaticTrustResolver keys issuers revocations =
     \<lparr>resolveKey = (\<lambda>i. Inr (find (\<lambda>item. vk_id item = i) keys)),
      resolveIssuer = (\<lambda>i. Inr (find (\<lambda>item. ti_id item = i) issuers)),
      resolveRevocation = (\<lambda>target. case filter (\<lambda>item. rs_target item = target) revocations of
         [] \<Rightarrow> Inr None | [r] \<Rightarrow> Inr (Some r)
       | _ \<Rightarrow> Inl (PlainErr (lit ''ambiguous revocation status for '' @ target)))\<rparr>"

record lookup_port =
  port_lookup :: "jstring \<Rightarrow> jstring \<Rightarrow> jobject result"
  port_revocation :: "jstring \<Rightarrow> jobject result"

definition member_text :: "jobject \<Rightarrow> jstring \<Rightarrow> jstring" where
  "member_text r k = (case as_string (jget r k) of Some s \<Rightarrow> s | None \<Rightarrow> [])"

definition truthy_text :: "jobject \<Rightarrow> jstring \<Rightarrow> jstring option" where
  "truthy_text r k = (if member_text r k = [] then None else Some (member_text r k))"

definition public_attributes :: "jobject \<Rightarrow> jobject" where
  "public_attributes r = (case as_object (jget r (lit ''public_attributes'')) of Some a \<Rightarrow> a | None \<Rightarrow> [])"

definition required :: "jobject \<Rightarrow> jstring \<Rightarrow> jstring result" where
  "required r key = (case truthy_text r key of None \<Rightarrow> Inl (PlainErr (lit ''missing '' @ key)) | Some v \<Rightarrow> Inr v)"

fun lookup_not_found :: "exn \<Rightarrow> bool" where
  "lookup_not_found (OatiErr e) = (err_name e = lit ''OatiLookupError'' \<and> err_code e = LOOKUP_NOT_FOUND)"
| "lookup_not_found _ = False"

text \<open>\<^verbatim>\<open>try { ... } catch\<close> that turns an absent record into \<^verbatim>\<open>null\<close>.\<close>

definition absent_as_null :: "'a result \<Rightarrow> 'a option result" where
  "absent_as_null m = (case m of Inl e \<Rightarrow> if lookup_not_found e then Inr None else Inl e | Inr a \<Rightarrow> Inr (Some a))"

definition LookupTrustResolver :: "lookup_port \<Rightarrow> TrustResolver" where
  "LookupTrustResolver lookup =
     \<lparr>resolveKey = (\<lambda>i. absent_as_null (bindE (port_lookup lookup (lit ''key'') i) (\<lambda>record.
        let attributes = public_attributes record in
        bindE (required attributes (lit ''controller'')) (\<lambda>controller.
        bindE (required attributes (lit ''algorithm'')) (\<lambda>algorithm.
        bindE (required attributes (lit ''public_key_jwk'')) (\<lambda>jwkText.
        bindE (JSON_parse jwkText) (\<lambda>jwk.
        Inr \<lparr>vk_id = member_text record (lit ''id''), vk_controller = controller, vk_issuer = member_text record (lit ''issuer''),
             vk_algorithm = algorithm, vk_publicKeyJwk = jwk, vk_status = member_text record (lit ''status''),
             vk_validFrom = member_text record (lit ''issued_at''), vk_validUntil = as_string (jget record (lit ''expires_at'')),
             vk_revokedAt = truthy_text attributes (lit ''revoked_at''), vk_proofStatus = as_string (jget record (lit ''proof_status''))\<rparr>))))))),
      resolveIssuer = (\<lambda>i. absent_as_null (bindE (port_lookup lookup (lit ''issuer'') i) (\<lambda>record.
        let attributes = public_attributes record in
        Inr \<lparr>ti_id = member_text record (lit ''id''), ti_parent = truthy_text attributes (lit ''parent''),
             ti_status = member_text record (lit ''status''), ti_validFrom = truthy_text record (lit ''issued_at''),
             ti_validUntil = truthy_text record (lit ''expires_at''), ti_revokedAt = truthy_text attributes (lit ''revoked_at''),
             ti_proofStatus = as_string (jget record (lit ''proof_status''))\<rparr>))),
      resolveRevocation = (\<lambda>target. absent_as_null (bindE (port_revocation lookup target) (\<lambda>record.
        bindE (required (public_attributes record) (lit ''revocation_status'')) (\<lambda>status.
        Inr \<lparr>rs_target = target, rs_status = status, rs_effectiveAt = truthy_text (public_attributes record) (lit ''effective_at'')\<rparr>))))\<rparr>"

definition passport_keys :: "AgentPassport \<Rightarrow> VerificationKey list result" where
  "passport_keys passport = mapE (\<lambda>method. bindE (algorithmFromJwk (vm_public_key_jwk method)) (\<lambda>algorithm.
     Inr \<lparr>vk_id = vm_id method, vk_controller = vm_controller method, vk_issuer = psp_issuer passport, vk_algorithm = algorithm,
          vk_publicKeyJwk = JObj (vm_public_key_jwk method),
          vk_status = (if psp_status passport = PActive then lit ''active'' else lit ''revoked''),
          vk_validFrom = psp_issued_at passport, vk_validUntil = Some (psp_expires_at passport), vk_revokedAt = None,
          vk_proofStatus = Some (lit ''verified'')\<rparr>)) (psp_verification_methods passport)"

definition passportTrustResolver :: "AgentPassport \<Rightarrow> TrustResolver option \<Rightarrow> TrustResolver result" where
  "passportTrustResolver passport upstream = bindE (passport_keys passport) (\<lambda>keys. Inr
     \<lparr>resolveKey = (\<lambda>i. case find (\<lambda>item. vk_id item = i) keys of Some key \<Rightarrow> Inr (Some key)
        | None \<Rightarrow> (case upstream of None \<Rightarrow> Inr None | Some u \<Rightarrow> resolveKey u i)),
      resolveIssuer = (\<lambda>i. case upstream of None \<Rightarrow> Inr None | Some u \<Rightarrow> resolveIssuer u i),
      resolveRevocation = (\<lambda>target. case upstream of None \<Rightarrow> Inr None | Some u \<Rightarrow> resolveRevocation u target)\<rparr>)"

end
