(* ===== verification/LookupRecords.thy ===== *)
theory LookupRecords
  imports Verification
begin

text \<open>
  The stateless half of \<^verbatim>\<open>lookup.ts\<close>: public records, HTTP responses, the limits of the body
  reader, rate limit and cache headers, errors and retry delays.  A public record is the JSON
  object the resolver sent.  The host's URL parser is an argument: it gives the parts of a URL or
  nothing, where the host throws.  Time stamps of responses are read at the clock \<open>now\<close>.
\<close>

section \<open>Numbers\<close>

fun num_mul :: "jsnum \<Rightarrow> jsnum \<Rightarrow> jsnum" where
  "num_mul NaN _ = NaN"
| "num_mul _ NaN = NaN"
| "num_mul (Fin a) (Fin b) = fl (a * b)"
| "num_mul (Fin a) b = (if a = 0 then NaN else if 0 < a then b else num_neg b)"
| "num_mul a (Fin b) = (if b = 0 then NaN else if 0 < b then a else num_neg a)"
| "num_mul a b = (if a = b then Infinity else NegInfinity)"

text \<open>\<^verbatim>\<open>Math.min(a, b)\<close>.\<close>

definition num_min :: "jsnum \<Rightarrow> jsnum \<Rightarrow> jsnum" where
  "num_min a b = (if a = NaN \<or> b = NaN then NaN else if num_less b a then b else a)"

section \<open>Data\<close>

definition OATI_RECORD_TYPES :: "jstring list" where
  "OATI_RECORD_TYPES = [lit ''organisation'', lit ''agent'', lit ''passport'', lit ''mandate'', lit ''receipt'', lit ''issuer'',
     lit ''key'', lit ''revocation'', lit ''service'', lit ''profile'']"

type_synonym PublicOatiRecord = jobject

datatype LookupSelector = ById | ByTarget

definition selector_text :: "LookupSelector \<Rightarrow> jstring" where
  "selector_text s = (case s of ById \<Rightarrow> lit ''id'' | ByTarget \<Rightarrow> lit ''target'')"

record LookupResponse =
  lr_record :: PublicOatiRecord
  lr_resolverUrl :: jstring
  lr_cache :: cache_state
  lr_rateLimit :: rate_limit_info

record LookupCacheOptions =
  co_ttlMs :: jsnum
  co_negativeTtlMs :: jsnum
  co_maxEntries :: nat

record LookupRetryOptions =
  rt_maxRetries :: nat
  rt_baseDelayMs :: jsnum
  rt_maxDelayMs :: jsnum

text \<open>A response: status, header access (names are case-insensitive, so the host's lookup is a function) and body chunks.\<close>

datatype body_end = Finished | Broken

datatype http_body = NoBody | Body "byte list list" body_end

record http_response =
  resp_status :: int
  resp_header :: "jstring \<Rightarrow> jstring option"
  resp_body :: http_body

definition resp_ok :: "http_response \<Rightarrow> bool" where
  "resp_ok r \<longleftrightarrow> 200 \<le> resp_status r \<and> resp_status r \<le> 299"

record url_parts =
  url_protocol :: jstring
  url_username :: jstring
  url_password :: jstring
  url_pathname :: jstring
  url_search :: jstring
  url_hash :: jstring
  url_origin :: jstring

type_synonym url_parser = "jstring \<Rightarrow> url_parts option"

definition no_rate_limit :: rate_limit_info where
  "no_rate_limit = \<lparr>rl_limit = None, rl_remaining = None, rl_resetAt = None, rl_retryAfter = None\<rparr>"

definition lookup_error :: "oati_error_code \<Rightarrow> jstring \<Rightarrow> oati_error_options \<Rightarrow> exn" where
  "lookup_error code message options = OatiErr (OatiLookupError code message options)"

fun lookup_code :: "exn \<Rightarrow> oati_error_code option" where
  "lookup_code (OatiErr e) = (if err_name e = lit ''OatiLookupError'' then Some (err_code e) else None)"
| "lookup_code _ = None"

section \<open>Headers\<close>

definition lower_unit :: "code_unit \<Rightarrow> code_unit" where
  "lower_unit c = (if is_upper c then c + 32 else c)"

definition word_unit :: "code_unit \<Rightarrow> bool" where
  "word_unit c \<longleftrightarrow> is_digit c \<or> is_upper c \<or> is_lower c \<or> c = 95"

text \<open>The text starts with a word of ASCII letters, whatever its case.\<close>

definition starts_ci :: "jstring \<Rightarrow> jstring \<Rightarrow> bool" where
  "starts_ci w s \<longleftrightarrow> length w \<le> length s \<and> map lower_unit (take (length w) s) = w"

text \<open>\<^verbatim>\<open>/\bno-store\b/i\<close>: \<open>before\<close> says that the position follows a word character.\<close>

fun no_store_from :: "bool \<Rightarrow> jstring \<Rightarrow> bool" where
  "no_store_from before [] = False"
| "no_store_from before (c # s) =
     (\<not> before \<and> starts_ci (lit ''no-store'') (c # s) \<and> (case drop 8 (c # s) of [] \<Rightarrow> True | d # _ \<Rightarrow> \<not> word_unit d)
      \<or> no_store_from (word_unit c) s)"

definition no_store :: "jstring \<Rightarrow> bool" where
  "no_store control = no_store_from False control"

text \<open>\<^verbatim>\<open>/(?:^|,)\s*(?:s-maxage|max-age)=(\d+)/i\<close>: the digits of the first match.\<close>

definition max_age_here :: "jstring \<Rightarrow> jstring option" where
  "max_age_here s =
     (let r = dropWhile is_space s;
          digits = (if starts_ci (lit ''s-maxage='') r then takeWhile is_digit (drop 9 r)
                    else if starts_ci (lit ''max-age='') r then takeWhile is_digit (drop 8 r) else [])
      in if digits = [] then None else Some digits)"

fun max_age_after_comma :: "jstring \<Rightarrow> jstring option" where
  "max_age_after_comma [] = None"
| "max_age_after_comma (c # s) =
     (if c = 44 then (case max_age_here s of Some d \<Rightarrow> Some d | None \<Rightarrow> max_age_after_comma s) else max_age_after_comma s)"

definition max_age :: "jstring \<Rightarrow> jstring option" where
  "max_age control = (case max_age_here control of Some d \<Rightarrow> Some d | None \<Rightarrow> max_age_after_comma control)"

definition header_or_empty :: "http_response \<Rightarrow> jstring \<Rightarrow> jstring" where
  "header_or_empty response name = (case resp_header response name of None \<Rightarrow> [] | Some v \<Rightarrow> v)"

definition expiry :: "legacy_dates \<Rightarrow> int \<Rightarrow> http_response \<Rightarrow> LookupCacheOptions option \<Rightarrow> bool \<Rightarrow> jsnum" where
  "expiry legacy now response cache negative =
     (let fallback = (case cache of None \<Rightarrow> Fin 0 | Some c \<Rightarrow> if negative then co_negativeTtlMs c else co_ttlMs c);
          control = header_or_empty response (lit ''Cache-Control'')
      in if no_store control then Fin 0
         else case max_age control of
           Some digits \<Rightarrow> num_add (num_of_int now) (num_mul (string_to_number digits) (Fin 1000))
         | None \<Rightarrow> (case Date_parse legacy (header_or_empty response (lit ''Expires'')) of
             None \<Rightarrow> num_add (num_of_int now) fallback | Some t \<Rightarrow> num_of_int t))"

definition isCacheable :: "http_response \<Rightarrow> bool" where
  "isCacheable response \<longleftrightarrow> \<not> no_store (header_or_empty response (lit ''Cache-Control''))"

definition integerHeader :: "http_response \<Rightarrow> jstring \<Rightarrow> jsnum option" where
  "integerHeader response name = (case resp_header response name of None \<Rightarrow> None
     | Some raw \<Rightarrow> if trim raw = [] then None
         else let value = string_to_number raw in if num_is_integer value \<and> num_le (Fin 0) value then Some value else None)"

text \<open>\<^verbatim>\<open>Math.max(0, Math.ceil(ms / 1000))\<close> for a whole number of milliseconds.\<close>

definition whole_seconds :: "int \<Rightarrow> jsnum" where
  "whole_seconds ms = num_of_int (max 0 (- ((- ms) div 1000)))"

definition retryAfter :: "legacy_dates \<Rightarrow> int \<Rightarrow> jstring option \<Rightarrow> jsnum option" where
  "retryAfter legacy now value = (case value of None \<Rightarrow> None
     | Some v \<Rightarrow> let seconds = string_to_number v in
         if num_is_finite seconds \<and> num_le (Fin 0) seconds then Some seconds
         else map_option (\<lambda>date. whole_seconds (date - now)) (Date_parse legacy v))"

text \<open>\<^verbatim>\<open>new Date(seconds * 1000).toISOString()\<close> throws outside the range of time values.\<close>

definition reset_time :: "jstring \<Rightarrow> jstring result" where
  "reset_time reset = (case num_mul (string_to_number reset) (Fin 1000) of
     Fin t \<Rightarrow> if \<bar>t\<bar> \<le> 8640000000000000 then Inr (toISOString \<lfloor>t\<rfloor>) else Inl (RangeErr [])
   | _ \<Rightarrow> Inl (RangeErr []))"

definition rateLimitInfo :: "legacy_dates \<Rightarrow> int \<Rightarrow> http_response \<Rightarrow> rate_limit_info result" where
  "rateLimitInfo legacy now response =
     (let reset = header_or_empty response (lit ''X-RateLimit-Reset'');
          info = \<lparr>rl_limit = integerHeader response (lit ''X-RateLimit-Limit''),
            rl_remaining = integerHeader response (lit ''X-RateLimit-Remaining''), rl_resetAt = None,
            rl_retryAfter = retryAfter legacy now (resp_header response (lit ''Retry-After''))\<rparr>
      in if reset = [] then Inr info
         else if list_all is_digit reset then mapR (\<lambda>t. info\<lparr>rl_resetAt := Some t\<rparr>) (reset_time reset)
         else Inr (info\<lparr>rl_resetAt := Some reset\<rparr>))"

section \<open>Bodies\<close>

definition too_large :: "nat \<Rightarrow> http_response \<Rightarrow> exn" where
  "too_large maximum response = lookup_error LOOKUP_INVALID_RESPONSE
     (lit ''Resolver response exceeds '' @ int_to_string (int maximum) @ lit '' bytes'') (no_options\<lparr>opt_status := Some (resp_status response)\<rparr>)"

text \<open>The loop over the chunks; a stream that breaks off raises the host's error.\<close>

fun read_chunks :: "http_response \<Rightarrow> nat \<Rightarrow> nat \<Rightarrow> byte list list \<Rightarrow> body_end \<Rightarrow> byte list result" where
  "read_chunks response maximum got [] Finished = Inr []"
| "read_chunks response maximum got [] Broken = Inl (TypeErr [])"
| "read_chunks response maximum got (chunk # chunks) fin =
     (if maximum < got + length chunk then Inl (too_large maximum response)
      else mapR (\<lambda>rest. chunk @ rest) (read_chunks response maximum (got + length chunk) chunks fin))"

text \<open>A decoder with \<^verbatim>\<open>fatal: true\<close> accepts exactly the bytes that encode their own decoding.\<close>

definition decode_fatal :: "byte list \<Rightarrow> jstring option" where
  "decode_fatal bs =
     (let body = (if take 3 bs = [0xef, 0xbb, 0xbf] then drop 3 bs else bs); cps = utf8_decode None body
      in if concat (map utf8_bytes cps) = body then Some (concat (map units_of cps)) else None)"

lemma decode_fatal_encode:
  assumes "well_formed s" and "\<forall>r. s \<noteq> 0xfeff # r"
  shows "decode_fatal (TextEncoder_encode s) = Some s"
proof -
  note cp = code_points_units [OF assms(1)]
  have dec: "TextDecoder_decode (TextEncoder_encode s) = s" by (rule TextDecoder_encode [OF assms])
  have bom: "take 3 (TextEncoder_encode s) \<noteq> [0xef, 0xbb, 0xbf]" by (rule no_byte_order_mark [OF assms])
  have "utf8_decode None (TextEncoder_encode s) = code_points s"
    using cp utf8_decode_encode [of "code_points s"] by (simp add: TextEncoder_encode_def)
  with bom cp show ?thesis by (simp add: decode_fatal_def Let_def TextEncoder_encode_def)
qed

definition parse_body :: "http_response \<Rightarrow> byte list \<Rightarrow> json option result" where
  "parse_body response encoded =
     (let failed = lookup_error LOOKUP_INVALID_RESPONSE (lit ''Resolver returned non-JSON content'') (no_options\<lparr>opt_status := Some (resp_status response)\<rparr>)
      in case decode_fatal encoded of None \<Rightarrow> Inl failed
         | Some text \<Rightarrow> if text = [] then Inr None
             else (case JSON_parse text of Inl _ \<Rightarrow> Inl failed | Inr v \<Rightarrow> Inr (Some v)))"

definition readPayload :: "http_response \<Rightarrow> nat \<Rightarrow> json option result" where
  "readPayload response maximum =
     (let declared = (case resp_header response (lit ''Content-Length'') of None \<Rightarrow> Fin 0 | Some v \<Rightarrow> string_to_number v)
      in if num_is_finite declared \<and> num_less (num_of_int (int maximum)) declared then Inl (too_large maximum response)
         else case resp_body response of
           NoBody \<Rightarrow> Inr None
         | Body chunks fin \<Rightarrow> bindE (read_chunks response maximum 0 chunks fin) (parse_body response))"

section \<open>Errors and retries\<close>

definition responseError :: "http_response \<Rightarrow> json option \<Rightarrow> rate_limit_info \<Rightarrow> exn" where
  "responseError response details rateLimit =
     (let options = no_options\<lparr>opt_status := Some (resp_status response), opt_details := details, opt_rateLimit := Some rateLimit,
            opt_retryAfter := rl_retryAfter rateLimit\<rparr>
      in if resp_status response = 400 then lookup_error LOOKUP_BAD_REQUEST (lit ''Resolver rejected the lookup request'') options
         else if resp_status response = 404 then lookup_error LOOKUP_NOT_FOUND (lit ''OATI record was not found'') options
         else if resp_status response = 429 then lookup_error LOOKUP_RATE_LIMITED (lit ''OATI lookup rate limit exceeded'') options
         else lookup_error LOOKUP_UNAVAILABLE (lit ''OATI resolver returned HTTP '' @ int_to_string (resp_status response)) options)"

definition retryable_code :: "oati_error_code \<Rightarrow> bool" where
  "retryable_code code \<longleftrightarrow> code \<in> {LOOKUP_RATE_LIMITED, LOOKUP_UNAVAILABLE, LOOKUP_TIMEOUT}"

text \<open>\<^verbatim>\<open>error instanceof OatiLookupError && retryable(error)\<close>\<close>

definition retryable :: "exn \<Rightarrow> bool" where
  "retryable e = (case lookup_code e of Some c \<Rightarrow> retryable_code c | None \<Rightarrow> False)"

fun exn_retryAfter :: "exn \<Rightarrow> jsnum option" where
  "exn_retryAfter (OatiErr e) = err_retryAfter e"
| "exn_retryAfter _ = None"

definition retryDelay :: "exn option \<Rightarrow> nat \<Rightarrow> LookupRetryOptions \<Rightarrow> jsnum" where
  "retryDelay error attempt retry =
     (case (case error of None \<Rightarrow> None | Some e \<Rightarrow> exn_retryAfter e) of
        Some s \<Rightarrow> num_min (num_mul s (Fin 1000)) (rt_maxDelayMs retry)
      | None \<Rightarrow> num_min (num_mul (rt_baseDelayMs retry) (fl (2 ^ (attempt - 1)))) (rt_maxDelayMs retry))"

definition cancelled :: exn where
  "cancelled = lookup_error LOOKUP_CANCELLED (lit ''Lookup was cancelled'') no_options"

section \<open>Validation of input and options\<close>

definition validateInput :: "jstring \<Rightarrow> jstring \<Rightarrow> unit result" where
  "validateInput type i = (if type \<notin> set OATI_RECORD_TYPES \<or> trim i = []
     then Inl (lookup_error LOOKUP_BAD_REQUEST (lit ''A supported record type and non-empty id are required'') no_options) else Inr ())"

definition normalizeResolverUrl :: "url_parser \<Rightarrow> jstring \<Rightarrow> jstring result" where
  "normalizeResolverUrl url value = (case url value of None \<Rightarrow> Inl (TypeErr [])
     | Some u \<Rightarrow> if url_protocol u \<notin> {lit ''http:'', lit ''https:''} then Inl (TypeErr (lit ''Resolver URLs must use HTTP or HTTPS''))
         else Inr (rev (dropWhile (\<lambda>c. c = 47) (rev value))))"

definition positive :: "jsnum \<Rightarrow> jstring \<Rightarrow> jsnum result" where
  "positive value name = (if \<not> num_is_finite value \<or> num_le value (Fin 0) then Inl (RangeErr (name @ lit '' must be positive'')) else Inr value)"

definition nonNegative :: "jsnum \<Rightarrow> jstring \<Rightarrow> jsnum result" where
  "nonNegative value name = (if \<not> num_is_finite value \<or> num_less value (Fin 0) then Inl (RangeErr (name @ lit '' must be non-negative'')) else Inr value)"

text \<open>The two integer checks return the integer they checked.\<close>

definition positiveInteger :: "jsnum \<Rightarrow> jstring \<Rightarrow> nat result" where
  "positiveInteger value name = (case value of
     Fin q \<Rightarrow> if \<not> num_is_integer value \<or> q \<le> 0 then Inl (RangeErr (name @ lit '' must be a positive integer'')) else Inr (nat \<lfloor>q\<rfloor>)
   | _ \<Rightarrow> Inl (RangeErr (name @ lit '' must be a positive integer'')))"

definition nonNegativeInteger :: "jsnum \<Rightarrow> jstring \<Rightarrow> nat result" where
  "nonNegativeInteger value name = (case value of
     Fin q \<Rightarrow> if \<not> num_is_integer value \<or> q < 0 then Inl (RangeErr (name @ lit '' must be a non-negative integer'')) else Inr (nat \<lfloor>q\<rfloor>)
   | _ \<Rightarrow> Inl (RangeErr (name @ lit '' must be a non-negative integer'')))"

section \<open>Public records\<close>

definition nonEmpty :: "json option \<Rightarrow> bool" where
  "nonEmpty v \<longleftrightarrow> (\<exists>s. v = Some (JStr s) \<and> s \<noteq> [])"

text \<open>\<^verbatim>\<open>a ?? b\<close>\<close>

definition nullish :: "json option \<Rightarrow> json option \<Rightarrow> json option" where
  "nullish a b = (if a = None \<or> a = Some JNull then b else a)"

definition validRevocationStatus :: "json option \<Rightarrow> bool" where
  "validRevocationStatus v \<longleftrightarrow> v \<in> {Some (JStr (lit ''good'')), Some (JStr (lit ''suspended'')), Some (JStr (lit ''revoked'')), Some (JStr (lit ''unknown''))}"

definition discovery_document_matches :: "jobject \<Rightarrow> jobject \<Rightarrow> bool" where
  "discovery_document_matches item attributes = (case as_string (jget attributes (lit ''document'')) of None \<Rightarrow> False
     | Some text \<Rightarrow> (case JSON_parse text of
         Inr (JObj document) \<Rightarrow> strict_eq_opt (jget document (lit ''id'')) (jget item (lit ''id''))
           \<and> strict_eq_opt (jget document (lit ''organisation_id'')) (jget item (lit ''organisation_id''))
       | _ \<Rightarrow> False))"

definition validTypedRecord :: "jobject \<Rightarrow> bool" where
  "validTypedRecord item =
     (let type = jget item (lit ''type''); attributes = public_attributes item in
      if type = Some (JStr (lit ''service'')) \<or> type = Some (JStr (lit ''profile'')) then
        nonEmpty (jget attributes (lit ''document'')) \<and> discovery_document_matches item attributes
      else if type \<noteq> Some (JStr (lit ''key'')) then True
      else list_all (\<lambda>f. nonEmpty (jget attributes f)) [lit ''controller'', lit ''algorithm'', lit ''public_key_jwk'']
        \<and> jget attributes (lit ''algorithm'') \<in> {Some (JStr EdDSA), Some (JStr ES256)}
        \<and> nonEmpty (nullish (jget item (lit ''issued_at'')) (jget attributes (lit ''valid_from'')))
        \<and> nonEmpty (nullish (jget item (lit ''expires_at'')) (jget attributes (lit ''valid_until''))))"

fun record_type :: "json option \<Rightarrow> bool" where
  "record_type (Some (JStr t)) = (t \<in> set OATI_RECORD_TYPES)"
| "record_type _ = False"

definition isPublicRecord :: "json option \<Rightarrow> bool" where
  "isPublicRecord value = (case value of Some (JObj item) \<Rightarrow>
        record_type (jget item (lit ''type'')) \<and> is_string (jget item (lit ''id'')) \<and> is_string (jget item (lit ''status''))
        \<and> is_string (jget item (lit ''issuer''))
        \<and> String (jget item (lit ''proof_status'')) \<in> {lit ''verified'', lit ''invalid'', lit ''unavailable'', lit ''unknown''}
        \<and> (case jget item (lit ''public_attributes'') of Some (JObj attributes) \<Rightarrow> list_all (\<lambda>(k, v). is_string (Some v)) attributes | _ \<Rightarrow> False)
        \<and> validTypedRecord item
      | _ \<Rightarrow> False)"

definition put_optional :: "jstring \<Rightarrow> json option \<Rightarrow> jobject \<Rightarrow> jobject" where
  "put_optional k v r = (case v of None \<Rightarrow> r | Some x \<Rightarrow> put_member k x r)"

definition normalizePublicRecord :: "PublicOatiRecord \<Rightarrow> PublicOatiRecord" where
  "normalizePublicRecord record =
     (if jget record (lit ''type'') \<noteq> Some (JStr (lit ''key'')) then record
      else let attributes = public_attributes record in
        put_optional (lit ''expires_at'') (nullish (jget record (lit ''expires_at'')) (jget attributes (lit ''valid_until'')))
          (put_optional (lit ''issued_at'') (nullish (jget record (lit ''issued_at'')) (jget attributes (lit ''valid_from''))) record))"

definition selectorMatches :: "LookupSelector \<Rightarrow> jstring \<Rightarrow> PublicOatiRecord \<Rightarrow> bool" where
  "selectorMatches selector value payload = (case selector of
     ById \<Rightarrow> jget payload (lit ''id'') = Some (JStr value)
   | ByTarget \<Rightarrow> jget payload (lit ''type'') = Some (JStr (lit ''revocation''))
       \<and> jget (public_attributes payload) (lit ''target'') = Some (JStr value)
       \<and> validRevocationStatus (jget (public_attributes payload) (lit ''revocation_status'')))"

end
