(* ===== verification/Lookup.thy ===== *)
theory Lookup
  imports LookupRecords
begin

text \<open>
  \<open>OatiLookupClient\<close> of \<^verbatim>\<open>lookup.ts\<close>: configuration, the record cache with its least recently
  used order, requests with retries, failover between resolvers, discovery and federation.  The
  network is an argument: \<open>net_fetch n request\<close> is the outcome of the \<open>n\<close>-th request the client
  makes, \<open>net_now n\<close> the clock while it is handled, \<open>net_delay n ms\<close> whether a pause before it
  ends without the caller's cancellation, \<open>net_aborted n\<close> and \<open>net_timed_out n\<close> why it failed.  The
  state of a client is its cache and the number of requests made so far.
\<close>

section \<open>State\<close>

datatype cache_mode = CacheDefault | CacheReload | CacheNoStore

record LookupOptions =
  lo_cache :: cache_mode
  lo_timeoutMs :: "jsnum option"
  lo_aborted :: bool

datatype entry_content = Found PublicOatiRecord | NotFound

record CacheEntry =
  ce_content :: entry_content
  ce_expiresAt :: jsnum
  ce_etag :: "jstring option"
  ce_resolverUrl :: jstring
  ce_rateLimit :: rate_limit_info

type_synonym cache_entries = "(jstring \<times> CacheEntry) list"

record lookup_client =
  lc_resolverUrls :: "jstring list"
  lc_timeoutMs :: jsnum
  lc_maxResponseBytes :: nat
  lc_headers :: "(jstring \<times> jstring) list"
  lc_retries :: LookupRetryOptions
  lc_cacheOptions :: "LookupCacheOptions option"

record client_state =
  cs_entries :: cache_entries
  cs_requests :: nat

record http_request =
  rq_url :: jstring
  rq_params :: "(jstring \<times> jstring) list"
  rq_headers :: "(jstring \<times> jstring) list"

datatype fetch_outcome = Responded http_response | FetchThrows

record network =
  net_fetch :: "nat \<Rightarrow> http_request \<Rightarrow> fetch_outcome"
  net_now :: "nat \<Rightarrow> int"
  net_delay :: "nat \<Rightarrow> jsnum \<Rightarrow> bool"
  net_aborted :: "nat \<Rightarrow> bool"
  net_timed_out :: "nat \<Rightarrow> bool"
  net_legacy :: legacy_dates
  net_url :: url_parser

section \<open>Construction\<close>

record retry_setting =
  rs_maxRetries :: "jsnum option"
  rs_baseDelayMs :: "jsnum option"
  rs_maxDelayMs :: "jsnum option"

record cache_limits =
  cl_ttlMs :: "jsnum option"
  cl_negativeTtlMs :: "jsnum option"
  cl_maxEntries :: "jsnum option"

datatype cache_setting = CacheOff | CacheOn cache_limits

record LookupClientOptions =
  lco_resolverUrls :: "jstring list option"
  lco_baseUrl :: "jstring option"
  lco_timeoutMs :: "jsnum option"
  lco_maxResponseBytes :: "jsnum option"
  lco_headers :: "(jstring \<times> jstring) list"
  lco_retry :: retry_setting
  lco_cache :: cache_setting

definition default_to :: "'a \<Rightarrow> 'a option \<Rightarrow> 'a" where
  "default_to d v = (case v of None \<Rightarrow> d | Some x \<Rightarrow> x)"

definition configured_urls :: "LookupClientOptions \<Rightarrow> jstring list" where
  "configured_urls options = (case lco_resolverUrls options of Some urls \<Rightarrow> urls
     | None \<Rightarrow> (case lco_baseUrl options of Some b \<Rightarrow> if b = [] then [lit ''https://api.intelliger.ai/oati/v1''] else [b]
         | None \<Rightarrow> [lit ''https://api.intelliger.ai/oati/v1'']))"

definition configured_cache :: "cache_setting \<Rightarrow> LookupCacheOptions option result" where
  "configured_cache setting = (case setting of CacheOff \<Rightarrow> Inr None
     | CacheOn limits \<Rightarrow>
         bindE (nonNegative (default_to (Fin 60000) (cl_ttlMs limits)) (lit ''ttlMs'')) (\<lambda>ttl.
         bindE (nonNegative (default_to (Fin 10000) (cl_negativeTtlMs limits)) (lit ''negativeTtlMs'')) (\<lambda>negative.
         bindE (positiveInteger (default_to (Fin 500) (cl_maxEntries limits)) (lit ''maxEntries'')) (\<lambda>entries.
         Inr (Some \<lparr>co_ttlMs = ttl, co_negativeTtlMs = negative, co_maxEntries = entries\<rparr>)))))"

definition OatiLookupClient :: "url_parser \<Rightarrow> LookupClientOptions \<Rightarrow> lookup_client result" where
  "OatiLookupClient url options =
     (let urls = configured_urls options in
      if urls = [] then Inl (RangeErr (lit ''At least one resolver URL is required''))
      else bindE (mapE (normalizeResolverUrl url) urls) (\<lambda>resolverUrls.
        bindE (positive (default_to (Fin 10000) (lco_timeoutMs options)) (lit ''timeoutMs'')) (\<lambda>timeout.
        bindE (positiveInteger (default_to (Fin 2097152) (lco_maxResponseBytes options)) (lit ''maxResponseBytes'')) (\<lambda>maxBytes.
        bindE (nonNegativeInteger (default_to (Fin 2) (rs_maxRetries (lco_retry options))) (lit ''maxRetries'')) (\<lambda>maxRetries.
        bindE (positive (default_to (Fin 200) (rs_baseDelayMs (lco_retry options))) (lit ''baseDelayMs'')) (\<lambda>baseDelay.
        bindE (positive (default_to (Fin 5000) (rs_maxDelayMs (lco_retry options))) (lit ''maxDelayMs'')) (\<lambda>maxDelay.
        bindE (configured_cache (lco_cache options)) (\<lambda>cacheOptions.
        Inr \<lparr>lc_resolverUrls = resolverUrls, lc_timeoutMs = timeout, lc_maxResponseBytes = maxBytes, lc_headers = lco_headers options,
             lc_retries = \<lparr>rt_maxRetries = maxRetries, rt_baseDelayMs = baseDelay, rt_maxDelayMs = maxDelay\<rparr>,
             lc_cacheOptions = cacheOptions\<rparr>))))))))"

section \<open>Cache\<close>

definition cacheKey :: "jstring \<Rightarrow> LookupSelector \<Rightarrow> jstring \<Rightarrow> jstring" where
  "cacheKey type selector value = type @ [0] @ selector_text selector @ [0] @ value"

definition touch :: "cache_entries \<Rightarrow> jstring \<Rightarrow> CacheEntry \<Rightarrow> cache_entries" where
  "touch entries key value = om_set key value (om_delete key entries)"

text \<open>The loop that deletes the oldest keys.\<close>

function evict :: "nat \<Rightarrow> cache_entries \<Rightarrow> cache_entries" where
  "evict maxEntries entries =
     (if maxEntries < length entries then evict maxEntries (om_delete (fst (hd entries)) entries) else entries)"
  by pat_completeness auto
termination
proof (relation "measure (\<lambda>(m, es). length es)")
  fix m :: nat and es :: cache_entries
  assume "m < length es"
  then obtain e es' where "es = e # es'" by (cases es) auto
  then show "((m, om_delete (fst (hd es)) es), m, es) \<in> measure (\<lambda>(m, es). length es)"
    by (cases e) (simp add: om_delete_def less_Suc_eq_le)
qed simp

declare evict.simps [simp del]

definition store :: "lookup_client \<Rightarrow> jstring \<Rightarrow> CacheEntry \<Rightarrow> cache_entries \<Rightarrow> cache_entries" where
  "store client key entry entries = (case lc_cacheOptions client of None \<Rightarrow> entries
     | Some options \<Rightarrow> evict (co_maxEntries options) (om_set key entry (om_delete key entries)))"

definition clearCache :: "jstring option \<Rightarrow> jstring option \<Rightarrow> cache_entries \<Rightarrow> cache_entries" where
  "clearCache type i entries = (case type of None \<Rightarrow> []
     | Some t \<Rightarrow> (case i of Some v \<Rightarrow> om_delete (cacheKey t ById v) entries
         | None \<Rightarrow> filter (\<lambda>(key, _). \<not> startsWith key (t @ [0])) entries))"

definition clearRevocationTargetCache :: "jstring option \<Rightarrow> cache_entries \<Rightarrow> cache_entries" where
  "clearRevocationTargetCache target entries = (case target of
     Some v \<Rightarrow> om_delete (cacheKey (lit ''revocation'') ByTarget v) entries
   | None \<Rightarrow> filter (\<lambda>(key, _). \<not> startsWith key (lit ''revocation'' @ [0] @ lit ''target'' @ [0])) entries)"

section \<open>Requests\<close>

record request_outcome =
  ro_record :: PublicOatiRecord
  ro_expiresAt :: jsnum
  ro_etag :: "jstring option"
  ro_rateLimit :: rate_limit_info
  ro_revalidated :: bool
  ro_cacheable :: bool

definition override :: "'a option \<Rightarrow> 'a option \<Rightarrow> 'a option" where
  "override old new = (case new of None \<Rightarrow> old | Some _ \<Rightarrow> new)"

text \<open>\<^verbatim>\<open>{ ...cached.rateLimit, ...rateLimit }\<close>\<close>

definition merge_rate_limit :: "rate_limit_info \<Rightarrow> rate_limit_info \<Rightarrow> rate_limit_info" where
  "merge_rate_limit old new = \<lparr>rl_limit = override (rl_limit old) (rl_limit new), rl_remaining = override (rl_remaining old) (rl_remaining new),
     rl_resetAt = override (rl_resetAt old) (rl_resetAt new), rl_retryAfter = override (rl_retryAfter old) (rl_retryAfter new)\<rparr>"

text \<open>The handler of the \<^verbatim>\<open>catch\<close> clauses: errors of this client pass, others are classified.\<close>

definition classify_failure :: "network \<Rightarrow> nat \<Rightarrow> jstring \<Rightarrow> jstring \<Rightarrow> exn \<Rightarrow> exn" where
  "classify_failure net n timeout unavailable e =
     (if lookup_code e \<noteq> None then e
      else if net_aborted net n then cancelled
      else if net_timed_out net n then lookup_error LOOKUP_TIMEOUT timeout no_options
      else lookup_error LOOKUP_UNAVAILABLE unavailable no_options)"

definition rethrow :: "(exn \<Rightarrow> exn) \<Rightarrow> 'a result \<Rightarrow> 'a result" where
  "rethrow f m = (case m of Inl e \<Rightarrow> Inl (f e) | Inr a \<Rightarrow> Inr a)"

lemma rethrow_Inr_iff [exn_iff]: "rethrow f m = Inr a \<longleftrightarrow> m = Inr a"
  by (cases m) (simp_all add: rethrow_def)

definition request_headers :: "lookup_client \<Rightarrow> jstring option \<Rightarrow> (jstring \<times> jstring) list" where
  "request_headers client etag = foldl (\<lambda>hs (k, v). om_set k v hs) [(lit ''Accept'', lit ''application/json'')]
     (lc_headers client @ (case etag of None \<Rightarrow> [] | Some e \<Rightarrow> if e = [] then [] else [(lit ''If-None-Match'', e)]))"

definition invalid_record :: "http_response \<Rightarrow> json option \<Rightarrow> rate_limit_info \<Rightarrow> exn" where
  "invalid_record response payload rateLimit = lookup_error LOOKUP_INVALID_RESPONSE
     (lit ''Resolver returned an invalid or mismatched public record'')
     (no_options\<lparr>opt_status := Some (resp_status response), opt_details := payload, opt_rateLimit := Some rateLimit\<rparr>)"

text \<open>\<^verbatim>\<open>response.status === 304 && cached?.record\<close>\<close>

definition revalidates :: "http_response \<Rightarrow> CacheEntry option \<Rightarrow> (CacheEntry \<times> PublicOatiRecord) option" where
  "revalidates response cached = (if resp_status response \<noteq> 304 then None
     else case cached of None \<Rightarrow> None
     | Some c \<Rightarrow> (case ce_content c of Found record \<Rightarrow> Some (c, record) | NotFound \<Rightarrow> None))"

definition accept_response :: "lookup_client \<Rightarrow> network \<Rightarrow> nat \<Rightarrow> jstring \<Rightarrow> LookupSelector \<Rightarrow> jstring \<Rightarrow> CacheEntry option \<Rightarrow> http_response \<Rightarrow> request_outcome result" where
  "accept_response client net n type selector value cached response =
     bindE (rateLimitInfo (net_legacy net) (net_now net n) response) (\<lambda>rateLimit.
     let expires = expiry (net_legacy net) (net_now net n) response (lc_cacheOptions client) False in
     case revalidates response cached of
       Some (c, record) \<Rightarrow>
         Inr \<lparr>ro_record = record, ro_expiresAt = expires, ro_etag = ce_etag c, ro_rateLimit = merge_rate_limit (ce_rateLimit c) rateLimit,
              ro_revalidated = True, ro_cacheable = isCacheable response\<rparr>
     | None \<Rightarrow> bindE (readPayload response (lc_maxResponseBytes client)) (\<lambda>payload.
         if \<not> resp_ok response then Inl (responseError response payload rateLimit)
         else if \<not> isPublicRecord payload then Inl (invalid_record response payload rateLimit)
         else (case as_object payload of None \<Rightarrow> Inl (invalid_record response payload rateLimit)
           | Some record \<Rightarrow>
               if \<not> selectorMatches selector value record \<or> jget record (lit ''type'') \<noteq> Some (JStr type)
               then Inl (invalid_record response payload rateLimit)
               else Inr \<lparr>ro_record = normalizePublicRecord record, ro_expiresAt = expires, ro_etag = resp_header response (lit ''ETag''),
                         ro_rateLimit = rateLimit, ro_revalidated = False, ro_cacheable = isCacheable response\<rparr>)))"

definition requestOnce :: "lookup_client \<Rightarrow> network \<Rightarrow> LookupOptions \<Rightarrow> jstring \<Rightarrow> jstring \<Rightarrow> LookupSelector \<Rightarrow> jstring \<Rightarrow> CacheEntry option \<Rightarrow> nat \<Rightarrow> request_outcome result" where
  "requestOnce client net options resolverUrl type selector value cached n =
     (if net_url net (resolverUrl @ lit ''/lookup'') = None then Inl (TypeErr [])
      else bindE (case lo_timeoutMs options of None \<Rightarrow> Inr (lc_timeoutMs client) | Some t \<Rightarrow> positive t (lit ''timeoutMs'')) (\<lambda>timeoutMs.
        rethrow (classify_failure net n (lit ''Lookup exceeded '' @ num_to_string timeoutMs @ lit ''ms'') (lit ''The OATI resolver is unavailable''))
          (case net_fetch net n \<lparr>rq_url = resolverUrl @ lit ''/lookup'', rq_params = [(lit ''type'', type), (selector_text selector, value)],
                 rq_headers = request_headers client (case cached of None \<Rightarrow> None | Some c \<Rightarrow> ce_etag c)\<rparr> of
             FetchThrows \<Rightarrow> Inl (TypeErr [])
           | Responded response \<Rightarrow> accept_response client net n type selector value cached response)))"

text \<open>\<open>left\<close> retries remain; the second component is the number of requests made so far.\<close>

fun retry_loop :: "lookup_client \<Rightarrow> network \<Rightarrow> LookupOptions \<Rightarrow> jstring \<Rightarrow> jstring \<Rightarrow> LookupSelector \<Rightarrow> jstring \<Rightarrow> CacheEntry option
    \<Rightarrow> nat \<Rightarrow> nat \<Rightarrow> exn option \<Rightarrow> nat \<Rightarrow> request_outcome result \<times> nat" where
  "retry_loop client net options resolverUrl type selector value cached left attempt lastError n =
     (if 0 < attempt \<and> \<not> net_delay net n (retryDelay lastError attempt (lc_retries client)) then (Inl cancelled, n)
      else case requestOnce client net options resolverUrl type selector value cached n of
        Inr r \<Rightarrow> (Inr r, Suc n)
      | Inl e \<Rightarrow> (case left of
            0 \<Rightarrow> (Inl e, Suc n)
          | Suc left' \<Rightarrow> if \<not> retryable e then (Inl e, Suc n)
              else retry_loop client net options resolverUrl type selector value cached left' (Suc attempt) (Some e) (Suc n)))"

declare retry_loop.simps [simp del]

definition requestWithRetry :: "lookup_client \<Rightarrow> network \<Rightarrow> LookupOptions \<Rightarrow> jstring \<Rightarrow> jstring \<Rightarrow> LookupSelector \<Rightarrow> jstring \<Rightarrow> CacheEntry option
    \<Rightarrow> nat \<Rightarrow> request_outcome result \<times> nat" where
  "requestWithRetry client net options resolverUrl type selector value cached n =
     retry_loop client net options resolverUrl type selector value cached (rt_maxRetries (lc_retries client)) 0 None n"

section \<open>Lookup\<close>

definition reusable :: "LookupOptions \<Rightarrow> CacheEntry option \<Rightarrow> jstring \<Rightarrow> CacheEntry option" where
  "reusable options cached resolverUrl = (case cached of None \<Rightarrow> None
     | Some c \<Rightarrow> if lo_cache options \<noteq> CacheNoStore \<and> ce_resolverUrl c = resolverUrl then Some c else None)"

definition negative_entry :: "network \<Rightarrow> nat \<Rightarrow> LookupCacheOptions \<Rightarrow> jstring \<Rightarrow> exn \<Rightarrow> CacheEntry" where
  "negative_entry net n cache resolverUrl e =
     \<lparr>ce_content = NotFound, ce_expiresAt = num_add (num_of_int (net_now net n)) (co_negativeTtlMs cache), ce_etag = None,
      ce_resolverUrl = resolverUrl,
      ce_rateLimit = (case e of OatiErr err \<Rightarrow> default_to no_rate_limit (err_rateLimit err) | _ \<Rightarrow> no_rate_limit)\<rparr>"

fun try_resolvers :: "lookup_client \<Rightarrow> network \<Rightarrow> LookupOptions \<Rightarrow> jstring \<Rightarrow> LookupSelector \<Rightarrow> jstring \<Rightarrow> CacheEntry option
    \<Rightarrow> jstring list \<Rightarrow> exn option \<Rightarrow> client_state \<Rightarrow> LookupResponse result \<times> client_state" where
  "try_resolvers client net options type selector value cached [] lastError st =
     (Inl (case lastError of Some e \<Rightarrow> e | None \<Rightarrow> lookup_error LOOKUP_UNAVAILABLE (lit ''No OATI resolver was available'') no_options), st)"
| "try_resolvers client net options type selector value cached (url # urls) lastError st =
     (let (r, n) = requestWithRetry client net options url type selector value (reusable options cached url) (cs_requests st);
          st' = st\<lparr>cs_requests := n\<rparr>; key = cacheKey type selector value
      in case r of
        Inr response \<Rightarrow>
          (Inr \<lparr>lr_record = ro_record response, lr_resolverUrl = url, lr_cache = (if ro_revalidated response then Revalidated else Miss),
                lr_rateLimit = ro_rateLimit response\<rparr>,
           if lo_cache options \<noteq> CacheNoStore \<and> ro_cacheable response
           then st'\<lparr>cs_entries := store client key \<lparr>ce_content = Found (ro_record response), ce_expiresAt = ro_expiresAt response,
                  ce_etag = (case ro_etag response of Some e \<Rightarrow> if e = [] then None else Some e | None \<Rightarrow> None),
                  ce_resolverUrl = url, ce_rateLimit = ro_rateLimit response\<rparr> (cs_entries st')\<rparr>
           else st')
      | Inl e \<Rightarrow> (case lookup_code e of
            None \<Rightarrow> (Inl e, st')
          | Some code \<Rightarrow>
              if code \<in> {LOOKUP_CANCELLED, LOOKUP_BAD_REQUEST, LOOKUP_INVALID_RESPONSE} then (Inl e, st')
              else if code = LOOKUP_NOT_FOUND then
                (Inl e, case lc_cacheOptions client of
                    Some cache \<Rightarrow> if lo_cache options \<noteq> CacheNoStore
                      then st'\<lparr>cs_entries := store client key (negative_entry net (n - 1) cache url e) (cs_entries st')\<rparr> else st'
                  | None \<Rightarrow> st')
              else try_resolvers client net options type selector value cached urls (Some e) st'))"

definition lookupSelectedDetailed :: "lookup_client \<Rightarrow> network \<Rightarrow> LookupOptions \<Rightarrow> jstring \<Rightarrow> LookupSelector \<Rightarrow> jstring \<Rightarrow> client_state
    \<Rightarrow> LookupResponse result \<times> client_state" where
  "lookupSelectedDetailed client net options type selector value st =
     (case validateInput type value of Inl e \<Rightarrow> (Inl e, st)
      | Inr _ \<Rightarrow>
          if lo_aborted options then (Inl cancelled, st)
          else let key = cacheKey type selector value; cached = map_of (cs_entries st) key in
            case (if lo_cache options = CacheDefault then cached else None) of
              Some c \<Rightarrow>
                if num_less (num_of_int (net_now net (cs_requests st))) (ce_expiresAt c) then
                  (case ce_content c of
                     NotFound \<Rightarrow> Inl (lookup_error LOOKUP_NOT_FOUND (lit ''OATI record was not found'') (no_options\<lparr>opt_status := Some 404, opt_cache := Some Hit\<rparr>))
                   | Found record \<Rightarrow> Inr \<lparr>lr_record = record, lr_resolverUrl = ce_resolverUrl c, lr_cache = Hit, lr_rateLimit = ce_rateLimit c\<rparr>,
                   st\<lparr>cs_entries := touch (cs_entries st) key c\<rparr>)
                else try_resolvers client net options type selector value cached (lc_resolverUrls client) None st
            | None \<Rightarrow> try_resolvers client net options type selector value cached (lc_resolverUrls client) None st)"

definition lookupDetailed :: "lookup_client \<Rightarrow> network \<Rightarrow> LookupOptions \<Rightarrow> jstring \<Rightarrow> jstring \<Rightarrow> client_state \<Rightarrow> LookupResponse result \<times> client_state" where
  "lookupDetailed client net options type i st = lookupSelectedDetailed client net options type ById i st"

definition lookup_record :: "lookup_client \<Rightarrow> network \<Rightarrow> LookupOptions \<Rightarrow> jstring \<Rightarrow> jstring \<Rightarrow> client_state \<Rightarrow> PublicOatiRecord result \<times> client_state" where
  "lookup_record client net options type i st = (let (r, st') = lookupDetailed client net options type i st in (mapR lr_record r, st'))"

definition lookupRevocationByTargetDetailed :: "lookup_client \<Rightarrow> network \<Rightarrow> LookupOptions \<Rightarrow> jstring \<Rightarrow> client_state \<Rightarrow> LookupResponse result \<times> client_state" where
  "lookupRevocationByTargetDetailed client net options target st = lookupSelectedDetailed client net options (lit ''revocation'') ByTarget target st"

definition lookupRevocationByTarget :: "lookup_client \<Rightarrow> network \<Rightarrow> LookupOptions \<Rightarrow> jstring \<Rightarrow> client_state \<Rightarrow> PublicOatiRecord result \<times> client_state" where
  "lookupRevocationByTarget client net options target st =
     (let (r, st') = lookupRevocationByTargetDetailed client net options target st in (mapR lr_record r, st'))"

datatype LookupState =
    StateFound LookupResponse | StateNotFound exn | StateUnavailable exn
  | StateUnavailableProof LookupResponse | StateInvalidProof LookupResponse | StateUnknown LookupResponse

definition lookupState :: "lookup_client \<Rightarrow> network \<Rightarrow> LookupOptions \<Rightarrow> jstring \<Rightarrow> jstring \<Rightarrow> client_state \<Rightarrow> LookupState result \<times> client_state" where
  "lookupState client net options type i st =
     (let (r, st') = lookupDetailed client net options type i st in
      (case r of
         Inr response \<Rightarrow>
           let status = jget (lr_record response) (lit ''proof_status'') in
           Inr (if status = Some (JStr (lit ''invalid'')) then StateInvalidProof response
                else if status = Some (JStr (lit ''unavailable'')) then StateUnavailableProof response
                else if status = Some (JStr (lit ''unknown'')) then StateUnknown response
                else StateFound response)
       | Inl e \<Rightarrow> (case lookup_code e of
             None \<Rightarrow> Inl e
           | Some code \<Rightarrow> if code = LOOKUP_NOT_FOUND then Inr (StateNotFound e)
               else if retryable_code code then Inr (StateUnavailable e) else Inl e), st'))"

section \<open>Discovery\<close>

definition fetchDiscovery :: "lookup_client \<Rightarrow> network \<Rightarrow> LookupOptions \<Rightarrow> jstring \<Rightarrow> nat \<Rightarrow> json option result" where
  "fetchDiscovery client net options url n =
     (let timeoutMs = default_to (lc_timeoutMs client) (lo_timeoutMs options) in
      rethrow (classify_failure net n (lit ''Discovery exceeded '' @ num_to_string timeoutMs @ lit ''ms'') (lit ''The OATI discovery resolver is unavailable''))
        (case net_fetch net n \<lparr>rq_url = url, rq_params = [], rq_headers = request_headers client None\<rparr> of
           FetchThrows \<Rightarrow> Inl (TypeErr [])
         | Responded response \<Rightarrow> bindE (readPayload response (lc_maxResponseBytes client)) (\<lambda>payload.
             if \<not> resp_ok response
             then bindE (rateLimitInfo (net_legacy net) (net_now net n) response) (\<lambda>rateLimit. Inl (responseError response payload rateLimit))
             else Inr payload)))"

text \<open>The schema validator is an argument: what it says of a document of a named schema.\<close>

type_synonym schema_validator = "jstring \<Rightarrow> json \<Rightarrow> bool \<times> json"

record discovered =
  disc_record :: PublicOatiRecord
  disc_document :: jobject

record OrganisationDiscovery =
  od_organisation_id :: jstring
  od_services :: "discovered list"
  od_profiles :: "discovered list"

definition invalid_discovery :: "jstring \<Rightarrow> json option \<Rightarrow> exn" where
  "invalid_discovery message details = lookup_error LOOKUP_INVALID_RESPONSE message (no_options\<lparr>opt_details := details\<rparr>)"

definition expired_member :: "legacy_dates \<Rightarrow> int \<Rightarrow> json option \<Rightarrow> bool" where
  "expired_member legacy now v \<longleftrightarrow> truthy v \<and> time_le (Date_parse legacy (String v)) (Some now)"

definition decodeDiscoveryRecord :: "legacy_dates \<Rightarrow> int \<Rightarrow> schema_validator \<Rightarrow> json \<Rightarrow> jstring \<Rightarrow> discovered result" where
  "decodeDiscoveryRecord legacy now validate value type =
     (case as_object (Some value) of
        None \<Rightarrow> Inl (invalid_discovery (lit ''Discovery contains an untrusted record'') (Some value))
      | Some record \<Rightarrow>
          if \<not> isPublicRecord (Some value) \<or> jget record (lit ''type'') \<noteq> Some (JStr type) \<or> jget record (lit ''status'') \<noteq> Some (JStr (lit ''active''))
             \<or> jget record (lit ''proof_status'') \<noteq> Some (JStr (lit ''verified''))
          then Inl (invalid_discovery (lit ''Discovery contains an untrusted record'') (Some value))
          else bindE (JSON_parse (member_text (public_attributes record) (lit ''document''))) (\<lambda>parsed.
            case as_object (Some parsed) of
              None \<Rightarrow> Inl (invalid_discovery (lit ''Discovery document does not match its public record'') (Some value))
            | Some document \<Rightarrow>
                if \<not> strict_eq_opt (jget document (lit ''id'')) (jget record (lit ''id''))
                   \<or> \<not> strict_eq_opt (jget document (lit ''organisation_id'')) (jget record (lit ''organisation_id''))
                   \<or> \<not> strict_eq_opt (jget document (lit ''issuer'')) (jget record (lit ''issuer''))
                   \<or> jget document (lit ''status'') \<noteq> Some (JStr (lit ''active''))
                then Inl (invalid_discovery (lit ''Discovery document does not match its public record'') (Some value))
                else let (valid, issues) = validate (if type = lit ''service'' then lit ''serviceDiscovery'' else lit ''profileDiscovery'') parsed in
                  if \<not> valid then Inl (invalid_discovery (lit ''Discovery document does not satisfy its published schema'') (Some issues))
                  else if expired_member legacy now (jget record (lit ''expires_at''))
                    \<or> is_string (jget document (lit ''expires_at'')) \<and> time_le (Date_parse legacy (member_text document (lit ''expires_at''))) (Some now)
                  then Inl (invalid_discovery (lit ''Discovery contains an expired record'') (Some value))
                  else Inr \<lparr>disc_record = record, disc_document = document\<rparr>))"

text \<open>Every profile a service accepts is among the published ones.\<close>

fun check_profiles :: "json list \<Rightarrow> json option \<Rightarrow> json list \<Rightarrow> unit result" where
  "check_profiles published payload [] = Inr ()"
| "check_profiles published payload (profile # rest) =
     (if array_includes published profile then check_profiles published payload rest
      else Inl (invalid_discovery (lit ''Discovery service references unpublished profile '' @ json_to_string profile) payload))"

definition accepted_profiles :: "discovered \<Rightarrow> json list result" where
  "accepted_profiles service = (case as_array (jget (disc_document service) (lit ''accepted_profiles'')) of None \<Rightarrow> Inl (TypeErr []) | Some ps \<Rightarrow> Inr ps)"

fun try_discovery :: "lookup_client \<Rightarrow> network \<Rightarrow> LookupOptions \<Rightarrow> jstring \<Rightarrow> jstring list \<Rightarrow> exn option \<Rightarrow> nat \<Rightarrow> (exn option + json option) result \<times> nat" where
  "try_discovery client net options path [] lastError n = (Inr (Inl lastError), n)"
| "try_discovery client net options path (url # urls) lastError n =
     (case fetchDiscovery client net options (url @ path) n of
        Inr payload \<Rightarrow> (Inr (Inr payload), Suc n)
      | Inl e \<Rightarrow> if \<not> retryable e then (Inl e, Suc n) else try_discovery client net options path urls (Some e) (Suc n))"

definition decode_discovery :: "network \<Rightarrow> nat \<Rightarrow> schema_validator \<Rightarrow> jstring \<Rightarrow> json option \<Rightarrow> OrganisationDiscovery result" where
  "decode_discovery net n validate organisationId payload =
     (case payload of
        None \<Rightarrow> Inl (lookup_error LOOKUP_UNAVAILABLE (lit ''No OATI discovery resolver was available'') no_options)
      | Some v \<Rightarrow>
          (case as_object payload of
             Some p \<Rightarrow>
               (case (as_array (jget p (lit ''services'')), as_array (jget p (lit ''profiles''))) of
                  (Some services, Some profiles) \<Rightarrow>
                    if jget p (lit ''organisation_id'') \<noteq> Some (JStr organisationId)
                    then Inl (invalid_discovery (lit ''Resolver returned an invalid discovery response'') payload)
                    else bindE (mapE (\<lambda>s. decodeDiscoveryRecord (net_legacy net) (net_now net n) validate s (lit ''service'')) services) (\<lambda>ss.
                      bindE (mapE (\<lambda>s. decodeDiscoveryRecord (net_legacy net) (net_now net n) validate s (lit ''profile'')) profiles) (\<lambda>ps.
                      bindE (foldE (\<lambda>service _. bindE (accepted_profiles service)
                          (check_profiles (map (\<lambda>q. default_to JNull (jget (disc_record q) (lit ''id''))) ps) payload)) ss ()) (\<lambda>_.
                      Inr \<lparr>od_organisation_id = organisationId, od_services = ss, od_profiles = ps\<rparr>)))
                | _ \<Rightarrow> Inl (invalid_discovery (lit ''Resolver returned an invalid discovery response'') payload))
           | None \<Rightarrow> Inl (invalid_discovery (lit ''Resolver returned an invalid discovery response'') payload)))"

definition discoverOrganisation :: "lookup_client \<Rightarrow> network \<Rightarrow> (jstring \<Rightarrow> jstring) \<Rightarrow> schema_validator \<Rightarrow> LookupOptions \<Rightarrow> jstring \<Rightarrow> nat
    \<Rightarrow> OrganisationDiscovery result \<times> nat" where
  "discoverOrganisation client net encodeURIComponent validate options organisationId n =
     (if \<not> startsWith organisationId (lit ''oati:org:'')
      then (Inl (lookup_error LOOKUP_BAD_REQUEST (lit ''A valid OATI organisation id is required'') no_options), n)
      else let (r, n') = try_discovery client net options (lit ''/discovery?organisation_id='' @ encodeURIComponent organisationId) (lc_resolverUrls client) None n
           in (bindE r (\<lambda>x. case x of
                 Inl (Some e) \<Rightarrow> Inl e
               | Inl None \<Rightarrow> decode_discovery net n' validate organisationId None
               | Inr payload \<Rightarrow> decode_discovery net n' validate organisationId payload), n'))"

section \<open>Federation\<close>

fun contains_scheme :: "jstring \<Rightarrow> bool" where
  "contains_scheme [] = False"
| "contains_scheme (c # s) = (startsWith (c # s) (lit ''://'') \<or> contains_scheme s)"

definition federationOrigin :: "url_parser \<Rightarrow> jstring \<Rightarrow> jstring result" where
  "federationOrigin url domain =
     (case url (if contains_scheme domain then domain else lit ''https://'' @ domain) of
        None \<Rightarrow> Inl (TypeErr [])
      | Some u \<Rightarrow>
          if url_protocol u \<noteq> lit ''https:'' \<or> url_username u \<noteq> [] \<or> url_password u \<noteq> [] \<or> url_pathname u \<noteq> lit ''/''
             \<or> url_search u \<noteq> [] \<or> url_hash u \<noteq> []
          then Inl (lookup_error LOOKUP_BAD_REQUEST (lit ''Federation requires a bare HTTPS domain'') no_options)
          else Inr (url_origin u))"

fun https_url :: "url_parser \<Rightarrow> json \<Rightarrow> bool" where
  "https_url url v = (case url (json_to_string v) of None \<Rightarrow> False | Some u \<Rightarrow> url_protocol u = lit ''https:'')"

fun organisation_text :: "json \<Rightarrow> bool" where
  "organisation_text (JStr s) = startsWith s (lit ''oati:org:'')"
| "organisation_text _ = False"

definition isFederationDocument :: "url_parser \<Rightarrow> json option \<Rightarrow> bool" where
  "isFederationDocument url value = (case value of Some (JObj d) \<Rightarrow>
       jget d (lit ''oati_version'') = Some (JStr (lit ''1.0''))
       \<and> (case jget d (lit ''organisations'') of Some (JArr os) \<Rightarrow> list_all organisation_text os | _ \<Rightarrow> False)
       \<and> (case jget d (lit ''resolvers'') of Some (JArr rs) \<Rightarrow> rs \<noteq> [] \<and> list_all (https_url url) rs | _ \<Rightarrow> False)
     | _ \<Rightarrow> False)"

text \<open>The options of the client that talks to the advertised resolvers.\<close>

definition federated_options :: "lookup_client \<Rightarrow> LookupOptions \<Rightarrow> jstring list \<Rightarrow> LookupClientOptions" where
  "federated_options client options resolvers =
     \<lparr>lco_resolverUrls = Some resolvers, lco_baseUrl = None,
      lco_timeoutMs = Some (default_to (lc_timeoutMs client) (lo_timeoutMs options)), lco_maxResponseBytes = None,
      lco_headers = lc_headers client,
      lco_retry = \<lparr>rs_maxRetries = Some (num_of_int (int (rt_maxRetries (lc_retries client)))),
        rs_baseDelayMs = Some (rt_baseDelayMs (lc_retries client)), rs_maxDelayMs = Some (rt_maxDelayMs (lc_retries client))\<rparr>,
      lco_cache = (case lc_cacheOptions client of None \<Rightarrow> CacheOff
        | Some c \<Rightarrow> CacheOn \<lparr>cl_ttlMs = Some (co_ttlMs c), cl_negativeTtlMs = Some (co_negativeTtlMs c),
            cl_maxEntries = Some (num_of_int (int (co_maxEntries c)))\<rparr>)\<rparr>"

definition federation_resolvers :: "jobject \<Rightarrow> jstring list" where
  "federation_resolvers d = (case as_array (jget d (lit ''resolvers'')) of None \<Rightarrow> [] | Some rs \<Rightarrow> map json_to_string rs)"

definition discoverFederated :: "lookup_client \<Rightarrow> network \<Rightarrow> (jstring \<Rightarrow> jstring) \<Rightarrow> schema_validator \<Rightarrow> LookupOptions \<Rightarrow> jstring \<Rightarrow> jstring \<Rightarrow> nat
    \<Rightarrow> OrganisationDiscovery result \<times> nat" where
  "discoverFederated client net encodeURIComponent validate options domain organisationId n =
     (case federationOrigin (net_url net) domain of Inl e \<Rightarrow> (Inl e, n)
      | Inr origin \<Rightarrow>
          (case fetchDiscovery client net options (origin @ lit ''/.well-known/oati'') n of Inl e \<Rightarrow> (Inl e, Suc n)
           | Inr document \<Rightarrow>
               (case (if isFederationDocument (net_url net) document then as_object document else None) of
                  None \<Rightarrow> (Inl (invalid_discovery (lit ''Domain returned an invalid or unrelated OATI federation document'') document), Suc n)
                | Some d \<Rightarrow>
                    if JStr organisationId \<notin> set (default_to [] (as_array (jget d (lit ''organisations''))))
                    then (Inl (invalid_discovery (lit ''Domain returned an invalid or unrelated OATI federation document'') document), Suc n)
                    else if expired_member (net_legacy net) (net_now net n) (jget d (lit ''expires_at''))
                    then (Inl (invalid_discovery (lit ''OATI federation document is expired'') document), Suc n)
                    else (case OatiLookupClient (net_url net) (federated_options client options (federation_resolvers d)) of
                        Inl e \<Rightarrow> (Inl e, Suc n)
                      | Inr federated \<Rightarrow> discoverOrganisation federated net encodeURIComponent validate options organisationId (Suc n)))))"

end
