(* ===== verification/TrustSpec.thy ===== *)
theory TrustSpec
  imports Verification
begin

text \<open>
  What \<open>verifyDocument\<close> promises, stated without issue lists: \<open>accepted\<close> collects the conditions
  on the proof, its times, the key, the chain of issuers (\<open>issuer_path\<close>), revocation, the
  signer and the signature.  Each check adds no issue exactly when its condition holds, and a
  document is reported verified exactly when all of them hold and its nonce is fresh.
\<close>

section \<open>Specification\<close>

definition proof_current :: "legacy_dates \<Rightarrow> OatiJwsProof \<Rightarrow> int \<Rightarrow> int \<Rightarrow> int \<Rightarrow> bool" where
  "proof_current legacy p now skew maxAge \<longleftrightarrow>
     (\<exists>created expires. Date_parse legacy (op_created p) = Some created \<and> Date_parse legacy (op_expires p) = Some expires \<and>
        created < expires \<and> created \<le> now + skew \<and> now - skew < expires \<and> now - created \<le> maxAge + skew)"

definition document_current :: "legacy_dates \<Rightarrow> jobject \<Rightarrow> int \<Rightarrow> int \<Rightarrow> bool" where
  "document_current legacy document now skew \<longleftrightarrow>
     after_start (document_start legacy document) (now + skew) \<and> before_end (document_end legacy document) (now - skew)"

definition not_revoked :: "legacy_dates \<Rightarrow> TrustResolver \<Rightarrow> int \<Rightarrow> jstring \<Rightarrow> bool" where
  "not_revoked legacy resolver now target \<longleftrightarrow> target = [] \<or> resolveRevocation resolver target = Inr None \<or>
     (\<exists>status. resolveRevocation resolver target = Inr (Some status) \<and>
        (case opt_time legacy (rs_effectiveAt status) of
           None \<Rightarrow> rs_status status = lit ''good'' | Some None \<Rightarrow> False
         | Some (Some t) \<Rightarrow> rs_status status = lit ''good'' \<or> now < t))"

definition key_usable :: "legacy_dates \<Rightarrow> VerificationKey \<Rightarrow> OatiJwsProof \<Rightarrow> int \<Rightarrow> int \<Rightarrow> bool" where
  "key_usable legacy key p now skew \<longleftrightarrow>
     vk_algorithm key = op_algorithm p \<and> vk_id key = op_verification_method p \<and> \<not> bad_proof_status (vk_proofStatus key) \<and>
     jwkMatches (vk_publicKeyJwk key) (op_algorithm p) = Inr True \<and>
     (vk_status key = lit ''active'' \<or> vk_status key = lit ''retired'' \<and> opt_time legacy (vk_validUntil key) \<noteq> None) \<and>
     (\<exists>from_t. Date_parse legacy (vk_validFrom key) = Some from_t \<and>
        \<not> time_less (Date_parse legacy (op_created p)) (Some (from_t - skew))) \<and>
     (case opt_time legacy (vk_validUntil key) of None \<Rightarrow> True | Some None \<Rightarrow> False
      | Some (Some u) \<Rightarrow> \<not> time_le (Some (u + skew)) (Date_parse legacy (op_created p))) \<and>
     (case opt_time legacy (vk_revokedAt key) of None \<Rightarrow> True | Some None \<Rightarrow> False | Some (Some t) \<Rightarrow> now < t)"

definition issuer_usable :: "legacy_dates \<Rightarrow> TrustedIssuer \<Rightarrow> int \<Rightarrow> int \<Rightarrow> bool" where
  "issuer_usable legacy issuer now skew \<longleftrightarrow> \<not> bad_proof_status (ti_proofStatus issuer) \<and> \<not> issuer_inactive legacy issuer now \<and>
     \<not> issuer_outside legacy issuer now skew"

text \<open>A path of usable, unrevoked issuers to a trust anchor, each named as the parent of the one before.\<close>

inductive issuer_path :: "legacy_dates \<Rightarrow> TrustResolver \<Rightarrow> jstring set \<Rightarrow> int \<Rightarrow> int \<Rightarrow> nat \<Rightarrow> jstring \<Rightarrow> jstring \<Rightarrow> bool"
  for legacy resolver anchors now skew where
  at_anchor: "current \<in> anchors \<Longrightarrow> not_revoked legacy resolver now current \<Longrightarrow>
    issuer_path legacy resolver anchors now skew 0 current current"
| via_parent: "current \<notin> anchors \<Longrightarrow> not_revoked legacy resolver now current \<Longrightarrow>
    resolveIssuer resolver current = Inr (Some issuer) \<Longrightarrow> issuer_usable legacy issuer now skew \<Longrightarrow>
    ti_parent issuer = Some parent \<Longrightarrow> parent \<noteq> [] \<Longrightarrow>
    issuer_path legacy resolver anchors now skew n parent anchor \<Longrightarrow>
    issuer_path legacy resolver anchors now skew (Suc n) current anchor"

inductive_cases issuer_path_zeroE: "issuer_path legacy resolver anchors now skew 0 current anchor"
inductive_cases issuer_path_SucE: "issuer_path legacy resolver anchors now skew (Suc n) current anchor"

definition signer_bound :: "jobject \<Rightarrow> VerificationKey \<Rightarrow> bool" where
  "signer_bound document key \<longleftrightarrow> claimed_signer document \<in> {None, Some [], Some (vk_controller key), Some (vk_issuer key)}"

definition proof_admissible :: "legacy_dates \<Rightarrow> jobject \<Rightarrow> 'c VerificationPolicy \<Rightarrow> OatiJwsProof \<Rightarrow> int \<Rightarrow> int \<Rightarrow> bool" where
  "proof_admissible legacy document policy p now skew \<longleftrightarrow>
     op_algorithm p \<in> set (case vp_allowedAlgorithms policy of None \<Rightarrow> OATI_SUPPORTED_ALGORITHMS | Some as \<Rightarrow> as) \<and>
     proof_current legacy p now skew (case vp_maxProofAgeMs policy of None \<Rightarrow> 300000 | Some a \<Rightarrow> a) \<and>
     document_current legacy document now skew \<and>
     vp_expectedAudience policy \<in> set (normalizeAudience (Some (op_audience p)))"

definition max_links :: "'c VerificationPolicy \<Rightarrow> int" where
  "max_links policy = (case vp_maxTrustDepth policy of None \<Rightarrow> 8 | Some d \<Rightarrow> d)"

text \<open>All conditions but the freshness of the nonce; \<open>anchor\<close> is the trust anchor reached.\<close>

definition accepted :: "legacy_dates \<Rightarrow> 'k host_crypto \<Rightarrow> jobject \<Rightarrow> 'c VerificationPolicy \<Rightarrow> int \<Rightarrow> OatiJwsProof \<Rightarrow> VerificationKey \<Rightarrow> jstring \<Rightarrow> bool" where
  "accepted legacy host document policy now p key anchor \<longleftrightarrow>
     (let skew = policy_skew policy; resolver = vp_resolver policy in
      (\<exists>members. jget document (lit ''proof'') = Some (JObj members) \<and> proof_fields members = Some p) \<and>
      proof_admissible legacy document policy p now skew \<and>
      resolveKey resolver (op_verification_method p) = Inr (Some key) \<and> key_usable legacy key p now skew \<and>
      (\<exists>n. int n \<le> max_links policy \<and> issuer_path legacy resolver (set (vp_trustAnchors policy)) now skew n (vk_issuer key) anchor) \<and>
      not_revoked legacy resolver now (vk_id key) \<and> not_revoked legacy resolver now (vk_issuer key) \<and>
      not_revoked legacy resolver now (documentId document) \<and>
      signer_bound document key \<and> verify_signature host document p key = Inr True)"

section \<open>Each check decides its condition\<close>

named_theorems issue_free \<open>a check reports nothing exactly when its condition holds\<close>

lemma issue_not_Nil [simp]: "issue c m is \<noteq> []"
  by (simp add: issue_def)

lemma issue_if_Nil [issue_free]: "issue_if b c m is = [] \<longleftrightarrow> is = [] \<and> \<not> b"
  by (simp add: issue_if_def)

lemma checkProofTime_Nil [issue_free]: "checkProofTime legacy p now skew maxAge is = [] \<longleftrightarrow> is = [] \<and> proof_current legacy p now skew maxAge"
  by (auto simp: checkProofTime_def proof_current_def issue_free not_less not_le split: option.splits)

lemma checkDocumentTime_Nil [issue_free]: "checkDocumentTime legacy document now skew is = [] \<longleftrightarrow> is = [] \<and> document_current legacy document now skew"
  by (auto simp: checkDocumentTime_def document_current_def issue_free)

lemma check_proof_Nil: "check_proof legacy document policy p now skew [] = [] \<longleftrightarrow> proof_admissible legacy document policy p now skew"
  by (auto simp: check_proof_def proof_admissible_def issue_free simp del: set_simps)

lemma check_target_Nil [issue_free]: "check_target legacy resolver now i target is = [] \<longleftrightarrow> is = [] \<and> not_revoked legacy resolver now target"
proof (cases "resolveRevocation resolver target")
  case (Inr st)
  then show ?thesis
  proof (cases st)
    case (Some status)
    with Inr show ?thesis
      by (cases "opt_time legacy (rs_effectiveAt status)"; cases "the (opt_time legacy (rs_effectiveAt status))")
        (auto simp: check_target_def not_revoked_def issue_free)
  qed (simp add: check_target_def not_revoked_def)
qed (auto simp: check_target_def not_revoked_def)

lemma check_targets_Nil [issue_free]:
  "check_targets legacy resolver now i targets is = [] \<longleftrightarrow> is = [] \<and> (\<forall>target \<in> set targets. not_revoked legacy resolver now target)"
  by (induction targets arbitrary: i "is") (auto simp: issue_free)

lemma checkRevocation_Nil [issue_free]:
  "checkRevocation legacy resolver targets now is = [] \<longleftrightarrow> is = [] \<and> (\<forall>target \<in> set targets. not_revoked legacy resolver now target)"
  by (simp add: checkRevocation_def issue_free)

lemma not_revoked_Nil [simp]: "not_revoked legacy resolver now []"
  by (simp add: not_revoked_def)

lemma checkSignerBinding_Nil [issue_free]: "checkSignerBinding document key is = [] \<longleftrightarrow> is = [] \<and> signer_bound document key"
  by (auto simp: checkSignerBinding_def signer_bound_def issue_free split: option.splits)

lemma checkSignature_Nil [issue_free]: "checkSignature host document p key is = [] \<longleftrightarrow> is = [] \<and> verify_signature host document p key = Inr True"
  by (cases "verify_signature host document p key") (auto simp: checkSignature_def issue_free)

lemma no_text_iff: "no_text s \<longleftrightarrow> opt_time legacy s = None"
  by (auto simp: no_text_def opt_time_def split: option.splits)

text \<open>A test that may throw, followed by checks that complain when it is true.\<close>

lemma guarded_checks_Nil:
  "f True \<noteq> [] \<Longrightarrow> bindE m (\<lambda>b. Inr (f b)) = Inr [] \<longleftrightarrow> m = Inr False \<and> f False = []"
  by (auto simp: bindE_Inr_iff) (metis (full_types))

lemma checkKey_Nil: "checkKey legacy key p now skew is = Inr [] \<longleftrightarrow> is = [] \<and> key_usable legacy key p now skew"
  unfolding checkKey_def Let_def
  by (subst guarded_checks_Nil)
    (auto simp: key_usable_def issue_free orE_False_iff mapR_Not_False no_text_iff [of _ legacy] not_le split: option.splits)

section \<open>The trust chain\<close>

text \<open>The resolver is a function, so a name has at most one path.\<close>

lemma issuer_path_unique:
  "issuer_path legacy resolver anchors now skew n current anchor \<Longrightarrow>
   issuer_path legacy resolver anchors now skew m current anchor' \<Longrightarrow> n = m \<and> anchor = anchor'"
proof (induction n arbitrary: current m)
  case 0
  from 0(1) have "current \<in> anchors" "anchor = current" by (auto elim: issuer_path_zeroE)
  with 0(2) show ?case by (cases m) (auto elim: issuer_path_zeroE issuer_path_SucE)
next
  case (Suc n)
  from Suc.prems(1) obtain issuer parent where s: "current \<notin> anchors" "resolveIssuer resolver current = Inr (Some issuer)"
    "ti_parent issuer = Some parent" "issuer_path legacy resolver anchors now skew n parent anchor"
    by (auto elim: issuer_path_SucE)
  with Suc.prems(2) obtain k where "m = Suc k" "issuer_path legacy resolver anchors now skew k parent anchor'"
    by (cases m) (auto elim: issuer_path_zeroE issuer_path_SucE)
  with Suc.IH [OF s(4)] show ?case by simp
qed

lemma trust_chain_sound:
  "trust_chain legacy resolver anchors start now skew n visited current is = (r, []) \<Longrightarrow>
   is = [] \<and> (\<exists>k anchor. k < n \<and> r = Some anchor \<and> issuer_path legacy resolver anchors now skew k current anchor)"
proof (induction n arbitrary: visited current "is")
  case (Suc n)
  let ?is = "checkRevocation legacy resolver [[], current] now is"
  from Suc.prems have "current \<in> anchors \<and> ?is = [] \<and> r = Some current \<or>
    (\<exists>issuer parent. current \<notin> anchors \<and> resolveIssuer resolver current = Inr (Some issuer) \<and> issuer_usable legacy issuer now skew \<and>
       ti_parent issuer = Some parent \<and> parent \<noteq> [] \<and>
       trust_chain legacy resolver anchors start now skew n (insert current visited) parent ?is = (r, []))"
    by (auto simp: Let_def issuer_usable_def split: if_splits sum.splits option.splits)
  then show ?case
  proof (elim disjE exE conjE)
    assume "current \<in> anchors" "?is = []" "r = Some current"
    then show ?thesis using at_anchor [of current anchors legacy resolver now skew] by (auto simp: issue_free)
  next
    fix issuer parent
    assume s: "current \<notin> anchors" "resolveIssuer resolver current = Inr (Some issuer)" "issuer_usable legacy issuer now skew"
      "ti_parent issuer = Some parent" "parent \<noteq> []"
      and t: "trust_chain legacy resolver anchors start now skew n (insert current visited) parent ?is = (r, [])"
    from Suc.IH [OF t] obtain k anchor where k: "?is = []" "k < n" "r = Some anchor" "issuer_path legacy resolver anchors now skew k parent anchor"
      by blast
    then have "is = []" "not_revoked legacy resolver now current" by (auto simp: issue_free)
    with via_parent [OF s(1) this(2) s(2-5) k(4)] k(2,3) show ?thesis by auto
  qed
qed simp

lemma trust_chain_complete:
  assumes "issuer_path legacy resolver anchors now skew k current anchor" and "k < n"
    and "\<And>v. v \<in> visited \<Longrightarrow> \<exists>m > k. issuer_path legacy resolver anchors now skew m v anchor"
  shows "trust_chain legacy resolver anchors start now skew n visited current [] = (Some anchor, [])"
  using assms
proof (induction k arbitrary: current n visited)
  case 0
  then have c: "current \<in> anchors" "anchor = current" "not_revoked legacy resolver now current" by (auto elim: issuer_path_zeroE)
  have "current \<notin> visited" using "0.prems"(1,3) issuer_path_unique by (metis less_numeral_extra(3))
  moreover obtain m where "n = Suc m" using "0.prems"(2) by (cases n) auto
  moreover have "checkRevocation legacy resolver [[], current] now [] = []" using c(3) by (simp add: issue_free)
  ultimately show ?case using c by simp
next
  case (Suc k)
  from Suc.prems(1) obtain issuer parent where s: "current \<notin> anchors" "not_revoked legacy resolver now current"
    "resolveIssuer resolver current = Inr (Some issuer)" "issuer_usable legacy issuer now skew"
    "ti_parent issuer = Some parent" "parent \<noteq> []" "issuer_path legacy resolver anchors now skew k parent anchor"
    by (auto elim: issuer_path_SucE)
  have fresh: "current \<notin> visited" using Suc.prems(1,3) issuer_path_unique by (metis less_irrefl)
  obtain m where m: "n = Suc m" "k < m" using Suc.prems(2) by (cases n) auto
  have rev: "checkRevocation legacy resolver [[], current] now [] = []" using s(2) by (simp add: issue_free)
  have "trust_chain legacy resolver anchors start now skew m (insert current visited) parent [] = (Some anchor, [])"
    by (rule Suc.IH [OF s(7) m(2)]) (use Suc.prems(1,3) in \<open>auto intro: Suc_lessD\<close>)
  with m(1) fresh rev s show ?case by (simp add: issuer_usable_def)
qed

lemma validateTrustChain_iff:
  "validateTrustChain legacy start policy now skew is = (r, []) \<longleftrightarrow> is = [] \<and> (\<exists>n anchor. int n \<le> max_links policy \<and> r = Some anchor \<and>
     issuer_path legacy (vp_resolver policy) (set (vp_trustAnchors policy)) now skew n start anchor)"
proof -
  have b: "k < nat (max_links policy + 1) \<longleftrightarrow> int k \<le> max_links policy" for k by linarith
  show ?thesis
    using trust_chain_sound [of legacy "vp_resolver policy" "set (vp_trustAnchors policy)" start now skew "nat (max_links policy + 1)" "{}" start "is" r]
      trust_chain_complete [of legacy "vp_resolver policy" "set (vp_trustAnchors policy)" now skew _ start _ "nat (max_links policy + 1)" "{}" start]
    unfolding validateTrustChain_def max_links_def [symmetric] b by auto
qed

section \<open>Verification decides acceptance\<close>

lemma check_resolved_iff:
  "check_resolved legacy host document policy p key now skew is = Inr (r, []) \<longleftrightarrow> is = [] \<and> key_usable legacy key p now skew \<and>
     (\<exists>n anchor. int n \<le> max_links policy \<and> r = Some anchor \<and>
        issuer_path legacy (vp_resolver policy) (set (vp_trustAnchors policy)) now skew n (vk_issuer key) anchor) \<and>
     not_revoked legacy (vp_resolver policy) now (vk_id key) \<and> not_revoked legacy (vp_resolver policy) now (vk_issuer key) \<and>
     not_revoked legacy (vp_resolver policy) now (documentId document) \<and>
     signer_bound document key \<and> verify_signature host document p key = Inr True" (is "?l \<longleftrightarrow> ?r")
proof -
  have "?l \<longleftrightarrow> (\<exists>is1 is2. checkKey legacy key p now skew is = Inr is1 \<and> validateTrustChain legacy (vk_issuer key) policy now skew is1 = (r, is2) \<and>
      checkSignature host document p key (checkSignerBinding document key
        (checkRevocation legacy (vp_resolver policy) [vk_id key, vk_issuer key, documentId document] now is2)) = [])"
    by (simp add: check_resolved_def exn_iff Let_def case_prod_unfold) (metis prod.collapse fst_conv snd_conv)
  also have "\<dots> \<longleftrightarrow> (\<exists>is1. checkKey legacy key p now skew is = Inr is1 \<and> validateTrustChain legacy (vk_issuer key) policy now skew is1 = (r, []) \<and>
      not_revoked legacy (vp_resolver policy) now (vk_id key) \<and> not_revoked legacy (vp_resolver policy) now (vk_issuer key) \<and>
      not_revoked legacy (vp_resolver policy) now (documentId document) \<and> signer_bound document key \<and> verify_signature host document p key = Inr True)"
    by (auto simp: issue_free)
  also have "\<dots> \<longleftrightarrow> ?r" unfolding validateTrustChain_iff using checkKey_Nil [of legacy key p now skew "is"] by blast
  finally show ?thesis .
qed

lemma parseProof_Some: "parseProof v [] = (Some p, is) \<longleftrightarrow> is = [] \<and> (\<exists>members. v = Some (JObj members) \<and> proof_fields members = Some p)"
  by (auto simp: parseProof_def split: option.splits json.splits)

lemma result_of_verified [simp]: "vr_verified (result_of p issuer is) \<longleftrightarrow> is = []"
  by (simp add: result_of_def)

text \<open>Every document takes one of three ways: an exception, a rejection that leaves the cache alone, or the replay cache.\<close>

lemma verifyDocument_cases:
  fixes cache :: 'c
  obtains (throws) e where "verifyDocument legacy clock host document policy cache = Inl e"
        "\<nexists>p key anchor. accepted legacy host document policy (policy_now clock policy) p key anchor"
    | (rejects) r where "verifyDocument legacy clock host document policy cache = Inr (r, cache)" "\<not> vr_verified r"
        "\<nexists>p key anchor. accepted legacy host document policy (policy_now clock policy) p key anchor"
    | (reaches) p key anchor where "accepted legacy host document policy (policy_now clock policy) p key anchor"
        "verifyDocument legacy clock host document policy cache =
           bindE (vp_checkAndStore policy cache (replayKey p (vp_expectedAudience policy)) (Date_parse legacy (op_expires p)) (policy_now clock policy))
             (\<lambda>(fresh, cache'). Inr (result_of p (Some anchor) (issue_if (\<not> fresh) REPLAY_DETECTED (lit ''proof nonce has already been accepted'') []), cache'))"
proof (cases "parseProof (jget document (lit ''proof'')) []")
  case (Pair po iss)
  show ?thesis
  proof (cases po)
    case None
    with Pair have "\<nexists>p key anchor. accepted legacy host document policy (policy_now clock policy) p key anchor"
      using parseProof_Some [of "jget document (lit ''proof'')"] by (fastforce simp: accepted_def Let_def)
    with None Pair show ?thesis by (intro rejects) (simp add: verifyDocument_def, simp, simp)
  next
    case (Some p)
    with Pair have i: "iss = []" by (auto simp: parseProof_Some)
    have only: "accepted legacy host document policy (policy_now clock policy) q key anchor \<Longrightarrow> q = p" for q key anchor
      using Some Pair by (auto simp: accepted_def Let_def parseProof_Some)
    let ?is = "check_proof legacy document policy p (policy_now clock policy) (policy_skew policy) []"
    note run = verifyDocument_def [of legacy clock host document policy cache, unfolded Pair Some i prod.case option.case Let_def]
    show ?thesis
    proof (cases "\<exists>key. resolveKey (vp_resolver policy) (op_verification_method p) = Inr (Some key)")
      case False
      then have "\<nexists>p key anchor. accepted legacy host document policy (policy_now clock policy) p key anchor"
        using only by (fastforce simp: accepted_def Let_def)
      with False show ?thesis
        by (cases "resolveKey (vp_resolver policy) (op_verification_method p)") (auto simp: run split: option.splits intro: rejects)
    next
      case True
      then obtain key where key: "resolveKey (vp_resolver policy) (op_verification_method p) = Inr (Some key)" by blast
      have resolved: "\<exists>anchor. check_resolved legacy host document policy p key (policy_now clock policy) (policy_skew policy) ?is = Inr (Some anchor, [])"
        if "accepted legacy host document policy (policy_now clock policy) q key' anchor" for q key' anchor
        using that only [OF that] key unfolding check_resolved_iff check_proof_Nil by (auto simp: accepted_def Let_def)
      show ?thesis
      proof (cases "check_resolved legacy host document policy p key (policy_now clock policy) (policy_skew policy) ?is")
        case (Inl e)
        then show ?thesis using resolved by (intro throws) (simp add: run key, auto)
      next
        case (Inr res)
        show ?thesis
        proof (cases "snd res = []")
          case True
          then have "res = (fst res, [])" by (simp add: prod_eq_iff)
          with Inr have "check_resolved legacy host document policy p key (policy_now clock policy) (policy_skew policy) ?is = Inr (fst res, [])" by simp
          from this [unfolded check_resolved_iff check_proof_Nil] obtain anchor where
            "accepted legacy host document policy (policy_now clock policy) p key anchor" "fst res = Some anchor"
            using Pair Some key by (auto simp: accepted_def Let_def parseProof_Some)
          then show ?thesis using Inr True by (intro reaches) (simp_all add: run key case_prod_unfold)
        next
          case False
          then have "\<nexists>p key anchor. accepted legacy host document policy (policy_now clock policy) p key anchor"
            using resolved Inr by fastforce
          then show ?thesis using Inr False by (intro rejects) (simp add: run key case_prod_unfold, simp, simp)
        qed
      qed
    qed
  qed
qed

lemma accepted_proof_unique:
  "accepted legacy host document policy now p key anchor \<Longrightarrow> accepted legacy host document policy now q key' anchor' \<Longrightarrow> p = q"
  by (auto simp: accepted_def Let_def)

end
