(* ===== verification/SignedText.thy ===== *)
theory SignedText
  imports TrustSpec
begin

text \<open>
  A signed document read back: the printed header is well-formed text, so decoding and parsing
  it gives the header again, the detached signature splits into its two parts, and what the
  verifier recomputes is exactly what was signed.
\<close>

section \<open>Well-formed text\<close>

lemma surrogates_disjoint: "is_high_surrogate c \<Longrightarrow> \<not> is_low_surrogate c"
  by (auto simp: is_high_surrogate_def is_low_surrogate_def word_le_def)

lemma well_formed_append: "well_formed a \<Longrightarrow> well_formed b \<Longrightarrow> well_formed (a @ b)"
proof (induction a rule: well_formed.induct)
  case (2 c)
  then show ?case by (cases b) auto
qed (auto split: if_splits)

definition plain_text :: "jstring \<Rightarrow> bool" where
  "plain_text s \<longleftrightarrow> list_all (\<lambda>c. \<not> is_high_surrogate c \<and> \<not> is_low_surrogate c) s"

lemma well_formed_plain: "plain_text s \<Longrightarrow> well_formed s"
  by (induction s rule: well_formed.induct) (auto simp: plain_text_def)

lemma scalar_plain: "plain_text s \<Longrightarrow> is_scalar s"
proof (induction s)
  case (Cons c s)
  then have "c < 0xd800 \<or> 0xdfff < c"
    by (auto simp: plain_text_def is_high_surrogate_def is_low_surrogate_def word_le_def word_less_def)
  with Cons show ?case by (auto simp: is_scalar_def plain_text_def)
qed (simp add: is_scalar_def)

lemma plain_unit_small: "c < 0xd800 \<Longrightarrow> \<not> is_high_surrogate c \<and> \<not> is_low_surrogate c"
  by (auto simp: is_high_surrogate_def is_low_surrogate_def word_le_def word_less_def)

lemma plain_text_append [simp]: "plain_text (a @ b) \<longleftrightarrow> plain_text a \<and> plain_text b"
  by (simp add: plain_text_def)

lemma plain_text_Cons [simp]: "plain_text (c # s) \<longleftrightarrow> (\<not> is_high_surrogate c \<and> \<not> is_low_surrogate c) \<and> plain_text s"
  by (simp add: plain_text_def)

lemma plain_text_Nil [simp]: "plain_text []"
  by (simp add: plain_text_def)

lemma of_char_small: "(of_char c :: code_unit) < 0xd800"
proof -
  have "unat (of_char c :: code_unit) < 256" unfolding of_char_word16_nat by (rule nat_of_char_less_256)
  then have "unat (of_char c :: code_unit) < unat (0xd800 :: code_unit)" by simp
  then show ?thesis by (simp only: word_less_nat_alt)
qed

lemma plain_text_lit [simp]: "plain_text (lit s)"
  using plain_unit_small [OF of_char_small] by (simp add: plain_text_def lit_def list_all_iff)

lemma hex_unit_small:
  assumes "d < 16"
  shows "hex_unit d < 0xd800"
proof -
  have "unat d < 16" using assms by (simp add: word_less_nat_alt)
  then have "unat (d + 48) < 0xd800" "unat (d + 87) < 0xd800" by (simp_all add: unat_word_ariths)
  then show ?thesis by (simp add: hex_unit_def word_less_nat_alt)
qed

lemma plain_u_escape: "plain_text (u_escape c)"
proof -
  have "uint c < 2 ^ 16" using unsigned_less [of c] by simp
  then have "c div 4096 < 16" "c div 256 mod 16 < 16" "c div 16 mod 16 < 16" "c mod 16 < 16"
    by (simp_all add: word_less_def uint_div uint_mod)
  then have "list_all (\<lambda>c. c < 0xd800) (u_escape c)" by (simp add: u_escape_def hex_unit_small)
  then show ?thesis unfolding plain_text_def list_all_iff using plain_unit_small by blast
qed

lemma plain_escape_unit: "\<not> is_high_surrogate c \<Longrightarrow> \<not> is_low_surrogate c \<Longrightarrow> plain_text (escape_unit c)"
  using plain_u_escape [of c] by (auto simp: escape_unit_def plain_unit_small)

lemma well_formed_quote_units: "well_formed (quote_units s)"
  by (induction s rule: quote_units.induct)
    (auto intro!: well_formed_append intro: well_formed_plain plain_u_escape plain_escape_unit)

lemma well_formed_quote: "well_formed (quote s)"
  unfolding quote_def by (intro well_formed_append well_formed_quote_units well_formed_plain) (simp_all add: plain_unit_small)

section \<open>The protected header\<close>

lemma header_canon: "canon (protected_header options) = protected_header options"
  by (simp add: protected_header_def own_members_def less_list_code)

lemma header_canonical_form: "canonical_form (protected_header options)"
  by (simp add: protected_header_def)

lemma header_text: "serializeCanonical (protected_header options) =
    [123] @ quote (lit ''alg'') @ [58] @ quote (so_algorithm options) @ [44] @ quote (lit ''b64'') @ [58] @ lit ''false'' @ [44] @ quote (lit ''crit'')
    @ [58, 91] @ quote (lit ''b64'') @ [93, 44] @ quote (lit ''kid'') @ [58] @ quote (so_verificationMethod options) @ [44] @ quote (lit ''typ'')
    @ [58] @ quote (lit ''oati+jws'') @ [125]"
  by (simp add: protected_header_def)

lemma header_well_formed: "well_formed (serializeCanonical (protected_header options))"
  unfolding header_text
  by (intro well_formed_append well_formed_quote well_formed_plain) (simp_all add: plain_unit_small)

lemma header_reads_back:
  "JSON_parse (TextDecoder_decode (TextEncoder_encode (serializeCanonical (protected_header options)))) = Inr (protected_header options)"
  using TextDecoder_encode [OF header_well_formed] JSON_parse_serialize [OF header_canonical_form]
  by (simp add: header_text)

section \<open>The detached signature\<close>

lemma url_units_no_dot: "list_all url_unit s \<Longrightarrow> 46 \<notin> set s"
  by (auto simp: list_all_iff url_unit_def is_digit_def is_upper_def is_lower_def)

lemma split_detached:
  "split_unit 46 (base64url a @ lit ''..'' @ base64url b) = [base64url a, [], base64url b]"
proof -
  have "lit ''..'' = [46, 46]" by (simp add: lit_def)
  then show ?thesis using url_units_no_dot [OF base64url_units] by (simp add: split_unit_once split_unit_none)
qed

end
