(* ===== verification/LookupProperties.thy ===== *)
theory LookupProperties
  imports Lookup SignedText
begin

text \<open>
  The lookup client keeps its cache bounded and only ever returns records that match the request,
  whether they come from the network or the cache; it makes a bounded number of requests and fails
  over to a resolver that answers.  \<open>record_source\<close> is the contract the trust resolver relies on.
\<close>

section \<open>Records\<close>

definition record_for :: "jstring \<Rightarrow> LookupSelector \<Rightarrow> jstring \<Rightarrow> PublicOatiRecord \<Rightarrow> bool" where
  "record_for type selector value r \<longleftrightarrow> isPublicRecord (Some (JObj r)) \<and> jget r (lit ''type'') = Some (JStr type) \<and> selectorMatches selector value r"

lemma jget_normalize: "k \<noteq> lit ''issued_at'' \<Longrightarrow> k \<noteq> lit ''expires_at'' \<Longrightarrow> jget (normalizePublicRecord r) k = jget r k"
  by (simp add: normalizePublicRecord_def put_optional_def Let_def split: option.splits)

lemma normalize_attributes [simp]: "public_attributes (normalizePublicRecord r) = public_attributes r"
  by (simp add: public_attributes_def jget_normalize)

lemma nullish_idem: "nonEmpty (nullish a b) \<Longrightarrow> nonEmpty (nullish (Some (the (nullish a b))) b)"
  by (auto simp: nonEmpty_def nullish_def split: if_splits)

lemma jget_normalize_key:
  assumes "jget r (lit ''type'') = Some (JStr (lit ''key''))" and "validTypedRecord r"
  shows "jget (normalizePublicRecord r) (lit ''issued_at'') = nullish (jget r (lit ''issued_at'')) (jget (public_attributes r) (lit ''valid_from''))"
    and "jget (normalizePublicRecord r) (lit ''expires_at'') = nullish (jget r (lit ''expires_at'')) (jget (public_attributes r) (lit ''valid_until''))"
  using assms by (auto simp: normalizePublicRecord_def put_optional_def validTypedRecord_def nonEmpty_def Let_def)

lemma validTypedRecord_normalize: "validTypedRecord r \<Longrightarrow> validTypedRecord (normalizePublicRecord r)"
proof (cases "jget r (lit ''type'') = Some (JStr (lit ''key''))")
  case True
  assume v: "validTypedRecord r"
  show ?thesis using v True jget_normalize_key [OF True v]
    by (auto simp: validTypedRecord_def Let_def jget_normalize nonEmpty_def nullish_def split: if_splits)
qed (simp add: normalizePublicRecord_def)

lemma record_for_normalize:
  assumes "isPublicRecord (Some (JObj r))" and "selectorMatches selector value r" and "jget r (lit ''type'') = Some (JStr type)"
  shows "record_for type selector value (normalizePublicRecord r)"
  using assms validTypedRecord_normalize [of r]
  by (cases selector) (simp_all add: record_for_def isPublicRecord_def selectorMatches_def jget_normalize)

section \<open>Responses\<close>

definition entry_for :: "jstring \<Rightarrow> LookupSelector \<Rightarrow> jstring \<Rightarrow> CacheEntry \<Rightarrow> bool" where
  "entry_for type selector value c \<longleftrightarrow> (\<forall>r. ce_content c = Found r \<longrightarrow> record_for type selector value r)"

definition cached_for :: "jstring \<Rightarrow> LookupSelector \<Rightarrow> jstring \<Rightarrow> CacheEntry option \<Rightarrow> bool" where
  "cached_for type selector value cached \<longleftrightarrow> (\<forall>c. cached = Some c \<longrightarrow> entry_for type selector value c)"

lemma accept_response_record:
  assumes "accept_response client net n type selector value cached response = Inr out" and "cached_for type selector value cached"
  shows "record_for type selector value (ro_record out)"
proof (cases "revalidates response cached")
  case (Some cr)
  with assms show ?thesis
    by (cases cr) (auto simp: accept_response_def exn_iff Let_def revalidates_def cached_for_def entry_for_def
      split: if_splits option.splits entry_content.splits)
next
  case None
  with assms(1) obtain payload q where "isPublicRecord payload" "as_object payload = Some q" "selectorMatches selector value q"
    "jget q (lit ''type'') = Some (JStr type)" "ro_record out = normalizePublicRecord q"
    by (auto simp: accept_response_def exn_iff Let_def split: if_splits option.splits)
  then show ?thesis by (auto intro: record_for_normalize)
qed

lemma requestOnce_record:
  assumes "requestOnce client net options url type selector value cached n = Inr out" and "cached_for type selector value cached"
  shows "record_for type selector value (ro_record out)"
proof -
  from assms(1) obtain response where "accept_response client net n type selector value cached response = Inr out"
    by (auto simp: requestOnce_def exn_iff split: if_splits fetch_outcome.splits)
  with assms(2) show ?thesis by (rule accept_response_record [rotated])
qed

text \<open>What a run of retries returns, one request returned; and the requests are counted.\<close>

lemma retry_loop_result:
  "retry_loop client net options url type selector value cached left attempt lastError n = (Inr out, n') \<Longrightarrow>
   \<exists>m. requestOnce client net options url type selector value cached m = Inr out"
proof (induction left arbitrary: attempt lastError n)
  case 0
  then show ?case by (subst (asm) retry_loop.simps) (auto split: if_splits sum.splits)
next
  case (Suc left)
  then show ?case by (subst (asm) retry_loop.simps) (auto split: if_splits sum.splits)
qed

lemma retry_loop_requests:
  "retry_loop client net options url type selector value cached left attempt lastError n = (r, n') \<Longrightarrow> n \<le> n' \<and> n' \<le> n + Suc left"
proof (induction left arbitrary: attempt lastError n)
  case 0
  then show ?case by (subst (asm) retry_loop.simps) (auto split: if_splits sum.splits)
next
  case (Suc left)
  from Suc.prems have "n' = n \<or> n' = Suc n \<or>
      (\<exists>e. retry_loop client net options url type selector value cached left (Suc attempt) (Some e) (Suc n) = (r, n'))"
    by (subst (asm) retry_loop.simps) (auto split: if_splits sum.splits)
  then show ?case using Suc.IH by fastforce
qed

lemmas requestWithRetry_result = retry_loop_result [where client = client and left = "rt_maxRetries (lc_retries client)" and attempt = 0 and lastError = None,
    folded requestWithRetry_def] for client
lemmas requestWithRetry_requests = retry_loop_requests [where client = client and left = "rt_maxRetries (lc_retries client)" and attempt = 0 and lastError = None,
    folded requestWithRetry_def] for client

section \<open>The cache invariant\<close>

definition bounded :: "lookup_client \<Rightarrow> cache_entries \<Rightarrow> bool" where
  "bounded client entries \<longleftrightarrow> (case lc_cacheOptions client of None \<Rightarrow> entries = [] | Some c \<Rightarrow> length entries \<le> co_maxEntries c)"

definition entries_match :: "cache_entries \<Rightarrow> bool" where
  "entries_match entries \<longleftrightarrow> (\<forall>(k, c) \<in> set entries. \<exists>type selector value.
     type \<in> set OATI_RECORD_TYPES \<and> k = cacheKey type selector value \<and> entry_for type selector value c)"

definition client_inv :: "lookup_client \<Rightarrow> client_state \<Rightarrow> bool" where
  "client_inv client st \<longleftrightarrow> om_wf (cs_entries st) \<and> bounded client (cs_entries st) \<and> entries_match (cs_entries st)"

text \<open>Cache keys are unambiguous: neither a record type nor a selector contains the separator.\<close>

lemma separated_eq: "0 \<notin> set a \<Longrightarrow> 0 \<notin> set b \<Longrightarrow> a @ 0 # s = b @ 0 # t \<longleftrightarrow> a = b \<and> s = (t :: jstring)"
proof (induction a arbitrary: b)
  case Nil
  then show ?case by (cases b) auto
next
  case (Cons x a)
  then show ?case by (cases b) auto
qed

lemma of_char_zero: "(of_char c :: code_unit) = 0 \<longleftrightarrow> c = CHR 0x00"
proof -
  have "(0 :: code_unit) = of_char (CHR 0x00)" by simp
  then show ?thesis by (metis of_char_word16_eq_iff)
qed

lemma type_no_separator: "t \<in> set OATI_RECORD_TYPES \<Longrightarrow> 0 \<notin> set t"
  by (auto simp: OATI_RECORD_TYPES_def lit_def)

lemma selector_no_separator: "0 \<notin> set (selector_text s)"
  by (cases s) (auto simp: selector_text_def lit_def)

lemma cacheKey_eq_iff:
  "t \<in> set OATI_RECORD_TYPES \<Longrightarrow> t' \<in> set OATI_RECORD_TYPES \<Longrightarrow> cacheKey t s v = cacheKey t' s' v' \<longleftrightarrow> t = t' \<and> s = s' \<and> v = v'"
proof -
  assume t: "t \<in> set OATI_RECORD_TYPES" "t' \<in> set OATI_RECORD_TYPES"
  have "selector_text s = selector_text s' \<longleftrightarrow> s = s'" by (cases s; cases s') (simp_all add: selector_text_def)
  then show ?thesis unfolding cacheKey_def append_Cons append_Nil separated_eq [OF type_no_separator [OF t(1)] type_no_separator [OF t(2)]]
    separated_eq [OF selector_no_separator selector_no_separator] by simp
qed

lemma entries_match_lookup:
  assumes "entries_match entries" and "type \<in> set OATI_RECORD_TYPES" and "map_of entries (cacheKey type selector value) = Some c"
  shows "entry_for type selector value c"
proof -
  from map_of_SomeD [OF assms(3)] assms(1) obtain t s v where "t \<in> set OATI_RECORD_TYPES"
    "cacheKey type selector value = cacheKey t s v" "entry_for t s v c" by (auto simp: entries_match_def)
  with assms(2) show ?thesis by (simp add: cacheKey_eq_iff)
qed

lemma om_delete_head: "om_wf es \<Longrightarrow> es \<noteq> [] \<Longrightarrow> om_delete (fst (hd es)) es = tl es"
proof (cases es)
  case (Cons e es')
  assume "om_wf es"
  with Cons have "fst e \<notin> fst ` set es'" by (simp add: om_wf_def om_keys_def)
  then have "filter (\<lambda>(k, _). k \<noteq> fst e) es' = es'" by (induction es') auto
  with Cons show ?thesis by (cases e) (simp add: om_delete_def)
qed simp

lemma evict_drop: "om_wf entries \<Longrightarrow> evict m entries = drop (length entries - m) entries"
proof (induction m entries rule: evict.induct)
  case (1 m entries)
  show ?case
  proof (cases "m < length entries")
    case True
    then have ne: "entries \<noteq> []" by auto
    with 1 True have "evict m entries = drop (length (tl entries) - m) (tl entries)"
      by (subst evict.simps) (simp add: om_delete_head)
    also have "\<dots> = drop (length entries - m) entries"
      using True ne by (simp add: drop_Suc [symmetric] Suc_diff_Suc)
    finally show ?thesis .
  qed (subst evict.simps, simp)
qed

lemma entries_match_mono: "entries_match es \<Longrightarrow> set es' \<subseteq> set es \<Longrightarrow> entries_match es'"
  by (auto simp: entries_match_def)

lemma entries_match_Cons: "type \<in> set OATI_RECORD_TYPES \<Longrightarrow> entry_for type selector value c \<Longrightarrow> entries_match es \<Longrightarrow>
    entries_match ((cacheKey type selector value, c) # es)"
  unfolding entries_match_def list.set ball_simps prod.case by blast

lemma store_inv:
  assumes "om_wf entries" and "bounded client entries" and "entries_match entries"
    and "type \<in> set OATI_RECORD_TYPES" and "entry_for type selector value c"
  shows "om_wf (store client (cacheKey type selector value) c entries)" "bounded client (store client (cacheKey type selector value) c entries)"
    "entries_match (store client (cacheKey type selector value) c entries)"
proof -
  let ?k = "cacheKey type selector value"
  have m: "entries_match (om_set ?k c (om_delete ?k entries))"
    by (rule entries_match_mono [OF entries_match_Cons [OF assms(4,5,3)]]) (auto simp: om_set_def om_delete_def)
  have wf: "om_wf (om_set ?k c (om_delete ?k entries))" using assms(1) by simp
  show "om_wf (store client ?k c entries)" using assms(1) wf by (auto simp: store_def evict_drop split: option.splits)
  show "bounded client (store client ?k c entries)" using assms(2) wf by (auto simp: store_def bounded_def evict_drop split: option.splits)
  show "entries_match (store client ?k c entries)"
  proof (cases "lc_cacheOptions client")
    case (Some options)
    have "set (evict (co_maxEntries options) (om_set ?k c (om_delete ?k entries))) \<subseteq> set (om_set ?k c (om_delete ?k entries))"
      unfolding evict_drop [OF wf] by (rule set_drop_subset)
    with m Some show ?thesis by (simp add: store_def entries_match_mono)
  qed (use assms(3) in \<open>simp add: store_def\<close>)
qed

lemma touch_inv:
  assumes "om_wf entries" and "bounded client entries" and "entries_match entries" and "map_of entries k = Some c"
  shows "om_wf (touch entries k c)" "bounded client (touch entries k c)" "entries_match (touch entries k c)"
proof -
  have mem: "(k, c) \<in> set entries" using assms(4) by (rule map_of_SomeD)
  then have sub: "set (touch entries k c) \<subseteq> set entries" by (auto simp: touch_def om_set_def om_delete_def)
  show "om_wf (touch entries k c)" using assms(1) by (simp add: touch_def)
  show "entries_match (touch entries k c)" using assms(3) sub by (rule entries_match_mono)
  have "k \<notin> set (om_keys (om_delete k entries))" by (simp add: om_keys_delete)
  moreover have "length (om_delete k entries) < length entries"
    unfolding om_delete_def by (rule length_filter_less [OF mem]) simp
  ultimately have "length (touch entries k c) \<le> length entries" by (simp add: touch_def length_om_set)
  with assms(2) mem show "bounded client (touch entries k c)" by (auto simp: bounded_def split: option.splits)
qed

section \<open>Lookups keep the invariant and return matching records\<close>

lemma client_inv_requests [simp]: "client_inv client (st\<lparr>cs_requests := n\<rparr>) = client_inv client st"
  by (simp add: client_inv_def)

lemma client_inv_store:
  "client_inv client st \<Longrightarrow> type \<in> set OATI_RECORD_TYPES \<Longrightarrow> entry_for type selector value c \<Longrightarrow>
   client_inv client (st\<lparr>cs_requests := n, cs_entries := store client (cacheKey type selector value) c (cs_entries st)\<rparr>)"
  using store_inv by (simp add: client_inv_def)

lemma try_resolvers_inv:
  assumes "try_resolvers client net options type selector value cached urls lastError st = (r, st')"
    and "client_inv client st" and "type \<in> set OATI_RECORD_TYPES" and "cached_for type selector value cached"
  shows "client_inv client st' \<and> (\<forall>response. r = Inr response \<longrightarrow> record_for type selector value (lr_record response))"
  using assms
proof (induction urls arbitrary: lastError st)
  case (Cons url urls)
  obtain q n where q: "requestWithRetry client net options url type selector value (reusable options cached url) (cs_requests st) = (q, n)"
    by fastforce
  have c: "cached_for type selector value (reusable options cached url)"
    using Cons.prems(4) by (auto simp: cached_for_def reusable_def split: option.splits if_splits)
  show ?case
  proof (cases q)
    case (Inr out)
    with q have "\<exists>m. requestOnce client net options url type selector value (reusable options cached url) m = Inr out"
      by (auto dest: requestWithRetry_result)
    then have rec: "record_for type selector value (ro_record out)" using requestOnce_record [OF _ c] by blast
    then show ?thesis using Cons.prems(1-3) Inr q client_inv_store
      by (auto simp: Let_def entry_for_def split: if_splits)
  next
    case (Inl e)
    show ?thesis
    proof (cases "\<exists>code. lookup_code e = Some code \<and> code \<notin> {LOOKUP_CANCELLED, LOOKUP_BAD_REQUEST, LOOKUP_INVALID_RESPONSE, LOOKUP_NOT_FOUND}")
      case True
      then have "try_resolvers client net options type selector value cached urls (Some e) (st\<lparr>cs_requests := n\<rparr>) = (r, st')"
        using Cons.prems(1) Inl q by (auto simp: Let_def)
      from Cons.IH [OF this] Cons.prems(2-4) show ?thesis by simp
    next
      case False
      then show ?thesis using Cons.prems(1-3) Inl q client_inv_store
        by (auto simp: Let_def entry_for_def negative_entry_def split: if_splits option.splits)
    qed
  qed
qed (auto split: option.splits)

lemma validateInput_type: "validateInput type value = Inr u \<Longrightarrow> type \<in> set OATI_RECORD_TYPES"
  by (auto simp: validateInput_def split: if_splits)

lemma lookupSelectedDetailed_inv:
  assumes "lookupSelectedDetailed client net options type selector value st = (r, st')" and "client_inv client st"
  shows "client_inv client st' \<and> (\<forall>response. r = Inr response \<longrightarrow> record_for type selector value (lr_record response))"
proof (cases "validateInput type value")
  case (Inr u)
  let ?key = "cacheKey type selector value" and ?cached = "map_of (cs_entries st) (cacheKey type selector value)"
  have t: "type \<in> set OATI_RECORD_TYPES" using Inr by (rule validateInput_type)
  have c: "cached_for type selector value ?cached"
    using assms(2) entries_match_lookup [OF _ t] by (auto simp: cached_for_def client_inv_def)
  from assms(1) Inr have "st' = st \<and> r = Inl cancelled \<or>
      (\<exists>e. ?cached = Some e \<and> st' = st\<lparr>cs_entries := touch (cs_entries st) ?key e\<rparr> \<and> (\<forall>x. r = Inr x \<longrightarrow> ce_content e = Found (lr_record x))) \<or>
      try_resolvers client net options type selector value ?cached (lc_resolverUrls client) None st = (r, st')"
    unfolding lookupSelectedDetailed_def Let_def
    by (cases ?cached) (auto split: if_splits entry_content.splits)
  then consider "st' = st" "r = Inl cancelled"
    | e where "?cached = Some e" "st' = st\<lparr>cs_entries := touch (cs_entries st) ?key e\<rparr>" "\<forall>x. r = Inr x \<longrightarrow> ce_content e = Found (lr_record x)"
    | "try_resolvers client net options type selector value ?cached (lc_resolverUrls client) None st = (r, st')"
    by blast
  then show ?thesis
  proof cases
    case 1
    then show ?thesis using assms(2) by simp
  next
    case (2 e)
    then show ?thesis using assms(2) c touch_inv [of "cs_entries st" client ?key e]
      by (auto simp: client_inv_def cached_for_def entry_for_def)
  next
    case 3
    then show ?thesis by (rule try_resolvers_inv [OF _ assms(2) t c])
  qed
qed (use assms in \<open>auto simp: lookupSelectedDetailed_def\<close>)

lemma clear_inv:
  assumes "client_inv client st"
  shows "client_inv client (st\<lparr>cs_entries := clearCache type i (cs_entries st)\<rparr>)"
    and "client_inv client (st\<lparr>cs_entries := clearRevocationTargetCache target (cs_entries st)\<rparr>)"
proof -
  have filtered: "client_inv client (st\<lparr>cs_entries := filter P (cs_entries st)\<rparr>)" for P
    using assms by (auto simp: client_inv_def bounded_def entries_match_def intro: le_trans [OF length_filter_le] split: option.splits)
  have deleted: "client_inv client (st\<lparr>cs_entries := om_delete k (cs_entries st)\<rparr>)" for k
    unfolding om_delete_def by (rule filtered)
  show "client_inv client (st\<lparr>cs_entries := clearCache type i (cs_entries st)\<rparr>)"
    using filtered deleted by (auto simp: clearCache_def split: option.splits) (auto simp: client_inv_def bounded_def entries_match_def split: option.splits)
  show "client_inv client (st\<lparr>cs_entries := clearRevocationTargetCache target (cs_entries st)\<rparr>)"
    using filtered deleted by (auto simp: clearRevocationTargetCache_def split: option.splits)
qed

section \<open>Clients in use\<close>

definition new_client_state :: client_state where
  "new_client_state = \<lparr>cs_entries = [], cs_requests = 0\<rparr>"

inductive lookup_run :: "lookup_client \<Rightarrow> network \<Rightarrow> client_state \<Rightarrow> bool" for client net where
  created: "lookup_run client net new_client_state"
| looked_up: "lookup_run client net st \<Longrightarrow> lookup_run client net (snd (lookupSelectedDetailed client net options type selector value st))"
| discovered: "lookup_run client net st \<Longrightarrow>
    lookup_run client net (st\<lparr>cs_requests := snd (discoverOrganisation client net encode validate options organisation (cs_requests st))\<rparr>)"
| cleared: "lookup_run client net st \<Longrightarrow> lookup_run client net (st\<lparr>cs_entries := clearCache t i (cs_entries st)\<rparr>)"
| cleared_target: "lookup_run client net st \<Longrightarrow> lookup_run client net (st\<lparr>cs_entries := clearRevocationTargetCache target (cs_entries st)\<rparr>)"

lemma lookup_run_inv: "lookup_run client net st \<Longrightarrow> client_inv client st"
proof (induction rule: lookup_run.induct)
  case created
  then show ?case by (simp add: new_client_state_def client_inv_def bounded_def entries_match_def split: option.splits)
next
  case (looked_up st options type selector "value")
  then show ?case using lookupSelectedDetailed_inv [of client net options type selector "value" st]
    by (cases "lookupSelectedDetailed client net options type selector value st") simp
qed (simp_all add: clear_inv)

section \<open>How many requests\<close>

lemma try_resolvers_requests:
  "try_resolvers client net options type selector value cached urls lastError st = (r, st') \<Longrightarrow>
   cs_requests st' \<le> cs_requests st + length urls * Suc (rt_maxRetries (lc_retries client))"
proof (induction urls arbitrary: lastError st)
  case (Cons url urls)
  obtain q n where q: "requestWithRetry client net options url type selector value (reusable options cached url) (cs_requests st) = (q, n)"
    by fastforce
  have n: "n \<le> cs_requests st + Suc (rt_maxRetries (lc_retries client))" using requestWithRetry_requests [OF q] by simp
  from Cons.prems q have "cs_requests st' = n \<or>
      (\<exists>e. try_resolvers client net options type selector value cached urls (Some e) (st\<lparr>cs_requests := n\<rparr>) = (r, st'))"
    by (cases q) (auto simp: Let_def split: if_splits option.splits)
  then show ?case
  proof
    assume "\<exists>e. try_resolvers client net options type selector value cached urls (Some e) (st\<lparr>cs_requests := n\<rparr>) = (r, st')"
    then have "cs_requests st' \<le> n + length urls * Suc (rt_maxRetries (lc_retries client))" using Cons.IH by fastforce
    with n show ?thesis by simp
  qed (use n in simp)
qed auto

lemma lookupSelectedDetailed_requests:
  "lookupSelectedDetailed client net options type selector value st = (r, st') \<Longrightarrow>
   cs_requests st' \<le> cs_requests st + length (lc_resolverUrls client) * Suc (rt_maxRetries (lc_retries client))"
proof -
  assume run: "lookupSelectedDetailed client net options type selector value st = (r, st')"
  let ?cached = "map_of (cs_entries st) (cacheKey type selector value)"
  from run have "cs_requests st' = cs_requests st \<or>
      try_resolvers client net options type selector value ?cached (lc_resolverUrls client) None st = (r, st')"
    unfolding lookupSelectedDetailed_def Let_def
    by (cases "validateInput type value"; cases ?cached) (auto split: if_splits)
  then show ?thesis using try_resolvers_requests [of client net options type selector "value" ?cached "lc_resolverUrls client" None st r st'] by auto
qed

lemma num_min_le: "num_min a b \<noteq> NaN \<Longrightarrow> num_le (num_min a b) b"
  by (cases a; cases b) (auto simp: num_min_def num_le_def num_eq_def split: if_splits)

lemma retryDelay_le: "retryDelay e n retry \<noteq> NaN \<Longrightarrow> num_le (retryDelay e n retry) (rt_maxDelayMs retry)"
  using num_min_le by (auto simp: retryDelay_def split: option.splits)

section \<open>Failover\<close>

text \<open>A resolver that cannot be reached, and one that answers every request.\<close>

definition unreachable :: "network \<Rightarrow> jstring \<Rightarrow> bool" where
  "unreachable net url \<longleftrightarrow> net_url net (url @ lit ''/lookup'') \<noteq> None \<and> (\<forall>n rq. rq_url rq = url @ lit ''/lookup'' \<longrightarrow> net_fetch net n rq = FetchThrows)"

definition answers_with :: "lookup_client \<Rightarrow> network \<Rightarrow> jstring \<Rightarrow> jstring \<Rightarrow> LookupSelector \<Rightarrow> jstring \<Rightarrow> http_response \<Rightarrow> bool" where
  "answers_with client net url type selector value response \<longleftrightarrow> net_url net (url @ lit ''/lookup'') \<noteq> None \<and>
     (\<forall>n rq. rq_url rq = url @ lit ''/lookup'' \<longrightarrow> net_fetch net n rq = Responded response) \<and>
     (\<forall>n. \<exists>out. accept_response client net n type selector value None response = Inr out)"

definition undisturbed :: "network \<Rightarrow> bool" where
  "undisturbed net \<longleftrightarrow> (\<forall>n. \<not> net_aborted net n) \<and> (\<forall>n ms. net_delay net n ms)"

lemma lookup_error_retryable:
  "lookup_code (lookup_error c m opts) = Some c" "retryable (lookup_error c m opts) = retryable_code c"
  by (simp_all add: lookup_error_def OatiLookupError_def OatiError_def retryable_def)

lemma unreachable_request:
  assumes "unreachable net url" and "undisturbed net" and "lo_timeoutMs options = None"
  shows "\<exists>e. requestOnce client net options url type selector value cached n = Inl e \<and> retryable e \<and>
     lookup_code e \<in> {Some LOOKUP_TIMEOUT, Some LOOKUP_UNAVAILABLE}"
  using assms by (auto simp: requestOnce_def unreachable_def undisturbed_def rethrow_def classify_failure_def lookup_error_retryable retryable_code_def)

lemma unreachable_retries:
  assumes "unreachable net url" and "undisturbed net" and "lo_timeoutMs options = None"
  shows "\<exists>e m. retry_loop client net options url type selector value cached left attempt lastError n = (Inl e, m) \<and>
     lookup_code e \<in> {Some LOOKUP_TIMEOUT, Some LOOKUP_UNAVAILABLE}"
proof (induction left arbitrary: attempt lastError n)
  case 0
  show ?case using unreachable_request [OF assms, of client type selector "value" cached n] assms(2)
    by (subst retry_loop.simps) (auto simp: undisturbed_def)
next
  case (Suc left)
  obtain e where e: "requestOnce client net options url type selector value cached n = Inl e" "retryable e"
    using unreachable_request [OF assms, of client type selector "value" cached n] by blast
  then show ?case using Suc.IH [of "Suc attempt" "Some e" "Suc n"] assms(2)
    by (subst retry_loop.simps) (simp add: undisturbed_def)
qed

lemma failover:
  assumes "undisturbed net" and "lo_timeoutMs options = None" and "\<forall>u \<in> set before. unreachable net u"
    and "answers_with client net url type selector value response"
  shows "\<exists>out st'. try_resolvers client net options type selector value None (before @ url # after) lastError st = (Inr out, st') \<and> lr_resolverUrl out = url"
  using assms(3)
proof (induction before arbitrary: lastError st)
  case Nil
  obtain out where out: "accept_response client net (cs_requests st) type selector value None response = Inr out"
    using assms(4) unfolding answers_with_def by blast
  have "requestOnce client net options url type selector value None (cs_requests st) = Inr out"
    using assms(2,4) out by (auto simp: requestOnce_def answers_with_def rethrow_def)
  then have "requestWithRetry client net options url type selector value None (cs_requests st) = (Inr out, Suc (cs_requests st))"
    unfolding requestWithRetry_def by (subst retry_loop.simps) simp
  then show ?case by (simp add: reusable_def Let_def)
next
  case (Cons u us)
  obtain e m where e: "requestWithRetry client net options u type selector value None (cs_requests st) = (Inl e, m)"
    "lookup_code e \<in> {Some LOOKUP_TIMEOUT, Some LOOKUP_UNAVAILABLE}"
    using unreachable_retries [OF _ assms(1,2)] Cons.prems unfolding requestWithRetry_def by (metis list.set_intros(1))
  obtain out st' where "try_resolvers client net options type selector value None (us @ url # after) (Some e) (st\<lparr>cs_requests := m\<rparr>) = (Inr out, st')"
    "lr_resolverUrl out = url" using Cons.IH Cons.prems by (metis list.set_intros(2))
  with e show ?case by (auto simp: reusable_def Let_def)
qed

end
