(* ===== verification/VerificationProperties.thy ===== *)
theory VerificationProperties
  imports SignedText
begin

text \<open>
  Properties of signing and verification: the verdict of \<open>verifyDocument\<close>, a signed document
  passes its own signature check, and the replay cache, with the contract of a replay cache as a
  locale that \<open>MemoryReplayCache\<close> implements.
\<close>

section \<open>Signing, then verifying\<close>

definition audience_texts :: "audience \<Rightarrow> jstring list" where
  "audience_texts a = (case a of Audience s \<Rightarrow> [s] | Audiences ss \<Rightarrow> ss)"

text \<open>Options whose texts are well formed and whose audiences are all named.\<close>

definition plain_options :: "SigningOptions \<Rightarrow> bool" where
  "plain_options options \<longleftrightarrow> is_scalar (so_verificationMethod options) \<and> is_scalar (so_nonce options) \<and>
     list_all (\<lambda>s. is_scalar s \<and> s \<noteq> []) (audience_texts (so_audience options))"

text \<open>A document that has a canonical text.\<close>

definition canonical_document :: "jobject \<Rightarrow> bool" where
  "canonical_document d \<longleftrightarrow> i_json (JObj d) \<and> depth_le 256 (JObj d) \<and> unique_keys (JObj d)"

lemma digit_small: "is_digit c \<Longrightarrow> c < 0xd800"
  by (simp add: is_digit_unat word_less_nat_alt)

lemma pad_digits_plain: "0 \<le> n \<Longrightarrow> plain_text (pad_digits k n)"
proof -
  assume "0 \<le> n"
  then have "list_all is_digit (pad_digits k n)" by (simp add: pad_digits_def padStart_def)
  then show ?thesis unfolding plain_text_def list_all_iff using plain_unit_small [OF digit_small] by blast
qed

lemma toISOString_plain: "plain_text (toISOString t)"
proof -
  define z where "z = t div 86400000"
  define y where "y = year_from_days z"
  have y: "days_from_civil y 1 1 \<le> z" "z < days_from_civil (y + 1) 1 1" using year_from_days [of z] by (simp_all add: y_def)
  note m = month_from_days [OF y]
  have "plain_text (year_text y)" by (auto simp: year_text_def pad_digits_plain plain_unit_small)
  with m show ?thesis
    by (simp add: toISOString_def Let_def z_def [symmetric] y_def [symmetric] pad_digits_plain plain_unit_small
      pos_imp_zdiv_nonneg_iff)
qed

lemma signing_window_Inr:
  assumes "signing_window legacy now options = Inr (created, expires)"
  shows "so_algorithm options \<in> {EdDSA, ES256}" "so_verificationMethod options \<noteq> []" "16 \<le> length (so_nonce options)"
    "normalizeAudience (Some (audience_json (so_audience options))) \<noteq> []" "created < expires"
  using assms by (auto simp: signing_window_def exn_iff OATI_SUPPORTED_ALGORITHMS_def trim_def split: if_splits)

lemma proof_members_canonical:
  assumes "plain_options options" and "signing_window legacy now options = Inr (created, expires)" and "canonical_document d"
  shows "canonical_document (put_member (lit ''proof'') (JObj (proof_members options created expires)) d)"
proof -
  let ?p = "JObj (proof_members options created expires)"
  have alg: "is_scalar (so_algorithm options)" "is_scalar (suite (so_algorithm options))"
    using signing_window_Inr(1) [OF assms(2)] by (auto simp: suite_def scalar_plain)
  have aud: "i_json (audience_json (so_audience options))" "depth_le 254 (audience_json (so_audience options))"
    "unique_keys (audience_json (so_audience options))"
    using assms(1) by (auto simp: plain_options_def audience_texts_def audience_json_def list_all_iff split: audience.splits)
  have "i_json ?p \<and> depth_le 255 ?p \<and> unique_keys ?p"
    using assms(1) alg aud by (simp add: proof_members_def plain_options_def scalar_plain toISOString_plain OATI_PROOF_TYPE_def)
  then show ?thesis using assms(3) by (auto simp: canonical_document_def scalar_plain intro!: put_member_list_all distinct_put_member)
qed

definition signed_proof :: "SigningOptions \<Rightarrow> int \<Rightarrow> int \<Rightarrow> byte list \<Rightarrow> OatiJwsProof" where
  "signed_proof options created expires s =
     (let text = base64url (TextEncoder_encode (serializeCanonical (protected_header options))) @ lit ''..'' @ base64url s in
      \<lparr>op_algorithm = so_algorithm options, op_created = toISOString created, op_expires = toISOString expires,
       op_verification_method = so_verificationMethod options, op_audience = audience_json (so_audience options),
       op_nonce = so_nonce options, op_signature = text,
       op_members = proof_members options created expires @ [(lit ''signature'', JStr text)]\<rparr>)"

lemma header_bytes_not_Nil: "TextEncoder_encode (serializeCanonical (protected_header options)) \<noteq> []"
proof
  assume "TextEncoder_encode (serializeCanonical (protected_header options)) = []"
  then have "TextDecoder_decode (TextEncoder_encode (serializeCanonical (protected_header options))) = []"
    by (simp add: TextDecoder_decode_def utf8_decode.simps)
  then show False using TextDecoder_encode [OF header_well_formed, of options] by (simp add: header_text)
qed

lemma detached_signed:
  assumes "length s = 64"
  shows "detached_jws (base64url (TextEncoder_encode (serializeCanonical (protected_header options))) @ lit ''..'' @ base64url s)"
proof -
  have "s \<noteq> []" using assms by auto
  then show ?thesis
    unfolding detached_jws_def split_detached using base64url_not_Nil header_bytes_not_Nil base64url_units by simp
qed

lemma signed_proof_parses:
  assumes "signing_window legacy now options = Inr (created, expires)" and "plain_options options" and "length s = 64"
  shows "proof_fields (op_members (signed_proof options created expires s)) = Some (signed_proof options created expires s)"
proof -
  have "case audience_json (so_audience options) of JArr xs \<Rightarrow> list_all (\<lambda>x. nonempty_text x \<noteq> None) xs | _ \<Rightarrow> True"
    using assms(2) by (auto simp: plain_options_def audience_json_def audience_texts_def list_all_iff split: audience.splits)
  then show ?thesis
    using signing_window_Inr [OF assms(1)] detached_signed [OF assms(3), of options]
    by (simp add: signed_proof_def Let_def proof_fields_def proof_members_def jget_def OATI_SUPPORTED_ALGORITHMS_def del: append_assoc)
qed

lemma signed_header_matches: "header_matches (protected_header options) (signed_proof options created expires s) = Inr True"
  by (simp add: protected_header_def signed_proof_def Let_def jget_def)

lemma withoutSignature_signed: "withoutSignature (signed_proof options created expires s) = proof_members options created expires"
  by (simp add: withoutSignature_def signed_proof_def Let_def drop_member_append) (simp add: drop_member_def proof_members_def)

lemma header_json: "so_algorithm options \<in> {EdDSA, ES256} \<Longrightarrow> is_scalar (so_verificationMethod options) \<Longrightarrow>
    canonicalJson_tree (protected_header options) = Inr (serializeCanonical (protected_header options))"
  using canonicalJson_tree_complete [of "protected_header options"]
  by (auto simp: header_canon) (auto simp: protected_header_def scalar_plain)

lemma verify_signature_signed:
  assumes "length s = 64" and "canonical_document (put_member (lit ''proof'') (JObj (proof_members options created expires)) d)"
    and "payload = serializeCanonical (canon (JObj (put_member (lit ''proof'') (JObj (proof_members options created expires)) d)))"
    and "subtle_importKey c (vk_publicKeyJwk key) (webCryptoImportAlgorithm (so_algorithm options)) (lit ''verify'') = Inr k"
    and "subtle_verify c (webCryptoAlgorithm (so_algorithm options)) k s
       (joinSigningInput (base64url (TextEncoder_encode (serializeCanonical (protected_header options)))) (TextEncoder_encode payload)) = Inr b"
  shows "verify_signature (Some c) (put_member (lit ''proof'') (JObj (op_members (signed_proof options created expires s))) d)
     (signed_proof options created expires s) key = Inr b"
proof -
  let ?p = "signed_proof options created expires s"
  have s: "s \<noteq> []" using assms(1) by auto
  have split: "split_unit 46 (op_signature ?p) = [base64url (TextEncoder_encode (serializeCanonical (protected_header options))), [], base64url s]"
    by (simp only: signed_proof_def Let_def OatiJwsProof.simps split_detached)
  have alg: "op_algorithm ?p = so_algorithm options" by (simp add: signed_proof_def Let_def)
  have payload: "canonicalJson_tree (JObj (put_member (lit ''proof'') (JObj (withoutSignature ?p)) d)) = Inr payload"
    using canonicalJson_tree_complete assms(2) by (simp add: withoutSignature_signed assms(3) canonical_document_def)
  show ?thesis
    unfolding verify_signature_def split list.case
    using s base64url_not_Nil header_bytes_not_Nil
    by (simp add: fromBase64url_base64url [OF header_bytes_not_Nil] fromBase64url_base64url [OF s] header_reads_back
      signed_header_matches payload alg cryptoProvider_def Let_def assms(4,5))
qed

lemma signDocument_signed:
  assumes "signing_window legacy now options = Inr (created, expires)" and "plain_options options" and "canonical_document d"
    and "\<And>input. subtle_sign c (webCryptoAlgorithm (so_algorithm options)) sk input = Inr (sg input)" and "\<And>input. length (sg input) = 64"
  defines "input \<equiv> joinSigningInput (base64url (TextEncoder_encode (serializeCanonical (protected_header options))))
     (TextEncoder_encode (serializeCanonical (canon (JObj (put_member (lit ''proof'') (JObj (proof_members options created expires)) d)))))"
  shows "signDocument legacy now (Some c) (KeyObject sk) d options =
     Inr (put_member (lit ''proof'') (JObj (op_members (signed_proof options created expires (sg input)))) d)"
proof -
  have doc: "canonical_document (put_member (lit ''proof'') (JObj (proof_members options created expires)) d)"
    by (rule proof_members_canonical [OF assms(2,1,3)])
  then have payload: "canonicalJson_tree (JObj (put_member (lit ''proof'') (JObj (proof_members options created expires)) d)) =
      Inr (serializeCanonical (canon (JObj (put_member (lit ''proof'') (JObj (proof_members options created expires)) d))))"
    by (intro canonicalJson_tree_complete) (simp_all add: canonical_document_def)
  have header: "canonicalJson_tree (protected_header options) = Inr (serializeCanonical (protected_header options))"
    using signing_window_Inr(1) [OF assms(1)] assms(2) by (intro header_json) (simp_all add: plain_options_def)
  have app: "put_member (lit ''signature'') v (proof_members options created expires) = proof_members options created expires @ [(lit ''signature'', v)]" for v
    by (simp add: put_member_def proof_members_def)
  show ?thesis
    by (simp add: signDocument_def signPreparedDocument_def assms(1,4,5) header payload Let_def importSigningKey_def isCryptoKey_def
      cryptoProvider_def app signed_proof_def input_def del: append_assoc canon.simps serializeCanonical.simps)
qed

section \<open>Replay caches\<close>

text \<open>
  The contract of \<^verbatim>\<open>ReplayCache\<close>: \<open>live c k t\<close> says that the cache holds the key \<open>k\<close> with an expiry
  after \<open>t\<close>.  An entry is accepted exactly when its key is not live, is live from then on until
  it expires, and no other entry is forgotten before its own expiry, as long as clocks do not run
  backwards.
\<close>

locale replay_cache =
  fixes store :: "'c \<Rightarrow> jstring \<Rightarrow> int option \<Rightarrow> int \<Rightarrow> bool \<times> 'c"
    and live :: "'c \<Rightarrow> jstring \<Rightarrow> int \<Rightarrow> bool"
    and inv :: "'c \<Rightarrow> bool"
  assumes store_inv: "inv c \<Longrightarrow> inv (snd (store c k e t))"
    and store_accepts: "inv c \<Longrightarrow> fst (store c k e t) \<longleftrightarrow> \<not> live c k t"
    and store_records: "inv c \<Longrightarrow> fst (store c k e t) \<Longrightarrow> t \<le> u \<Longrightarrow> live (snd (store c k e t)) k u \<longleftrightarrow> time_less (Some u) e"
    and live_earlier: "live c k u \<Longrightarrow> t \<le> u \<Longrightarrow> live c k t"
    and store_keeps: "inv c \<Longrightarrow> k' \<noteq> k \<or> \<not> fst (store c k e t) \<Longrightarrow> t \<le> u \<Longrightarrow> live (snd (store c k e t)) k' u \<longleftrightarrow> live c k' u"
begin

text \<open>A sequence of calls (key, expiry, time), some of which do not reach the cache, and the answers they get.\<close>

fun answers :: "'c \<Rightarrow> (bool \<times> jstring \<times> int option \<times> int) list \<Rightarrow> bool list" where
  "answers c [] = []"
| "answers c ((g, k, e, t) # calls) =
     (if g then fst (store c k e t) # answers (snd (store c k e t)) calls else False # answers c calls)"

lemma length_answers [simp]: "length (answers c calls) = length calls"
  by (induction c calls rule: answers.induct) simp_all

abbreviation call_key :: "bool \<times> jstring \<times> int option \<times> int \<Rightarrow> jstring" where
  "call_key call \<equiv> fst (snd call)"

abbreviation call_expiry :: "bool \<times> jstring \<times> int option \<times> int \<Rightarrow> int option" where
  "call_expiry call \<equiv> fst (snd (snd call))"

abbreviation call_time :: "bool \<times> jstring \<times> int option \<times> int \<Rightarrow> int" where
  "call_time call \<equiv> snd (snd (snd call))"

lemma live_rejected:
  "inv c \<Longrightarrow> live c k u \<Longrightarrow> (\<And>m. m \<le> j \<Longrightarrow> call_time (calls ! m) \<le> u) \<Longrightarrow> j < length calls \<Longrightarrow> call_key (calls ! j) = k \<Longrightarrow>
   \<not> answers c calls ! j"
proof (induction c calls arbitrary: j rule: answers.induct)
  case (2 c g k' e t calls)
  have t: "t \<le> u" using "2.prems"(3) [of 0] by simp
  have same: "k' = k \<Longrightarrow> \<not> fst (store c k' e t)"
    using store_accepts [OF "2.prems"(1)] live_earlier [OF "2.prems"(2) t] by blast
  show ?case
  proof (cases j)
    case 0
    then show ?thesis using same "2.prems"(5) by simp
  next
    case (Suc i)
    have rest: "\<And>m. m \<le> i \<Longrightarrow> call_time (calls ! m) \<le> u" "i < length calls" "call_key (calls ! i) = k"
      using "2.prems"(3) [of "Suc m" for m] "2.prems"(4,5) Suc by simp_all
    have "live (snd (store c k' e t)) k u" using store_keeps [OF "2.prems"(1) _ t, of k k' e] same "2.prems"(2) by blast
    with "2.IH"(1) [OF _ store_inv [OF "2.prems"(1)] this rest] "2.IH"(2) [OF _ "2.prems"(1,2) rest] Suc show ?thesis by simp
  qed
qed simp

lemma answered_reached: "j < length calls \<Longrightarrow> answers c calls ! j \<Longrightarrow> fst (calls ! j)"
proof (induction c calls arbitrary: j rule: answers.induct)
  case (2 c g k e t calls)
  then show ?case by (cases j; cases g) auto
qed simp

lemma accepted_once:
  "inv c \<Longrightarrow> sorted (map call_time calls) \<Longrightarrow> i < j \<Longrightarrow> j < length calls \<Longrightarrow> call_key (calls ! i) = call_key (calls ! j) \<Longrightarrow>
   answers c calls ! i \<Longrightarrow> answers c calls ! j \<Longrightarrow> \<not> time_less (Some (call_time (calls ! j))) (call_expiry (calls ! i))"
proof (induction c calls arbitrary: i j rule: answers.induct)
  case (2 c g k e t calls)
  from "2.prems"(3) obtain j' where j: "j = Suc j'" by (cases j) auto
  let ?u = "call_time (calls ! j')"
  have len: "j' < length calls" using "2.prems"(4) j by simp
  show ?case
  proof (cases i)
    case 0
    then have g: "g" using "2.prems"(6) by (cases g) simp_all
    have key: "call_key (calls ! j') = k" using "2.prems"(5) 0 j by simp
    have acc: "fst (store c k e t)" using "2.prems"(6) 0 g by simp
    have "t \<le> ?u" using "2.prems"(2) len by simp
    moreover have "call_time (calls ! m) \<le> ?u" if "m \<le> j'" for m
      using sorted_nth_mono [of "map call_time calls" m j'] "2.prems"(2) that len by simp
    ultimately show ?thesis
      using live_rejected [OF store_inv [OF "2.prems"(1)], of k e t k ?u j' calls] store_records [OF "2.prems"(1) acc] len key "2.prems"(7) 0 j g
      by auto
  next
    case (Suc i')
    then show ?thesis using "2.IH"(1) [OF _ store_inv [OF "2.prems"(1)], of i' j'] "2.IH"(2) [OF _ "2.prems"(1), of i' j'] "2.prems" j
      by (cases g) simp_all
  qed
qed simp

end

text \<open>The in-memory cache keeps unique keys and holds a key until its recorded expiry.\<close>

definition replay_live :: "replay_entries \<Rightarrow> jstring \<Rightarrow> int \<Rightarrow> bool" where
  "replay_live entries k t \<longleftrightarrow> (case map_of entries k of Some e \<Rightarrow> time_less (Some t) e | None \<Rightarrow> False)"

lemma time_cases: "t \<le> u \<Longrightarrow> time_less (Some u) e \<Longrightarrow> \<not> time_le e (Some t)"
  by (cases e) auto

interpretation memory_cache: replay_cache MemoryReplayCache_checkAndStore replay_live om_wf
proof
  fix c :: replay_entries and k k' :: jstring and e :: "int option" and t u :: int
  assume wf: "om_wf c"
  then show "om_wf (snd (MemoryReplayCache_checkAndStore c k e t))" by (simp add: MemoryReplayCache_checkAndStore_def Let_def)
  show "fst (MemoryReplayCache_checkAndStore c k e t) \<longleftrightarrow> \<not> replay_live c k t"
    by (simp add: MemoryReplayCache_checkAndStore_def replay_live_def Let_def)
  have pruned: "replay_live (if b then filter (\<lambda>(_, x). \<not> time_le x (Some t)) (om_set k e c) else om_set k e c) j u \<longleftrightarrow>
      replay_live (om_set k e c) j u" if "t \<le> u" for b j
    using time_cases [OF that] map_of_filter_wf [OF om_wf_set [OF wf, of k e]]
    by (auto simp: replay_live_def split: option.splits)
  show "replay_live (snd (MemoryReplayCache_checkAndStore c k e t)) k u \<longleftrightarrow> time_less (Some u) e"
    if "fst (MemoryReplayCache_checkAndStore c k e t)" "t \<le> u"
    using that pruned by (simp add: MemoryReplayCache_checkAndStore_def Let_def split: if_splits) (simp add: replay_live_def)
  show "replay_live (snd (MemoryReplayCache_checkAndStore c k e t)) k' u \<longleftrightarrow> replay_live c k' u"
    if "k' \<noteq> k \<or> \<not> fst (MemoryReplayCache_checkAndStore c k e t)" "t \<le> u"
    using that pruned by (auto simp: MemoryReplayCache_checkAndStore_def Let_def split: if_splits) (auto simp: replay_live_def)
next
  fix c :: replay_entries and k :: jstring and t u :: int
  show "replay_live c k u \<Longrightarrow> t \<le> u \<Longrightarrow> replay_live c k t"
    by (cases "map_of c k"; cases "the (map_of c k)") (auto simp: replay_live_def)
qed

section \<open>Sessions\<close>

text \<open>A verifier with an in-memory cache that handles requests (clock, document) one after the other.\<close>

definition memory_policy :: "replay_entries VerificationPolicy \<Rightarrow> bool" where
  "memory_policy policy \<longleftrightarrow> vp_now policy = None \<and>
     vp_checkAndStore policy = (\<lambda>c k e t. Inr (MemoryReplayCache_checkAndStore c k e t))"

fun verify_session :: "legacy_dates \<Rightarrow> 'k host_crypto \<Rightarrow> replay_entries VerificationPolicy \<Rightarrow> replay_entries \<Rightarrow> (int \<times> jobject) list \<Rightarrow> bool list" where
  "verify_session legacy host policy cache [] = []"
| "verify_session legacy host policy cache ((clock, document) # requests) =
     (case verifyDocument legacy clock host document policy cache of
        Inl _ \<Rightarrow> False # verify_session legacy host policy cache requests
      | Inr (r, cache') \<Rightarrow> vr_verified r # verify_session legacy host policy cache' requests)"

definition parsed_proof :: "jobject \<Rightarrow> OatiJwsProof option" where
  "parsed_proof document = (case jget document (lit ''proof'') of Some (JObj members) \<Rightarrow> proof_fields members | _ \<Rightarrow> None)"

definition session_call :: "legacy_dates \<Rightarrow> 'k host_crypto \<Rightarrow> replay_entries VerificationPolicy \<Rightarrow> int \<times> jobject \<Rightarrow> bool \<times> jstring \<times> int option \<times> int" where
  "session_call legacy host policy request =
     (let p = the (parsed_proof (snd request))
      in (\<exists>p key anchor. accepted legacy host (snd request) policy (fst request) p key anchor,
          replayKey p (vp_expectedAudience policy), Date_parse legacy (op_expires p), fst request))"

lemma accepted_parsed: "accepted legacy host document policy now p key anchor \<Longrightarrow> parsed_proof document = Some p"
  by (auto simp: accepted_def Let_def parsed_proof_def)

lemma verify_session_answers:
  assumes "memory_policy policy"
  shows "verify_session legacy host policy cache requests = memory_cache.answers cache (map (session_call legacy host policy) requests)"
proof (induction requests arbitrary: cache)
  case (Cons request requests)
  obtain clock document where r: "request = (clock, document)" by (cases request)
  have now: "policy_now clock policy = clock" using assms by (simp add: memory_policy_def policy_now_def)
  have store: "vp_checkAndStore policy c k e t = Inr (MemoryReplayCache_checkAndStore c k e t)" for c k e t
    using assms by (simp add: memory_policy_def)
  show ?case
  proof (cases rule: verifyDocument_cases [of legacy clock host document policy cache])
    case (throws e)
    then have "\<not> fst (session_call legacy host policy request)" by (auto simp: session_call_def r Let_def now)
    with throws Cons.IH show ?thesis by (cases "session_call legacy host policy request") (simp add: r)
  next
    case (rejects res)
    then have "\<not> fst (session_call legacy host policy request)" by (auto simp: session_call_def r Let_def now)
    with rejects Cons.IH show ?thesis by (cases "session_call legacy host policy request") (simp add: r)
  next
    case (reaches p key anchor)
    have call: "session_call legacy host policy request = (True, replayKey p (vp_expectedAudience policy), Date_parse legacy (op_expires p), clock)"
      using reaches(1) accepted_parsed [OF reaches(1)] by (auto simp: session_call_def r Let_def now)
    show ?thesis using reaches(2) Cons.IH by (simp add: r [symmetric] call) (simp add: r store now case_prod_unfold issue_if_def)
  qed
qed simp

section \<open>A sample\<close>

text \<open>A provider that signs with zeros and accepts every signature, and a key of a trust anchor.\<close>

definition zero_provider :: "unit crypto_provider" where
  "zero_provider = \<lparr>subtle_importKey = (\<lambda>_ _ _. Inr ()), subtle_sign = (\<lambda>_ _ _. Inr (replicate 64 0)), subtle_verify = (\<lambda>_ _ _ _. Inr True)\<rparr>"

definition sample_options :: SigningOptions where
  "sample_options = \<lparr>so_algorithm = ES256, so_verificationMethod = lit ''key-1'', so_audience = Audience (lit ''merchant''),
     so_nonce = lit ''0123456789abcdef'', so_created = Some (DateValue (Some 1000000)), so_expires = DateValue (Some 1060000)\<rparr>"

definition sample_key :: VerificationKey where
  "sample_key = \<lparr>vk_id = lit ''key-1'', vk_controller = lit ''agent-1'', vk_issuer = lit ''root-1'', vk_algorithm = ES256,
     vk_publicKeyJwk = JObj [(lit ''kty'', JStr (lit ''EC'')), (lit ''crv'', JStr (lit ''P-256''))], vk_status = lit ''active'',
     vk_validFrom = toISOString 0, vk_validUntil = None, vk_revokedAt = None, vk_proofStatus = None\<rparr>"

definition sample_policy :: "replay_entries VerificationPolicy" where
  "sample_policy = \<lparr>vp_resolver = StaticTrustResolver [sample_key] [] [], vp_trustAnchors = [lit ''root-1''],
     vp_expectedAudience = lit ''merchant'', vp_checkAndStore = (\<lambda>c k e t. Inr (MemoryReplayCache_checkAndStore c k e t)),
     vp_now = None, vp_allowedAlgorithms = None, vp_clockSkewMs = None, vp_maxProofAgeMs = None, vp_maxTrustDepth = None\<rparr>"

definition sample_body :: jobject where
  "sample_body = [(lit ''id'', JStr (lit ''doc-1''))]"

definition sample_proof :: OatiJwsProof where
  "sample_proof = signed_proof sample_options 1000000 1060000 (replicate 64 0)"

definition sample_document :: jobject where
  "sample_document = put_member (lit ''proof'') (JObj (op_members sample_proof)) sample_body"

lemma sample_window: "signing_window legacy now sample_options = Inr (1000000, 1060000)"
  by (simp add: signing_window_def sample_options_def OATI_SUPPORTED_ALGORITHMS_def normalizeAudience_def audience_json_def instant_def
    trim_def lit_def is_space_def List.map_filter_simps)

lemma sample_plain: "plain_options sample_options"
  by (simp add: plain_options_def sample_options_def audience_texts_def scalar_plain)

lemma sample_canonical: "canonical_document sample_body"
  by (simp add: canonical_document_def sample_body_def scalar_plain)

lemma sample_parsed: "proof_fields (op_members sample_proof) = Some sample_proof"
  unfolding sample_proof_def by (rule signed_proof_parses [OF sample_window sample_plain]) simp

lemma signed_dates: "iso_parse (toISOString 0) = Some 0" "iso_parse (toISOString 1000000) = Some 1000000" "iso_parse (toISOString 1060000) = Some 1060000"
  by (rule iso_parse_toISOString; simp add: year_from_days_def days_from_civil_def Let_def)+

text \<open>A document signed with the sample options.\<close>

definition signed_sample :: "jobject \<Rightarrow> jobject" where
  "signed_sample document = put_member (lit ''proof'') (JObj (op_members sample_proof)) document"

lemma sample_signature:
  assumes "canonical_document document"
  shows "verify_signature (Some zero_provider) (signed_sample document) sample_proof sample_key = Inr True"
  unfolding signed_sample_def sample_proof_def
  by (rule verify_signature_signed [OF _ proof_members_canonical [OF sample_plain sample_window assms] refl])
    (simp_all add: zero_provider_def)

lemma signed_sample_accepted:
  assumes "1000000 \<le> now" and "now < 1090000" and "canonical_document document"
    and "document_current no_legacy (signed_sample document) now 30000" and "signer_bound (signed_sample document) sample_key"
    and policy: "vp_resolver policy = StaticTrustResolver [sample_key] [] []" "vp_trustAnchors policy = [lit ''root-1'']"
      "vp_expectedAudience policy = lit ''merchant''" "vp_allowedAlgorithms policy = None" "policy_skew policy = 30000"
      "0 \<le> max_links policy" "\<forall>a. vp_maxProofAgeMs policy = Some a \<longrightarrow> 300000 \<le> a"
  shows "accepted no_legacy (Some zero_provider) (signed_sample document) policy now sample_proof sample_key (lit ''root-1'')"
proof -
  let ?r = "StaticTrustResolver [sample_key] [] []"
  have d: "Date_parse no_legacy (op_created sample_proof) = Some 1000000" "Date_parse no_legacy (op_expires sample_proof) = Some 1060000"
    "Date_parse no_legacy (toISOString 0) = Some 0"
    by (simp_all add: sample_proof_def signed_proof_def Let_def Date_parse_def signed_dates)
  have p: "op_algorithm sample_proof = ES256" "op_verification_method sample_proof = lit ''key-1''" "op_audience sample_proof = JStr (lit ''merchant'')"
    by (simp_all add: sample_proof_def signed_proof_def Let_def sample_options_def audience_json_def)
  have nr: "not_revoked no_legacy ?r now target" for target by (simp add: not_revoked_def StaticTrustResolver_def)
  have "issuer_path no_legacy ?r {lit ''root-1''} now 30000 0 (lit ''root-1'') (lit ''root-1'')" using nr by (intro at_anchor) simp_all
  then have path: "\<exists>n. int n \<le> max_links policy \<and> issuer_path no_legacy ?r {lit ''root-1''} now 30000 n (lit ''root-1'') (lit ''root-1'')"
    using policy(6) by (intro exI [of _ 0]) simp
  have key: "key_usable no_legacy sample_key sample_proof now 30000"
    by (simp add: key_usable_def sample_key_def p d bad_proof_status_def jwkMatches_def jget_def opt_time_def)
  have "proof_current no_legacy sample_proof now 30000 (case vp_maxProofAgeMs policy of None \<Rightarrow> 300000 | Some a \<Rightarrow> a)"
    using assms(1,2) policy(7) by (auto simp: proof_current_def d split: option.splits)
  then have adm: "proof_admissible no_legacy (signed_sample document) policy sample_proof now 30000"
    using assms(4) by (simp add: proof_admissible_def policy p OATI_SUPPORTED_ALGORITHMS_def normalizeAudience_def List.map_filter_simps)
  have "jget (signed_sample document) (lit ''proof'') = Some (JObj (op_members sample_proof))" by (simp add: signed_sample_def)
  with sample_parsed adm key path nr assms(5) sample_signature [OF assms(3)] p show ?thesis
    by (simp add: accepted_def Let_def policy StaticTrustResolver_def) (simp add: sample_key_def)
qed

lemma sample_accepted:
  assumes "1000000 \<le> now" and "now < 1090000"
  shows "accepted no_legacy (Some zero_provider) sample_document sample_policy now sample_proof sample_key (lit ''root-1'')"
proof -
  have "document_current no_legacy (signed_sample sample_body) now 30000" "signer_bound (signed_sample sample_body) sample_key"
    by (simp_all add: document_current_def document_start_def document_end_def signed_sample_def sample_body_def after_start_def before_end_def
      signer_bound_def claimed_signer_def jget_def put_member_def)
  from signed_sample_accepted [OF assms sample_canonical this, of sample_policy] show ?thesis
    by (simp add: sample_policy_def signed_sample_def sample_document_def policy_skew_def max_links_def)
qed

section \<open>Properties\<close>

text \<open>
  C2: A document is reported verified exactly when its proof is well formed, of an allowed
  algorithm, current and addressed to the expected audience, the document itself is current, its
  key resolves, matches the proof and was valid when the proof was made, a chain of at most
  \<^verbatim>\<open>maxTrustDepth\<close> usable issuers leads from the key to a trust anchor, neither key, issuers nor
  document are revoked, the claimed signer is bound to the key, the signature verifies over the
  canonical unsigned document, and the replay cache accepts the nonce.
\<close>

theorem verifyDocument_verifies_iff_accepted:
  "(\<exists>r. verifyDocument legacy clock host document policy cache = Inr (r, cache') \<and> vr_verified r) \<longleftrightarrow>
   (\<exists>p key anchor. accepted legacy host document policy (policy_now clock policy) p key anchor \<and>
      vp_checkAndStore policy cache (replayKey p (vp_expectedAudience policy)) (Date_parse legacy (op_expires p)) (policy_now clock policy)
        = Inr (True, cache'))"
proof (cases rule: verifyDocument_cases [of legacy clock host document policy cache])
  case (reaches p key anchor)
  let ?store = "vp_checkAndStore policy cache (replayKey p (vp_expectedAudience policy)) (Date_parse legacy (op_expires p)) (policy_now clock policy)"
  have "(\<exists>r. verifyDocument legacy clock host document policy cache = Inr (r, cache') \<and> vr_verified r) \<longleftrightarrow> ?store = Inr (True, cache')"
    unfolding reaches(2) by (cases ?store; cases "projr ?store") (auto simp: issue_if_def split: if_splits)
  then show ?thesis using reaches(1) accepted_proof_unique [OF reaches(1)] by blast
qed auto

text \<open>
  C13: A document signed with \<^verbatim>\<open>signDocument\<close> passes its own signature check: signing well-formed
  options and a canonicalisable document succeeds, the proof in the result parses to the signed
  fields, and verifying the signature with a key whose provider accepts the signer's output gives
  true.
\<close>

theorem signed_document_passes_signature_check:
  assumes "signing_window legacy now options = Inr (created, expires)" and "plain_options options" and "canonical_document d"
    and "\<And>input. subtle_sign c (webCryptoAlgorithm (so_algorithm options)) sk input = Inr (sg input) \<and> length (sg input) = 64"
    and "subtle_importKey c (vk_publicKeyJwk key) (webCryptoImportAlgorithm (so_algorithm options)) (lit ''verify'') = Inr k"
    and "\<And>input. subtle_verify c (webCryptoAlgorithm (so_algorithm options)) k (sg input) input = Inr True"
  shows "\<exists>document p. signDocument legacy now (Some c) (KeyObject sk) d options = Inr document \<and>
     parsed_proof document = Some p \<and> op_algorithm p = so_algorithm options \<and> op_nonce p = so_nonce options \<and>
     op_created p = toISOString created \<and> op_expires p = toISOString expires \<and>
     verify_signature (Some c) document p key = Inr True"
proof -
  let ?u = "put_member (lit ''proof'') (JObj (proof_members options created expires)) d"
  define input where "input = joinSigningInput (base64url (TextEncoder_encode (serializeCanonical (protected_header options))))
     (TextEncoder_encode (serializeCanonical (canon (JObj ?u))))"
  let ?p = "signed_proof options created expires (sg input)"
  have "signDocument legacy now (Some c) (KeyObject sk) d options = Inr (put_member (lit ''proof'') (JObj (op_members ?p)) d)"
    unfolding input_def by (rule signDocument_signed [OF assms(1-3)]) (use assms(4) in simp_all)
  moreover have "parsed_proof (put_member (lit ''proof'') (JObj (op_members ?p)) d) = Some ?p"
    using signed_proof_parses [OF assms(1,2)] assms(4) by (simp add: parsed_proof_def)
  moreover have "verify_signature (Some c) (put_member (lit ''proof'') (JObj (op_members ?p)) d) ?p key = Inr True"
    by (rule verify_signature_signed [OF _ proof_members_canonical [OF assms(2,1,3)] refl assms(5)])
      (use assms(4,6) in \<open>simp_all only: input_def\<close>)
  ultimately show ?thesis by (intro exI conjI) (assumption | simp add: signed_proof_def Let_def)+
qed

theorem signed_document_passes_signature_check_witness:
  "\<exists>document p. signDocument no_legacy 0 (Some zero_provider) (KeyObject ()) sample_body sample_options = Inr document \<and>
     parsed_proof document = Some p \<and> verify_signature (Some zero_provider) document p sample_key = Inr True"
  using signed_document_passes_signature_check [OF sample_window [of no_legacy 0] sample_plain sample_canonical,
      of zero_provider "()" "\<lambda>_. replicate 64 0" sample_key "()"]
  by (auto simp: zero_provider_def)

text \<open>
  C14: With the in-memory replay cache and a clock that does not run backwards, the same key,
  audience and nonce are verified a second time only after the expiry of the proof that was
  accepted first, whatever other requests come between.
\<close>

theorem nonce_accepted_once_until_expiry:
  assumes "memory_policy policy" and "om_wf cache" and "sorted (map fst requests)" and "i < j" and "j < length requests"
    and "parsed_proof (snd (requests ! i)) = Some p" and "parsed_proof (snd (requests ! j)) = Some q"
    and "replayKey p (vp_expectedAudience policy) = replayKey q (vp_expectedAudience policy)"
    and "verify_session legacy host policy cache requests ! i" and "verify_session legacy host policy cache requests ! j"
  shows "\<not> time_less (Some (fst (requests ! j))) (Date_parse legacy (op_expires p))"
proof -
  let ?calls = "map (session_call legacy host policy) requests"
  have times: "map (\<lambda>call. snd (snd (snd call))) ?calls = map fst requests" by (simp add: session_call_def Let_def)
  have at: "?calls ! m = session_call legacy host policy (requests ! m)" if "m < length requests" for m using that by simp
  have "\<not> time_less (Some (snd (snd (snd (?calls ! j))))) (fst (snd (snd (?calls ! i))))"
    using assms(4-) unfolding verify_session_answers [OF assms(1)]
    by (intro memory_cache.accepted_once [OF assms(2)]) (simp_all only: times assms(3) at length_map, simp_all add: session_call_def Let_def)
  then show ?thesis using assms(4-6) by (simp add: session_call_def Let_def)
qed

theorem nonce_accepted_once_until_expiry_witness:
  "\<not> verify_session no_legacy (Some zero_provider) sample_policy [] [(1000000, sample_document), (1050000, sample_document)] ! 1"
proof
  let ?reqs = "[(1000000, sample_document), (1050000, sample_document)]" and ?h = "Some zero_provider"
  assume second: "verify_session no_legacy ?h sample_policy [] ?reqs ! 1"
  have m: "memory_policy sample_policy" by (simp add: memory_policy_def sample_policy_def)
  have parsed: "parsed_proof sample_document = Some sample_proof" by (rule accepted_parsed [OF sample_accepted [of 1000000]]) simp_all
  have "fst (session_call no_legacy ?h sample_policy (1000000, sample_document))"
    using sample_accepted [of 1000000] by (auto simp: session_call_def Let_def)
  then have first: "verify_session no_legacy ?h sample_policy [] ?reqs ! 0"
    unfolding verify_session_answers [OF m]
    by (cases "session_call no_legacy ?h sample_policy (1000000, sample_document)") (simp add: MemoryReplayCache_checkAndStore_def Let_def)
  have "\<not> time_less (Some (fst (?reqs ! 1))) (Date_parse no_legacy (op_expires sample_proof))"
    by (rule nonce_accepted_once_until_expiry [OF m _ _ _ _ _ _ refl first second]) (simp_all add: parsed)
  then show False by (simp add: sample_proof_def signed_proof_def Let_def Date_parse_def signed_dates)
qed

text \<open>
  C30: The replay cache forgets a nonce when its proof expires, but a proof is accepted until the
  clock skew after that: a document accepted before its expiry and presented again between expiry
  and the end of the skew is verified twice.
\<close>

theorem replay_accepted_within_clock_skew:
  assumes "memory_policy policy" and "accepted legacy host document policy t p key anchor"
    and "accepted legacy host document policy t' p key anchor"
    and "Date_parse legacy (op_expires p) = Some e" and "e \<le> t'"
    and "map_of cache (replayKey p (vp_expectedAudience policy)) = None" and "length cache < 10000"
  shows "verify_session legacy host policy cache [(t, document), (t', document)] = [True, True]"
proof -
  let ?k = "replayKey p (vp_expectedAudience policy)"
  have parsed: "parsed_proof document = Some p" by (rule accepted_parsed [OF assms(2)])
  have calls: "session_call legacy host policy (t, document) = (True, ?k, Some e, t)" "session_call legacy host policy (t', document) = (True, ?k, Some e, t')"
    using assms(2-4) parsed by (auto simp: session_call_def Let_def)
  have "MemoryReplayCache_checkAndStore cache ?k (Some e) t = (True, om_set ?k (Some e) cache)"
    using assms(6,7) by (simp add: MemoryReplayCache_checkAndStore_def Let_def length_om_set)
  moreover have "fst (MemoryReplayCache_checkAndStore (om_set ?k (Some e) cache) ?k (Some e) t')"
    using assms(5) by (simp add: MemoryReplayCache_checkAndStore_def Let_def)
  ultimately show ?thesis unfolding verify_session_answers [OF assms(1)] by (simp add: calls)
qed

theorem replay_accepted_within_clock_skew_witness:
  "verify_session no_legacy (Some zero_provider) sample_policy [] [(1000000, sample_document), (1070000, sample_document)] = [True, True]"
  by (rule replay_accepted_within_clock_skew [where e = 1060000, OF _ sample_accepted sample_accepted])
    (simp_all add: memory_policy_def sample_policy_def sample_proof_def signed_proof_def Let_def Date_parse_def signed_dates)

end
