(* ===== verification/LookupTrust.thy ===== *)
theory LookupTrust
  imports LookupProperties VerificationProperties
begin

text \<open>
  The lookup client as a source of trust: \<open>record_source\<close> is what \<open>LookupTrustResolver\<close> needs of
  it, and a client, at every point of its use, provides it.  A sample network shows the properties
  on a concrete record.
\<close>

section \<open>The contract of a record source\<close>

locale record_source =
  fixes port :: lookup_port
  assumes lookup_matches: "port_lookup port t i = Inr r \<Longrightarrow> record_for t ById i r"
    and revocation_matches: "port_revocation port target = Inr r \<Longrightarrow> record_for (lit ''revocation'') ByTarget target r"
begin

lemma absent_as_null_Some: "absent_as_null m = Inr (Some a) \<longleftrightarrow> m = Inr a"
  by (cases m) (auto simp: absent_as_null_def)

lemma resolved_key:
  assumes "resolveKey (LookupTrustResolver port) i = Inr (Some key)"
  shows "vk_id key = i \<and> vk_algorithm key \<in> {EdDSA, ES256} \<and> vk_controller key \<noteq> []"
proof -
  from assms obtain r where r: "port_lookup port (lit ''key'') i = Inr r" "vk_id key = member_text r (lit ''id'')"
    "required (public_attributes r) (lit ''algorithm'') = Inr (vk_algorithm key)" "required (public_attributes r) (lit ''controller'') = Inr (vk_controller key)"
    by (auto simp: LookupTrustResolver_def absent_as_null_Some exn_iff Let_def)
  from lookup_matches [OF r(1)] have "jget r (lit ''id'') = Some (JStr i)" "jget r (lit ''type'') = Some (JStr (lit ''key''))" "validTypedRecord r"
    by (auto simp: record_for_def selectorMatches_def isPublicRecord_def)
  then show ?thesis using r(2-4)
    by (auto simp: validTypedRecord_def Let_def member_text_def required_def truthy_text_def split: option.splits if_splits)
qed

lemma resolved_issuer: "resolveIssuer (LookupTrustResolver port) i = Inr (Some issuer) \<Longrightarrow> ti_id issuer = i"
  using lookup_matches [of "lit ''issuer''" i]
  by (auto simp: LookupTrustResolver_def absent_as_null_Some exn_iff Let_def record_for_def selectorMatches_def member_text_def)

lemma resolved_revocation:
  assumes "resolveRevocation (LookupTrustResolver port) target = Inr (Some status)"
  shows "rs_target status = target \<and> rs_status status \<in> {lit ''good'', lit ''suspended'', lit ''revoked'', lit ''unknown''}"
proof -
  from assms obtain r where r: "port_revocation port target = Inr r" "rs_target status = target"
    "required (public_attributes r) (lit ''revocation_status'') = Inr (rs_status status)"
    by (auto simp: LookupTrustResolver_def absent_as_null_Some exn_iff Let_def)
  from revocation_matches [OF r(1)] have "validRevocationStatus (jget (public_attributes r) (lit ''revocation_status''))"
    by (auto simp: record_for_def selectorMatches_def)
  then show ?thesis using r(2,3)
    by (auto simp: validRevocationStatus_def required_def truthy_text_def member_text_def split: if_splits)
qed

end

text \<open>A client in some state, as the resolver sees it.\<close>

definition client_port :: "lookup_client \<Rightarrow> network \<Rightarrow> LookupOptions \<Rightarrow> client_state \<Rightarrow> lookup_port" where
  "client_port client net options st =
     \<lparr>port_lookup = (\<lambda>t i. fst (lookup_record client net options t i st)),
      port_revocation = (\<lambda>target. fst (lookupRevocationByTarget client net options target st))\<rparr>"

lemma client_port_source:
  assumes "client_inv client st"
  shows "record_source (client_port client net options st)"
proof
  fix t i r assume "port_lookup (client_port client net options st) t i = Inr r"
  then show "record_for t ById i r"
    using lookupSelectedDetailed_inv [OF _ assms, of net options t ById i]
    by (cases "lookupSelectedDetailed client net options t ById i st")
      (auto simp: client_port_def lookup_record_def lookupDetailed_def exn_iff)
next
  fix target r assume "port_revocation (client_port client net options st) target = Inr r"
  then show "record_for (lit ''revocation'') ByTarget target r"
    using lookupSelectedDetailed_inv [OF _ assms, of net options "lit ''revocation''" ByTarget target]
    by (cases "lookupSelectedDetailed client net options (lit ''revocation'') ByTarget target st")
      (auto simp: client_port_def lookupRevocationByTarget_def lookupRevocationByTargetDetailed_def exn_iff)
qed

interpretation new_client: record_source "client_port client net options new_client_state" for client net options
  by (rule client_port_source [OF lookup_run_inv [OF created]])

section \<open>A sample network\<close>

definition sample_record :: jobject where
  "sample_record = [(lit ''id'', JStr (lit ''oati:revocation:a'')), (lit ''issuer'', JStr (lit ''root-1'')), (lit ''proof_status'', JStr (lit ''verified'')),
     (lit ''public_attributes'', JObj [(lit ''revocation_status'', JStr (lit ''good'')), (lit ''target'', JStr (lit ''key-1''))]), (lit ''status'', JStr (lit ''active'')), (lit ''type'', JStr (lit ''revocation''))]"

definition sample_bytes :: "byte list" where
  "sample_bytes = TextEncoder_encode (serializeCanonical (JObj sample_record))"

definition sample_response :: http_response where
  "sample_response = \<lparr>resp_status = 200, resp_header = (\<lambda>_. None), resp_body = Body [sample_bytes] Finished\<rparr>"

text \<open>The resolver at \<^verbatim>\<open>a\<close> cannot be reached, the one at \<^verbatim>\<open>b\<close> returns the record.\<close>

definition sample_net :: network where
  "sample_net = \<lparr>net_fetch = (\<lambda>n rq. if rq_url rq = lit ''a/lookup'' then FetchThrows else Responded sample_response), net_now = (\<lambda>_. 0),
     net_delay = (\<lambda>_ _. True), net_aborted = (\<lambda>_. False), net_timed_out = (\<lambda>_. False), net_legacy = no_legacy,
     net_url = (\<lambda>_. Some \<lparr>url_protocol = lit ''https:'', url_username = [], url_password = [], url_pathname = lit ''/'', url_search = [], url_hash = [],
       url_origin = lit ''https://b''\<rparr>)\<rparr>"

definition sample_client :: lookup_client where
  "sample_client = \<lparr>lc_resolverUrls = [lit ''a'', lit ''b''], lc_timeoutMs = Fin 10000, lc_maxResponseBytes = length sample_bytes, lc_headers = [],
     lc_retries = \<lparr>rt_maxRetries = 2, rt_baseDelayMs = Fin 200, rt_maxDelayMs = Fin 5000\<rparr>,
     lc_cacheOptions = Some \<lparr>co_ttlMs = Fin 60000, co_negativeTtlMs = Fin 10000, co_maxEntries = 500\<rparr>\<rparr>"

definition default_options :: LookupOptions where
  "default_options = \<lparr>lo_cache = CacheDefault, lo_timeoutMs = None, lo_aborted = False\<rparr>"

lemma sample_text: "serializeCanonical (JObj sample_record) =
    [123] @ quote (lit ''id'') @ [58] @ quote (lit ''oati:revocation:a'') @ [44] @ quote (lit ''issuer'') @ [58] @ quote (lit ''root-1'') @ [44]
    @ quote (lit ''proof_status'') @ [58] @ quote (lit ''verified'') @ [44] @ quote (lit ''public_attributes'') @ [58, 123] @ quote (lit ''revocation_status'') @ [58] @ quote (lit ''good'') @ [44]
    @ quote (lit ''target'') @ [58] @ quote (lit ''key-1'') @ [125, 44]
    @ quote (lit ''status'') @ [58] @ quote (lit ''active'') @ [44] @ quote (lit ''type'') @ [58] @ quote (lit ''revocation'') @ [125]"
  by (simp add: sample_record_def)

lemma sample_well_formed: "well_formed (serializeCanonical (JObj sample_record))"
  unfolding sample_text by (intro well_formed_append well_formed_quote well_formed_plain) (simp_all add: plain_unit_small)

lemma sample_payload: "readPayload sample_response (length sample_bytes) = Inr (Some (JObj sample_record))"
proof -
  have "canonical_form (JObj sample_record)" by (simp add: sample_record_def)
  then have "JSON_parse (serializeCanonical (JObj sample_record)) = Inr (JObj sample_record)" by (rule JSON_parse_serialize)
  moreover have "decode_fatal sample_bytes = Some (serializeCanonical (JObj sample_record))"
    unfolding sample_bytes_def by (rule decode_fatal_encode [OF sample_well_formed]) (simp add: sample_text)
  moreover have "serializeCanonical (JObj sample_record) \<noteq> []" by (simp add: sample_text)
  ultimately show ?thesis
    by (simp add: readPayload_def sample_response_def parse_body_def num_of_int_def Let_def del: serializeCanonical.simps)
qed

lemma sample_accept:
  assumes "(selector, v) \<in> {(ById, lit ''oati:revocation:a''), (ByTarget, lit ''key-1'')}"
  shows "\<exists>out. accept_response sample_client sample_net n (lit ''revocation'') selector v None sample_response = Inr out"
proof -
  have "rateLimitInfo legacy now sample_response = Inr no_rate_limit" for legacy now
    by (simp add: rateLimitInfo_def sample_response_def header_or_empty_def integerHeader_def retryAfter_def no_rate_limit_def)
  moreover have "isPublicRecord (Some (JObj sample_record))"
    by (simp add: isPublicRecord_def sample_record_def jget_def OATI_RECORD_TYPES_def validTypedRecord_def String_def)
  moreover have "selectorMatches selector v sample_record" "jget sample_record (lit ''type'') = Some (JStr (lit ''revocation''))"
    using assms by (auto simp: selectorMatches_def sample_record_def jget_def public_attributes_def validRevocationStatus_def)
  moreover have "revalidates sample_response None = None" "resp_ok sample_response" by (simp_all add: revalidates_def sample_response_def resp_ok_def)
  ultimately show ?thesis by (simp add: accept_response_def sample_client_def sample_payload)
qed

lemma sample_undisturbed: "undisturbed sample_net"
  by (simp add: undisturbed_def sample_net_def)

lemma sample_resolvers:
  "unreachable sample_net (lit ''a'')"
  "answers_with sample_client sample_net (lit ''b'') (lit ''revocation'') ById (lit ''oati:revocation:a'') sample_response"
  "answers_with sample_client sample_net (lit ''b'') (lit ''revocation'') ByTarget (lit ''key-1'') sample_response"
  using sample_accept by (auto simp: unreachable_def answers_with_def sample_net_def lit_append [symmetric])

lemma lookup_not_cached:
  assumes "validateInput type value = Inr ()" and "\<not> lo_aborted options" and "map_of (cs_entries st) (cacheKey type selector value) = None"
  shows "lookupSelectedDetailed client net options type selector value st =
     try_resolvers client net options type selector value None (lc_resolverUrls client) None st"
  using assms by (simp add: lookupSelectedDetailed_def Let_def)

lemma sample_input:
  "validateInput (lit ''revocation'') (lit ''oati:revocation:a'') = Inr ()" "validateInput (lit ''revocation'') (lit ''key-1'') = Inr ()"
  by (simp_all add: validateInput_def OATI_RECORD_TYPES_def trim_def lit_def is_space_def)

lemma sample_lookup:
  "\<exists>out st'. lookupSelectedDetailed sample_client sample_net default_options (lit ''revocation'') ById (lit ''oati:revocation:a'') new_client_state = (Inr out, st')"
  using failover [OF sample_undisturbed _ _ sample_resolvers(2), of default_options "[lit ''a'']" "[]" None new_client_state] sample_resolvers(1)
  by (subst lookup_not_cached [OF sample_input(1)]) (auto simp: default_options_def new_client_state_def sample_client_def)

lemma sample_target_lookup:
  "\<exists>out st'. lookupSelectedDetailed sample_client sample_net default_options (lit ''revocation'') ByTarget (lit ''key-1'') new_client_state = (Inr out, st')"
  using failover [OF sample_undisturbed _ _ sample_resolvers(3), of default_options "[lit ''a'']" "[]" None new_client_state] sample_resolvers(1)
  by (subst lookup_not_cached [OF sample_input(2)]) (auto simp: default_options_def new_client_state_def sample_client_def)

lemma sample_status:
  "\<exists>status. resolveRevocation (LookupTrustResolver (client_port sample_client sample_net default_options new_client_state)) (lit ''key-1'') = Inr (Some status)"
proof -
  obtain out st' where l: "lookupSelectedDetailed sample_client sample_net default_options (lit ''revocation'') ByTarget (lit ''key-1'') new_client_state = (Inr out, st')"
    using sample_target_lookup by blast
  then have port: "port_revocation (client_port sample_client sample_net default_options new_client_state) (lit ''key-1'') = Inr (lr_record out)"
    by (simp add: client_port_def lookupRevocationByTarget_def lookupRevocationByTargetDetailed_def)
  then have "validRevocationStatus (jget (public_attributes (lr_record out)) (lit ''revocation_status''))"
    using new_client.revocation_matches by (auto simp: record_for_def selectorMatches_def)
  then obtain s where "required (public_attributes (lr_record out)) (lit ''revocation_status'') = Inr s"
    by (auto simp: validRevocationStatus_def required_def truthy_text_def member_text_def)
  with port show ?thesis by (simp add: LookupTrustResolver_def absent_as_null_def)
qed

section \<open>Properties\<close>

text \<open>
  C31: Whatever the resolvers answer and whatever was looked up, cached or cleared before, a
  lookup that returns a record returns a well-formed public record of the requested type with the
  requested id or, for a revocation, the requested target.
\<close>

theorem lookup_returns_requested_record:
  assumes "lookup_run client net st" and "lookupSelectedDetailed client net options type selector value st = (Inr response, st')"
  shows "isPublicRecord (Some (JObj (lr_record response))) \<and> jget (lr_record response) (lit ''type'') = Some (JStr type) \<and>
     (case selector of ById \<Rightarrow> jget (lr_record response) (lit ''id'') = Some (JStr value)
      | ByTarget \<Rightarrow> jget (public_attributes (lr_record response)) (lit ''target'') = Some (JStr value))"
  using lookupSelectedDetailed_inv [OF assms(2) lookup_run_inv [OF assms(1)]]
  by (cases selector) (auto simp: record_for_def selectorMatches_def)

theorem lookup_returns_requested_record_witness:
  "\<exists>response st'. lookupSelectedDetailed sample_client sample_net default_options (lit ''revocation'') ById (lit ''oati:revocation:a'') new_client_state
     = (Inr response, st') \<and> jget (lr_record response) (lit ''id'') = Some (JStr (lit ''oati:revocation:a''))"
proof -
  obtain out st' where r: "lookupSelectedDetailed sample_client sample_net default_options (lit ''revocation'') ById (lit ''oati:revocation:a'') new_client_state = (Inr out, st')"
    using sample_lookup by blast
  from lookup_returns_requested_record [OF created r] r show ?thesis by auto
qed

text \<open>
  C32: The cache of a lookup client never holds more than the configured number of entries and
  never two entries for one key, whatever sequence of lookups, discoveries and clearings the
  client has gone through.
\<close>

theorem lookup_cache_bounded:
  assumes "lookup_run client net st" and "lc_cacheOptions client = Some c"
  shows "length (cs_entries st) \<le> co_maxEntries c \<and> distinct (map fst (cs_entries st))"
  using lookup_run_inv [OF assms(1)] assms(2) by (simp add: client_inv_def bounded_def om_wf_def om_keys_def)

theorem lookup_cache_bounded_witness:
  "length (cs_entries (snd (lookupSelectedDetailed sample_client sample_net default_options (lit ''revocation'') ById (lit ''oati:revocation:a'') new_client_state))) \<le> 500"
proof -
  let ?c = "\<lparr>co_ttlMs = Fin 60000, co_negativeTtlMs = Fin 10000, co_maxEntries = 500\<rparr>"
  have "lc_cacheOptions sample_client = Some ?c" by (simp add: sample_client_def)
  from lookup_cache_bounded [OF looked_up [OF created] this] show ?thesis by simp
qed

text \<open>
  C33: A lookup makes at most one plus \<^verbatim>\<open>maxRetries\<close> requests per resolver, and the pause
  before a retry, when it is a number, never exceeds \<^verbatim>\<open>maxDelayMs\<close>, whatever
  \<^verbatim>\<open>Retry-After\<close> a resolver sends.
\<close>

theorem lookup_requests_bounded:
  assumes "lookupSelectedDetailed client net options type selector value st = (r, st')"
  shows "cs_requests st' \<le> cs_requests st + length (lc_resolverUrls client) * (1 + rt_maxRetries (lc_retries client)) \<and>
     (\<forall>e n. retryDelay e n (lc_retries client) = NaN \<or> num_le (retryDelay e n (lc_retries client)) (rt_maxDelayMs (lc_retries client)))"
  using lookupSelectedDetailed_requests [OF assms] retryDelay_le by auto

theorem lookup_requests_bounded_witness:
  "cs_requests (snd (lookupSelectedDetailed sample_client sample_net default_options (lit ''revocation'') ById (lit ''oati:revocation:a'') new_client_state)) \<le> 6"
  using lookup_requests_bounded [OF prod.collapse [symmetric], of sample_client sample_net default_options "lit ''revocation''" ById "lit ''oati:revocation:a''" new_client_state]
  by (simp add: sample_client_def new_client_state_def)



text \<open>
  C36: The trust resolver built on a lookup client resolves an id only to a key of that id with a
  supported algorithm, and a revocation target only to a status of that target.
\<close>

theorem resolved_keys_and_revocations_match:
  assumes "lookup_run client net st"
  shows "(\<forall>i key. resolveKey (LookupTrustResolver (client_port client net options st)) i = Inr (Some key) \<longrightarrow>
       vk_id key = i \<and> vk_algorithm key \<in> {EdDSA, ES256}) \<and>
     (\<forall>target status. resolveRevocation (LookupTrustResolver (client_port client net options st)) target = Inr (Some status) \<longrightarrow>
       rs_target status = target \<and> rs_status status \<in> {lit ''good'', lit ''suspended'', lit ''revoked'', lit ''unknown''})"
  using record_source.resolved_key [OF client_port_source [OF lookup_run_inv [OF assms]]]
    record_source.resolved_revocation [OF client_port_source [OF lookup_run_inv [OF assms]]] by blast

theorem resolved_keys_and_revocations_match_witness:
  "\<exists>status. resolveRevocation (LookupTrustResolver (client_port sample_client sample_net default_options new_client_state)) (lit ''key-1'') = Inr (Some status)
     \<and> rs_target status = lit ''key-1''"
  using resolved_keys_and_revocations_match [OF created, of sample_client sample_net default_options] sample_status by blast

text \<open>
  C37: The client that follows a federation document to the advertised resolvers reads bodies of
  up to two megabytes, whatever limit the caller configured with \<^verbatim>\<open>maxResponseBytes\<close>.
\<close>

theorem federated_client_ignores_body_limit:
  assumes "OatiLookupClient url (federated_options client options resolvers) = Inr federated"
  shows "lc_maxResponseBytes federated = 2097152"
  using assms by (auto simp: OatiLookupClient_def federated_options_def exn_iff Let_def default_to_def positiveInteger_def split: if_splits)

theorem federated_client_ignores_body_limit_witness:
  "\<exists>federated. OatiLookupClient (net_url sample_net) (federated_options (sample_client\<lparr>lc_maxResponseBytes := 10\<rparr>) default_options [lit ''https://b'']) = Inr federated
     \<and> lc_maxResponseBytes federated = 2097152"
proof -
  obtain f where f: "OatiLookupClient (net_url sample_net) (federated_options (sample_client\<lparr>lc_maxResponseBytes := 10\<rparr>) default_options [lit ''https://b'']) = Inr f"
    by (auto simp: OatiLookupClient_def federated_options_def configured_urls_def normalizeResolverUrl_def sample_net_def sample_client_def default_options_def
      default_to_def positive_def positiveInteger_def nonNegativeInteger_def nonNegative_def configured_cache_def num_of_int_def num_le_def num_eq_def)
  with federated_client_ignores_body_limit [OF f] show ?thesis by blast
qed

end
