(* ===== verification/TextCase.thy ===== *)
theory TextCase
  imports Prelude
begin

text \<open>
  \<^verbatim>\<open>toLowerCase\<close> and \<^verbatim>\<open>toUpperCase\<close>.  On ASCII text the mapping is written out; for other text
  it is the Unicode table of the host, an argument of type \<open>case_map\<close>.
\<close>

type_synonym case_map = "jstring \<Rightarrow> jstring"

definition ascii :: "jstring \<Rightarrow> bool" where
  "ascii s = list_all (\<lambda>u. u < 128) s"

definition lower_unit :: "code_unit \<Rightarrow> code_unit" where
  "lower_unit u = (if is_upper u then u + 32 else u)"

definition upper_unit :: "code_unit \<Rightarrow> code_unit" where
  "upper_unit u = (if is_lower u then u - 32 else u)"

definition toLowerCase :: "case_map \<Rightarrow> jstring \<Rightarrow> jstring" where
  "toLowerCase table s = (if ascii s then map lower_unit s else table s)"

definition toUpperCase :: "case_map \<Rightarrow> jstring \<Rightarrow> jstring" where
  "toUpperCase table s = (if ascii s then map upper_unit s else table s)"

end
