(* ===== verification/Projection.thy ===== *)
theory Projection
  imports LookupRecords TextCase
begin

text \<open>
  \<^verbatim>\<open>projection.ts\<close>: the public view of a registry record.  A source is a JSON object;
  \<^verbatim>\<open>structuredClone\<close> is the identity on immutable values.  The table of public attributes is an
  object literal, so a type that names a member of \<^verbatim>\<open>Object.prototype\<close> finds that member, which
  cannot be iterated.
\<close>

section \<open>Operations\<close>

definition publicFields :: "jstring list" where
  "publicFields = map lit [''type'', ''id'', ''display_name'', ''status'', ''issuer'', ''organisation_id'', ''issued_at'',
     ''expires_at'', ''assurance_level'', ''proof_status'', ''public_attributes'']"

definition publicAttributesByType :: "(jstring \<times> jstring list) list" where
  "publicAttributesByType = map (\<lambda>(t, names). (lit t, map lit names))
    [(''organisation'', [''environment'', ''website'', ''jurisdiction'', ''signed_document'']),
     (''issuer'', [''environment'', ''parent'', ''revoked_at'', ''signed_document'']),
     (''key'', [''controller'', ''algorithm'', ''public_key_jwk'', ''revoked_at'', ''signed_document'']),
     (''agent'', [''protocol'', ''protocols'', ''signed_document'']),
     (''passport'', [''subject'', ''signed_document'']),
     (''mandate'', [''subject'', ''signed_document'']),
     (''receipt'', [''transaction_id'', ''mandate_id'', ''outcome'', ''signed_document'']),
     (''revocation'', [''target'', ''revocation_status'', ''effective_at'', ''signed_document'']),
     (''service'', [''document'', ''signed_document'']),
     (''profile'', [''document'', ''signed_document''])]"

definition Object_prototype :: "jstring list" where
  "Object_prototype = map lit [''constructor'', ''hasOwnProperty'', ''isPrototypeOf'', ''propertyIsEnumerable'', ''toLocaleString'', ''toString'',
     ''valueOf'', ''__defineGetter__'', ''__defineSetter__'', ''__lookupGetter__'', ''__lookupSetter__'', ''__proto__'']"

text \<open>What \<^verbatim>\<open>publicAttributesByType[t]\<close> finds: a list, an inherited member, or nothing.\<close>

datatype allowed_attributes = Allowed "jstring list" | Inherited | Unsupported

definition attributes_of_type :: "json option \<Rightarrow> allowed_attributes" where
  "attributes_of_type type = (case as_string type of None \<Rightarrow> Unsupported
     | Some t \<Rightarrow> (case map_of publicAttributesByType t of Some names \<Rightarrow> Allowed names
         | None \<Rightarrow> if t \<in> set Object_prototype then Inherited else Unsupported))"

definition sensitiveNestedFields :: "jstring list" where
  "sensitiveNestedFields = map lit [''access_token'', ''api_key'', ''credential'', ''internal_id'', ''kms_key'', ''operator_notes'',
     ''password'', ''private_attributes'', ''private_key'', ''refresh_token'', ''secret'', ''tenant_id'']"

definition invalid_attribute :: "jstring \<Rightarrow> jobject \<Rightarrow> exn" where
  "invalid_attribute message details = OatiErr (OatiValidationError message (JObj details))"

fun visit :: "case_map \<Rightarrow> jstring \<Rightarrow> json \<Rightarrow> nat \<Rightarrow> unit result"
  and visit_items :: "case_map \<Rightarrow> jstring \<Rightarrow> json list \<Rightarrow> nat \<Rightarrow> unit result"
  and visit_members :: "case_map \<Rightarrow> jstring \<Rightarrow> jobject \<Rightarrow> nat \<Rightarrow> unit result" where
  "visit table attribute current depth =
     (if 32 < depth then Inl (invalid_attribute (lit ''Public attribute '' @ attribute @ lit '' exceeds the nesting limit'') [(lit ''attribute'', JStr attribute)])
      else case current of
        JArr items \<Rightarrow> visit_items table attribute items (depth + 1)
      | JObj members \<Rightarrow> bindE (visit_members table attribute members (depth + 1)) (\<lambda>_.
          if is_string (jget members (lit ''kty'')) \<and> jget members (lit ''d'') \<noteq> None
          then Inl (invalid_attribute (lit ''Public attribute '' @ attribute @ lit '' contains private JWK material'') [(lit ''attribute'', JStr attribute)])
          else Inr ())
      | _ \<Rightarrow> Inr ())"
| "visit_items table attribute [] depth = Inr ()"
| "visit_items table attribute (item # items) depth =
     bindE (visit table attribute item depth) (\<lambda>_. visit_items table attribute items depth)"
| "visit_members table attribute [] depth = Inr ()"
| "visit_members table attribute ((key, nested) # members) depth =
     (if toLowerCase table key \<in> set sensitiveNestedFields
      then Inl (invalid_attribute (lit ''Public attribute '' @ attribute @ lit '' contains forbidden field '' @ key)
        [(lit ''attribute'', JStr attribute), (lit ''field'', JStr key)])
      else bindE (visit table attribute nested depth) (\<lambda>_. visit_members table attribute members depth))"

definition assertPublicJson :: "case_map \<Rightarrow> jstring \<Rightarrow> jstring \<Rightarrow> unit result" where
  "assertPublicJson table value attribute = (case JSON_parse value of
     Inl _ \<Rightarrow> Inl (invalid_attribute (lit ''Public attribute '' @ attribute @ lit '' must contain valid JSON'') [(lit ''attribute'', JStr attribute)])
   | Inr document \<Rightarrow> visit table attribute document 0)"

definition json_attributes :: "jstring list" where
  "json_attributes = map lit [''document'', ''public_key_jwk'', ''signed_document'']"

definition public_part :: "jobject \<Rightarrow> jobject" where
  "public_part source = List.map_filter (\<lambda>field. map_option (Pair field) (jget source field)) publicFields"

fun filter_attributes :: "case_map \<Rightarrow> jobject \<Rightarrow> jstring list \<Rightarrow> jobject result" where
  "filter_attributes table attributes [] = Inr []"
| "filter_attributes table attributes (name # names) =
     (case jget attributes name of
        None \<Rightarrow> filter_attributes table attributes names
      | Some (JStr value) \<Rightarrow>
          bindE (if name \<in> set json_attributes then assertPublicJson table value name else Inr ()) (\<lambda>_.
          bindE (filter_attributes table attributes names) (\<lambda>rest. Inr ((name, JStr value) # rest)))
      | Some _ \<Rightarrow> Inl (invalid_attribute (lit ''Public attribute '' @ name @ lit '' must be a string'') [(lit ''attribute'', JStr name)]))"

definition type_details :: "json option \<Rightarrow> jobject" where
  "type_details type = (case type of None \<Rightarrow> [] | Some v \<Rightarrow> [(lit ''type'', v)])"

definition projectPublicRecord :: "case_map \<Rightarrow> jobject \<Rightarrow> PublicOatiRecord result" where
  "projectPublicRecord table source =
     (let projected = public_part source; type = jget projected (lit ''type'') in
      case attributes_of_type type of
        Unsupported \<Rightarrow> Inl (invalid_attribute (lit ''Registry source has an unsupported public record type'') (type_details type))
      | found \<Rightarrow>
          (case as_object (jget projected (lit ''public_attributes'')) of
             None \<Rightarrow> Inl (invalid_attribute (lit ''Registry source public_attributes must be an object'') (type_details type))
           | Some attributes \<Rightarrow>
               bindE (case found of Allowed names \<Rightarrow> filter_attributes table attributes names | _ \<Rightarrow> Inl (TypeErr [])) (\<lambda>filteredAttributes.
               let result = put_member (lit ''public_attributes'') (JObj filteredAttributes) projected in
               if list_all (\<lambda>field. is_string (jget result field)) [lit ''type'', lit ''id'', lit ''display_name'', lit ''status'', lit ''issuer'', lit ''proof_status'']
               then Inr result
               else Inl (invalid_attribute (lit ''Registry source cannot produce a valid public record'') [(lit ''required'', JArr (map JStr publicFields))]))))"

section \<open>What a visited document holds\<close>

text \<open>A document discloses something when some object in it has a sensitive member or is a private JWK.\<close>

fun discloses :: "case_map \<Rightarrow> json \<Rightarrow> bool" where
  "discloses table (JArr items) = list_ex (discloses table) items"
| "discloses table (JObj members) =
     (list_ex (\<lambda>(key, nested). toLowerCase table key \<in> set sensitiveNestedFields \<or> discloses table nested) members
      \<or> is_string (jget members (lit ''kty'')) \<and> jget members (lit ''d'') \<noteq> None)"
| "discloses table _ = False"

declare visit.simps [simp del]

lemma visited_discloses_nothing:
  "visit table attribute current depth = Inr () \<Longrightarrow> \<not> discloses table current"
  "visit_items table attribute items depth = Inr () \<Longrightarrow> \<not> list_ex (discloses table) items"
  "visit_members table attribute members depth = Inr () \<Longrightarrow>
     \<not> list_ex (\<lambda>(key, nested). toLowerCase table key \<in> set sensitiveNestedFields \<or> discloses table nested) members"
proof (induction table attribute current depth and table attribute items depth and table attribute members depth rule: visit_visit_items_visit_members.induct)
  case (1 table attribute current depth)
  from 1(3) show ?case using 1(1,2) unfolding visit.simps by (auto simp: exn_iff split: if_splits json.splits)
qed (auto simp: exn_iff split: if_splits)

lemma assertPublicJson_Inr:
  assumes "assertPublicJson table value attribute = Inr ()"
  shows "\<exists>document. JSON_parse value = Inr document \<and> \<not> discloses table document"
  using assms visited_discloses_nothing(1) by (auto simp: assertPublicJson_def split: sum.splits)

section \<open>The projected record\<close>

lemma publicFields_distinct: "distinct publicFields"
  by (simp add: publicFields_def)

lemma map_filter_pair:
  "distinct fs \<Longrightarrow> jget (List.map_filter (\<lambda>f. map_option (Pair f) (jget r f)) fs) k = (if k \<in> set fs then jget r k else None)"
  by (induction fs) (auto simp: jget_def List.map_filter_simps split: option.splits)

lemma jget_public_part: "jget (public_part source) k = (if k \<in> set publicFields then jget source k else None)"
  unfolding public_part_def by (rule map_filter_pair [OF publicFields_distinct])

lemma public_part_keys: "fst ` set (public_part source) \<subseteq> set publicFields"
  by (auto simp: public_part_def List.map_filter_def)

lemma public_part_cong: "(\<And>k. k \<in> set publicFields \<Longrightarrow> jget a k = jget b k) \<Longrightarrow> public_part a = public_part b"
  unfolding public_part_def List.map_filter_def by (intro map_cong filter_cong arg_cong [of _ _ the]) auto

lemma public_part_put:
  assumes "k \<in> set publicFields" and "jget source k \<noteq> None"
  shows "public_part (put_member k v (public_part source)) = put_member k v (public_part source)"
proof -
  have parts: "List.map_filter (\<lambda>f. map_option (Pair f) (jget (set_member k v (public_part source)) f)) fs =
      set_member k v (List.map_filter (\<lambda>f. map_option (Pair f) (jget source f)) fs)" if "set fs \<subseteq> set publicFields" for fs
    using that assms(2)
  proof (induction fs)
    case (Cons f fs)
    moreover have "jget (set_member k v (public_part source)) f = (if f = k then Some v else jget source f)"
      using Cons.prems assms by (auto simp: jget_def map_of_set_member) (auto simp: jget_public_part [unfolded jget_def])
    ultimately show ?case by (cases "jget source f") (auto simp: List.map_filter_simps set_member_def)
  qed (simp add: List.map_filter_simps set_member_def)
  obtain w where "map_of (public_part source) k = Some w"
    using assms jget_public_part [of source k] unfolding jget_def by force
  then have "k \<in> fst ` set (public_part source)" using map_of_SomeD by force
  moreover have "public_part (set_member k v (public_part source)) = set_member k v (public_part source)"
    using parts [OF subset_refl] unfolding public_part_def [symmetric] .
  ultimately show ?thesis by (simp add: put_member_alt)
qed

definition public_attribute :: "case_map \<Rightarrow> jobject \<Rightarrow> jstring \<Rightarrow> json \<Rightarrow> bool" where
  "public_attribute table attributes name v \<longleftrightarrow> jget attributes name = Some v \<and>
     (\<exists>s. v = JStr s \<and> (name \<in> set json_attributes \<longrightarrow> assertPublicJson table s name = Inr ()))"

lemma filter_attributes_Cons:
  assumes "filter_attributes table attributes (name # names) = Inr rs"
  shows "filter_attributes table attributes names = Inr rs \<or>
     (\<exists>v rs'. filter_attributes table attributes names = Inr rs' \<and> rs = (name, v) # rs' \<and> public_attribute table attributes name v)"
  using assms by (cases "jget attributes name") (auto simp: exn_iff public_attribute_def split: json.splits if_splits)

lemma filter_attributes_Inr:
  "filter_attributes table attributes names = Inr rs \<Longrightarrow> fst ` set rs \<subseteq> set names \<and> (\<forall>(name, v) \<in> set rs. public_attribute table attributes name v)"
proof (induction names arbitrary: rs)
  case (Cons name names)
  from filter_attributes_Cons [OF Cons.prems] show ?case using Cons.IH by fastforce
qed simp

lemma filter_attributes_jget:
  "filter_attributes table attributes names = Inr rs \<Longrightarrow> jget rs name = (if name \<in> set names then jget attributes name else None)"
proof (induction names arbitrary: rs)
  case Nil
  then show ?case by (simp add: jget_def)
next
  case (Cons n names)
  from filter_attributes_Cons [OF Cons.prems] show ?case
  proof (elim disjE exE conjE)
    assume f: "filter_attributes table attributes names = Inr rs"
    moreover have "n \<in> set names \<or> jget attributes n = None"
      using Cons.prems f by (auto simp: exn_iff split: option.splits json.splits if_splits)
    ultimately show ?thesis using Cons.IH by auto
  qed (auto simp: jget_def public_attribute_def dest: Cons.IH)
qed

lemma filter_attributes_cong:
  "(\<And>name. name \<in> set names \<Longrightarrow> jget a name = jget b name) \<Longrightarrow> filter_attributes table a names = filter_attributes table b names"
  by (induction names) (auto split: option.splits json.splits)

lemma filter_attributes_idem: "filter_attributes table attributes names = Inr rs \<Longrightarrow> filter_attributes table rs names = Inr rs"
  using filter_attributes_cong [of names rs attributes table] filter_attributes_jget [of table attributes names rs] by simp

lemma projectPublicRecord_Inr:
  assumes "projectPublicRecord table source = Inr r"
  obtains names attributes filtered where "attributes_of_type (jget source (lit ''type'')) = Allowed names"
    "jget source (lit ''public_attributes'') = Some (JObj attributes)" "filter_attributes table attributes names = Inr filtered"
    "r = put_member (lit ''public_attributes'') (JObj filtered) (public_part source)"
    "list_all (\<lambda>field. is_string (jget r field)) [lit ''type'', lit ''id'', lit ''display_name'', lit ''status'', lit ''issuer'', lit ''proof_status'']"
  using assms by (auto simp: projectPublicRecord_def Let_def jget_public_part exn_iff publicFields_def
      split: allowed_attributes.splits option.splits if_splits)

lemma projectPublicRecord_idem:
  assumes "projectPublicRecord table source = Inr r"
  shows "projectPublicRecord table r = Inr r"
proof -
  from assms obtain names attributes filtered where a: "attributes_of_type (jget source (lit ''type'')) = Allowed names"
    "jget source (lit ''public_attributes'') = Some (JObj attributes)" "filter_attributes table attributes names = Inr filtered"
    "r = put_member (lit ''public_attributes'') (JObj filtered) (public_part source)"
    "list_all (\<lambda>field. is_string (jget r field)) [lit ''type'', lit ''id'', lit ''display_name'', lit ''status'', lit ''issuer'', lit ''proof_status'']"
    by (rule projectPublicRecord_Inr)
  have fields: "lit ''public_attributes'' \<in> set publicFields" "lit ''type'' \<in> set publicFields" by (simp_all add: publicFields_def)
  have part: "public_part r = r" unfolding a(4) by (rule public_part_put [OF fields(1)]) (simp add: a(2))
  have "jget r (lit ''type'') = jget source (lit ''type'')" "jget r (lit ''public_attributes'') = Some (JObj filtered)"
    using fields by (simp_all add: a(4) jget_public_part)
  moreover have "put_member (lit ''public_attributes'') (JObj filtered) r = r" by (simp add: a(4))
  ultimately show ?thesis
    using a(1,5) filter_attributes_idem [OF a(3)] unfolding projectPublicRecord_def by (simp add: part)
qed

section \<open>Properties\<close>

text \<open>
  C39: A record that the projection publishes has only the public fields, only the attributes
  allowed for its type, all of them text, and no document among them has a sensitive member or a
  private JWK at any depth; the record depends on nothing but the public fields of the source,
  and projecting it again returns it unchanged.
\<close>

theorem projection_publishes_only_public_data:
  assumes "projectPublicRecord table source = Inr r"
  shows "fst ` set r \<subseteq> set publicFields \<and>
     (\<exists>t names. jget r (lit ''type'') = Some (JStr t) \<and> map_of publicAttributesByType t = Some names \<and> fst ` set (public_attributes r) \<subseteq> set names) \<and>
     (\<forall>name v. jget (public_attributes r) name = Some v \<longrightarrow> (\<exists>s. v = JStr s \<and>
        (name \<in> set json_attributes \<longrightarrow> (\<exists>document. JSON_parse s = Inr document \<and> \<not> discloses table document)))) \<and>
     (\<forall>other. (\<forall>field \<in> set publicFields. jget other field = jget source field) \<longrightarrow> projectPublicRecord table other = Inr r) \<and>
     projectPublicRecord table r = Inr r"
proof -
  from assms obtain names attributes filtered where a: "attributes_of_type (jget source (lit ''type'')) = Allowed names"
    "jget source (lit ''public_attributes'') = Some (JObj attributes)" "filter_attributes table attributes names = Inr filtered"
    "r = put_member (lit ''public_attributes'') (JObj filtered) (public_part source)"
    by (rule projectPublicRecord_Inr)
  have fields: "lit ''public_attributes'' \<in> set publicFields" "lit ''type'' \<in> set publicFields" by (simp_all add: publicFields_def)
  have "fst ` set r \<subseteq> set publicFields" using public_part_keys [of source] fields(1) by (auto simp: a(4) put_member_alt set_member_keys(2))
  moreover have attrs: "public_attributes r = filtered" by (simp add: public_attributes_def a(4))
  moreover have "\<exists>t. jget r (lit ''type'') = Some (JStr t) \<and> map_of publicAttributesByType t = Some names"
    using a(1) fields(2) by (auto simp: attributes_of_type_def a(4) jget_public_part split: option.splits if_splits)
  moreover have "\<exists>s. v = JStr s \<and> (name \<in> set json_attributes \<longrightarrow> (\<exists>document. JSON_parse s = Inr document \<and> \<not> discloses table document))"
    if "jget filtered name = Some v" for name v
  proof -
    have "(name, v) \<in> set filtered" using that by (auto simp: jget_def dest: map_of_SomeD)
    then show ?thesis using filter_attributes_Inr [OF a(3)] assertPublicJson_Inr by (fastforce simp: public_attribute_def)
  qed
  moreover have "projectPublicRecord table other = Inr r" if "\<forall>field \<in> set publicFields. jget other field = jget source field" for other
    using assms public_part_cong [of other source] that by (simp add: projectPublicRecord_def)
  ultimately show ?thesis using filter_attributes_Inr [OF a(3)] projectPublicRecord_idem [OF assms] by blast
qed

theorem projection_publishes_only_public_data_witness:
  "\<exists>r. projectPublicRecord (\<lambda>s. s) [(lit ''type'', JStr (lit ''agent'')), (lit ''id'', JStr (lit ''oati:agent:a'')), (lit ''display_name'', JStr (lit ''A'')),
       (lit ''status'', JStr (lit ''active'')), (lit ''issuer'', JStr (lit ''i'')), (lit ''proof_status'', JStr (lit ''verified'')),
       (lit ''public_attributes'', JObj [(lit ''protocols'', JStr (lit ''http'')), (lit ''token'', JStr (lit ''t''))]),
       (lit ''private_attributes'', JObj [])] = Inr r \<and> fst ` set r \<subseteq> set publicFields"
  (is "\<exists>r. projectPublicRecord _ ?s = Inr r \<and> _ r")
proof -
  have "\<exists>r. projectPublicRecord (\<lambda>s. s) ?s = Inr r"
    by (simp add: projectPublicRecord_def public_part_def List.map_filter_simps publicFields_def jget_def attributes_of_type_def publicAttributesByType_def
        put_member_def json_attributes_def Let_def)
  then show ?thesis using projection_publishes_only_public_data by blast
qed

end
