(* ===== verification/Effects.thy ===== *)
theory Effects
  imports Errors
begin

text \<open>
  Asynchronous code as state passing.  An action reads and changes the world and returns or
  throws; a throw keeps the changes made before it, as in the program.  \<open>bindA\<close> is sequencing,
  \<open>catchA\<close> is \<^verbatim>\<open>try\<close>, \<open>liftA\<close> runs a computation that does not touch the world.
\<close>

type_synonym ('w, 'a) act = "'w \<Rightarrow> 'a result \<times> 'w"

definition returnA :: "'a \<Rightarrow> ('w, 'a) act" where
  "returnA a w = (Inr a, w)"

definition throwA :: "exn \<Rightarrow> ('w, 'a) act" where
  "throwA e w = (Inl e, w)"

definition liftA :: "'a result \<Rightarrow> ('w, 'a) act" where
  "liftA r w = (r, w)"

definition readA :: "('w \<Rightarrow> 'a) \<Rightarrow> ('w, 'a) act" where
  "readA f w = (Inr (f w), w)"

definition bindA :: "('w, 'a) act \<Rightarrow> ('a \<Rightarrow> ('w, 'b) act) \<Rightarrow> ('w, 'b) act" where
  "bindA m f w = (case m w of (Inl e, w') \<Rightarrow> (Inl e, w') | (Inr a, w') \<Rightarrow> f a w')"

definition catchA :: "('w, 'a) act \<Rightarrow> (exn \<Rightarrow> ('w, 'a) act) \<Rightarrow> ('w, 'a) act" where
  "catchA m h w = (case m w of (Inl e, w') \<Rightarrow> h e w' | (Inr a, w') \<Rightarrow> (Inr a, w'))"

text \<open>The result of an action as a value, so that the code after a \<^verbatim>\<open>try\<close> can branch on it.\<close>

definition attemptA :: "('w, 'a) act \<Rightarrow> ('w, 'a result) act" where
  "attemptA m w = (case m w of (r, w') \<Rightarrow> (Inr r, w'))"

lemma act_simps [simp]:
  "returnA a w = (Inr a, w)" "throwA e w = (Inl e, w)" "liftA r w = (r, w)" "readA f w = (Inr (f w), w)"
  by (simp_all add: returnA_def throwA_def liftA_def readA_def)

lemma bindA_Inr_iff [exn_iff]: "bindA m f w = (Inr b, w'') \<longleftrightarrow> (\<exists>a w'. m w = (Inr a, w') \<and> f a w' = (Inr b, w''))"
  by (auto simp: bindA_def split: prod.splits sum.splits)

lemma bindA_lift [simp]: "bindA (liftA (Inr a)) f w = f a w" "bindA (liftA (Inl e)) f w = (Inl e, w)"
  "bindA (returnA a) f w = f a w" "bindA (throwA e) f w = (Inl e, w)" "bindA (readA g) f w = f (g w) w"
  by (simp_all add: bindA_def)

lemma catchA_Inr_iff [exn_iff]:
  "catchA m h w = (Inr b, w'') \<longleftrightarrow> m w = (Inr b, w'') \<or> (\<exists>e w'. m w = (Inl e, w') \<and> h e w' = (Inr b, w''))"
  by (auto simp: catchA_def split: prod.splits sum.splits)

lemma attemptA_eq [simp]: "attemptA m w = (Inr (fst (m w)), snd (m w))"
  by (simp add: attemptA_def split: prod.splits)

end
