(* ===== verification/Views.thy ===== *)
theory Views
  imports Documents Objects "HOL-Library.Monad_Syntax"
begin

text \<open>
  Documents at their declared types.  \<^verbatim>\<open>assertSchema\<close> narrows a parsed document to an
  interface of \<^verbatim>\<open>index.ts\<close>; \<open>mandate_of\<close> and \<open>envelope_of\<close> read the document at that interface,
  \<open>None\<close> where a member does not have its declared type.
\<close>

section \<open>Reading\<close>

fun text_value :: "json \<Rightarrow> jstring option" where
  "text_value (JStr s) = Some s"
| "text_value _ = None"

fun number_value :: "json \<Rightarrow> jsnum option" where
  "number_value (JNum n) = Some n"
| "number_value _ = None"

fun bool_value :: "json \<Rightarrow> bool option" where
  "bool_value (JBool b) = Some b"
| "bool_value _ = None"

fun object_value :: "json \<Rightarrow> jobject option" where
  "object_value (JObj r) = Some r"
| "object_value _ = None"

fun texts_value :: "json \<Rightarrow> jstring list option" where
  "texts_value (JArr xs) = those (map text_value xs)"
| "texts_value _ = None"

definition choice_value :: "(jstring \<times> 'a) list \<Rightarrow> json \<Rightarrow> 'a option" where
  "choice_value choices v = Option.bind (text_value v) (map_of choices)"

definition member_of :: "(json \<Rightarrow> 'a option) \<Rightarrow> jobject \<Rightarrow> string \<Rightarrow> 'a option" where
  "member_of f r k = Option.bind (jget r (lit k)) f"

definition optional_of :: "(json \<Rightarrow> 'a option) \<Rightarrow> jobject \<Rightarrow> string \<Rightarrow> 'a option option" where
  "optional_of f r k = (case jget r (lit k) of None \<Rightarrow> Some None | Some v \<Rightarrow> map_option Some (f v))"

definition mandate_statuses :: "(jstring \<times> mandate_status) list" where
  "mandate_statuses = [(lit ''active'', Active), (lit ''suspended'', Suspended), (lit ''revoked'', Revoked), (lit ''expired'', Expired), (lit ''consumed'', Consumed)]"

definition protocols :: "(jstring \<times> protocol) list" where
  "protocols = [(lit ''http'', Http), (lit ''grpc'', Grpc), (lit ''mcp'', Mcp), (lit ''a2a'', A2a)]"

fun audience_value :: "json \<Rightarrow> audience option" where
  "audience_value (JStr s) = Some (Audience s)"
| "audience_value v = map_option Audiences (texts_value v)"

definition proof_of :: "jobject \<Rightarrow> Proof option" where
  "proof_of r = do {
     type \<leftarrow> member_of text_value r ''type'';
     cryptosuite \<leftarrow> optional_of text_value r ''cryptosuite'';
     algorithm \<leftarrow> optional_of text_value r ''algorithm'';
     created \<leftarrow> optional_of text_value r ''created'';
     expires \<leftarrow> optional_of text_value r ''expires'';
     method \<leftarrow> optional_of text_value r ''verification_method'';
     purpose \<leftarrow> optional_of text_value r ''proof_purpose'';
     audience \<leftarrow> optional_of audience_value r ''audience'';
     nonce \<leftarrow> optional_of text_value r ''nonce'';
     signature \<leftarrow> optional_of text_value r ''signature'';
     Some \<lparr>prf_type = type, prf_cryptosuite = cryptosuite, prf_algorithm = algorithm, prf_created = created, prf_expires = expires,
           prf_verification_method = method, prf_proof_purpose = purpose, prf_audience = audience, prf_nonce = nonce, prf_signature = signature\<rparr>
   }"

definition delegation_of :: "jobject \<Rightarrow> Delegation option" where
  "delegation_of r = do {
     flag \<leftarrow> member_of bool_value r ''allowed'';
     depth \<leftarrow> member_of number_value r ''max_depth'';
     Some \<lparr>allowed = flag, max_depth = depth\<rparr>
   }"

definition mandate_of :: "jobject \<Rightarrow> AgentMandate option" where
  "mandate_of r = do {
     version \<leftarrow> member_of text_value r ''oati_version'';
     id \<leftarrow> member_of text_value r ''id'';
     issuer \<leftarrow> member_of text_value r ''issuer'';
     subject \<leftarrow> member_of text_value r ''subject'';
     sponsor \<leftarrow> optional_of text_value r ''sponsor'';
     parent \<leftarrow> optional_of text_value r ''parent_mandate'';
     purpose \<leftarrow> member_of text_value r ''purpose'';
     actions \<leftarrow> member_of texts_value r ''actions'';
     resources \<leftarrow> optional_of texts_value r ''resources'';
     counterparties \<leftarrow> optional_of texts_value r ''counterparties'';
     destinations \<leftarrow> optional_of texts_value r ''destinations'';
     limits \<leftarrow> optional_of object_value r ''limits'';
     data_use \<leftarrow> optional_of object_value r ''data_use'';
     delegation \<leftarrow> optional_of (\<lambda>v. Option.bind (object_value v) delegation_of) r ''delegation'';
     not_before \<leftarrow> member_of text_value r ''not_before'';
     expires_at \<leftarrow> member_of text_value r ''expires_at'';
     status \<leftarrow> member_of (choice_value mandate_statuses) r ''status'';
     profile \<leftarrow> optional_of text_value r ''profile'';
     extensions \<leftarrow> optional_of object_value r ''extensions'';
     proof_value \<leftarrow> optional_of (\<lambda>v. Option.bind (object_value v) proof_of) r ''proof'';
     Some \<lparr>man_oati_version = version, man_id = id, man_issuer = issuer, man_subject = subject, man_sponsor = sponsor, man_parent_mandate = parent,
           man_purpose = purpose, man_actions = actions, man_resources = resources, man_counterparties = counterparties, man_destinations = destinations,
           man_limits = limits, man_data_use = data_use, man_delegation = delegation, man_not_before = not_before, man_expires_at = expires_at,
           man_status = status, man_profile = profile, man_extensions = extensions, man_proof = proof_value\<rparr>
   }"

definition envelope_of :: "jobject \<Rightarrow> TransactionEnvelope option" where
  "envelope_of r = do {
     version \<leftarrow> member_of text_value r ''oati_version'';
     id \<leftarrow> member_of text_value r ''id'';
     agent \<leftarrow> member_of text_value r ''agent_id'';
     organisation \<leftarrow> member_of text_value r ''organisation_id'';
     mandate \<leftarrow> member_of text_value r ''mandate_id'';
     action \<leftarrow> member_of text_value r ''action'';
     resource \<leftarrow> member_of text_value r ''resource'';
     purpose \<leftarrow> optional_of text_value r ''purpose'';
     destination \<leftarrow> optional_of text_value r ''destination'';
     counterparty \<leftarrow> optional_of text_value r ''counterparty'';
     protocol \<leftarrow> optional_of (choice_value protocols) r ''protocol'';
     commercial \<leftarrow> optional_of text_value r ''commercial_profile'';
     digest \<leftarrow> optional_of text_value r ''request_digest'';
     issued_at \<leftarrow> member_of text_value r ''issued_at'';
     nonce \<leftarrow> member_of text_value r ''nonce'';
     profile \<leftarrow> optional_of text_value r ''profile'';
     extensions \<leftarrow> optional_of object_value r ''extensions'';
     proof_value \<leftarrow> optional_of (\<lambda>v. Option.bind (object_value v) proof_of) r ''proof'';
     Some \<lparr>env_oati_version = version, env_id = id, env_agent_id = agent, env_organisation_id = organisation, env_mandate_id = mandate,
           env_action = action, env_resource = resource, env_purpose = purpose, env_destination = destination, env_counterparty = counterparty,
           env_protocol = protocol, env_commercial_profile = commercial, env_request_digest = digest, env_issued_at = issued_at, env_nonce = nonce,
           env_profile = profile, env_extensions = extensions, env_proof = proof_value\<rparr>
   }"

end
