(* ===== verification/Validation.thy ===== *)
theory Validation
  imports Errors TextCase
begin

text \<open>
  \<^verbatim>\<open>validation.ts\<close>: schema validation and the issues it publishes.  The Ajv validators compiled
  from the published schemas are an argument: for a schema name and a value, whether the value
  is valid and the \<^verbatim>\<open>errors\<close> the validator leaves behind.
\<close>

definition OATI_SCHEMA_NAMES :: "jstring list" where
  "OATI_SCHEMA_NAMES = map lit [''proof'', ''verificationKey'', ''issuer'', ''revocation'', ''evaluationRequest'', ''evaluationResult'',
     ''publicRecord'', ''serviceDiscovery'', ''profileDiscovery'', ''wellKnown'', ''conformanceSuite'', ''conformanceReport'',
     ''passport'', ''mandate'', ''envelope'', ''decision'', ''receipt'', ''commerceOffer'', ''commerceMandate'', ''commerceReceipt'',
     ''rwaAsset'', ''rwaStateClaim'', ''rwaMandate'', ''rwaReceipt'']"

record ErrorObject =
  eo_keyword :: jstring
  eo_instancePath :: jstring
  eo_message :: "jstring option"
  eo_params :: jobject
  eo_schemaPath :: jstring

type_synonym validators = "jstring \<Rightarrow> json \<Rightarrow> bool \<times> ErrorObject list option"

record SchemaIssue =
  si_code :: jstring
  si_path :: jstring
  si_keyword :: jstring
  si_message :: jstring
  si_params :: jobject
  si_schemaPath :: jstring

record SchemaValidationResult =
  sv_valid :: bool
  sv_issues :: "SchemaIssue list"

text \<open>\<^verbatim>\<open>/\/oneOf\/\d+\//.test(path)\<close>\<close>

definition branch_here :: "jstring \<Rightarrow> bool" where
  "branch_here s \<longleftrightarrow> startsWith s (lit ''/oneOf/'') \<and>
     (let r = drop 7 s in takeWhile is_digit r \<noteq> [] \<and> startsWith (dropWhile is_digit r) (lit ''/''))"

fun oneOf_branch :: "jstring \<Rightarrow> bool" where
  "oneOf_branch [] = False"
| "oneOf_branch (u # s) = (branch_here (u # s) \<or> oneOf_branch s)"

definition schema_issue :: "case_map \<Rightarrow> ErrorObject \<Rightarrow> SchemaIssue" where
  "schema_issue table error =
     \<lparr>si_code = lit ''SCHEMA_'' @ toUpperCase table (eo_keyword error),
      si_path = (if eo_instancePath error = [] then lit ''/'' else eo_instancePath error),
      si_keyword = eo_keyword error,
      si_message = (case eo_message error of None \<Rightarrow> lit ''schema validation failed'' | Some m \<Rightarrow> m),
      si_params = eo_params error, si_schemaPath = eo_schemaPath error\<rparr>"

definition schemaIssues :: "case_map \<Rightarrow> ErrorObject list option \<Rightarrow> SchemaIssue list" where
  "schemaIssues table errors = map (schema_issue table)
     (filter (\<lambda>error. eo_keyword error \<noteq> lit ''if'' \<and> \<not> oneOf_branch (eo_schemaPath error)) (case errors of None \<Rightarrow> [] | Some es \<Rightarrow> es))"

definition validateSchema :: "case_map \<Rightarrow> validators \<Rightarrow> jstring \<Rightarrow> json \<Rightarrow> SchemaValidationResult" where
  "validateSchema table validators name value =
     (let (valid, errors) = validators name value
      in \<lparr>sv_valid = valid, sv_issues = (if valid then [] else schemaIssues table errors)\<rparr>)"

text \<open>An issue as the JSON object that ends up in the details of the error.\<close>

definition issue_json :: "SchemaIssue \<Rightarrow> json" where
  "issue_json i = JObj [(lit ''code'', JStr (si_code i)), (lit ''path'', JStr (si_path i)), (lit ''keyword'', JStr (si_keyword i)),
     (lit ''message'', JStr (si_message i)), (lit ''params'', JObj (si_params i)), (lit ''schemaPath'', JStr (si_schemaPath i))]"

definition assertSchema :: "case_map \<Rightarrow> validators \<Rightarrow> jstring \<Rightarrow> json \<Rightarrow> unit result" where
  "assertSchema table validators name value =
     (let validation = validateSchema table validators name value
      in if sv_valid validation then Inr ()
         else Inl (OatiErr (OatiValidationError (lit ''Value does not satisfy the '' @ name @ lit '' schema'')
           (JArr (map issue_json (sv_issues validation))))))"

definition getSchema :: "(jstring \<Rightarrow> jobject) \<Rightarrow> jstring \<Rightarrow> jobject" where
  "getSchema schemas name = schemas name"

definition schemaNames :: "jstring list" where
  "schemaNames = OATI_SCHEMA_NAMES"

lemma validateSchema_valid [simp]: "sv_valid (validateSchema table validators name value) = fst (validators name value)"
  by (simp add: validateSchema_def split: prod.split)

lemma assertSchema_iff [exn_iff]: "assertSchema table validators name value = Inr u \<longleftrightarrow> fst (validators name value)"
  by (simp add: assertSchema_def Let_def)

end
