(* ===== verification/Middleware.thy ===== *)
theory Middleware
  imports Effects Views Validation Verification LookupRecords Evaluator
begin

text \<open>
  \<^verbatim>\<open>middleware.ts\<close>: the fail-closed HTTP middleware.  Everything outside the program acts on a
  world of type \<open>'w\<close>: the replay cache behind a verification policy, the usage store, the receipt
  signer and sink, the downstream handler and the clock are actions on it.  \<open>'h\<close> is the identity
  of an object a usage store has loaded, which the store may use to recognise it.  The host gives
  the URL parser, SHA-256, random numbers, the case mapping and the compiled schema validators.
\<close>

unbundle bit_operations_syntax

section \<open>Interfaces\<close>

record http_header_names =
  hn_envelope :: jstring
  hn_mandate :: jstring
  hn_parentMandate :: jstring
  hn_transactionId :: jstring
  hn_correlationId :: jstring
  hn_receipt :: jstring
  hn_receiptId :: jstring

definition OATI_HTTP_HEADERS :: http_header_names where
  "OATI_HTTP_HEADERS = \<lparr>hn_envelope = lit ''OATI-Envelope'', hn_mandate = lit ''OATI-Mandate'', hn_parentMandate = lit ''OATI-Parent-Mandate'',
     hn_transactionId = lit ''OATI-Transaction-ID'', hn_correlationId = lit ''OATI-Correlation-ID'', hn_receipt = lit ''OATI-Receipt'',
     hn_receiptId = lit ''OATI-Receipt-ID''\<rparr>"

datatype OatiDocumentKind = KEnvelope | KMandate | KParentMandate

definition kind_upper :: "OatiDocumentKind \<Rightarrow> jstring" where
  "kind_upper kind = (case kind of KEnvelope \<Rightarrow> lit ''ENVELOPE'' | KMandate \<Rightarrow> lit ''MANDATE'' | KParentMandate \<Rightarrow> lit ''PARENT_MANDATE'')"

record Request =
  req_method :: jstring
  req_url :: jstring
  req_header :: "jstring \<Rightarrow> jstring option"
  req_body :: "byte list result"

type_synonym http_headers = "(jstring \<times> jstring) list"

datatype response_body = JsonBody json | RawBody "byte list"

record Response =
  rsp_status :: int
  rsp_statusText :: jstring
  rsp_headers :: http_headers
  rsp_body :: response_body

text \<open>What \<^verbatim>\<open>extract\<close> returns: values of unknown shape until the schemas have been asserted.\<close>

record ExtractedOatiRequest =
  ex_envelope :: json
  ex_mandate :: json
  ex_parentMandate :: "json option"

text \<open>A document together with its view at the declared type.\<close>

type_synonym 'a narrowed = "jobject \<times> 'a"

record narrowed_request =
  nr_envelope :: "TransactionEnvelope narrowed"
  nr_mandate :: "AgentMandate narrowed"
  nr_parentMandate :: "AgentMandate narrowed option"

record ('w, 'h) OatiUsageStore =
  store_load :: "jstring \<Rightarrow> ('w, 'h \<times> UsageSnapshot) act"
  store_compareAndSet :: "jstring \<Rightarrow> 'h \<times> UsageSnapshot \<Rightarrow> UsageSnapshot \<Rightarrow> ('w, bool) act"

record OatiEvaluationExtensions =
  ext_delegation_depth :: "jsnum option"
  ext_consumption :: "Consumption option"
  ext_commerce :: "CommerceEvaluationContext option"
  ext_rwa :: "RwaEvaluationContext option"

record OatiMiddlewareContext =
  ctx_request :: Request
  ctx_envelope :: TransactionEnvelope
  ctx_mandate :: AgentMandate
  ctx_parentMandate :: "AgentMandate option"
  ctx_correlationId :: jstring
  ctx_transactionId :: jstring
  ctx_envelopeVerification :: VerificationResult
  ctx_mandateVerification :: VerificationResult
  ctx_parentMandateVerification :: "VerificationResult option"
  ctx_evaluation :: EvaluationResult

record ('w, 'h) OatiMiddlewareOptions =
  mo_verificationPolicy :: "OatiDocumentKind \<Rightarrow> Request \<Rightarrow> ('w, 'w VerificationPolicy) act"
  mo_receiptIssuer :: jstring
  mo_signReceipt :: "jobject \<Rightarrow> OatiMiddlewareContext \<Rightarrow> ('w, json) act"
  mo_usageStore :: "('w, 'h) OatiUsageStore option"
  mo_evaluationExtensions :: "(Request \<Rightarrow> narrowed_request \<Rightarrow> ('w, OatiEvaluationExtensions option) act) option"
  mo_extract :: "(Request \<Rightarrow> ('w, ExtractedOatiRequest) act) option"
  mo_emitReceipt :: "(json \<Rightarrow> OatiMiddlewareContext \<Rightarrow> ('w, unit) act) option"
  mo_now :: "('w \<Rightarrow> int option) option"
  mo_generateCorrelationId :: "('w, jstring option) act option"
  mo_generateReceiptId :: "(jstring \<Rightarrow> ('w, jstring option) act) option"
  mo_policyDigest :: "jstring option"
  mo_maxHeaderBytes :: "jsnum option"
  mo_requireRequestDigest :: "bool option"
  mo_maxBodyBytes :: "jsnum option"
  mo_allowedReceiptOutcome :: "outcome option"

type_synonym 'w handler = "Request \<Rightarrow> OatiMiddlewareContext \<Rightarrow> ('w, Response) act"

record ('w, 'k) host =
  h_legacy :: legacy_dates
  h_crypto :: "'k host_crypto"
  h_digest :: "byte list \<Rightarrow> byte list result"
  h_url :: url_parser
  h_upper :: case_map
  h_validators :: validators
  h_now :: "'w \<Rightarrow> int"
  h_randomUUID :: "('w, jstring) act option"
  h_getRandomValues :: "nat \<Rightarrow> ('w, byte list) act option"

section \<open>Errors\<close>

definition middlewareError :: "oati_error_code \<Rightarrow> jstring \<Rightarrow> exn" where
  "middlewareError code message = OatiErr (OatiError code message no_options)"

fun isMiddlewareError :: "exn \<Rightarrow> bool" where
  "isMiddlewareError (OatiErr e) = (err_code e \<in> {MIDDLEWARE_BAD_REQUEST, MIDDLEWARE_UNAUTHENTICATED, MIDDLEWARE_FORBIDDEN,
     MIDDLEWARE_REPLAY, MIDDLEWARE_USAGE_CONFLICT, MIDDLEWARE_UNAVAILABLE})"
| "isMiddlewareError _ = False"

fun has_code :: "oati_error_code \<Rightarrow> exn \<Rightarrow> bool" where
  "has_code code (OatiErr e) = (err_code e = code)"
| "has_code code _ = False"

definition code_text :: "oati_error_code \<Rightarrow> jstring" where
  "code_text code = (case code of
     VALIDATION_FAILED \<Rightarrow> lit ''VALIDATION_FAILED'' | INVALID_CANONICAL_VALUE \<Rightarrow> lit ''INVALID_CANONICAL_VALUE'' | CRYPTO_UNAVAILABLE \<Rightarrow> lit ''CRYPTO_UNAVAILABLE''
   | LOOKUP_BAD_REQUEST \<Rightarrow> lit ''LOOKUP_BAD_REQUEST'' | LOOKUP_NOT_FOUND \<Rightarrow> lit ''LOOKUP_NOT_FOUND'' | LOOKUP_RATE_LIMITED \<Rightarrow> lit ''LOOKUP_RATE_LIMITED''
   | LOOKUP_UNAVAILABLE \<Rightarrow> lit ''LOOKUP_UNAVAILABLE'' | LOOKUP_INVALID_RESPONSE \<Rightarrow> lit ''LOOKUP_INVALID_RESPONSE'' | LOOKUP_TIMEOUT \<Rightarrow> lit ''LOOKUP_TIMEOUT''
   | LOOKUP_CANCELLED \<Rightarrow> lit ''LOOKUP_CANCELLED'' | MIDDLEWARE_BAD_REQUEST \<Rightarrow> lit ''MIDDLEWARE_BAD_REQUEST''
   | MIDDLEWARE_UNAUTHENTICATED \<Rightarrow> lit ''MIDDLEWARE_UNAUTHENTICATED'' | MIDDLEWARE_FORBIDDEN \<Rightarrow> lit ''MIDDLEWARE_FORBIDDEN''
   | MIDDLEWARE_REPLAY \<Rightarrow> lit ''MIDDLEWARE_REPLAY'' | MIDDLEWARE_USAGE_CONFLICT \<Rightarrow> lit ''MIDDLEWARE_USAGE_CONFLICT''
   | MIDDLEWARE_UNAVAILABLE \<Rightarrow> lit ''MIDDLEWARE_UNAVAILABLE'' | ADAPTER_INVALID_INPUT \<Rightarrow> lit ''ADAPTER_INVALID_INPUT'')"

section \<open>Encodings\<close>

definition hex_byte :: "byte \<Rightarrow> jstring" where
  "hex_byte b = [hex_unit (word_of_int (uint b div 16)), hex_unit (word_of_int (uint b mod 16))]"

definition hex :: "byte list \<Rightarrow> jstring" where
  "hex value = concat (map hex_byte value)"

definition encodeOatiHeader :: "json \<Rightarrow> jstring result" where
  "encodeOatiHeader value = bindE (canonicalJson_tree value) (\<lambda>t. Inr (base64url (TextEncoder_encode t)))"

text \<open>\<open>None\<close> is a missing header.\<close>

definition decodeHeader :: "jstring option \<Rightarrow> jstring \<Rightarrow> jsnum \<Rightarrow> json result" where
  "decodeHeader value name maxBytes = (case value of
     None \<Rightarrow> Inl (middlewareError MIDDLEWARE_BAD_REQUEST (name @ lit '' is required''))
   | Some text \<Rightarrow>
       if text = [] then Inl (middlewareError MIDDLEWARE_BAD_REQUEST (name @ lit '' is required''))
       else if num_less maxBytes (num_of_int (int (length text))) then Inl (middlewareError MIDDLEWARE_BAD_REQUEST (name @ lit '' exceeds the size limit''))
       else (case bindE (fromBase64url text) (\<lambda>bytes. JSON_parse (TextDecoder_decode bytes)) of
           Inl _ \<Rightarrow> Inl (middlewareError MIDDLEWARE_BAD_REQUEST (name @ lit '' is not valid base64url JSON''))
         | Inr j \<Rightarrow> Inr j))"

text \<open>\<^verbatim>\<open>/^[A-Za-z0-9._:-]{1,128}$/\<close>\<close>

definition id_unit :: "code_unit \<Rightarrow> bool" where
  "id_unit u \<longleftrightarrow> is_upper u \<or> is_lower u \<or> is_digit u \<or> u \<in> set (lit ''._:-'')"

definition correlation_text :: "jstring \<Rightarrow> bool" where
  "correlation_text s \<longleftrightarrow> 1 \<le> length s \<and> length s \<le> 128 \<and> list_all id_unit s"

definition uuid_text :: "byte list \<Rightarrow> jstring" where
  "uuid_text bytes =
     (let value = hex (bytes[6 := (bytes ! 6 AND 0x0f) OR 0x40, 8 := (bytes ! 8 AND 0x3f) OR 0x80])
      in take 8 value @ lit ''-'' @ take 4 (drop 8 value) @ lit ''-'' @ take 4 (drop 12 value) @ lit ''-'' @ take 4 (drop 16 value) @ lit ''-'' @ drop 20 value)"

definition safeUuid :: "('w, 'k) host \<Rightarrow> ('w, jstring) act" where
  "safeUuid host = (case h_randomUUID host of
     Some uuid \<Rightarrow> uuid
   | None \<Rightarrow> (case h_getRandomValues host 16 of
         None \<Rightarrow> throwA (middlewareError MIDDLEWARE_UNAVAILABLE (lit ''Web Crypto random generation is required''))
       | Some random \<Rightarrow> bindA random (\<lambda>bytes. returnA (uuid_text bytes))))"

definition correlation :: "('w, 'k) host \<Rightarrow> jstring option \<Rightarrow> ('w, jstring option) act option \<Rightarrow> ('w, jstring) act" where
  "correlation host value generator = (case value of
     Some v \<Rightarrow> if \<not> correlation_text v then throwA (middlewareError MIDDLEWARE_BAD_REQUEST (lit ''Invalid correlation ID'')) else returnA v
   | None \<Rightarrow>
       bindA (case generator of None \<Rightarrow> returnA None | Some g \<Rightarrow> g) (\<lambda>supplied.
       bindA (case supplied of Some g \<Rightarrow> returnA g | None \<Rightarrow> safeUuid host) (\<lambda>generated.
       if \<not> correlation_text generated then throwA (middlewareError MIDDLEWARE_UNAVAILABLE (lit ''Generated correlation ID is invalid''))
       else returnA generated)))"

definition httpRequestDigest :: "('w, 'k) host \<Rightarrow> Request \<Rightarrow> jsnum option \<Rightarrow> jstring result" where
  "httpRequestDigest host request maxBody =
     (let maxBodyBytes = (case maxBody of None \<Rightarrow> Fin 1048576 | Some n \<Rightarrow> n) in
      if \<not> num_is_integer maxBodyBytes \<or> num_less maxBodyBytes (Fin 0) then Inl (RangeErr (lit ''maxBodyBytes must be a non-negative integer''))
      else bindE (req_body request) (\<lambda>body.
        if num_less maxBodyBytes (num_of_int (int (length body)))
        then Inl (middlewareError MIDDLEWARE_BAD_REQUEST (lit ''HTTP request body exceeds the verification limit''))
        else bindE (h_digest host body) (\<lambda>bodyHash.
          case h_url host (req_url request) of
            None \<Rightarrow> Inl (TypeErr [])
          | Some url \<Rightarrow>
              bindE (canonicalJson_tree (JObj [(lit ''method'', JStr (toUpperCase (h_upper host) (req_method request))),
                (lit ''target'', JStr (url_pathname url @ url_search url)), (lit ''body_sha256'', JStr (lit ''sha256:'' @ hex bodyHash))])) (\<lambda>binding.
              bindE (h_digest host (TextEncoder_encode binding)) (\<lambda>d. Inr (lit ''sha256:'' @ hex d))))))"

definition extractOatiHeaders :: "Request \<Rightarrow> jsnum option \<Rightarrow> ExtractedOatiRequest result" where
  "extractOatiHeaders request maxHeader =
     (let maxHeaderBytes = (case maxHeader of None \<Rightarrow> Fin 65536 | Some n \<Rightarrow> n); names = OATI_HTTP_HEADERS in
      bindE (decodeHeader (req_header request (hn_envelope names)) (hn_envelope names) maxHeaderBytes) (\<lambda>envelope.
      bindE (decodeHeader (req_header request (hn_mandate names)) (hn_mandate names) maxHeaderBytes) (\<lambda>mandate.
      let parent = req_header request (hn_parentMandate names) in
      bindE (case parent of None \<Rightarrow> Inr None
             | Some text \<Rightarrow> if text = [] then Inr None else mapR Some (decodeHeader parent (hn_parentMandate names) maxHeaderBytes)) (\<lambda>parentMandate.
      Inr \<lparr>ex_envelope = envelope, ex_mandate = mandate, ex_parentMandate = parentMandate\<rparr>))))"

section \<open>Responses\<close>

definition header_space :: "code_unit \<Rightarrow> bool" where
  "header_space u \<longleftrightarrow> u \<in> {9, 10, 13, 32}"

text \<open>\<^verbatim>\<open>headers.set\<close>: the value is trimmed and must be a byte string without NUL and line breaks.\<close>

definition headers_set :: "jstring \<Rightarrow> jstring \<Rightarrow> http_headers \<Rightarrow> http_headers result" where
  "headers_set name value headers =
     (let v = rev (dropWhile header_space (rev (dropWhile header_space value))) in
      if list_ex (\<lambda>u. 255 < u \<or> u \<in> {0, 10, 13}) v then Inl (TypeErr []) else Inr (om_set (map lower_unit name) v headers))"

definition new_Response :: "response_body \<Rightarrow> int \<Rightarrow> jstring \<Rightarrow> http_headers \<Rightarrow> Response result" where
  "new_Response body status statusText headers =
     (if status < 200 \<or> 599 < status then Inl (RangeErr [])
      else Inr \<lparr>rsp_status = status, rsp_statusText = statusText, rsp_headers = headers, rsp_body = body\<rparr>)"

definition problem_json :: http_headers where
  "problem_json = [(lit ''content-type'', lit ''application/problem+json'')]"

definition set_if_text :: "jstring \<Rightarrow> jstring option \<Rightarrow> http_headers \<Rightarrow> http_headers result" where
  "set_if_text name value headers = (case value of None \<Rightarrow> Inr headers | Some v \<Rightarrow> if v = [] then Inr headers else headers_set name v headers)"

fun error_code_text :: "exn \<Rightarrow> jstring" where
  "error_code_text (OatiErr e) = code_text (err_code e)"
| "error_code_text _ = code_text MIDDLEWARE_BAD_REQUEST"

definition problem :: "exn \<Rightarrow> int \<Rightarrow> jstring \<Rightarrow> jstring option \<Rightarrow> jstring option \<Rightarrow> Response result" where
  "problem error status title correlationId transactionId =
     bindE (set_if_text (hn_correlationId OATI_HTTP_HEADERS) correlationId problem_json) (\<lambda>headers.
     bindE (set_if_text (hn_transactionId OATI_HTTP_HEADERS) transactionId headers) (\<lambda>headers.
     new_Response (JsonBody (JObj [(lit ''type'', JStr (lit ''https://specs.intelliger.ai/oati/problems/middleware'')), (lit ''title'', JStr title),
       (lit ''status'', JNum (num_of_int status)), (lit ''code'', JStr (error_code_text error))])) status [] headers))"

definition attachReceipt :: "Response \<Rightarrow> jobject \<Rightarrow> OatiMiddlewareContext \<Rightarrow> Response result" where
  "attachReceipt response receipt context =
     bindE (headers_set (hn_transactionId OATI_HTTP_HEADERS) (ctx_transactionId context) (rsp_headers response)) (\<lambda>headers.
     bindE (headers_set (hn_correlationId OATI_HTTP_HEADERS) (ctx_correlationId context) headers) (\<lambda>headers.
     bindE (encodeOatiHeader (JObj receipt)) (\<lambda>encoded.
     bindE (if length encoded \<le> 8192 then headers_set (hn_receipt OATI_HTTP_HEADERS) encoded headers else Inr headers) (\<lambda>headers.
     bindE (headers_set (hn_receiptId OATI_HTTP_HEADERS) (member_text receipt (lit ''id'')) headers) (\<lambda>headers.
     new_Response (rsp_body response) (rsp_status response) (rsp_statusText response) headers)))))"

section \<open>Receipts\<close>

definition empty_usage :: UsageSnapshot where
  "empty_usage = \<lparr>us_calls = None, us_amount = None, us_currency = None, us_quantity = None, us_consumed = None,
     us_idempotency_keys = None, us_minted_supply = None\<rparr>"

definition deniedEvaluation :: "narrowed_request \<Rightarrow> jstring list \<Rightarrow> EvaluationResult" where
  "deniedEvaluation extracted reasonCodes =
     \<lparr>res_oati_version = version_1_0, res_decision = Deny, res_mandate_id = man_id (snd (nr_mandate extracted)),
      res_transaction_id = env_id (snd (nr_envelope extracted)), res_reason_codes = sort (foldl (\<lambda>codes code. set_add code codes) [] reasonCodes),
      res_next_usage = empty_usage\<rparr>"

definition middlewareContext :: "Request \<Rightarrow> narrowed_request \<Rightarrow> jstring \<Rightarrow> VerificationResult \<Rightarrow> VerificationResult \<Rightarrow> VerificationResult option
    \<Rightarrow> EvaluationResult \<Rightarrow> OatiMiddlewareContext" where
  "middlewareContext request extracted correlationId envelopeVerification mandateVerification parentMandateVerification evaluation =
     \<lparr>ctx_request = request, ctx_envelope = snd (nr_envelope extracted), ctx_mandate = snd (nr_mandate extracted),
      ctx_parentMandate = map_option snd (nr_parentMandate extracted), ctx_correlationId = correlationId,
      ctx_transactionId = env_id (snd (nr_envelope extracted)), ctx_envelopeVerification = envelopeVerification,
      ctx_mandateVerification = mandateVerification, ctx_parentMandateVerification = parentMandateVerification, ctx_evaluation = evaluation\<rparr>"

definition failedVerification :: "jstring \<Rightarrow> VerificationResult" where
  "failedVerification code = \<lparr>vr_verified = False, vr_algorithm = None, vr_verificationMethod = None, vr_issuer = None,
     vr_issues = [\<lparr>vi_code = PROOF_MISSING, vi_message = code\<rparr>]\<rparr>"

definition decision_text :: "decision_kind \<Rightarrow> jstring" where
  "decision_text d = (case d of Allow \<Rightarrow> lit ''allow'' | Deny \<Rightarrow> lit ''deny'' | Transform \<Rightarrow> lit ''transform'' | ApprovalRequired \<Rightarrow> lit ''approval_required'')"

definition outcome_text :: "outcome \<Rightarrow> jstring" where
  "outcome_text r = (case r of Succeeded \<Rightarrow> lit ''succeeded'' | Failed \<Rightarrow> lit ''failed'' | Denied \<Rightarrow> lit ''denied'' | Pending \<Rightarrow> lit ''pending'' | Unknown \<Rightarrow> lit ''unknown'')"

text \<open>A member that is spread in only when its text is there and not empty.\<close>

definition member_if_text :: "string \<Rightarrow> jstring option \<Rightarrow> jobject" where
  "member_if_text name value = (case value of None \<Rightarrow> [] | Some v \<Rightarrow> if v = [] then [] else [(lit name, JStr v)])"

definition iso_time :: "int option \<Rightarrow> jstring result" where
  "iso_time t = (case t of None \<Rightarrow> Inl (RangeErr []) | Some ms \<Rightarrow> Inr (toISOString ms))"

definition receipt_draft :: "('w, 'h) OatiMiddlewareOptions \<Rightarrow> OatiMiddlewareContext \<Rightarrow> outcome \<Rightarrow> jstring \<Rightarrow> jstring \<Rightarrow> jobject" where
  "receipt_draft options context outcome receiptId occurredAt =
     [(lit ''id'', JStr receiptId), (lit ''transaction_id'', JStr (ctx_transactionId context)), (lit ''agent_id'', JStr (env_agent_id (ctx_envelope context))),
      (lit ''organisation_id'', JStr (env_organisation_id (ctx_envelope context))), (lit ''mandate_id'', JStr (man_id (ctx_mandate context))),
      (lit ''decision'', JStr (decision_text (res_decision (ctx_evaluation context)))), (lit ''outcome'', JStr (outcome_text outcome)),
      (lit ''occurred_at'', JStr occurredAt), (lit ''issuer'', JStr (mo_receiptIssuer options)),
      (lit ''policy_digest'', JStr (case mo_policyDigest options of None \<Rightarrow> lit ''sha256:oati-reference-evaluator-v1'' | Some d \<Rightarrow> d))]
     @ member_if_text ''request_digest'' (env_request_digest (ctx_envelope context))
     @ member_if_text ''commercial_profile'' (env_commercial_profile (ctx_envelope context))
     @ [(lit ''extensions'', JObj ([(lit ''correlation_id'', JStr (ctx_correlationId context)),
          (lit ''reason_codes'', JArr (map JStr (res_reason_codes (ctx_evaluation context))))]
          @ member_if_text ''counterparty_organisation_id'' (env_counterparty (ctx_envelope context))))]"

definition matches_draft :: "jobject \<Rightarrow> jobject \<Rightarrow> bool result" where
  "matches_draft receipt draft =
     bindE (canonicalJson_tree (JObj (drop_member (lit ''proof'') receipt))) (\<lambda>a.
     bindE (canonicalJson_tree (JObj ((lit ''oati_version'', JStr version_1_0) # draft))) (\<lambda>b. Inr (a = b)))"

definition issueReceipt :: "('w, 'k) host \<Rightarrow> ('w, 'h) OatiMiddlewareOptions \<Rightarrow> OatiMiddlewareContext \<Rightarrow> outcome \<Rightarrow> int option \<Rightarrow> ('w, jobject) act" where
  "issueReceipt host options context outcome time =
     bindA (case mo_generateReceiptId options of None \<Rightarrow> returnA None | Some g \<Rightarrow> g (ctx_transactionId context)) (\<lambda>supplied.
     bindA (case supplied of Some given \<Rightarrow> returnA given | None \<Rightarrow> bindA (safeUuid host) (\<lambda>uuid. returnA (lit ''oati:receipt:'' @ uuid))) (\<lambda>receiptId.
     bindA (liftA (iso_time time)) (\<lambda>occurredAt.
     let draft = receipt_draft options context outcome receiptId occurredAt in
     bindA (mo_signReceipt options draft context) (\<lambda>signed_receipt.
     bindA (liftA (assertSchema (h_upper host) (h_validators host) (lit ''receipt'') signed_receipt)) (\<lambda>_.
     case as_object (Some signed_receipt) of
       None \<Rightarrow> throwA (TypeErr [])
     | Some receipt \<Rightarrow>
         bindA (liftA (matches_draft receipt draft)) (\<lambda>matches.
         if \<not> matches then throwA (middlewareError MIDDLEWARE_UNAVAILABLE (lit ''Signed Receipt does not match the authorized transaction''))
         else bindA (case mo_emitReceipt options of None \<Rightarrow> returnA () | Some emit \<Rightarrow> emit signed_receipt context) (\<lambda>_. returnA receipt)))))))"

definition receiptResponse :: "('w, 'k) host \<Rightarrow> ('w, 'h) OatiMiddlewareOptions \<Rightarrow> OatiMiddlewareContext \<Rightarrow> outcome \<Rightarrow> int \<Rightarrow> int option \<Rightarrow> oati_error_code
    \<Rightarrow> ('w, Response) act" where
  "receiptResponse host options context outcome status time code =
     bindA (issueReceipt host options context outcome time) (\<lambda>receipt.
     let title = (if status = 401 then lit ''OATI authentication failed'' else if status = 409 then lit ''OATI usage conflict''
                  else if status = 503 then lit ''OATI authority unavailable'' else lit ''OATI authority denied'');
         body = JObj [(lit ''type'', JStr (lit ''https://specs.intelliger.ai/oati/problems/authorization'')), (lit ''title'', JStr title),
           (lit ''status'', JNum (num_of_int status)), (lit ''code'', JStr (code_text code)),
           (lit ''reason_codes'', JArr (map JStr (res_reason_codes (ctx_evaluation context)))), (lit ''receipt'', JObj receipt)]
     in liftA (bindE (new_Response (JsonBody body) status [] problem_json) (\<lambda>response. attachReceipt response receipt context)))"

section \<open>The middleware\<close>

definition verification_code_text :: "VerificationCode \<Rightarrow> jstring" where
  "verification_code_text code = (case code of
     PROOF_MISSING \<Rightarrow> lit ''PROOF_MISSING'' | PROOF_MALFORMED \<Rightarrow> lit ''PROOF_MALFORMED'' | ALGORITHM_NOT_ALLOWED \<Rightarrow> lit ''ALGORITHM_NOT_ALLOWED''
   | SIGNATURE_INVALID \<Rightarrow> lit ''SIGNATURE_INVALID'' | KEY_NOT_FOUND \<Rightarrow> lit ''KEY_NOT_FOUND'' | KEY_INVALID \<Rightarrow> lit ''KEY_INVALID'' | KEY_REVOKED \<Rightarrow> lit ''KEY_REVOKED''
   | ISSUER_NOT_TRUSTED \<Rightarrow> lit ''ISSUER_NOT_TRUSTED'' | ISSUER_REVOKED \<Rightarrow> lit ''ISSUER_REVOKED'' | DOCUMENT_REVOKED \<Rightarrow> lit ''DOCUMENT_REVOKED''
   | REVOCATION_UNAVAILABLE \<Rightarrow> lit ''REVOCATION_UNAVAILABLE'' | PROOF_NOT_YET_VALID \<Rightarrow> lit ''PROOF_NOT_YET_VALID'' | PROOF_EXPIRED \<Rightarrow> lit ''PROOF_EXPIRED''
   | PROOF_TOO_OLD \<Rightarrow> lit ''PROOF_TOO_OLD'' | DOCUMENT_NOT_YET_VALID \<Rightarrow> lit ''DOCUMENT_NOT_YET_VALID'' | DOCUMENT_EXPIRED \<Rightarrow> lit ''DOCUMENT_EXPIRED''
   | AUDIENCE_MISMATCH \<Rightarrow> lit ''AUDIENCE_MISMATCH'' | REPLAY_DETECTED \<Rightarrow> lit ''REPLAY_DETECTED'')"

definition compactExtensions :: "OatiEvaluationExtensions \<Rightarrow> OatiEvaluationExtensions" where
  "compactExtensions value = \<lparr>ext_delegation_depth = ext_delegation_depth value, ext_consumption = ext_consumption value,
     ext_commerce = ext_commerce value, ext_rwa = ext_rwa value\<rparr>"

definition reusableDocumentPolicy :: "'w VerificationPolicy \<Rightarrow> 'w VerificationPolicy" where
  "reusableDocumentPolicy policy = policy\<lparr>vp_maxProofAgeMs := Some (case vp_maxProofAgeMs policy of None \<Rightarrow> max_safe | Some a \<Rightarrow> a),
     vp_checkAndStore := (\<lambda>w key expiresAt now. Inr (True, w))\<rparr>"

definition requiresPersistentUsage :: "AgentMandate \<Rightarrow> bool" where
  "requiresPersistentUsage mandate \<longleftrightarrow> man_status mandate = Consumed \<or> man_limits mandate \<noteq> None \<or> man_profile mandate \<noteq> None"

definition current :: "('w, 'k) host \<Rightarrow> ('w, 'h) OatiMiddlewareOptions \<Rightarrow> ('w, int option) act" where
  "current host options = readA (\<lambda>w. case mo_now options of Some f \<Rightarrow> f w | None \<Rightarrow> Some (h_now host w))"

definition verify_with :: "('w, 'k) host \<Rightarrow> jobject \<Rightarrow> 'w VerificationPolicy \<Rightarrow> ('w, VerificationResult) act" where
  "verify_with host document policy w = (case verifyDocument (h_legacy host) (h_now host w) (h_crypto host) document policy w of
     Inl e \<Rightarrow> (Inl e, w) | Inr (r, w') \<Rightarrow> (Inr r, w'))"

definition deniedVerification :: "('w, 'k) host \<Rightarrow> ('w, 'h) OatiMiddlewareOptions \<Rightarrow> Request \<Rightarrow> narrowed_request \<Rightarrow> jstring \<Rightarrow> VerificationResult
    \<Rightarrow> OatiDocumentKind \<Rightarrow> int option \<Rightarrow> VerificationResult option \<Rightarrow> VerificationResult option \<Rightarrow> ('w, Response) act" where
  "deniedVerification host options request extracted correlationId verification kind time knownMandate knownParent =
     (let replay = list_ex (\<lambda>issue. vi_code issue = REPLAY_DETECTED) (vr_issues verification);
          evaluation = deniedEvaluation extracted (map (\<lambda>issue. kind_upper kind @ lit ''_'' @ verification_code_text (vi_code issue)) (vr_issues verification));
          context = middlewareContext request extracted correlationId
            (if kind = KEnvelope then verification else failedVerification (lit ''ENVELOPE_NOT_VERIFIED''))
            (if kind = KMandate then verification else case knownMandate of Some r \<Rightarrow> r | None \<Rightarrow> failedVerification (lit ''MANDATE_NOT_VERIFIED''))
            (if kind = KParentMandate then Some verification else knownParent) evaluation
      in catchA (receiptResponse host options context Denied 401 time (if replay then MIDDLEWARE_REPLAY else MIDDLEWARE_UNAUTHENTICATED))
           (\<lambda>_. liftA (problem (middlewareError MIDDLEWARE_UNAVAILABLE (lit ''Receipt generation failed'')) 503 (lit ''Receipt generation unavailable'')
              (Some correlationId) (Some (env_id (snd (nr_envelope extracted)))))))"

text \<open>
  \<^verbatim>\<open>assertSchema<T>\<close>: after it the value is used at its declared type.  A document that the schema
  accepts although it does not have that type counts as an error of the host.
\<close>

definition narrow :: "('w, 'k) host \<Rightarrow> string \<Rightarrow> (jobject \<Rightarrow> 'a option) \<Rightarrow> json \<Rightarrow> 'a narrowed result" where
  "narrow host name view value = bindE (assertSchema (h_upper host) (h_validators host) (lit name) value) (\<lambda>_.
     case as_object (Some value) of None \<Rightarrow> Inl (TypeErr [])
     | Some document \<Rightarrow> (case view document of None \<Rightarrow> Inl (TypeErr []) | Some v \<Rightarrow> Inr (document, v)))"

definition receive :: "('w, 'k) host \<Rightarrow> ('w, 'h) OatiMiddlewareOptions \<Rightarrow> Request \<Rightarrow> ('w, narrowed_request) act" where
  "receive host options request =
     bindA (case mo_extract options of Some extract \<Rightarrow> extract request | None \<Rightarrow> liftA (extractOatiHeaders request (mo_maxHeaderBytes options))) (\<lambda>extracted.
     bindA (liftA (narrow host ''mandate'' mandate_of (ex_mandate extracted))) (\<lambda>mandate.
     bindA (liftA (narrow host ''envelope'' envelope_of (ex_envelope extracted))) (\<lambda>envelope.
     bindA (case ex_parentMandate extracted of None \<Rightarrow> returnA None
       | Some parent \<Rightarrow> if \<not> truthy (Some parent) then returnA None else liftA (mapR Some (narrow host ''mandate'' mandate_of parent))) (\<lambda>parentMandate.
     case req_header request (hn_transactionId OATI_HTTP_HEADERS) of
       Some declaredTransaction \<Rightarrow>
         if declaredTransaction \<noteq> [] \<and> declaredTransaction \<noteq> env_id (snd envelope)
         then throwA (middlewareError MIDDLEWARE_BAD_REQUEST (lit ''Transaction header does not match the Envelope''))
         else returnA \<lparr>nr_envelope = envelope, nr_mandate = mandate, nr_parentMandate = parentMandate\<rparr>
     | None \<Rightarrow> returnA \<lparr>nr_envelope = envelope, nr_mandate = mandate, nr_parentMandate = parentMandate\<rparr>))))"

text \<open>The first \<^verbatim>\<open>catch\<close>.\<close>

definition reject_request :: "exn \<Rightarrow> jstring option \<Rightarrow> Response result" where
  "reject_request error correlationId =
     (let safeError = (if isMiddlewareError error then error else middlewareError MIDDLEWARE_BAD_REQUEST (lit ''OATI headers or objects are invalid''));
          status = (if has_code MIDDLEWARE_UNAVAILABLE safeError then 503 else 400)
      in problem safeError status (if status = 503 then lit ''OATI middleware unavailable'' else lit ''Invalid OATI request'') correlationId None)"

definition evaluation_request :: "jstring \<Rightarrow> narrowed_request \<Rightarrow> UsageSnapshot \<Rightarrow> OatiEvaluationExtensions \<Rightarrow> EvaluationRequest" where
  "evaluation_request time extracted usage extensions =
     \<lparr>er_evaluation_time = time, er_mandate = snd (nr_mandate extracted), er_parent_mandate = map_option snd (nr_parentMandate extracted),
      er_delegation_depth = ext_delegation_depth extensions, er_envelope = snd (nr_envelope extracted), er_usage = usage,
      er_consumption = ext_consumption extensions, er_commerce = ext_commerce extensions, er_rwa = ext_rwa extensions\<rparr>"

definition no_extensions :: OatiEvaluationExtensions where
  "no_extensions = \<lparr>ext_delegation_depth = None, ext_consumption = None, ext_commerce = None, ext_rwa = None\<rparr>"

text \<open>Early return: \<open>Inl\<close> is the response of a \<^verbatim>\<open>return\<close> inside the handler, \<open>Inr\<close> goes on.\<close>

definition respond :: "('w, Response) act \<Rightarrow> ('w, Response + 'a) act" where
  "respond m = bindA m (\<lambda>response. returnA (Inl response))"

definition thenA :: "('w, Response + 'a) act \<Rightarrow> ('a \<Rightarrow> ('w, Response + 'b) act) \<Rightarrow> ('w, Response + 'b) act" where
  "thenA m f = bindA m (\<lambda>r. case r of Inl response \<Rightarrow> returnA (Inl response) | Inr a \<Rightarrow> f a)"

definition verify_mandate :: "('w, 'k) host \<Rightarrow> ('w, 'h) OatiMiddlewareOptions \<Rightarrow> Request \<Rightarrow> jstring \<Rightarrow> narrowed_request \<Rightarrow> ('w, Response + VerificationResult) act" where
  "verify_mandate host options request correlationId extracted =
     bindA (mo_verificationPolicy options KMandate request) (\<lambda>policy.
     bindA (verify_with host (fst (nr_mandate extracted)) (reusableDocumentPolicy policy)) (\<lambda>verification.
     if \<not> vr_verified verification
     then bindA (current host options) (\<lambda>t. respond (deniedVerification host options request extracted correlationId verification KMandate t None None))
     else returnA (Inr verification)))"

definition verify_parent :: "('w, 'k) host \<Rightarrow> ('w, 'h) OatiMiddlewareOptions \<Rightarrow> Request \<Rightarrow> jstring \<Rightarrow> narrowed_request \<Rightarrow> VerificationResult
    \<Rightarrow> ('w, Response + VerificationResult option) act" where
  "verify_parent host options request correlationId extracted mandateVerification =
     (case nr_parentMandate extracted of None \<Rightarrow> returnA (Inr None)
      | Some parent \<Rightarrow>
          bindA (mo_verificationPolicy options KParentMandate request) (\<lambda>policy.
          bindA (verify_with host (fst parent) (reusableDocumentPolicy policy)) (\<lambda>verification.
          if \<not> vr_verified verification
          then bindA (current host options) (\<lambda>t. respond (deniedVerification host options request extracted correlationId verification KParentMandate t
            (Some mandateVerification) None))
          else returnA (Inr (Some verification)))))"

definition verify_envelope :: "('w, 'k) host \<Rightarrow> ('w, 'h) OatiMiddlewareOptions \<Rightarrow> Request \<Rightarrow> jstring \<Rightarrow> narrowed_request \<Rightarrow> VerificationResult
    \<Rightarrow> VerificationResult option \<Rightarrow> ('w, Response + VerificationResult) act" where
  "verify_envelope host options request correlationId extracted mandateVerification parentVerification =
     bindA (mo_verificationPolicy options KEnvelope request) (\<lambda>policy.
     bindA (verify_with host (fst (nr_envelope extracted)) policy) (\<lambda>verification.
     if \<not> vr_verified verification
     then bindA (current host options) (\<lambda>t. respond (deniedVerification host options request extracted correlationId verification KEnvelope t
       (Some mandateVerification) parentVerification))
     else returnA (Inr verification)))"

text \<open>\<open>context_of\<close> builds the context of an evaluation from the verifications made so far.\<close>

definition bind_request :: "('w, 'k) host \<Rightarrow> ('w, 'h) OatiMiddlewareOptions \<Rightarrow> Request \<Rightarrow> narrowed_request \<Rightarrow> (EvaluationResult \<Rightarrow> OatiMiddlewareContext)
    \<Rightarrow> ('w, Response + unit) act" where
  "bind_request host options request extracted context_of =
     (if mo_requireRequestDigest options = Some False then returnA (Inr ())
      else bindA (liftA (httpRequestDigest host request (mo_maxBodyBytes options))) (\<lambda>actual.
        let expected = env_request_digest (snd (nr_envelope extracted)); missing = no_text expected in
        if missing \<or> expected \<noteq> Some actual
        then let bindingEvaluation = deniedEvaluation extracted [if missing then lit ''HTTP_REQUEST_DIGEST_REQUIRED'' else lit ''HTTP_REQUEST_DIGEST_MISMATCH'']
             in bindA (current host options) (\<lambda>t. respond (receiptResponse host options (context_of bindingEvaluation) Denied 401 t MIDDLEWARE_UNAUTHENTICATED))
        else returnA (Inr ())))"

definition load_usage :: "('w, 'h) OatiMiddlewareOptions \<Rightarrow> jstring \<Rightarrow> ('w, ('h \<times> UsageSnapshot) option) act" where
  "load_usage options mandateId = (case mo_usageStore options of None \<Rightarrow> returnA None
     | Some store \<Rightarrow> bindA (store_load store mandateId) (\<lambda>loaded. returnA (Some loaded)))"

definition usage_of :: "('h \<times> UsageSnapshot) option \<Rightarrow> UsageSnapshot" where
  "usage_of loaded = (case loaded of None \<Rightarrow> empty_usage | Some (h, usage) \<Rightarrow> usage)"

text \<open>\<^verbatim>\<open>!options.usageStore || await options.usageStore.compareAndSet(...)\<close>\<close>

definition commit_usage :: "('w, 'h) OatiMiddlewareOptions \<Rightarrow> jstring \<Rightarrow> ('h \<times> UsageSnapshot) option \<Rightarrow> UsageSnapshot \<Rightarrow> ('w, bool) act" where
  "commit_usage options mandateId loaded next = (case (mo_usageStore options, loaded) of
     (Some store, Some previous) \<Rightarrow> store_compareAndSet store mandateId previous next
   | _ \<Rightarrow> returnA True)"

definition supplied_extensions :: "('w, 'h) OatiMiddlewareOptions \<Rightarrow> Request \<Rightarrow> narrowed_request \<Rightarrow> ('w, OatiEvaluationExtensions) act" where
  "supplied_extensions options request extracted =
     bindA (case mo_evaluationExtensions options of None \<Rightarrow> returnA None | Some f \<Rightarrow> f request extracted) (\<lambda>supplied.
     returnA (compactExtensions (case supplied of None \<Rightarrow> no_extensions | Some extensions \<Rightarrow> extensions)))"

definition authorise :: "('w, 'k) host \<Rightarrow> ('w, 'h) OatiMiddlewareOptions \<Rightarrow> Request \<Rightarrow> narrowed_request \<Rightarrow> (EvaluationResult \<Rightarrow> OatiMiddlewareContext)
    \<Rightarrow> ('w, Response + OatiMiddlewareContext) act" where
  "authorise host options request extracted context_of =
     bindA (supplied_extensions options request extracted) (\<lambda>extensions.
     bindA (load_usage options (man_id (snd (nr_mandate extracted)))) (\<lambda>loaded.
     if mo_usageStore options = None \<and> requiresPersistentUsage (snd (nr_mandate extracted))
     then bindA (current host options) (\<lambda>t. respond (receiptResponse host options (context_of (deniedEvaluation extracted [lit ''USAGE_STORE_REQUIRED'']))
       Denied 503 t MIDDLEWARE_UNAVAILABLE))
     else bindA (bindA (current host options) (\<lambda>t. liftA (iso_time t))) (\<lambda>time.
       bindA (liftA (evaluateAuthority (h_legacy host) (evaluation_request time extracted (usage_of loaded) extensions))) (\<lambda>evaluation.
       if res_decision evaluation \<noteq> Allow
       then bindA (current host options) (\<lambda>t. respond (receiptResponse host options (context_of evaluation) Denied 403 t MIDDLEWARE_FORBIDDEN))
       else bindA (commit_usage options (man_id (snd (nr_mandate extracted))) loaded (res_next_usage evaluation)) (\<lambda>committed.
         if \<not> committed
         then bindA (current host options) (\<lambda>t. respond (receiptResponse host options (context_of (deniedEvaluation extracted [lit ''USAGE_CONFLICT'']))
           Denied 409 t MIDDLEWARE_USAGE_CONFLICT))
         else returnA (Inr (context_of evaluation)))))))"

text \<open>Everything up to the call of the handler.\<close>

definition admit :: "('w, 'k) host \<Rightarrow> ('w, 'h) OatiMiddlewareOptions \<Rightarrow> Request \<Rightarrow> jstring \<Rightarrow> narrowed_request \<Rightarrow> ('w, Response + OatiMiddlewareContext) act" where
  "admit host options request correlationId extracted =
     (if correlationId = [] then throwA (middlewareError MIDDLEWARE_UNAVAILABLE (lit ''Correlation ID generation failed''))
      else thenA (verify_mandate host options request correlationId extracted) (\<lambda>mandateVerification.
        thenA (verify_parent host options request correlationId extracted mandateVerification) (\<lambda>parentVerification.
        thenA (verify_envelope host options request correlationId extracted mandateVerification parentVerification) (\<lambda>envelopeVerification.
        let context_of = middlewareContext request extracted correlationId envelopeVerification mandateVerification parentVerification in
        thenA (bind_request host options request extracted context_of) (\<lambda>_.
        authorise host options request extracted context_of)))))"

definition dispatch :: "('w, 'k) host \<Rightarrow> ('w, 'h) OatiMiddlewareOptions \<Rightarrow> 'w handler \<Rightarrow> OatiMiddlewareContext \<Rightarrow> ('w, Response) act" where
  "dispatch host options next context =
     bindA (attemptA (next (ctx_request context) context)) (\<lambda>called.
     case called of
       Inl _ \<Rightarrow> bindA (current host options) (\<lambda>t. receiptResponse host options context Failed 500 t MIDDLEWARE_FORBIDDEN)
     | Inr downstream \<Rightarrow>
         let outcome = (if rsp_status downstream < 400 then (case mo_allowedReceiptOutcome options of Some r \<Rightarrow> r | None \<Rightarrow> Succeeded)
                        else if rsp_status downstream = 403 then Denied else Failed)
         in bindA (current host options) (\<lambda>t. bindA (issueReceipt host options context outcome t) (\<lambda>receipt.
            liftA (attachReceipt downstream receipt context))))"

text \<open>The second \<^verbatim>\<open>catch\<close>.\<close>

definition fail_closed :: "exn \<Rightarrow> jstring \<Rightarrow> jstring \<Rightarrow> Response result" where
  "fail_closed error correlationId transactionId =
     (let code = (if has_code MIDDLEWARE_REPLAY error then 401 else 503);
          safeError = (if isMiddlewareError error then error else middlewareError MIDDLEWARE_UNAVAILABLE (lit ''A middleware dependency failed''))
      in problem safeError code (if code = 401 then lit ''Replay rejected'' else lit ''OATI middleware unavailable'') (Some correlationId) (Some transactionId))"

definition oati_middleware :: "('w, 'k) host \<Rightarrow> ('w, 'h) OatiMiddlewareOptions \<Rightarrow> 'w handler \<Rightarrow> Request \<Rightarrow> ('w, Response) act" where
  "oati_middleware host options next request =
     bindA (attemptA (correlation host (req_header request (hn_correlationId OATI_HTTP_HEADERS)) (mo_generateCorrelationId options))) (\<lambda>identified.
     case identified of
       Inl e \<Rightarrow> liftA (reject_request e None)
     | Inr correlationId \<Rightarrow>
         bindA (attemptA (receive host options request)) (\<lambda>received.
         case received of
           Inl e \<Rightarrow> liftA (reject_request e (Some correlationId))
         | Inr extracted \<Rightarrow>
             catchA (bindA (admit host options request correlationId extracted) (\<lambda>admitted.
                 case admitted of Inl response \<Rightarrow> returnA response | Inr context \<Rightarrow> dispatch host options next context))
               (\<lambda>e. liftA (fail_closed e correlationId (env_id (snd (nr_envelope extracted)))))))"

definition createOatiMiddleware :: "('w, 'k) host \<Rightarrow> ('w, 'h) OatiMiddlewareOptions \<Rightarrow> ('w handler \<Rightarrow> Request \<Rightarrow> ('w, Response) act) result" where
  "createOatiMiddleware host options = (if trim (mo_receiptIssuer options) = [] then Inl (TypeErr (lit ''receiptIssuer is required''))
     else Inr (oati_middleware host options))"

definition withOati :: "('w, 'k) host \<Rightarrow> 'w handler \<Rightarrow> ('w, 'h) OatiMiddlewareOptions \<Rightarrow> (Request \<Rightarrow> ('w, Response) act) result" where
  "withOati host handler options = bindE (createOatiMiddleware host options) (\<lambda>middleware. Inr (middleware handler))"

end
