(* ===== verification/Admission.thy ===== *)
theory Admission
  imports Middleware TrustSpec Authority
begin

text \<open>
  What it takes to reach the handler of the middleware: \<open>has_authority\<close> puts the specification of
  the verifier (\<open>accepted\<close>) and of the evaluator (\<open>authorised\<close>) together with the request digest
  and the usage store, and \<open>admit_sound\<close> shows that a request that is let through has it.
\<close>

section \<open>Inversion of the stages\<close>

lemma respond_not_Inr [simp]: "respond m w \<noteq> (Inr (Inr a), w')"
  by (auto simp: respond_def bindA_def split: prod.splits sum.splits)

lemma thenA_Inr_iff [exn_iff]: "thenA m f w = (Inr (Inr b), w'') \<longleftrightarrow> (\<exists>a w'. m w = (Inr (Inr a), w') \<and> f a w' = (Inr (Inr b), w''))"
  by (auto simp: thenA_def bindA_def split: prod.splits sum.splits)

lemma bindA_respond_not_Inr [simp]: "bindA m (\<lambda>t. respond (f t)) w \<noteq> (Inr (Inr a), w')"
  by (auto simp: bindA_def split: prod.splits sum.splits)

section \<open>Verified documents\<close>

text \<open>The document satisfies the specification of the verifier under the policy, and its nonce was fresh.\<close>

definition proven :: "('w, 'k) host \<Rightarrow> jobject \<Rightarrow> 'w VerificationPolicy \<Rightarrow> 'w \<Rightarrow> 'w \<Rightarrow> bool" where
  "proven host document policy w w' \<longleftrightarrow>
     (let now = policy_now (h_now host w) policy in
      \<exists>p key anchor. accepted (h_legacy host) (h_crypto host) document policy now p key anchor \<and>
        vp_checkAndStore policy w (replayKey p (vp_expectedAudience policy)) (Date_parse (h_legacy host) (op_expires p)) now = Inr (True, w'))"

lemma verify_with_proven:
  assumes "verify_with host document policy w = (Inr r, w')" and "vr_verified r"
  shows "proven host document policy w w'"
proof -
  have v: "verifyDocument (h_legacy host) (h_now host w) (h_crypto host) document policy w = Inr (r, w')"
    using assms(1) by (auto simp: verify_with_def split: sum.splits)
  show ?thesis
  proof (cases rule: verifyDocument_cases [of "h_legacy host" "h_now host w" "h_crypto host" document policy w])
    case (reaches p key anchor)
    let ?store = "vp_checkAndStore policy w (replayKey p (vp_expectedAudience policy)) (Date_parse (h_legacy host) (op_expires p)) (policy_now (h_now host w) policy)"
    have "?store = Inr (True, w')"
      using v assms(2) unfolding reaches(2) by (cases ?store; cases "projr ?store") (auto simp: issue_if_def split: if_splits)
    with reaches(1) show ?thesis by (auto simp: proven_def Let_def)
  qed (use v assms(2) in auto)
qed

text \<open>The policy factory's answer for a kind, and the document proven under it afterwards.\<close>

definition proven_as :: "('w, 'k) host \<Rightarrow> ('w, 'h) OatiMiddlewareOptions \<Rightarrow> Request \<Rightarrow> OatiDocumentKind
    \<Rightarrow> ('w VerificationPolicy \<Rightarrow> 'w VerificationPolicy) \<Rightarrow> jobject \<Rightarrow> 'w \<Rightarrow> 'w \<Rightarrow> bool" where
  "proven_as host options request kind adapt document w w' \<longleftrightarrow>
     (\<exists>policy v. mo_verificationPolicy options kind request w = (Inr policy, v) \<and> proven host document (adapt policy) v w')"

lemma verify_mandate_proven:
  "verify_mandate host options request cid x w = (Inr (Inr r), w') \<Longrightarrow>
     proven_as host options request KMandate reusableDocumentPolicy (fst (nr_mandate x)) w w'"
  unfolding verify_mandate_def proven_as_def by (auto simp: exn_iff dest: verify_with_proven split: if_splits)

lemma verify_parent_proven:
  "verify_parent host options request cid x mv w = (Inr (Inr r), w') \<Longrightarrow> nr_parentMandate x = Some parent \<Longrightarrow>
     proven_as host options request KParentMandate reusableDocumentPolicy (fst parent) w w'"
  unfolding verify_parent_def proven_as_def by (auto simp: exn_iff dest: verify_with_proven split: if_splits)

lemma verify_parent_none:
  "verify_parent host options request cid x mv w = (Inr (Inr r), w') \<Longrightarrow> nr_parentMandate x = None \<Longrightarrow> w' = w"
  by (simp add: verify_parent_def)

lemma verify_envelope_proven:
  "verify_envelope host options request cid x mv pv w = (Inr (Inr r), w') \<Longrightarrow>
     proven_as host options request KEnvelope (\<lambda>policy. policy) (fst (nr_envelope x)) w w'"
  unfolding verify_envelope_def proven_as_def by (auto simp: exn_iff dest: verify_with_proven split: if_splits)

section \<open>Request binding and authority\<close>

definition digest_bound :: "('w, 'k) host \<Rightarrow> ('w, 'h) OatiMiddlewareOptions \<Rightarrow> Request \<Rightarrow> TransactionEnvelope \<Rightarrow> bool" where
  "digest_bound host options request envelope \<longleftrightarrow> mo_requireRequestDigest options = Some False \<or>
     (\<exists>d. httpRequestDigest host request (mo_maxBodyBytes options) = Inr d \<and> env_request_digest envelope = Some d)"

lemma bind_request_bound:
  "bind_request host options request x ctx w = (Inr (Inr u), w') \<Longrightarrow> w' = w \<and> digest_bound host options request (snd (nr_envelope x))"
  unfolding bind_request_def digest_bound_def by (auto simp: exn_iff Let_def split: if_splits)

text \<open>
  The evaluator allowed the transaction on the usage that the store had loaded, and the store
  exchanged that usage for the evaluator's next one.
\<close>

definition usage_committed :: "('w, 'h) OatiMiddlewareOptions \<Rightarrow> AgentMandate \<Rightarrow> ('h \<times> UsageSnapshot) option \<Rightarrow> UsageSnapshot \<Rightarrow> 'w \<Rightarrow> bool" where
  "usage_committed options mandate loaded next w' \<longleftrightarrow> (case mo_usageStore options of
     None \<Rightarrow> loaded = None \<and> \<not> requiresPersistentUsage mandate
   | Some store \<Rightarrow> (\<exists>previous v0 v1 v2. loaded = Some previous \<and> store_load store (man_id mandate) v0 = (Inr previous, v1) \<and>
        store_compareAndSet store (man_id mandate) previous next v2 = (Inr True, w')))"

definition within_authority :: "('w, 'k) host \<Rightarrow> ('w, 'h) OatiMiddlewareOptions \<Rightarrow> narrowed_request \<Rightarrow> EvaluationResult \<Rightarrow> 'w \<Rightarrow> bool" where
  "within_authority host options x evaluation w' \<longleftrightarrow>
     (\<exists>time extensions loaded now.
        let request = evaluation_request time x (usage_of loaded) extensions in
        timestamp (h_legacy host) time = Inr now \<and> authorised (h_legacy host) request now \<and>
        evaluateAuthority (h_legacy host) request = Inr evaluation \<and> res_decision evaluation = Allow \<and>
        usage_committed options (snd (nr_mandate x)) loaded (res_next_usage evaluation) w')"

lemma load_usage_Inr:
  "load_usage options i w = (Inr loaded, w') \<longleftrightarrow> (case mo_usageStore options of None \<Rightarrow> loaded = None \<and> w' = w
     | Some store \<Rightarrow> (\<exists>previous. loaded = Some previous \<and> store_load store i w = (Inr previous, w')))"
  by (auto simp: load_usage_def exn_iff split: option.splits)

lemma authorise_sound:
  assumes "authorise host options request x ctx w = (Inr (Inr c), w')"
  shows "\<exists>evaluation. c = ctx evaluation \<and> within_authority host options x evaluation w'"
proof -
  from assms obtain extensions loaded evaluation time v1 v2 v3 where
    l: "load_usage options (man_id (snd (nr_mandate x))) v1 = (Inr loaded, v2)"
    and p: "mo_usageStore options \<noteq> None \<or> \<not> requiresPersistentUsage (snd (nr_mandate x))"
    and e: "evaluateAuthority (h_legacy host) (evaluation_request time x (usage_of loaded) extensions) = Inr evaluation" "res_decision evaluation = Allow"
    and c: "commit_usage options (man_id (snd (nr_mandate x))) loaded (res_next_usage evaluation) v3 = (Inr True, w')"
    and ctx: "c = ctx evaluation"
    unfolding authorise_def by (auto simp: exn_iff split: if_splits)
  have "usage_committed options (snd (nr_mandate x)) loaded (res_next_usage evaluation) w'"
    using l p c by (auto simp: usage_committed_def load_usage_Inr commit_usage_def split: option.splits)
  moreover obtain now where "timestamp (h_legacy host) time = Inr now" "authorised (h_legacy host) (evaluation_request time x (usage_of loaded) extensions) now"
    using evaluate_allow e by (force simp: evaluation_request_def)
  ultimately show ?thesis using e ctx unfolding within_authority_def Let_def by blast
qed

section \<open>Admission\<close>

text \<open>
  Everything a transaction needs: the Mandate proven, the parent Mandate proven where there is one,
  the Envelope proven with its nonce fresh in the replay cache, the digest of this very request,
  and the evaluator's permission committed to the usage store; in this order.
\<close>

definition has_authority :: "('w, 'k) host \<Rightarrow> ('w, 'h) OatiMiddlewareOptions \<Rightarrow> Request \<Rightarrow> narrowed_request \<Rightarrow> OatiMiddlewareContext \<Rightarrow> 'w \<Rightarrow> 'w \<Rightarrow> bool" where
  "has_authority host options request x context w w' \<longleftrightarrow>
     (\<exists>w1 w2 w3. proven_as host options request KMandate reusableDocumentPolicy (fst (nr_mandate x)) w w1 \<and>
        (case nr_parentMandate x of None \<Rightarrow> w2 = w1
         | Some parent \<Rightarrow> proven_as host options request KParentMandate reusableDocumentPolicy (fst parent) w1 w2) \<and>
        proven_as host options request KEnvelope (\<lambda>policy. policy) (fst (nr_envelope x)) w2 w3) \<and>
     digest_bound host options request (snd (nr_envelope x)) \<and>
     within_authority host options x (ctx_evaluation context) w' \<and>
     ctx_request context = request \<and> ctx_envelope context = snd (nr_envelope x) \<and> ctx_mandate context = snd (nr_mandate x)"

theorem admit_sound:
  assumes "admit host options request cid x w = (Inr (Inr context), w')"
  shows "has_authority host options request x context w w' \<and> ctx_correlationId context = cid \<and> ctx_transactionId context = env_id (snd (nr_envelope x))"
proof -
  from assms obtain mv pv ev u w1 w2 w3 w4 where
    s: "verify_mandate host options request cid x w = (Inr (Inr mv), w1)"
       "verify_parent host options request cid x mv w1 = (Inr (Inr pv), w2)"
       "verify_envelope host options request cid x mv pv w2 = (Inr (Inr ev), w3)"
       "bind_request host options request x (middlewareContext request x cid ev mv pv) w3 = (Inr (Inr u), w4)"
       "authorise host options request x (middlewareContext request x cid ev mv pv) w4 = (Inr (Inr context), w')"
    unfolding admit_def by (auto simp: exn_iff Let_def split: if_splits)
  obtain evaluation where e: "context = middlewareContext request x cid ev mv pv evaluation" "within_authority host options x evaluation w'"
    using authorise_sound [OF s(5)] by blast
  have "case nr_parentMandate x of None \<Rightarrow> w2 = w1
      | Some parent \<Rightarrow> proven_as host options request KParentMandate reusableDocumentPolicy (fst parent) w1 w2"
    using verify_parent_proven [OF s(2)] verify_parent_none [OF s(2)] by (auto split: option.splits)
  then show ?thesis
    using verify_mandate_proven [OF s(1)] verify_envelope_proven [OF s(3)] bind_request_bound [OF s(4)] e
    unfolding has_authority_def middlewareContext_def by auto
qed

text \<open>The run before the handler: the request as received, and what admission made of it.\<close>

lemma middleware_without_handler:
  assumes "oati_middleware host options next request w \<noteq> oati_middleware host options next' request w"
  obtains cid w1 x w2 ctx w3 where
    "correlation host (req_header request (hn_correlationId OATI_HTTP_HEADERS)) (mo_generateCorrelationId options) w = (Inr cid, w1)"
    "receive host options request w1 = (Inr x, w2)" "admit host options request cid x w2 = (Inr (Inr ctx), w3)"
    "dispatch host options next ctx w3 \<noteq> dispatch host options next' ctx w3"
proof -
  define c where "c = correlation host (req_header request (hn_correlationId OATI_HTTP_HEADERS)) (mo_generateCorrelationId options) w"
  obtain cid w1 where c: "c = (Inr cid, w1)"
    using assms by (cases c; cases "fst c") (auto simp: oati_middleware_def bindA_def c_def [symmetric])
  obtain x w2 where r: "receive host options request w1 = (Inr x, w2)"
    using assms by (cases "receive host options request w1"; cases "fst (receive host options request w1)")
      (auto simp: oati_middleware_def bindA_def c_def [symmetric] c)
  define a where "a = admit host options request cid x w2"
  obtain ctx w3 where a: "a = (Inr (Inr ctx), w3)"
    using assms by (cases a; cases "fst a"; cases "projr (fst a)")
      (auto simp: oati_middleware_def bindA_def catchA_def c_def [symmetric] c r a_def [symmetric])
  have "dispatch host options next ctx w3 \<noteq> dispatch host options next' ctx w3"
    using assms by (auto simp: oati_middleware_def bindA_def catchA_def c_def [symmetric] c r a_def [symmetric] a)
  with that show ?thesis using c r a unfolding c_def a_def by blast
qed

end
