(* ===== verification/HeaderText.thy ===== *)
theory HeaderText
  imports Middleware SignedText
begin

text \<open>
  Documents in HTTP headers: the canonical text of a document is well-formed Unicode, so that the
  encoding of \<open>encodeOatiHeader\<close> loses nothing and \<open>decodeHeader\<close> reads the document back.
\<close>

section \<open>Canonical text is well-formed\<close>

lemma well_formed_join: "\<forall>s \<in> set ss. well_formed s \<Longrightarrow> well_formed sep \<Longrightarrow> well_formed (join sep ss)"
  by (induction sep ss rule: join.induct) (simp_all add: well_formed_append)

lemma number_unit_plain: "list_all number_unit s \<Longrightarrow> plain_text s"
  by (induction s) (auto simp: number_unit_def is_digit_def plain_unit_small word_le_def word_less_def is_high_surrogate_def is_low_surrogate_def)

lemma serialize_well_formed: "canonical_form j \<Longrightarrow> well_formed (serializeCanonical j)"
proof (induction j)
  case (JNum n)
  then show ?case using safe_integer_text [of n] int_to_string_units number_unit_plain by (metis canonical_form.simps(1) serializeCanonical.simps(3) well_formed_plain)
next
  case (JArr xs)
  then have "well_formed (join [44] (map serializeCanonical xs))" by (intro well_formed_join) (auto simp: list_all_iff well_formed_plain plain_unit_small)
  then show ?case using well_formed_append [of "[91]"] well_formed_append [of _ "[93]"] by (simp add: well_formed_plain plain_unit_small)
next
  case (JObj ps)
  have "well_formed (Canonical.member_text p)" if p: "p \<in> set ps" for p
  proof -
    obtain k v where kv: "p = (k, v)" by (cases p)
    with p JObj have "well_formed (serializeCanonical v)" by (fastforce simp: list_all_iff)
    then show ?thesis
      using well_formed_append [OF well_formed_quote [of k] well_formed_append [OF well_formed_plain [of "[58]"]]]
      by (simp add: kv Canonical.member_text_def plain_unit_small)
  qed
  then have "well_formed (join [44] (map Canonical.member_text ps))"
    by (intro well_formed_join) (auto simp: well_formed_plain plain_unit_small)
  then have "well_formed ([123] @ join [44] (map Canonical.member_text ps) @ [125])"
    by (intro well_formed_append) (simp_all add: well_formed_plain plain_unit_small)
  then show ?case using JObj.prems by (simp add: serialize_object del: serializeCanonical.simps)
qed (simp_all add: well_formed_plain well_formed_quote)

lemma serialize_reads_back:
  assumes "canonical_form j"
  shows "JSON_parse (TextDecoder_decode (TextEncoder_encode (serializeCanonical j))) = Inr j"
proof -
  obtain c cs where c: "serializeCanonical j = c # cs" "starts_value c" using serialize_starts [OF assms] by blast
  then have "\<forall>r. serializeCanonical j \<noteq> 0xfeff # r" by (auto simp: starts_value_def is_digit_def)
  with TextDecoder_encode [OF serialize_well_formed [OF assms]] JSON_parse_serialize [OF assms] show ?thesis by simp
qed

lemma integer_json_unique: "integer_json j \<Longrightarrow> unique_keys j"
  by (induction j) (auto simp: list_all_iff)

lemma canonicalJson_tree_canon:
  "canonicalJson_tree j = Inr t \<Longrightarrow> unique_keys j \<Longrightarrow> t = serializeCanonical (canon j)"
  by (auto simp: canonicalJson_tree_def exn_iff dest: canonicalTree_canon)

lemma encoded_not_Nil:
  assumes "canonical_form j"
  shows "TextEncoder_encode (serializeCanonical j) \<noteq> []"
proof
  assume "TextEncoder_encode (serializeCanonical j) = []"
  with serialize_reads_back [OF assms] have "JSON_parse (TextDecoder_decode []) = Inr j" by simp
  moreover have "TextDecoder_decode [] = []" by (simp add: TextDecoder_decode_def)
  ultimately show False by (simp add: JSON_parse_def skip_space_def)
qed

lemma num_less_irrefl [simp]: "\<not> num_less x x"
  by (cases x) simp_all

lemma encoded_header:
  assumes "integer_json document" and "encodeOatiHeader document = Inr header" and "\<not> num_less maxBytes (num_of_int (int (length header)))"
  shows "decodeHeader (Some header) name maxBytes = Inr (canon document)" and "header \<noteq> []"
proof -
  have form: "canonical_form (canon document)" using assms(1) by (rule canonical_form_canon)
  from assms(2) have h: "header = base64url (TextEncoder_encode (serializeCanonical (canon document)))"
    using canonicalJson_tree_canon [OF _ integer_json_unique [OF assms(1)]] by (auto simp: encodeOatiHeader_def exn_iff)
  then show n: "header \<noteq> []" using base64url_not_Nil encoded_not_Nil [OF form] by simp
  from h have "fromBase64url header = Inr (TextEncoder_encode (serializeCanonical (canon document)))"
    using fromBase64url_base64url encoded_not_Nil [OF form] by simp
  with assms(3) n show "decodeHeader (Some header) name maxBytes = Inr (canon document)" using serialize_reads_back [OF form] by (simp add: decodeHeader_def)
qed

section \<open>Setting headers\<close>

definition header_trim :: "jstring \<Rightarrow> jstring" where
  "header_trim v = rev (dropWhile header_space (rev (dropWhile header_space v)))"

lemma headers_set_Inr: "headers_set name v hs = Inr hs' \<longleftrightarrow> hs' = om_set (map lower_unit name) (header_trim v) hs \<and>
    \<not> list_ex (\<lambda>u. 255 < u \<or> u \<in> {0, 10, 13}) (header_trim v)"
  by (auto simp: headers_set_def header_trim_def Let_def)

lemma lower_header_names:
  "map lower_unit (hn_envelope OATI_HTTP_HEADERS) = lit ''oati-envelope''"
  "map lower_unit (hn_mandate OATI_HTTP_HEADERS) = lit ''oati-mandate''"
  "map lower_unit (hn_parentMandate OATI_HTTP_HEADERS) = lit ''oati-parent-mandate''"
  "map lower_unit (hn_transactionId OATI_HTTP_HEADERS) = lit ''oati-transaction-id''"
  "map lower_unit (hn_correlationId OATI_HTTP_HEADERS) = lit ''oati-correlation-id''"
  "map lower_unit (hn_receipt OATI_HTTP_HEADERS) = lit ''oati-receipt''"
  "map lower_unit (hn_receiptId OATI_HTTP_HEADERS) = lit ''oati-receipt-id''"
  by (simp_all add: OATI_HTTP_HEADERS_def lit_def lower_unit_def is_upper_def word_le_def)

section \<open>Properties\<close>

text \<open>
  A document that was put into an OATI header is read back from it: when its integers are
  exact and the header within the size limit, decoding returns the document with its members in
  canonical order, whatever order they were created in.
\<close>

theorem header_roundtrip:
  assumes "integer_json document" and "encodeOatiHeader document = Inr header" and "\<not> num_less maxBytes (num_of_int (int (length header)))"
  shows "decodeHeader (Some header) name maxBytes = Inr (canon document)"
  by (rule encoded_header [OF assms])

theorem header_roundtrip_witness:
  "\<exists>header. encodeOatiHeader (JObj [(lit ''b'', JNum (Fin 2)), (lit ''a'', JNull)]) = Inr header \<and>
     decodeHeader (Some header) (lit ''OATI-Envelope'') (num_of_int (int (length header))) = Inr (JObj [(lit ''a'', JNull), (lit ''b'', JNum (Fin 2))])"
proof -
  let ?d = "JObj [(lit ''b'', JNum (Fin 2)), (lit ''a'', JNull)]"
  have d: "integer_json ?d" "canon ?d = JObj [(lit ''a'', JNull), (lit ''b'', JNum (Fin 2))]" by (simp_all add: max_safe_def own_members_def)
  have "canonicalJson_tree ?d = Inr (serializeCanonical (canon ?d))" by (rule canonicalJson_tree_complete) (simp_all add: scalar_plain)
  then obtain header where "encodeOatiHeader ?d = Inr header" by (simp add: encodeOatiHeader_def del: canon.simps serializeCanonical.simps)
  with header_roundtrip [OF d(1) this, of "num_of_int (int (length header))" "lit ''OATI-Envelope''"] d(2) show ?thesis
    by (intro exI [of _ header]) simp
qed

end
