(* ===== verification/Receipts.thy ===== *)
theory Receipts
  imports Admission HeaderText
begin

text \<open>
  What the middleware answers: either a problem document or a response that carries a receipt,
  and a receipt states exactly what happened to the transaction.
\<close>

section \<open>What a receipt states\<close>

definition statement_of :: "('w, 'h) OatiMiddlewareOptions \<Rightarrow> OatiMiddlewareContext \<Rightarrow> outcome \<Rightarrow> jstring \<Rightarrow> jstring \<Rightarrow> json" where
  "statement_of options ctx outcome receiptId time = JObj ((lit ''oati_version'', JStr version_1_0) # receipt_draft options ctx outcome receiptId time)"

text \<open>
  The signer returned the receipt for the draft of this context, the receipt satisfies its schema,
  and its canonical text without the proof reads back as the statement.
\<close>

definition certified :: "('w, 'k) host \<Rightarrow> ('w, 'h) OatiMiddlewareOptions \<Rightarrow> OatiMiddlewareContext \<Rightarrow> outcome \<Rightarrow> jobject \<Rightarrow> bool" where
  "certified host options ctx outcome receipt \<longleftrightarrow>
     (\<exists>receiptId time t w w'. mo_signReceipt options (receipt_draft options ctx outcome receiptId time) ctx w = (Inr (JObj receipt), w') \<and>
        fst (h_validators host (lit ''receipt'') (JObj receipt)) \<and>
        canonicalJson_tree (JObj (drop_member (lit ''proof'') receipt)) = Inr t \<and>
        JSON_parse t = Inr (canon (statement_of options ctx outcome receiptId time)))"

lemma statement_integer: "integer_json (statement_of options ctx outcome receiptId time)"
  by (auto simp: statement_of_def receipt_draft_def member_if_text_def list_all_iff split: option.splits)

lemma matches_draft_reads_back:
  assumes "matches_draft receipt (receipt_draft options ctx outcome receiptId time) = Inr True"
  shows "\<exists>t. canonicalJson_tree (JObj (drop_member (lit ''proof'') receipt)) = Inr t \<and>
     JSON_parse t = Inr (canon (statement_of options ctx outcome receiptId time))"
proof -
  let ?s = "statement_of options ctx outcome receiptId time"
  from assms obtain t where t: "canonicalJson_tree (JObj (drop_member (lit ''proof'') receipt)) = Inr t" "canonicalJson_tree ?s = Inr t"
    by (auto simp: matches_draft_def statement_of_def exn_iff)
  from t(2) have "t = serializeCanonical (canon ?s)"
    by (rule canonicalJson_tree_canon [OF _ integer_json_unique [OF statement_integer]])
  then show ?thesis using t(1) JSON_parse_serialize [OF canonical_form_canon [OF statement_integer]] by blast
qed

lemma issueReceipt_certified:
  assumes "issueReceipt host options ctx outcome t w = (Inr receipt, w')"
  shows "certified host options ctx outcome receipt"
proof -
  from assms obtain receiptId time w1 w2 where
    "mo_signReceipt options (receipt_draft options ctx outcome receiptId time) ctx w1 = (Inr (JObj receipt), w2)"
    "fst (h_validators host (lit ''receipt'') (JObj receipt))" "matches_draft receipt (receipt_draft options ctx outcome receiptId time) = Inr True"
    unfolding issueReceipt_def by (auto simp: exn_iff Let_def split: option.splits if_splits)
  then show ?thesis using matches_draft_reads_back unfolding certified_def by blast
qed

section \<open>What a response carries\<close>

definition carries :: "Response \<Rightarrow> OatiMiddlewareContext \<Rightarrow> jobject \<Rightarrow> bool" where
  "carries response ctx receipt \<longleftrightarrow>
     map_of (rsp_headers response) (lit ''oati-transaction-id'') = Some (header_trim (ctx_transactionId ctx)) \<and>
     map_of (rsp_headers response) (lit ''oati-correlation-id'') = Some (header_trim (ctx_correlationId ctx)) \<and>
     map_of (rsp_headers response) (lit ''oati-receipt-id'') = Some (header_trim (member_text receipt (lit ''id'')))"

lemma attachReceipt_carries:
  assumes "attachReceipt response receipt ctx = Inr r"
  shows "carries r ctx receipt \<and> rsp_status r = rsp_status response \<and> rsp_body r = rsp_body response"
  using assms
  by (auto simp: attachReceipt_def exn_iff headers_set_Inr carries_def new_Response_def lower_header_names split: if_splits)

text \<open>A certified answer to a request; a transaction that is not allowed gets a denial.\<close>

definition answered :: "('w, 'k) host \<Rightarrow> ('w, 'h) OatiMiddlewareOptions \<Rightarrow> Request \<Rightarrow> Response \<Rightarrow> bool" where
  "answered host options request response \<longleftrightarrow>
     (\<exists>ctx outcome receipt. ctx_request ctx = request \<and> certified host options ctx outcome receipt \<and> carries response ctx receipt \<and>
        (res_decision (ctx_evaluation ctx) \<noteq> Allow \<longrightarrow> outcome = Denied \<and> rsp_status response \<in> {401, 403, 409, 503}))"

definition refused :: "Response \<Rightarrow> bool" where
  "refused response \<longleftrightarrow> rsp_status response \<in> {400, 401, 503} \<and>
     (\<exists>error title cid tid. problem error (rsp_status response) title cid tid = Inr response)"

lemma problem_status: "problem error status title cid tid = Inr r \<Longrightarrow> rsp_status r = status"
  by (auto simp: problem_def exn_iff new_Response_def split: if_splits)

lemma problem_refused: "problem error status title cid tid = Inr r \<Longrightarrow> status \<in> {400, 401, 503} \<Longrightarrow> refused r"
  unfolding refused_def using problem_status by metis

lemma reject_request_refused: "reject_request e cid = Inr r \<Longrightarrow> refused r"
  unfolding reject_request_def Let_def by (erule problem_refused) auto

lemma fail_closed_refused: "fail_closed e cid tid = Inr r \<Longrightarrow> refused r"
  unfolding fail_closed_def Let_def by (erule problem_refused) auto

lemma receiptResponse_status:
  assumes "receiptResponse host options ctx outcome status t code w = (Inr r, w')"
  shows "\<exists>receipt w1 response. issueReceipt host options ctx outcome t w = (Inr receipt, w1) \<and> attachReceipt response receipt ctx = Inr r \<and> rsp_status response = status \<and> rsp_status r = status"
proof -
  from assms obtain receipt w1 response where r: "issueReceipt host options ctx outcome t w = (Inr receipt, w1)"
    "attachReceipt response receipt ctx = Inr r" "rsp_status response = status"
    unfolding receiptResponse_def by (auto simp: exn_iff Let_def new_Response_def split: if_splits)
  with attachReceipt_carries [OF r(2)] show ?thesis by auto
qed

lemma receiptResponse_answered:
  assumes "receiptResponse host options ctx outcome status t code w = (Inr r, w')" and "ctx_request ctx = request"
    and "res_decision (ctx_evaluation ctx) \<noteq> Allow \<longrightarrow> outcome = Denied \<and> status \<in> {401, 403, 409, 503}"
  shows "answered host options request r"
proof -
  from receiptResponse_status [OF assms(1)] obtain receipt w1 response where r: "issueReceipt host options ctx outcome t w = (Inr receipt, w1)"
    "attachReceipt response receipt ctx = Inr r" "rsp_status response = status" by blast
  with issueReceipt_certified [OF r(1)] attachReceipt_carries [OF r(2)] assms(2,3) show ?thesis
    unfolding answered_def by auto
qed

lemma receiptResponse_denied:
  assumes "receiptResponse host options ctx Denied status t code w = (Inr r, w')" and "ctx_request ctx = request" and "status \<in> {401, 403, 409, 503}"
  shows "answered host options request r \<and> rsp_status r \<noteq> 200"
  using receiptResponse_answered [OF assms(1,2)] receiptResponse_status [OF assms(1)] assms(3) by auto

section \<open>Every way out\<close>

lemma respond_Inl_iff: "respond m w = (Inr (Inl r), w') \<longleftrightarrow> m w = (Inr r, w')"
  by (auto simp: respond_def exn_iff)

lemma thenA_Inl_iff: "thenA m f w = (Inr (Inl r), w'') \<longleftrightarrow>
    m w = (Inr (Inl r), w'') \<or> (\<exists>a w'. m w = (Inr (Inr a), w') \<and> f a w' = (Inr (Inl r), w''))"
  by (auto simp: thenA_def bindA_def split: prod.splits sum.splits)

lemma middlewareContext_fields [simp]:
  "ctx_request (middlewareContext request x cid ev mv pv evaluation) = request"
  "ctx_evaluation (middlewareContext request x cid ev mv pv evaluation) = evaluation"
  by (simp_all add: middlewareContext_def)

lemma deniedEvaluation_deny [simp]: "res_decision (deniedEvaluation x codes) = Deny"
  by (simp add: deniedEvaluation_def)

lemma deniedVerification_out:
  assumes "deniedVerification host options request x cid verification kind t mv pv w = (Inr r, w')"
  shows "(answered host options request r \<or> refused r) \<and> rsp_status r \<noteq> 200"
proof -
  from assms consider ev mv' pv' codes code where
      "receiptResponse host options (middlewareContext request x cid ev mv' pv' (deniedEvaluation x codes)) Denied 401 t code w = (Inr r, w')"
    | error title tid where "problem error 503 title (Some cid) tid = Inr r"
    unfolding deniedVerification_def Let_def catchA_Inr_iff by auto
  then show ?thesis by cases (auto dest: problem_refused problem_status receiptResponse_denied)
qed

lemma bind_request_out:
  assumes "bind_request host options request x (middlewareContext request x cid ev mv pv) w = (Inr (Inl r), w')"
  shows "answered host options request r \<and> rsp_status r \<noteq> 200"
  using assms unfolding bind_request_def
  by (auto simp: exn_iff Let_def respond_Inl_iff dest!: receiptResponse_denied split: if_splits)

lemma authorise_out:
  assumes "authorise host options request x (middlewareContext request x cid ev mv pv) w = (Inr (Inl r), w')"
  shows "answered host options request r \<and> rsp_status r \<noteq> 200"
  using assms unfolding authorise_def
  by (auto simp: exn_iff Let_def respond_Inl_iff dest!: receiptResponse_denied split: if_splits)

lemma admit_out:
  assumes "admit host options request cid x w = (Inr (Inl r), w')"
  shows "(answered host options request r \<or> refused r) \<and> rsp_status r \<noteq> 200"
proof -
  from assms consider "verify_mandate host options request cid x w = (Inr (Inl r), w')"
    | mv w1 where "verify_parent host options request cid x mv w1 = (Inr (Inl r), w')"
    | mv pv w2 where "verify_envelope host options request cid x mv pv w2 = (Inr (Inl r), w')"
    | ev mv pv w3 where "bind_request host options request x (middlewareContext request x cid ev mv pv) w3 = (Inr (Inl r), w')"
    | ev mv pv w4 where "authorise host options request x (middlewareContext request x cid ev mv pv) w4 = (Inr (Inl r), w')"
    unfolding admit_def by (auto simp: thenA_Inl_iff Let_def split: if_splits)
  then show ?thesis
  proof cases
    case 1
    then show ?thesis by (auto simp: verify_mandate_def exn_iff respond_Inl_iff dest: deniedVerification_out split: if_splits)
  next
    case 2
    then show ?thesis by (auto simp: verify_parent_def exn_iff respond_Inl_iff dest: deniedVerification_out split: if_splits option.splits)
  next
    case 3
    then show ?thesis by (auto simp: verify_envelope_def exn_iff respond_Inl_iff dest: deniedVerification_out split: if_splits)
  qed (auto dest: bind_request_out authorise_out)
qed

lemma dispatch_out:
  assumes "dispatch host options next ctx w = (Inr r, w')" and "res_decision (ctx_evaluation ctx) = Allow" and "ctx_request ctx = request"
  shows "answered host options request r"
proof -
  from assms(1) consider t w1 where "receiptResponse host options ctx Failed 500 t MIDDLEWARE_FORBIDDEN w1 = (Inr r, w')"
    | downstream outcome t receipt w1 where "issueReceipt host options ctx outcome t w1 = (Inr receipt, w')" "attachReceipt downstream receipt ctx = Inr r"
    unfolding dispatch_def by (auto simp: exn_iff Let_def split: sum.splits)
  then show ?thesis
  proof cases
    case 1
    then show ?thesis using assms(2,3) by (auto intro: receiptResponse_answered)
  next
    case 2
    with issueReceipt_certified [OF 2(1)] attachReceipt_carries [OF 2(2)] assms(2,3) show ?thesis unfolding answered_def by auto
  qed
qed

lemma middleware_out:
  assumes "oati_middleware host options next request w = (Inr response, w')"
  obtains (rejected) e cid where "reject_request e cid = Inr response"
    | (denied) cid x v where "admit host options request cid x v = (Inr (Inl response), w')"
    | (dispatched) cid x v ctx v' where "admit host options request cid x v = (Inr (Inr ctx), v')" "dispatch host options next ctx v' = (Inr response, w')"
    | (failed) e cid tid where "fail_closed e cid tid = Inr response"
proof -
  define c where "c = correlation host (req_header request (hn_correlationId OATI_HTTP_HEADERS)) (mo_generateCorrelationId options) w"
  obtain r1 w1 where c: "c = (r1, w1)" by (cases c)
  define x where "x = receive host options request w1"
  obtain r2 w2 where x: "x = (r2, w2)" by (cases x)
  show ?thesis
  proof (cases r1)
    case (Inl e)
    with assms c have "reject_request e None = Inr response" by (simp add: oati_middleware_def bindA_def c_def [symmetric])
    then show ?thesis by (rule rejected)
  next
    case cid: (Inr cid)
    show ?thesis
    proof (cases r2)
      case (Inl e)
      with assms c cid x have "reject_request e (Some cid) = Inr response" by (simp add: oati_middleware_def bindA_def c_def [symmetric] x_def [symmetric])
      then show ?thesis by (rule rejected)
    next
      case inp: (Inr inp)
      from assms have "catchA (bindA (admit host options request cid inp) (\<lambda>admitted.
                 case admitted of Inl response \<Rightarrow> returnA response | Inr ctx \<Rightarrow> dispatch host options next ctx))
               (\<lambda>e. liftA (fail_closed e cid (env_id (snd (nr_envelope inp))))) w2 = (Inr response, w')"
        by (simp add: oati_middleware_def bindA_def c_def [symmetric] x_def [symmetric] c cid x inp)
      then consider a w3 where "admit host options request cid inp w2 = (Inr a, w3)"
          "(case a of Inl response \<Rightarrow> returnA response | Inr ctx \<Rightarrow> dispatch host options next ctx) w3 = (Inr response, w')"
        | e where "fail_closed e cid (env_id (snd (nr_envelope inp))) = Inr response"
        by (auto simp: exn_iff)
      then show ?thesis
      proof cases
        case (1 a w3)
        then show ?thesis using denied dispatched by (cases a) auto
      qed (rule failed)
    qed
  qed
qed

end
