(* ===== verification/MiddlewareSamples.thy ===== *)
theory MiddlewareSamples
  imports Receipts VerificationProperties Samples
begin

text \<open>
  A request that passes the middleware: a Mandate and an Envelope signed with the sample key, a
  policy that trusts it, and a signer that returns the draft.  The properties of the middleware
  are instantiated at it.
\<close>

definition passing_mandate :: jobject where
  "passing_mandate = signed_sample [(lit ''oati_version'', JStr (lit ''1.0'')), (lit ''id'', JStr (lit ''oati:mandate:m'')), (lit ''issuer'', JStr (lit ''root-1'')),
     (lit ''subject'', JStr (lit ''agent-1'')), (lit ''purpose'', JStr (lit ''travel'')), (lit ''actions'', JArr [JStr (lit ''read'')]),
     (lit ''not_before'', JStr (lit ''1970-01-01T00:00:00Z'')), (lit ''expires_at'', JStr (lit ''1970-01-02T00:00:00Z'')),
     (lit ''status'', JStr (lit ''active''))]"

definition passing_envelope :: jobject where
  "passing_envelope = signed_sample [(lit ''oati_version'', JStr (lit ''1.0'')), (lit ''id'', JStr (lit ''oati:tx:t'')), (lit ''agent_id'', JStr (lit ''agent-1'')),
     (lit ''organisation_id'', JStr (lit ''oati:org:o'')), (lit ''mandate_id'', JStr (lit ''oati:mandate:m'')), (lit ''action'', JStr (lit ''read'')),
     (lit ''resource'', JStr (lit ''forecast'')), (lit ''purpose'', JStr (lit ''travel'')), (lit ''request_digest'', JStr (lit ''sha256:'')),
     (lit ''issued_at'', JStr (lit ''1970-01-01T00:00:00Z'')), (lit ''nonce'', JStr (lit ''0123456789abcdef''))]"

definition passing_host :: "(replay_entries, unit) host" where
  "passing_host = \<lparr>h_legacy = no_legacy, h_crypto = Some zero_provider, h_digest = (\<lambda>_. Inr []),
     h_url = (\<lambda>_. Some \<lparr>url_protocol = lit ''https:'', url_username = [], url_password = [], url_pathname = lit ''/'', url_search = [], url_hash = [],
       url_origin = lit ''https://b''\<rparr>),
     h_upper = (\<lambda>s. s), h_validators = (\<lambda>_ _. (True, None)), h_now = (\<lambda>_. 1000000), h_randomUUID = Some (returnA (lit ''u-1'')),
     h_getRandomValues = (\<lambda>_. None)\<rparr>"

definition passing_options :: "(replay_entries, unit) OatiMiddlewareOptions" where
  "passing_options = \<lparr>mo_verificationPolicy = (\<lambda>_ _. returnA sample_policy), mo_receiptIssuer = lit ''issuer'',
     mo_signReceipt = (\<lambda>draft ctx. returnA (JObj ((lit ''oati_version'', JStr version_1_0) # draft))), mo_usageStore = None, mo_evaluationExtensions = None,
     mo_extract = Some (\<lambda>_. returnA \<lparr>ex_envelope = JObj passing_envelope, ex_mandate = JObj passing_mandate, ex_parentMandate = None\<rparr>),
     mo_emitReceipt = None, mo_now = None, mo_generateCorrelationId = None, mo_generateReceiptId = None, mo_policyDigest = None, mo_maxHeaderBytes = None,
     mo_requireRequestDigest = None, mo_maxBodyBytes = None, mo_allowedReceiptOutcome = None\<rparr>"

definition passing_request :: Request where
  "passing_request = \<lparr>req_method = lit ''GET'', req_url = lit ''https://b/'', req_header = (\<lambda>_. None), req_body = Inr []\<rparr>"

definition ok_response :: Response where
  "ok_response = \<lparr>rsp_status = 200, rsp_statusText = [], rsp_headers = [], rsp_body = RawBody []\<rparr>"

section \<open>The documents\<close>

definition passing_mandate_view :: AgentMandate where
  "passing_mandate_view = \<lparr>man_oati_version = lit ''1.0'', man_id = lit ''oati:mandate:m'', man_issuer = lit ''root-1'', man_subject = lit ''agent-1'',
     man_sponsor = None, man_parent_mandate = None, man_purpose = lit ''travel'', man_actions = [lit ''read''], man_resources = None,
     man_counterparties = None, man_destinations = None, man_limits = None, man_data_use = None, man_delegation = None,
     man_not_before = lit ''1970-01-01T00:00:00Z'', man_expires_at = lit ''1970-01-02T00:00:00Z'', man_status = Active, man_profile = None,
     man_extensions = None, man_proof = proof_of (op_members sample_proof)\<rparr>"

definition passing_envelope_view :: TransactionEnvelope where
  "passing_envelope_view = \<lparr>env_oati_version = lit ''1.0'', env_id = lit ''oati:tx:t'', env_agent_id = lit ''agent-1'', env_organisation_id = lit ''oati:org:o'',
     env_mandate_id = lit ''oati:mandate:m'', env_action = lit ''read'', env_resource = lit ''forecast'', env_purpose = Some (lit ''travel''),
     env_destination = None, env_counterparty = None, env_protocol = None, env_commercial_profile = None, env_request_digest = Some (lit ''sha256:''),
     env_issued_at = lit ''1970-01-01T00:00:00Z'', env_nonce = lit ''0123456789abcdef'', env_profile = None, env_extensions = None,
     env_proof = proof_of (op_members sample_proof)\<rparr>"

lemma proof_view: "\<exists>p. proof_of (op_members sample_proof) = Some p"
  by (simp add: proof_of_def member_of_def optional_of_def jget_def sample_proof_def signed_proof_def Let_def proof_members_def sample_options_def audience_json_def)

lemma passing_views:
  "mandate_of passing_mandate = Some passing_mandate_view" "envelope_of passing_envelope = Some passing_envelope_view"
  using proof_view
  by (auto simp: mandate_of_def envelope_of_def passing_mandate_def passing_envelope_def signed_sample_def member_of_def optional_of_def jget_def put_member_def
    choice_value_def mandate_statuses_def passing_mandate_view_def passing_envelope_view_def)

lemma passing_bodies:
  "canonical_document [(lit ''oati_version'', JStr (lit ''1.0'')), (lit ''id'', JStr (lit ''oati:mandate:m'')), (lit ''issuer'', JStr (lit ''root-1'')),
     (lit ''subject'', JStr (lit ''agent-1'')), (lit ''purpose'', JStr (lit ''travel'')), (lit ''actions'', JArr [JStr (lit ''read'')]),
     (lit ''not_before'', JStr (lit ''1970-01-01T00:00:00Z'')), (lit ''expires_at'', JStr (lit ''1970-01-02T00:00:00Z'')),
     (lit ''status'', JStr (lit ''active''))]"
  "canonical_document [(lit ''oati_version'', JStr (lit ''1.0'')), (lit ''id'', JStr (lit ''oati:tx:t'')), (lit ''agent_id'', JStr (lit ''agent-1'')),
     (lit ''organisation_id'', JStr (lit ''oati:org:o'')), (lit ''mandate_id'', JStr (lit ''oati:mandate:m'')), (lit ''action'', JStr (lit ''read'')),
     (lit ''resource'', JStr (lit ''forecast'')), (lit ''purpose'', JStr (lit ''travel'')), (lit ''request_digest'', JStr (lit ''sha256:'')),
     (lit ''issued_at'', JStr (lit ''1970-01-01T00:00:00Z'')), (lit ''nonce'', JStr (lit ''0123456789abcdef''))]"
  by (simp_all add: canonical_document_def scalar_plain)

lemma passing_dates: "iso_parse (lit ''1970-01-01T00:00:00Z'') = Some 0" "iso_parse (lit ''1970-01-02T00:00:00Z'') = Some 86400000"
  by (simp_all add: iso_parse_def date_eval)

lemma passing_accepted:
  assumes "vp_resolver policy = StaticTrustResolver [sample_key] [] []" "vp_trustAnchors policy = [lit ''root-1'']"
      "vp_expectedAudience policy = lit ''merchant''" "vp_allowedAlgorithms policy = None" "policy_skew policy = 30000"
      "0 \<le> max_links policy" "\<forall>a. vp_maxProofAgeMs policy = Some a \<longrightarrow> 300000 \<le> a"
  shows "accepted no_legacy (Some zero_provider) passing_mandate policy 1000000 sample_proof sample_key (lit ''root-1'')"
    and "accepted no_legacy (Some zero_provider) passing_envelope policy 1000000 sample_proof sample_key (lit ''root-1'')"
proof -
  have m: "document_current no_legacy passing_mandate 1000000 30000" "signer_bound passing_mandate sample_key"
    by (simp_all add: document_current_def document_start_def document_end_def after_start_def before_end_def signer_bound_def claimed_signer_def
      passing_mandate_def signed_sample_def jget_def put_member_def Date_parse_def passing_dates sample_key_def)
  have e: "document_current no_legacy passing_envelope 1000000 30000" "signer_bound passing_envelope sample_key"
    by (simp_all add: document_current_def document_start_def document_end_def after_start_def before_end_def signer_bound_def claimed_signer_def
      passing_envelope_def signed_sample_def jget_def put_member_def Date_parse_def passing_dates sample_key_def)
  show "accepted no_legacy (Some zero_provider) passing_mandate policy 1000000 sample_proof sample_key (lit ''root-1'')"
    using signed_sample_accepted [OF _ _ passing_bodies(1) m [unfolded passing_mandate_def] assms] by (simp add: passing_mandate_def)
  show "accepted no_legacy (Some zero_provider) passing_envelope policy 1000000 sample_proof sample_key (lit ''root-1'')"
    using signed_sample_accepted [OF _ _ passing_bodies(2) e [unfolded passing_envelope_def] assms] by (simp add: passing_envelope_def)
qed

section \<open>The run\<close>

lemma verify_with_accepted:
  assumes "accepted (h_legacy host) (h_crypto host) document policy (policy_now (h_now host w) policy) p key anchor"
    and "vp_checkAndStore policy w (replayKey p (vp_expectedAudience policy)) (Date_parse (h_legacy host) (op_expires p)) (policy_now (h_now host w) policy) = Inr (True, w')"
  shows "\<exists>r. verify_with host document policy w = (Inr r, w') \<and> vr_verified r"
proof (cases rule: verifyDocument_cases [of "h_legacy host" "h_now host w" "h_crypto host" document policy w])
  case (reaches p' key' anchor')
  have "p' = p" using accepted_parsed [OF assms(1)] accepted_parsed [OF reaches(1)] by simp
  then show ?thesis using reaches(2) assms(2) by (simp add: verify_with_def issue_if_def)
qed (use assms in blast)+

definition passing_input :: narrowed_request where
  "passing_input = \<lparr>nr_envelope = (passing_envelope, passing_envelope_view), nr_mandate = (passing_mandate, passing_mandate_view), nr_parentMandate = None\<rparr>"

lemma passing_received: "receive passing_host passing_options passing_request w = (Inr passing_input, w)"
  by (simp add: receive_def passing_options_def passing_host_def passing_input_def passing_request_def narrow_def assertSchema_def validateSchema_def passing_views)

lemma passing_evaluation:
  "\<exists>ev. evaluateAuthority no_legacy (evaluation_request (toISOString 1000000) passing_input empty_usage no_extensions) = Inr ev \<and> res_decision ev = Allow"
proof -
  have "timestamp no_legacy (toISOString 1000000) = Inr 1000000" "timestamp no_legacy (lit ''1970-01-01T00:00:00Z'') = Inr 0"
    "timestamp no_legacy (lit ''1970-01-02T00:00:00Z'') = Inr 86400000"
    by (simp_all add: timestamp_def Date_parse_def signed_dates passing_dates)
  then show ?thesis
    by (simp add: evaluator_eval evaluation_request_def passing_input_def passing_mandate_view_def passing_envelope_view_def empty_usage_def no_extensions_def
        version_1_0_def grows_rules decimal_ops parse_eval format_eval)
qed

lemma passing_digest: "httpRequestDigest passing_host passing_request None = Inr (lit ''sha256:'')"
proof -
  let ?b = "JObj [(lit ''method'', JStr (toUpperCase (\<lambda>s. s) (lit ''GET''))), (lit ''target'', JStr (lit ''/'')), (lit ''body_sha256'', JStr (lit ''sha256:''))]"
  have "toUpperCase (\<lambda>s. s) (lit ''GET'') = lit ''GET''" by (simp add: toUpperCase_def upper_unit_def lit_def is_lower_def word_le_def)
  then have "canonicalJson_tree ?b = Inr (serializeCanonical (canon ?b))"
    by (intro canonicalJson_tree_complete) (simp_all add: scalar_plain)
  then show ?thesis
    by (simp add: httpRequestDigest_def passing_host_def passing_request_def num_of_int_def hex_def del: canon.simps serializeCanonical.simps)
qed

definition envelope_entry :: "replay_entries \<Rightarrow> replay_entries" where
  "envelope_entry w = snd (MemoryReplayCache_checkAndStore w (replayKey sample_proof (lit ''merchant'')) (Some 1060000) 1000000)"

lemma passing_expiry: "Date_parse no_legacy (op_expires sample_proof) = Some 1060000"
  by (simp add: sample_proof_def signed_proof_def Let_def Date_parse_def signed_dates)

lemma passing_verifications:
  "\<exists>r. verify_with passing_host passing_mandate (reusableDocumentPolicy sample_policy) w = (Inr r, w) \<and> vr_verified r"
  "\<exists>r. verify_with passing_host passing_envelope sample_policy [] = (Inr r, envelope_entry []) \<and> vr_verified r"
proof -
  show "\<exists>r. verify_with passing_host passing_mandate (reusableDocumentPolicy sample_policy) w = (Inr r, w) \<and> vr_verified r"
    by (rule verify_with_accepted [where p = sample_proof and key = sample_key and anchor = "lit ''root-1''"])
      (simp_all add: passing_host_def reusableDocumentPolicy_def policy_now_def sample_policy_def policy_skew_def max_links_def passing_accepted max_safe_def)
  show "\<exists>r. verify_with passing_host passing_envelope sample_policy [] = (Inr r, envelope_entry []) \<and> vr_verified r"
    by (rule verify_with_accepted [where p = sample_proof and key = sample_key and anchor = "lit ''root-1''"])
      (simp_all add: passing_host_def policy_now_def sample_policy_def policy_skew_def max_links_def passing_accepted passing_expiry envelope_entry_def MemoryReplayCache_checkAndStore_def Let_def)
qed

lemma passing_admitted:
  "\<exists>ctx. admit passing_host passing_options passing_request (lit ''u-1'') passing_input [] = (Inr (Inr ctx), envelope_entry [])"
proof -
  obtain mv where mv: "verify_with passing_host passing_mandate (reusableDocumentPolicy sample_policy) [] = (Inr mv, [])" "vr_verified mv"
    using passing_verifications(1) by blast
  obtain ev where ev: "verify_with passing_host passing_envelope sample_policy [] = (Inr ev, envelope_entry [])" "vr_verified ev"
    using passing_verifications(2) by blast
  obtain evaluation where e: "evaluateAuthority no_legacy (evaluation_request (toISOString 1000000) passing_input empty_usage no_extensions) = Inr evaluation"
    "res_decision evaluation = Allow" using passing_evaluation by blast
  let ?ctx = "middlewareContext passing_request passing_input (lit ''u-1'') ev mv None"
  have "verify_mandate passing_host passing_options passing_request (lit ''u-1'') passing_input [] = (Inr (Inr mv), [])"
    using mv by (simp add: verify_mandate_def passing_options_def passing_input_def bindA_def)
  moreover have "verify_parent passing_host passing_options passing_request (lit ''u-1'') passing_input mv [] = (Inr (Inr None), [])"
    by (simp add: verify_parent_def passing_input_def)
  moreover have "verify_envelope passing_host passing_options passing_request (lit ''u-1'') passing_input mv None [] = (Inr (Inr ev), envelope_entry [])"
    using ev by (simp add: verify_envelope_def passing_options_def passing_input_def bindA_def)
  moreover have "bind_request passing_host passing_options passing_request passing_input ?ctx w = (Inr (Inr ()), w)" for w
    using passing_digest by (simp add: bind_request_def passing_options_def passing_input_def passing_envelope_view_def no_text_def)
  moreover have "authorise passing_host passing_options passing_request passing_input ?ctx w = (Inr (Inr (?ctx evaluation)), w)" for w
    using e by (simp add: authorise_def supplied_extensions_def load_usage_def commit_usage_def usage_of_def passing_options_def passing_host_def
        passing_input_def passing_mandate_view_def requiresPersistentUsage_def current_def iso_time_def compactExtensions_def no_extensions_def bindA_def)
  ultimately show ?thesis by (simp add: admit_def thenA_def bindA_def Let_def)
qed

text \<open>A handler that answers is followed by a receipt.\<close>

definition header_unit :: "code_unit \<Rightarrow> bool" where
  "header_unit u \<longleftrightarrow> 14 \<le> unat u \<and> unat u < 256"

lemma header_unit_allowed: "header_unit u \<Longrightarrow> \<not> 255 < u \<and> u \<notin> {0, 10, 13}"
  by (auto simp: header_unit_def word_less_nat_alt)

lemma plain_header:
  assumes "list_all header_unit v"
  shows "\<exists>hs'. headers_set name v hs = Inr hs'"
proof -
  have "set (header_trim v) \<subseteq> set v" by (auto simp: header_trim_def dest!: set_dropWhileD)
  with assms have "\<not> list_ex (\<lambda>u. 255 < u \<or> u \<in> {0, 10, 13}) (header_trim v)"
    using header_unit_allowed by (fastforce simp: list_all_iff list_ex_iff)
  then show ?thesis unfolding headers_set_Inr by blast
qed

lemma header_unit_lit: "list_all (\<lambda>c. 14 \<le> (of_char c :: nat)) s \<Longrightarrow> list_all header_unit (lit s)"
  unfolding lit_def list_all_iff header_unit_def by (auto simp: of_char_word16_nat nat_of_char_less_256)

lemma url_unit_header: "url_unit u \<Longrightarrow> header_unit u"
  by (auto simp: url_unit_def is_digit_def is_upper_def is_lower_def word_le_nat_alt header_unit_def)

lemma allow_no_reasons: "evaluateAuthority legacy q = Inr r \<Longrightarrow> res_decision r = Allow \<Longrightarrow> res_reason_codes r = []"
  by (auto simp: evaluate_cases split: if_splits)

lemma passing_context:
  assumes "admit passing_host passing_options passing_request (lit ''u-1'') passing_input w = (Inr (Inr ctx), w')"
  shows "ctx_transactionId ctx = lit ''oati:tx:t'' \<and> ctx_correlationId ctx = lit ''u-1'' \<and> ctx_envelope ctx = passing_envelope_view \<and>
     ctx_mandate ctx = passing_mandate_view \<and> res_decision (ctx_evaluation ctx) = Allow \<and> res_reason_codes (ctx_evaluation ctx) = []"
  using admit_sound [OF assms] allow_no_reasons
  by (auto simp: has_authority_def within_authority_def Let_def passing_input_def passing_envelope_view_def)

definition passing_receipt :: "OatiMiddlewareContext \<Rightarrow> outcome \<Rightarrow> jobject" where
  "passing_receipt ctx outcome =
     (lit ''oati_version'', JStr version_1_0) # receipt_draft passing_options ctx outcome (lit ''oati:receipt:u-1'') (toISOString 1000000)"

lemma passing_receipt_issued:
  assumes "admit passing_host passing_options passing_request (lit ''u-1'') passing_input v = (Inr (Inr ctx), v')"
  shows "issueReceipt passing_host passing_options ctx Succeeded (Some 1000000) w = (Inr (passing_receipt ctx Succeeded), w)"
    and "\<exists>t. encodeOatiHeader (JObj (passing_receipt ctx Succeeded)) = Inr t \<and> list_all url_unit t"
proof -
  note c = passing_context [OF assms]
  have time: "is_scalar (toISOString 1000000)" by (rule scalar_plain [OF toISOString_plain])
  have keys: "unique_keys (JObj (passing_receipt ctx Succeeded))"
    using integer_json_unique [OF statement_integer] unfolding passing_receipt_def statement_of_def .
  have serialized: "canonicalJson_tree (JObj (passing_receipt ctx Succeeded)) = Inr (serializeCanonical (canon (JObj (passing_receipt ctx Succeeded))))"
  proof (rule canonicalJson_tree_complete [OF _ _ keys])
    show "i_json (JObj (passing_receipt ctx Succeeded))" "depth_le 256 (JObj (passing_receipt ctx Succeeded))"
      using c time by (simp_all add: passing_receipt_def receipt_draft_def passing_options_def passing_envelope_view_def passing_mandate_view_def
        member_if_text_def decision_text_def outcome_text_def version_1_0_def scalar_plain)
  qed
  have "drop_member (lit ''proof'') (passing_receipt ctx Succeeded) = passing_receipt ctx Succeeded"
    by (rule drop_member_absent) (auto simp: passing_receipt_def receipt_draft_def member_if_text_def split: option.splits)
  with serialized have "matches_draft (passing_receipt ctx Succeeded) (receipt_draft passing_options ctx Succeeded (lit ''oati:receipt:u-1'') (toISOString 1000000)) = Inr True"
    by (simp add: matches_draft_def passing_receipt_def)
  then show "issueReceipt passing_host passing_options ctx Succeeded (Some 1000000) w = (Inr (passing_receipt ctx Succeeded), w)"
    by (simp add: issueReceipt_def passing_options_def passing_host_def safeUuid_def iso_time_def assertSchema_def validateSchema_def passing_receipt_def
        Let_def bindA_def lit_append [symmetric])
  show "\<exists>t. encodeOatiHeader (JObj (passing_receipt ctx Succeeded)) = Inr t \<and> list_all url_unit t"
    using serialized base64url_units by (simp add: encodeOatiHeader_def)
qed

lemma passing_unfold:
  assumes "admit passing_host passing_options passing_request (lit ''u-1'') passing_input [] = (Inr (Inr ctx), v)"
  shows "oati_middleware passing_host passing_options next passing_request [] =
     catchA (dispatch passing_host passing_options next ctx) (\<lambda>e. liftA (fail_closed e (lit ''u-1'') (lit ''oati:tx:t''))) v"
proof -
  have "correlation passing_host (req_header passing_request (hn_correlationId OATI_HTTP_HEADERS)) (mo_generateCorrelationId passing_options) [] = (Inr (lit ''u-1''), [])"
    by (simp add: correlation_def passing_request_def passing_options_def safeUuid_def passing_host_def correlation_text_def id_unit_def lit_def is_lower_def is_digit_def word_le_def bindA_def)
  moreover have "env_id (snd (nr_envelope passing_input)) = lit ''oati:tx:t''" by (simp add: passing_input_def passing_envelope_view_def)
  ultimately show ?thesis using assms by (simp add: oati_middleware_def bindA_def catchA_def passing_received)
qed

text \<open>Any handler that answers this transaction with status 200.\<close>

definition passing_facts :: "OatiMiddlewareContext \<Rightarrow> bool" where
  "passing_facts ctx \<longleftrightarrow> ctx_transactionId ctx = lit ''oati:tx:t'' \<and> ctx_correlationId ctx = lit ''u-1'' \<and> res_reason_codes (ctx_evaluation ctx) = []"

lemma passing_run_with:
  assumes handler: "\<And>ctx w. passing_facts ctx \<Longrightarrow> behind passing_request ctx w = (Inr response, w)" and ok: "rsp_status response = 200"
  shows "\<exists>ctx r w'. passing_facts ctx \<and> attachReceipt response (passing_receipt ctx Succeeded) ctx = Inr r \<and>
     (\<exists>t. encodeOatiHeader (JObj (passing_receipt ctx Succeeded)) = Inr t \<and> list_all url_unit t) \<and>
     oati_middleware passing_host passing_options behind passing_request [] = (Inr r, w') \<and> rsp_status r = 200"
proof -
  obtain ctx where ctx: "admit passing_host passing_options passing_request (lit ''u-1'') passing_input [] = (Inr (Inr ctx), envelope_entry [])"
    using passing_admitted by blast
  note c = passing_context [OF ctx] and issued = passing_receipt_issued [OF ctx]
  have request: "ctx_request ctx = passing_request" using admit_sound [OF ctx] by (simp add: has_authority_def)
  have facts: "passing_facts ctx" using c by (simp add: passing_facts_def)
  obtain encoded where encoded: "encodeOatiHeader (JObj (passing_receipt ctx Succeeded)) = Inr encoded" "list_all header_unit encoded"
    using issued(2) url_unit_header by (metis (no_types, lifting) list.pred_mono_strong)
  have "list_all header_unit (ctx_transactionId ctx)" "list_all header_unit (ctx_correlationId ctx)"
    "list_all header_unit (member_text (passing_receipt ctx Succeeded) (lit ''id''))"
    unfolding c [THEN conjunct1] using c
    by (auto intro!: header_unit_lit simp: member_text_def passing_receipt_def receipt_draft_def jget_def)
  note h = this [THEN plain_header] plain_header [OF encoded(2)]
  have "\<exists>r. attachReceipt response (passing_receipt ctx Succeeded) ctx = Inr r"
  proof -
    obtain h1 where h1: "headers_set (hn_transactionId OATI_HTTP_HEADERS) (ctx_transactionId ctx) (rsp_headers response) = Inr h1" using h(1) by blast
    obtain h2 where h2: "headers_set (hn_correlationId OATI_HTTP_HEADERS) (ctx_correlationId ctx) h1 = Inr h2" using h(2) by blast
    obtain h3 where h3: "(if length encoded \<le> 8192 then headers_set (hn_receipt OATI_HTTP_HEADERS) encoded h2 else Inr h2) = Inr h3"
      using h(4) by (cases "length encoded \<le> 8192") auto
    obtain h4 where h4: "headers_set (hn_receiptId OATI_HTTP_HEADERS) (member_text (passing_receipt ctx Succeeded) (lit ''id'')) h3 = Inr h4" using h(3) by blast
    show ?thesis unfolding attachReceipt_def h1 h2 h3 h4 encoded(1) bindE_simps by (simp add: new_Response_def ok)
  qed
  then obtain r where r: "attachReceipt response (passing_receipt ctx Succeeded) ctx = Inr r" by blast
  have "dispatch passing_host passing_options behind ctx w = (Inr r, w)" for w
    using issued(1) r ok handler [OF facts] request by (simp add: dispatch_def current_def passing_options_def passing_host_def bindA_def Let_def)
  then have "oati_middleware passing_host passing_options behind passing_request [] = (Inr r, envelope_entry [])"
    by (simp add: passing_unfold [OF ctx] catchA_def)
  moreover have "rsp_status r = 200" using attachReceipt_carries [OF r] ok by simp
  ultimately show ?thesis using facts r issued(2) by blast
qed

lemma passing_run:
  "\<exists>r w'. oati_middleware passing_host passing_options (\<lambda>_ _. returnA ok_response) passing_request [] = (Inr r, w') \<and> rsp_status r = 200"
  using passing_run_with [where behind = "\<lambda>_ _. returnA ok_response" and response = ok_response] by (auto simp: ok_response_def)

text \<open>A handler that throws is answered with status 500, or not at all.\<close>

lemma failed_handler_status:
  assumes "admit passing_host passing_options passing_request (lit ''u-1'') passing_input [] = (Inr (Inr ctx), v)"
    and "oati_middleware passing_host passing_options (\<lambda>_ _. throwA e) passing_request [] = (Inr r, w')"
  shows "rsp_status r \<noteq> 200"
proof -
  from assms(2) [unfolded passing_unfold [OF assms(1)]] consider "dispatch passing_host passing_options (\<lambda>_ _. throwA e) ctx v = (Inr r, w')"
    | e' where "fail_closed e' (lit ''u-1'') (lit ''oati:tx:t'') = Inr r" by (auto simp: exn_iff)
  then show ?thesis
  proof cases
    case 1
    then have "\<exists>t u. receiptResponse passing_host passing_options ctx Failed 500 t MIDDLEWARE_FORBIDDEN u = (Inr r, w')"
      by (auto simp: dispatch_def exn_iff)
    then show ?thesis using receiptResponse_status by fastforce
  qed (auto dest: fail_closed_refused simp: refused_def)
qed

end
