(* ===== verification/MiddlewareProperties.thy ===== *)
theory MiddlewareProperties
  imports MiddlewareSamples
begin

text \<open>The properties of the middleware.\<close>





end
