(* ===== verification/RespFraming.thy ===== *)
theory RespFraming
  imports Resp "HOL-Library.Sublist"
begin

text \<open>
  What a Valkey server sends: \<open>wire\<close> is the encoding of a reply, \<open>wire_value\<close> what the client
  makes of it.  A stream of replies settles a session in the same way whatever chunks it arrives in.
\<close>

section \<open>Replies on the wire\<close>

datatype wire_reply = Simple "byte list" | Failure "byte list" | Integer int | Bulk "byte list" | Null

definition ascii :: "jstring \<Rightarrow> byte list" where
  "ascii s = map (\<lambda>c. byte_of (uint c)) s"

definition line :: "byte \<Rightarrow> byte list \<Rightarrow> byte list" where
  "line type head = type # head @ [13, 10]"

fun wire :: "wire_reply \<Rightarrow> byte list" where
  "wire (Simple bs) = line 43 bs"
| "wire (Failure bs) = line 45 bs"
| "wire (Integer n) = line 58 (ascii (int_to_string n))"
| "wire (Bulk bs) = line 36 (ascii (int_to_string (int (length bs)))) @ bs @ [13, 10]"
| "wire Null = line 36 (ascii (lit ''-1''))"

fun wire_wf :: "wire_reply \<Rightarrow> bool" where
  "wire_wf (Simple bs) = (13 \<notin> set bs)"
| "wire_wf (Failure bs) = (13 \<notin> set bs)"
| "wire_wf (Integer n) = (\<bar>n\<bar> \<le> max_safe)"
| "wire_wf (Bulk bs) = (int (length bs) \<le> 2 ^ 29)"
| "wire_wf Null = True"

fun wire_value :: "wire_reply \<Rightarrow> reply result" where
  "wire_value (Simple bs) = Inr (TextReply (buffer_text bs))"
| "wire_value (Failure bs) = Inl (PlainErr (buffer_text bs))"
| "wire_value (Integer n) = Inr (IntReply (num_of_int n))"
| "wire_value (Bulk bs) = Inr (TextReply (buffer_text bs))"
| "wire_value Null = Inr NullReply"

section \<open>Lines\<close>

lemma crlf_at_line: "13 \<notin> set head \<Longrightarrow> t \<noteq> 13 \<Longrightarrow> crlf_at (line t head @ r) = Some (Suc (length head))"
proof (induction head arbitrary: t)
  case (Cons h hs)
  then have "crlf_at (line h hs @ r) = Some (Suc (length hs))" by simp
  with Cons.prems show ?case by (simp add: line_def)
qed (simp add: line_def)

lemma crlf_at_short: "13 \<notin> set head \<Longrightarrow> t \<noteq> 13 \<Longrightarrow> strict_prefix p (line t head) \<Longrightarrow> crlf_at p = None"
proof (induction head arbitrary: t p)
  case Nil
  then show ?case by (cases p rule: crlf_at.cases) (auto simp: line_def strict_prefix_def prefix_def Cons_eq_append_conv append_eq_Cons_conv)
next
  case (Cons h hs)
  show ?case
  proof (cases p)
    fix a q
    assume p: "p = a # q"
    with Cons.prems have q: "strict_prefix q (line h hs)" "a \<noteq> 13" by (auto simp: line_def)
    then have "crlf_at q = None" using Cons.IH [of h q] Cons.prems by simp
    with q p show ?thesis by (cases q) auto
  qed simp
qed

lemma uint_digit: "is_digit c \<Longrightarrow> uint (byte_of (uint c)) = uint c"
  by (rule uint_byte_of) (auto simp: is_digit_def word_le_def)

lemma buffer_text_ascii: "list_all (\<lambda>c. uint c < 128) s \<Longrightarrow> buffer_text (ascii s) = s"
proof (induction s)
  case (Cons c s)
  then have "uint (byte_of (uint c)) = uint c" by (intro uint_byte_of) auto
  with Cons show ?case by (simp add: buffer_text_def ascii_def units_of_def utf8_decode.simps)
qed (simp add: buffer_text_def ascii_def utf8_decode.simps)

lemma digits_plain: "0 \<le> n \<Longrightarrow> list_all (\<lambda>c. uint c < 128 \<and> c \<noteq> 13) (digits_of n)"
  by (rule list.pred_mono_strong [OF digits_of_all_digit]) (auto simp: is_digit_def word_le_def)

lemma int_plain: "list_all (\<lambda>c. uint c < 128 \<and> c \<noteq> 13) (int_to_string n)"
  using digits_plain [of n] digits_plain [of "- n"] by (auto simp: int_to_string_def lit_def)

lemma no_cr: "list_all (\<lambda>c. uint c < 128 \<and> c \<noteq> 13) s \<Longrightarrow> 13 \<notin> set (ascii s)"
proof
  assume s: "list_all (\<lambda>c. uint c < 128 \<and> c \<noteq> 13) s" and "13 \<in> set (ascii s)"
  then obtain c where c: "c \<in> set s" "byte_of (uint c) = 13" by (auto simp: ascii_def)
  then have "uint (byte_of (uint c)) = uint c" using s by (intro uint_byte_of) (auto simp: list_all_iff)
  then have "uint c = uint (13 :: code_unit)" using c(2) by simp
  then have "c = 13" by (rule word_uint_eqI)
  with s c(1) show False by (auto simp: list_all_iff)
qed

section \<open>Parsing a reply\<close>

lemma digit_not_space: "is_digit c \<Longrightarrow> \<not> is_space c"
  by (auto simp: is_digit_def is_space_def word_le_def)

lemma trim_plain: "s \<noteq> [] \<Longrightarrow> \<not> is_space (hd s) \<Longrightarrow> \<not> is_space (last s) \<Longrightarrow> trim s = s"
  using dropWhile_eq_self_iff [of is_space s] dropWhile_eq_self_iff [of is_space "rev s"] by (simp add: trim_def hd_rev)

lemma last_digits_of: "0 \<le> n \<Longrightarrow> is_digit (last (digits_of n))"
  using digits_of_all_digit [of n] by (auto simp: list_all_iff)

lemma string_to_number_digits:
  assumes "0 \<le> n" and "n \<le> 2 ^ 53"
  shows "string_to_number (digits_of n) = num_of_int n"
proof -
  obtain c cs where d: "digits_of n = c # cs" "is_digit c" using digits_of_head [OF assms(1)] by blast
  have "trim (digits_of n) = digits_of n"
    using last_digits_of [OF assms(1)] digit_not_space d by (intro trim_plain) auto
  moreover have "\<forall>x \<in> set (digits_of n). is_digit x" using digits_of_all_digit [OF assms(1)] by (simp add: list_all_iff)
  moreover have "\<not> is_digit 73" "\<not> is_digit 43" "\<not> is_digit 45" "\<not> is_digit 120" "\<not> is_digit 88" "\<not> is_digit 111" "\<not> is_digit 79"
    "\<not> is_digit 98" "\<not> is_digit 66" by (simp_all add: is_digit_def)
  moreover have "digits_of n ! 1 \<in> set (digits_of n)" if "2 < length (digits_of n)" using that by simp
  ultimately show ?thesis
    using num_of_decimal_digits(1) [OF assms] d by (auto simp: string_to_number_def lit_def Let_def)
qed

lemma string_to_number_int: "\<bar>n\<bar> \<le> 2 ^ 53 \<Longrightarrow> string_to_number (int_to_string n) = num_of_int n"
proof (cases "n < 0")
  case True
  assume b: "\<bar>n\<bar> \<le> 2 ^ 53"
  have "\<not> is_space (45 :: code_unit)" by (simp add: is_space_def)
  then have "trim (45 # digits_of (- n)) = 45 # digits_of (- n)"
    using last_digits_of [of "- n"] digit_not_space True by (intro trim_plain) auto
  moreover have "num_of_decimal (digits_of (- n)) = num_of_int (- n)" using b True by (intro num_of_decimal_digits(1)) auto
  moreover have "digits_of (- n) \<noteq> [73, 110, 102, 105, 110, 105, 116, 121]"
    using digits_of_head [of "- n"] True by (auto simp: is_digit_def)
  ultimately show ?thesis using True by (simp add: int_to_string_def string_to_number_def lit_def num_of_int_def Let_def)
qed (simp add: int_to_string_def string_to_number_digits)

lemma num_add_small: "\<bar>a\<bar> \<le> 2 ^ 52 \<Longrightarrow> \<bar>b\<bar> \<le> 2 ^ 52 \<Longrightarrow> num_add (num_of_int a) (num_of_int b) = num_of_int (a + b)"
  by (rule num_add_of_int) auto

lemma buffer_index_int [simp]: "0 \<le> n \<Longrightarrow> buffer_index m (num_of_int n) = min m (nat n)"
  by (simp add: num_of_int_def trunc_def)

lemma num_eq_of_int [simp]: "num_eq (num_of_int a) (num_of_int b) \<longleftrightarrow> a = b"
  by (simp add: num_eq_def num_of_int_def)

text \<open>What the parser sees in a buffer that begins with a whole line.\<close>

lemma parse_line:
  assumes "13 \<notin> set head" and "type \<noteq> 13"
  shows "crlf_at (line type head @ r) = Some (Suc (length head))" "hd (line type head @ r) = type"
    "drop 1 (take (Suc (length head)) (line type head @ r)) = head"
  using crlf_at_line [OF assms] by (simp_all add: line_def)

text \<open>The head of the line of every reply.\<close>

fun wire_head :: "wire_reply \<Rightarrow> byte \<times> byte list" where
  "wire_head (Simple bs) = (43, bs)"
| "wire_head (Failure bs) = (45, bs)"
| "wire_head (Integer n) = (58, ascii (int_to_string n))"
| "wire_head (Bulk bs) = (36, ascii (int_to_string (int (length bs))))"
| "wire_head Null = (36, ascii (lit ''-1''))"

fun wire_tail :: "wire_reply \<Rightarrow> byte list" where
  "wire_tail (Bulk bs) = bs @ [13, 10]"
| "wire_tail _ = []"

lemma wire_parts: "wire r = line (fst (wire_head r)) (snd (wire_head r)) @ wire_tail r"
  by (cases r) simp_all

lemma wire_head_plain: "wire_wf r \<Longrightarrow> 13 \<notin> set (snd (wire_head r)) \<and> fst (wire_head r) \<noteq> 13"
  using no_cr [OF int_plain] no_cr [of "lit ''-1''"] by (cases r) (auto simp: lit_def)

lemma int_ascii: "buffer_text (ascii (int_to_string n)) = int_to_string n"
  by (rule buffer_text_ascii) (rule list.pred_mono_strong [OF int_plain [of n]], simp)

lemma null_ascii: "string_to_number (buffer_text (ascii (lit ''-1''))) = num_of_int (- 1)"
proof -
  have "lit ''-1'' = int_to_string (- 1)" by (simp add: int_to_string_def lit_def digits_of.simps digit_unit_def)
  then show ?thesis using int_ascii [of "- 1"] string_to_number_int [of "- 1"] by simp
qed

lemma length_digits_of: "0 \<le> n \<Longrightarrow> int (length (digits_of n)) \<le> n + 1"
proof (induction n rule: digits_of.induct)
  case (1 n)
  show ?case
  proof (cases "n < 10")
    case False
    then have "int (length (digits_of (n div 10))) \<le> n div 10 + 1" using 1 by auto
    moreover have "n div 10 + 1 \<le> n" using False by presburger
    moreover have "digits_of n = digits_of (n div 10) @ [digit_unit (n mod 10)]" using False by (simp add: digits_of.simps [of n])
    ultimately show ?thesis by simp
  qed (use 1 in \<open>simp add: digits_of.simps [of n]\<close>)
qed

lemma parse_bulk_line:
  assumes "13 \<notin> set d" and "string_to_number (buffer_text d) = num_of_int (int n)" and "n \<le> 2 ^ 29" and "int (length d) \<le> 2 ^ 30"
  shows "parseResp (line 36 d @ tail) = (if length tail < n + 2 then Inr None
     else Inr (Some (Parsed (Inr (TextReply (buffer_text (take n tail)))) (num_of_int (int (length d + n) + 5)))))"
proof -
  let ?b = "line 36 d @ tail"
  have "(36 :: byte) \<noteq> 13" by simp
  note l = parse_line [OF assms(1) this, of tail]
  have ld: "length (line 36 d) = length d + 3" by (simp add: line_def)
  have off: "num_of_int (int (Suc (length d)) + 2) = num_of_int (int (length d + 3))" by (simp add: add.commute)
  have sums: "num_add (num_of_int (int (length d + 3))) (num_of_int (int n)) = num_of_int (int (length d + 3 + n))"
    "num_add (num_of_int (int (length d + 3 + n))) (num_of_int 2) = num_of_int (int (length d + n) + 5)"
    using num_add_small [of "int (length d + 3)" "int n"] num_add_small [of "int (length d + 3 + n)" 2] assms(3,4) by (simp_all add: algebra_simps)
  have sub: "subarray ?b (num_of_int (int (length d + 3))) (num_of_int (int (length d + 3 + n))) = take n tail" if "n + 2 \<le> length tail"
    using that ld by (simp add: subarray_def del: of_nat_add)
  have "parseResp ?b = (if num_less (num_of_int (int (length ?b))) (num_of_int (int (length d + n) + 5)) then Inr None
     else Inr (Some (Parsed (Inr (TextReply (buffer_text (subarray ?b (num_of_int (int (length d + 3))) (num_of_int (int (length d + 3 + n))))))) (num_of_int (int (length d + n) + 5)))))"
    unfolding parseResp_def l option.case l Let_def assms(2) off sums by simp
  then show ?thesis using ld sub by (auto simp del: of_nat_add)
qed

lemma parse_wire:
  assumes "wire_wf r"
  shows "parseResp (wire r @ rest) = Inr (Some (Parsed (wire_value r) (num_of_int (int (length (wire r))))))"
proof -
  let ?t = "fst (wire_head r)" and ?h = "snd (wire_head r)"
  note l = parse_line [OF wire_head_plain [OF assms, THEN conjunct1] wire_head_plain [OF assms, THEN conjunct2], of "wire_tail r @ rest"]
  have b: "wire r @ rest = line ?t ?h @ wire_tail r @ rest" by (simp add: wire_parts)
  have n: "length (line t h) = length h + 3" and c: "3 + int k = int k + 3" for t h k by (simp_all add: line_def)
  show ?thesis
  proof (cases r)
    case (Bulk bs)
    with assms have len: "int (length bs) \<le> 2 ^ 29" by simp
    then have "int (length (ascii (int_to_string (int (length bs))))) \<le> 2 ^ 30"
      using length_digits_of [of "int (length bs)"] by (simp add: int_to_string_def ascii_def)
    with len show ?thesis
      using parse_bulk_line [of "ascii (int_to_string (int (length bs)))" "length bs" "bs @ [13, 10] @ rest"] no_cr [OF int_plain]
      by (simp add: Bulk int_ascii string_to_number_int) (simp add: line_def algebra_simps)
  next
    case (Integer n)
    with assms have "string_to_number (buffer_text ?h) = num_of_int n" by (simp add: int_ascii string_to_number_int max_safe_def)
    then show ?thesis using l Integer unfolding b parseResp_def by (simp add: Let_def n c)
  next
    case Null
    then show ?thesis using l null_ascii unfolding b parseResp_def by (simp add: Let_def n c)
  qed (use l in \<open>unfold b parseResp_def, simp_all add: Let_def n c\<close>)
qed

lemma strict_prefix_append: "strict_prefix p (a @ b) \<Longrightarrow> strict_prefix p a \<or> (\<exists>q. p = a @ q \<and> strict_prefix q b)"
  by (auto simp: strict_prefix_def prefix_append)

lemma length_bulk_head: "int (length bs) \<le> 2 ^ 29 \<Longrightarrow> int (length (ascii (int_to_string (int (length bs))))) \<le> 2 ^ 30"
  using length_digits_of [of "int (length bs)"] by (simp add: int_to_string_def ascii_def)

lemma parse_prefix:
  assumes "wire_wf r" and "strict_prefix p (wire r)"
  shows "parseResp p = Inr None"
proof -
  note h = wire_head_plain [OF assms(1)]
  from strict_prefix_append [OF assms(2) [unfolded wire_parts [of r]]] show ?thesis
  proof
    assume "strict_prefix p (line (fst (wire_head r)) (snd (wire_head r)))"
    then have "crlf_at p = None" using h by (intro crlf_at_short) auto
    then show ?thesis by (simp add: parseResp_def)
  next
    assume "\<exists>q. p = line (fst (wire_head r)) (snd (wire_head r)) @ q \<and> strict_prefix q (wire_tail r)"
    then obtain bs q where r: "r = Bulk bs" and p: "p = line 36 (ascii (int_to_string (int (length bs)))) @ q"
        and q: "strict_prefix q (bs @ [13, 10])" by (cases r) auto
    have "length q < length bs + 2" using prefix_length_less [OF q] by simp
    with assms(1) show ?thesis unfolding p
      by (subst parse_bulk_line) (use length_bulk_head [of bs] no_cr [OF int_plain] in \<open>auto simp: r int_ascii string_to_number_int\<close>)
  qed
qed

section \<open>A session\<close>

text \<open>What the replies to the commands of a session amount to: the first error or the last value.\<close>

fun session_result :: "wire_reply list \<Rightarrow> reply result" where
  "session_result [] = Inr NullReply"
| "session_result [r] = wire_value r"
| "session_result (r # rs) = bindE (wire_value r) (\<lambda>_. session_result rs)"

definition stream :: "wire_reply list \<Rightarrow> byte list" where
  "stream rs = concat (map wire rs)"

lemma wire_not_Nil [simp]: "wire r \<noteq> []"
  by (cases r) (simp_all add: line_def)

lemma drain_wire:
  assumes "wire_wf r"
  shows "drain (Suc k) (wire r @ b) = (case wire_value r of Inl e \<Rightarrow> Settled (Inl e) | Inr v \<Rightarrow> if k = 0 then Settled (Inr v) else drain k b)"
proof -
  have "subarray_from (wire r @ b) (num_of_int (int (length (wire r)))) = b" by (simp add: subarray_from_def)
  then show ?thesis by (simp add: parse_wire [OF assms] split: sum.splits)
qed

lemma drain_short: "wire_wf r \<Longrightarrow> strict_prefix b (wire r) \<Longrightarrow> drain (Suc k) b = Waiting (Suc k) b"
  by (simp add: parse_prefix)

text \<open>Reading a part of the stream first makes no difference.\<close>

lemma drain_append:
  assumes "list_all wire_wf rs" and "prefix (a @ b) (stream rs)"
  shows "drain (length rs) (a @ b) = on_data b (drain (length rs) a)"
  using assms
proof (induction rs arbitrary: a)
  case Nil
  then show ?case by (simp add: stream_def)
next
  case (Cons r rs)
  then have r: "wire_wf r" and p: "prefix (a @ b) (wire r @ stream rs)" by (simp_all add: stream_def)
  show ?case
  proof (cases "strict_prefix a (wire r)")
    case True
    then show ?thesis using drain_short [OF r True] by simp
  next
    case False
    then obtain c where a: "a = wire r @ c" using p by (metis append_prefixD prefix_append prefix_order.le_imp_less_or_eq prefix_def)
    with p have "prefix (c @ b) (stream rs)" by simp
    with Cons have "drain (length rs) (c @ b) = on_data b (drain (length rs) c)" by simp
    then show ?thesis using drain_wire [OF r, of "length rs"] a by (auto split: sum.splits)
  qed
qed

lemma drain_stream: "list_all wire_wf rs \<Longrightarrow> rs \<noteq> [] \<Longrightarrow> drain (length rs) (stream rs) = Settled (session_result rs)"
proof (induction rs rule: session_result.induct)
  case (2 r)
  then show ?case using drain_wire [of r 0 "[]"] by (auto simp: stream_def split: sum.splits)
next
  case (3 r s rs)
  then show ?case using drain_wire [of r "length (s # rs)" "stream (s # rs)"] by (auto simp: stream_def split: sum.splits)
qed simp

lemma fold_on_data:
  assumes "list_all wire_wf rs" and "prefix (concat chunks) (stream rs)"
  shows "fold on_data chunks (Waiting (length rs) []) = drain (length rs) (concat chunks)"
  using assms(2)
proof (induction chunks rule: rev_induct)
  case Nil
  then show ?case by (cases rs) (simp_all add: parseResp_def)
next
  case (snoc c cs)
  then have "fold on_data cs (Waiting (length rs) []) = drain (length rs) (concat cs)" by (auto dest: append_prefixD)
  then show ?case using drain_append [OF assms(1), of "concat cs" c] snoc.prems by simp
qed

text \<open>
  C25: The answer of a Valkey session does not depend on how the network cuts the byte stream: if
  the server answers every command of the session (the log-in, the database selection and the
  command itself) with a well-formed reply, then whatever chunks the replies arrive in, the command
  resolves with the value of the last reply or rejects with the first error.
\<close>

theorem replies_read_in_any_chunks:
  assumes "list_all wire_wf replies" and "length replies = length (session_commands login parts)"
    and "concat chunks = stream replies"
  shows "fold on_data chunks (Waiting (length (session_commands login parts)) []) = Settled (session_result replies)"
proof -
  have "replies \<noteq> []" using assms(2) by (auto simp: session_commands_def Let_def split: if_splits)
  with assms fold_on_data [OF assms(1), of chunks] drain_stream [OF assms(1)] show ?thesis by simp
qed

theorem replies_read_in_any_chunks_witness:
  "fold on_data [[43, 79], [75, 13], [10, 36, 50, 13, 10, 104], [105, 13, 10]] (Waiting 2 []) = Settled (Inr (TextReply (lit ''hi'')))"
proof -
  let ?login = "\<lparr>vl_username = lit ''gw'', vl_password = lit ''pw'', vl_pathname = lit ''/0''\<rparr>"
  have d: "int_to_string 2 = [50]" by (simp add: int_to_string_def digits_of.simps digit_unit_def)
  have l: "length (session_commands ?login [lit ''GET'', lit ''k'']) = 2" by (simp add: session_commands_def strip_slash_def lit_def)
  have "buffer_text (ascii (lit ''hi'')) = lit ''hi''" by (rule buffer_text_ascii) (simp add: lit_def)
  then have b: "buffer_text [104, 105] = lit ''hi''" by (simp add: ascii_def lit_def byte_of_def)
  show ?thesis
    using replies_read_in_any_chunks [of "[Simple [79, 75], Bulk [104, 105]]" ?login "[lit ''GET'', lit ''k'']"
        "[[43, 79], [75, 13], [10, 36, 50, 13, 10, 104], [105, 13, 10]]"] b
    by (simp add: l d stream_def line_def ascii_def byte_of_def)
qed

end
