(* ===== verification/Stringify.thy ===== *)
theory Stringify
  imports Canonical
begin

text \<open>
  \<^verbatim>\<open>JSON.stringify\<close>: members in creation order, numbers that are not finite as \<^verbatim>\<open>null\<close>.  The
  text of a document with unique keys and exact integers reads back as the document.
\<close>

fun JSON_stringify :: "json \<Rightarrow> jstring" where
  "JSON_stringify JNull = lit ''null''"
| "JSON_stringify (JBool b) = (if b then lit ''true'' else lit ''false'')"
| "JSON_stringify (JNum n) = (if num_is_finite n then num_to_string n else lit ''null'')"
| "JSON_stringify (JStr s) = quote s"
| "JSON_stringify (JArr xs) = [91] @ join [44] (map JSON_stringify xs) @ [93]"
| "JSON_stringify (JObj ps) = [123] @ join [44] (map (\<lambda>(k, v). quote k @ [58] @ JSON_stringify v) ps) @ [125]"

lemma safe_finite: "num_is_safe_integer n \<Longrightarrow> num_is_finite n"
  by (cases n) auto

interpretation stringified: json_printer JSON_stringify integer_json
  by unfold_locales (auto simp: safe_finite)

lemmas stringify_reads_back = stringified.printed_parses

end
