(* ===== verification/Valkey.thy ===== *)
theory Valkey
  imports Resp Middleware Stringify
begin

text \<open>
  The stores of the Envoy authorizer, \<^verbatim>\<open>services/envoy-authorizer/server.mjs\<close>: usage and replay
  protection shared by all gateways through one Valkey server.  \<open>command\<close> sends a command and
  returns the server's reply; \<open>sha256\<close> is Node's hash.  The handle of a loaded snapshot is the raw
  text the \<^verbatim>\<open>WeakMap\<close> of the store keeps for it.
\<close>

type_synonym 'w commander = "jstring list \<Rightarrow> ('w, reply) act"

definition digestKey :: "(byte list \<Rightarrow> byte list) \<Rightarrow> jstring \<Rightarrow> jstring" where
  "digestKey sha256 value = hex (sha256 (TextEncoder_encode value))"

section \<open>Usage snapshots as text\<close>

definition optional_member :: "string \<Rightarrow> ('a \<Rightarrow> json) \<Rightarrow> 'a option \<Rightarrow> jobject" where
  "optional_member name f v = (case v of None \<Rightarrow> [] | Some x \<Rightarrow> [(lit name, f x)])"

text \<open>The object of a \<^verbatim>\<open>UsageSnapshot\<close>, its members in the order the evaluator creates them.\<close>

definition usage_json :: "UsageSnapshot \<Rightarrow> jobject" where
  "usage_json u = optional_member ''calls'' JNum (us_calls u) @ optional_member ''amount'' JStr (us_amount u)
     @ optional_member ''currency'' JStr (us_currency u) @ optional_member ''quantity'' JStr (us_quantity u)
     @ optional_member ''consumed'' JBool (us_consumed u) @ optional_member ''idempotency_keys'' (\<lambda>ks. JArr (map JStr ks)) (us_idempotency_keys u)
     @ optional_member ''minted_supply'' JStr (us_minted_supply u)"

text \<open>
  A parsed snapshot at its declared type.  Only this store writes under its prefix; a text that
  does not read as a snapshot, for which the declared type would be wrong, is a failed load here.
\<close>

definition usage_of_object :: "jobject \<Rightarrow> UsageSnapshot option" where
  "usage_of_object r = do {
     calls \<leftarrow> optional_of number_value r ''calls'';
     amount \<leftarrow> optional_of text_value r ''amount'';
     currency \<leftarrow> optional_of text_value r ''currency'';
     quantity \<leftarrow> optional_of text_value r ''quantity'';
     consumed \<leftarrow> optional_of bool_value r ''consumed'';
     keys \<leftarrow> optional_of texts_value r ''idempotency_keys'';
     minted \<leftarrow> optional_of text_value r ''minted_supply'';
     Some \<lparr>us_calls = calls, us_amount = amount, us_currency = currency, us_quantity = quantity, us_consumed = consumed,
           us_idempotency_keys = keys, us_minted_supply = minted\<rparr>
   }"

definition parse_usage :: "jstring \<Rightarrow> UsageSnapshot result" where
  "parse_usage stored = bindE (JSON_parse stored) (\<lambda>v. case Option.bind (object_value v) usage_of_object of
     Some u \<Rightarrow> Inr u | None \<Rightarrow> Inl (TypeErr []))"

section \<open>The usage store\<close>

definition ValkeyUsageStore_load :: "'w commander \<Rightarrow> (byte list \<Rightarrow> byte list) \<Rightarrow> jstring \<Rightarrow> jstring \<Rightarrow> ('w, jstring \<times> UsageSnapshot) act" where
  "ValkeyUsageStore_load command sha256 prefix mandateId =
     bindA (command [lit ''GET'', prefix @ digestKey sha256 mandateId]) (\<lambda>stored.
     case stored of
       NullReply \<Rightarrow> returnA ([], empty_usage)
     | TextReply raw \<Rightarrow> bindA (liftA (parse_usage raw)) (\<lambda>usage. returnA (raw, usage))
     | IntReply _ \<Rightarrow> throwA (TypeErr []))"

text \<open>The Lua script that the server runs atomically.\<close>

definition quoted :: "string \<Rightarrow> string" where
  "quoted s = CHR 0x27 # s @ [CHR 0x27]"

definition usage_script :: jstring where
  "usage_script = lit (''local c=redis.call('' @ quoted ''GET'' @ '',KEYS[1]); if (c or '' @ quoted [] @ '') ~= ARGV[1] then return 0 end; redis.call(''
     @ quoted ''SET'' @ '',KEYS[1],ARGV[2]); return 1'')"

definition ValkeyUsageStore_compareAndSet ::
  "'w commander \<Rightarrow> (byte list \<Rightarrow> byte list) \<Rightarrow> jstring \<Rightarrow> jstring \<Rightarrow> jstring \<times> UsageSnapshot \<Rightarrow> UsageSnapshot \<Rightarrow> ('w, bool) act" where
  "ValkeyUsageStore_compareAndSet command sha256 prefix mandateId previous next =
     bindA (command [lit ''EVAL'', usage_script, lit ''1'', prefix @ digestKey sha256 mandateId, fst previous, JSON_stringify (JObj (usage_json next))]) (\<lambda>reply.
     returnA (case reply of IntReply n \<Rightarrow> num_eq n (num_of_int 1) | _ \<Rightarrow> False))"

definition ValkeyUsageStore :: "'w commander \<Rightarrow> (byte list \<Rightarrow> byte list) \<Rightarrow> jstring \<Rightarrow> ('w, jstring) OatiUsageStore" where
  "ValkeyUsageStore command sha256 prefix =
     \<lparr>store_load = ValkeyUsageStore_load command sha256 prefix, store_compareAndSet = ValkeyUsageStore_compareAndSet command sha256 prefix\<rparr>"

section \<open>The replay cache\<close>

text \<open>\<^verbatim>\<open>String(Math.max(1, expiresAt - now))\<close>; an invalid date gives \<^verbatim>\<open>"NaN"\<close>.\<close>

definition replay_ttl :: "int option \<Rightarrow> int \<Rightarrow> jstring" where
  "replay_ttl expiresAt now = (case expiresAt of None \<Rightarrow> lit ''NaN'' | Some t \<Rightarrow> int_to_string (max 1 (t - now)))"

definition ValkeyReplayCache_checkAndStore :: "'w commander \<Rightarrow> (byte list \<Rightarrow> byte list) \<Rightarrow> jstring \<Rightarrow> jstring \<Rightarrow> int option \<Rightarrow> int \<Rightarrow> ('w, bool) act" where
  "ValkeyReplayCache_checkAndStore command sha256 prefix key expiresAt now =
     bindA (command [lit ''SET'', prefix @ digestKey sha256 key, lit ''1'', lit ''PX'', replay_ttl expiresAt now, lit ''NX'']) (\<lambda>reply.
     returnA (reply = TextReply (lit ''OK'')))"

section \<open>The text of a snapshot reads back\<close>

lemma optional_member_get:
  "jget (optional_member name f v @ r) k = (if k = lit name then (case v of None \<Rightarrow> jget r k | Some x \<Rightarrow> Some (f x)) else jget r k)"
  by (auto simp: optional_member_def jget_def split: option.splits)

lemmas optional_member_last = optional_member_get [of _ _ _ "[]", simplified]

lemma optional_member_keys: "fst ` set (optional_member name f v) = (case v of None \<Rightarrow> {} | Some _ \<Rightarrow> {lit name})"
  and optional_member_distinct: "distinct (map fst (optional_member name f v))"
  and optional_member_all: "list_all P (optional_member name f v) \<longleftrightarrow> (case v of None \<Rightarrow> True | Some x \<Rightarrow> P (lit name, f x))"
  by (simp_all add: optional_member_def split: option.splits)

lemma texts_value_map [simp]: "texts_value (JArr (map JStr ks)) = Some ks"
  by (induction ks) auto

lemma jget_Nil [simp]: "jget [] k = None"
  by (simp add: jget_def)

lemma usage_of_usage_json: "usage_of_object (usage_json u) = Some u"
  by (cases u) (simp add: usage_of_object_def usage_json_def optional_of_def optional_member_get optional_member_last split: option.splits del: texts_value.simps)

definition storable :: "UsageSnapshot \<Rightarrow> bool" where
  "storable u \<longleftrightarrow> (case us_calls u of None \<Rightarrow> True | Some n \<Rightarrow> num_is_safe_integer n)"

lemma integer_texts: "list_all integer_json (map JStr ks)"
  by (simp add: list_all_iff)

lemma parse_usage_json:
  assumes "storable u"
  shows "parse_usage (JSON_stringify (JObj (usage_json u))) = Inr u"
proof -
  have "list_all (\<lambda>(k, v). integer_json v) (usage_json u)"
    using assms integer_texts by (simp add: usage_json_def optional_member_all storable_def split: option.splits)
  moreover have "distinct (map fst (usage_json u))"
    by (auto simp: usage_json_def optional_member_keys optional_member_distinct split: option.splits)
  ultimately have "integer_json (JObj (usage_json u))" by simp
  from stringify_reads_back [OF this] show ?thesis by (simp add: parse_usage_def usage_of_usage_json del: JSON_stringify.simps)
qed

end
