(* ===== verification/SharedUsage.thy ===== *)
theory SharedUsage
  imports Valkey Accounting "HOL-Library.Sublist"
begin

text \<open>
  Gateways that share one Valkey server.  \<open>valkey_server\<close> is the documented behaviour of the server
  on the two commands of the usage store; \<open>shared_run\<close> is any interleaving of the loads and the
  exchanges of any number of requests for one Mandate, on any number of gateways, with replies
  lost and other clients at work.  Such a run is a sequential run of the evaluator.
\<close>

section \<open>The server\<close>

locale valkey_server =
  fixes command :: "'w commander" and stored :: "'w \<Rightarrow> jstring \<Rightarrow> jstring option"
  assumes get_keeps: "command [lit ''GET'', k] w = (r, w') \<Longrightarrow> stored w' k = stored w k"
    and get_reply: "command [lit ''GET'', k] w = (Inr v, w') \<Longrightarrow> v = (case stored w k of None \<Rightarrow> NullReply | Some t \<Rightarrow> TextReply t)"
    and exchange_reply: "command [lit ''EVAL'', usage_script, lit ''1'', k, old, new] w = (Inr v, w') \<Longrightarrow>
      (if or_else (stored w k) [] = old then v = IntReply (num_of_int 1) \<and> stored w' k = Some new
       else v = IntReply (num_of_int 0) \<and> stored w' k = stored w k)"
    and exchange_lost: "command [lit ''EVAL'', usage_script, lit ''1'', k, old, new] w = (Inl e, w') \<Longrightarrow>
      stored w' k = stored w k \<or> or_else (stored w k) [] = old \<and> stored w' k = Some new"
begin

lemma load_keeps: "ValkeyUsageStore_load command sha pre i w = (r, w') \<Longrightarrow> stored w' (pre @ digestKey sha i) = stored w (pre @ digestKey sha i)"
  using get_keeps by (auto simp: ValkeyUsageStore_load_def bindA_def split: prod.splits sum.splits reply.splits)

lemma load_reads:
  assumes "ValkeyUsageStore_load command sha pre i w = (Inr (raw, u), w')"
  shows "case stored w (pre @ digestKey sha i) of None \<Rightarrow> raw = [] \<and> u = empty_usage | Some t \<Rightarrow> raw = t \<and> parse_usage t = Inr u"
proof -
  from assms obtain v w1 where c: "command [lit ''GET'', pre @ digestKey sha i] w = (Inr v, w1)"
    and v: "(case v of NullReply \<Rightarrow> returnA ([], empty_usage) | TextReply raw \<Rightarrow> bindA (liftA (parse_usage raw)) (\<lambda>usage. returnA (raw, usage))
       | IntReply _ \<Rightarrow> throwA (TypeErr [])) w1 = (Inr (raw, u), w')"
    by (auto simp: ValkeyUsageStore_load_def exn_iff)
  from get_reply [OF c] v show ?thesis by (auto simp: exn_iff bindA_def split: option.splits sum.splits)
qed

lemma exchange_cases:
  assumes "ValkeyUsageStore_compareAndSet command sha pre i (raw, u) next w = (r, w')"
  defines "k \<equiv> pre @ digestKey sha i" and "new \<equiv> JSON_stringify (JObj (usage_json next))"
  obtains "r \<noteq> Inr True" "stored w' k = stored w k" | "or_else (stored w k) [] = raw" "stored w' k = Some new"
proof -
  obtain s w1 where c: "command [lit ''EVAL'', usage_script, lit ''1'', k, raw, new] w = (s, w1)" by fastforce
  have "num_eq (num_of_int 0) (num_of_int 1) = False" "num_eq (num_of_int 1) (num_of_int 1)" by (simp_all add: num_eq_def num_of_int_def)
  with assms c exchange_reply [of k raw new w] exchange_lost [of k raw new w] that show thesis
    by (cases s) (auto simp: ValkeyUsageStore_compareAndSet_def bindA_def split: if_splits)
qed

end

section \<open>Concurrent requests\<close>

definition usage_key :: "(byte list \<Rightarrow> byte list) \<Rightarrow> jstring \<Rightarrow> AgentMandate \<Rightarrow> jstring" where
  "usage_key sha pre m = pre @ digestKey sha (man_id m)"

text \<open>What the store holds for a Mandate: an absent key is a fresh Mandate.\<close>

definition shared_usage :: "jstring option \<Rightarrow> UsageSnapshot result" where
  "shared_usage raw = (case raw of None \<Rightarrow> Inr empty_usage | Some t \<Rightarrow> parse_usage t)"

text \<open>
  \<open>shared_run \<dots> n seen qs w\<close>: from the first world to \<open>w\<close> there were \<open>n\<close> attempts to exchange, the
  requests have been handed the snapshots \<open>seen\<close>, and those in \<open>qs\<close> were told that their exchange
  succeeded.  Each request evaluates a snapshot it was handed, whatever has happened since; like the
  gateway's it supplies no consumption of its own.  \<open>kept\<close> is what other activity leaves alone.
\<close>

inductive shared_run :: "legacy_dates \<Rightarrow> ('w, jstring) OatiUsageStore \<Rightarrow> ('w \<Rightarrow> jstring option) \<Rightarrow> AgentMandate \<Rightarrow> 'w
    \<Rightarrow> nat \<Rightarrow> (jstring \<times> UsageSnapshot) set \<Rightarrow> (EvaluationRequest \<times> decision_kind) list \<Rightarrow> 'w \<Rightarrow> bool"
  for legacy :: legacy_dates and store :: "('w, jstring) OatiUsageStore" and kept :: "'w \<Rightarrow> jstring option" and m :: AgentMandate and w0 :: 'w where
  start: "shared_run legacy store kept m w0 0 {} [] w0"
| elsewhere: "shared_run legacy store kept m w0 n seen qs w \<Longrightarrow> kept w' = kept w \<Longrightarrow> shared_run legacy store kept m w0 n seen qs w'"
| load: "shared_run legacy store kept m w0 n seen qs w \<Longrightarrow> store_load store (man_id m) w = (r, w') \<Longrightarrow>
    shared_run legacy store kept m w0 n (case r of Inl _ \<Rightarrow> seen | Inr p \<Rightarrow> insert p seen) qs w'"
| exchange: "shared_run legacy store kept m w0 n seen qs w \<Longrightarrow> previous \<in> seen \<Longrightarrow>
    er_mandate q = m \<Longrightarrow> er_usage q = snd previous \<Longrightarrow> er_consumption q = None \<Longrightarrow>
    evaluateAuthority legacy q = Inr r \<Longrightarrow> res_decision r = Allow \<Longrightarrow>
    store_compareAndSet store (man_id m) previous (res_next_usage r) w = (told, w') \<Longrightarrow>
    shared_run legacy store kept m w0 (Suc n) seen (if told = Inr True then qs @ [(q, Allow)] else qs) w'"

section \<open>Linearisation\<close>

lemma parse_usage_Nil [simp]: "parse_usage [] \<noteq> Inr u"
  by (simp add: parse_usage_def JSON_parse_def skip_space_def)

lemma storable_calls:
  assumes "evaluated legacy m v (q, Allow) v'" and "er_consumption q = None" and "calls_of v = num_of_int c" and "0 \<le> c" and "c < max_safe"
  shows "storable v'" and "calls_of v' = num_of_int (c + 1)"
proof -
  have "num_add (num_of_int c) (Fin 1) = num_of_int (c + 1)"
    using num_add_of_int [of c 1] assms(4,5) by (simp add: num_of_int_def max_safe_def)
  then show n: "calls_of v' = num_of_int (c + 1)"
    using calls_after [OF assms(1)] assms(2,3) by (simp add: effectiveConsumption_def Let_def no_consumption_def or_else_def)
  from assms(1) obtain u where "v' = snapshot_of u" by (rule evaluated_Allow)
  with n assms(4,5) show "storable v'" by (simp add: storable_def calls_of_def snapshot_of_def normalizedUsage_def num_of_int_def)
qed

text \<open>What a run keeps: the log, with the exchanges whose reply was lost, is a sequential run.\<close>

definition linear :: "legacy_dates \<Rightarrow> AgentMandate \<Rightarrow> UsageSnapshot \<Rightarrow> int \<Rightarrow> (EvaluationRequest \<times> decision_kind) list \<Rightarrow> jstring option \<Rightarrow> bool" where
  "linear legacy m v0 c qs raw \<longleftrightarrow> (\<exists>log v. subseq qs log \<and> trace (evaluated legacy m) v0 log v \<and> shared_usage raw = Inr v \<and>
     (\<exists>n. calls_of v = num_of_int n \<and> 0 \<le> n \<and> n \<le> c))"

lemma linear_mono: "linear legacy m v0 c qs raw \<Longrightarrow> c \<le> c' \<Longrightarrow> linear legacy m v0 c' qs raw"
  unfolding linear_def by (blast intro: order_trans)

definition handed_out :: "(jstring \<times> UsageSnapshot) set \<Rightarrow> bool" where
  "handed_out seen \<longleftrightarrow> (\<forall>(raw, u) \<in> seen. if raw = [] then u = empty_usage else parse_usage raw = Inr u)"

lemma handed_out_current:
  assumes "handed_out seen" and "(raw, u) \<in> seen" and "or_else stored_text [] = raw" and "shared_usage stored_text = Inr v"
  shows "u = v"
  using assms by (cases stored_text) (auto simp: handed_out_def shared_usage_def or_else_def split: if_splits)

context valkey_server
begin

lemma run_linear:
  assumes "shared_run legacy (ValkeyUsageStore command sha pre) (\<lambda>w. stored w (usage_key sha pre m)) m w0 n seen qs w"
    and "shared_usage (stored w0 (usage_key sha pre m)) = Inr v0" and "calls_of v0 = num_of_int c0" and "0 \<le> c0" and "c0 + int n \<le> max_safe"
  shows "linear legacy m v0 (c0 + int n) qs (stored w (usage_key sha pre m)) \<and> handed_out seen"
  using assms
proof (induction rule: shared_run.induct)
  case start
  then show ?case by (auto simp: linear_def handed_out_def intro!: exI [of _ "[]"] exI [of _ v0] trace_Nil)
next
  case (load n seen qs w r w')
  then have i: "linear legacy m v0 (c0 + int n) qs (stored w (usage_key sha pre m))" "handed_out seen" by auto
  have l: "ValkeyUsageStore_load command sha pre (man_id m) w = (r, w')" using load.hyps(2) by (simp add: ValkeyUsageStore_def)
  have "handed_out (case r of Inl _ \<Rightarrow> seen | Inr p \<Rightarrow> insert p seen)"
  proof (cases r)
    case (Inr p)
    obtain raw u where p: "p = (raw, u)" by (cases p)
    have "if raw = [] then u = empty_usage else parse_usage raw = Inr u"
      using load_reads [of sha pre "man_id m" w raw u w'] l Inr p by (auto split: option.splits)
    with i(2) Inr p show ?thesis by (auto simp: handed_out_def)
  qed (use i in simp)
  with i(1) load_keeps [OF l] show ?case by (simp add: usage_key_def)
next
  case (exchange n seen qs w previous q r told w')
  then have i: "linear legacy m v0 (c0 + int n) qs (stored w (usage_key sha pre m))" "handed_out seen" by auto
  obtain raw u where p: "previous = (raw, u)" by (cases previous)
  from i(1) obtain log v c where l: "subseq qs log" "trace (evaluated legacy m) v0 log v"
      "shared_usage (stored w (usage_key sha pre m)) = Inr v" "calls_of v = num_of_int c" "0 \<le> c" "c \<le> c0 + int n"
    by (auto simp: linear_def)
  have x: "ValkeyUsageStore_compareAndSet command sha pre (man_id m) (raw, u) (res_next_usage r) w = (told, w')"
    using exchange.hyps(8) p by (simp add: ValkeyUsageStore_def)
  from x show ?case
  proof (cases rule: exchange_cases)
    case 1
    with i show ?thesis by (auto simp: usage_key_def elim: linear_mono)
  next
    case 2
    then have cur: "or_else (stored w (usage_key sha pre m)) [] = raw" by (simp add: usage_key_def)
    have "u = v" using handed_out_current [OF i(2) _ cur l(3)] exchange.hyps(2) p by simp
    then have e: "evaluated legacy m v (q, Allow) (res_next_usage r)"
      using exchange.hyps p by (simp add: evaluated_def)
    have "c < max_safe" using l(6) exchange.prems(4) by simp
    from storable_calls [OF e exchange.hyps(5) l(4,5) this]
    have next_ok: "shared_usage (stored w' (usage_key sha pre m)) = Inr (res_next_usage r)" "calls_of (res_next_usage r) = num_of_int (c + 1)"
      using 2(2) parse_usage_json by (simp_all add: shared_usage_def usage_key_def del: JSON_stringify.simps)
    have "subseq (if told = Inr True then qs @ [(q, Allow)] else qs) (log @ [(q, Allow)])"
      using l(1) by (auto simp: subseq_append_iff intro: list_emb_append_mono)
    with trace_snoc [OF l(2) e] next_ok l(5,6) i(2) show ?thesis unfolding linear_def by (auto intro!: exI [of _ "log @ [(q, Allow)]"])
  qed
qed auto

end

end
