(* ===== verification/SharedUsageProperties.thy ===== *)
theory SharedUsageProperties
  imports SharedUsage EvaluatorProperties
begin

text \<open>
  A server that keeps its keys in memory, and the guarantees of the shared usage store: concurrent
  requests linearise, so the caps of a Mandate and the idempotency keys hold across all gateways.
\<close>

section \<open>The script on a database\<close>

type_synonym database = "jstring \<Rightarrow> jstring option"

text \<open>What the Lua script does, statement by statement.\<close>

definition usage_script_effect :: "jstring \<Rightarrow> jstring \<Rightarrow> jstring \<Rightarrow> database \<Rightarrow> int \<times> database" where
  "usage_script_effect key old new db =
     (let c = db key in if or_else c [] \<noteq> old then (0, db) else (1, db(key \<mapsto> new)))"

definition memory_command :: "database commander" where
  "memory_command parts db = (case parts of
     [c, k] \<Rightarrow> if c = lit ''GET'' then (Inr (case db k of None \<Rightarrow> NullReply | Some t \<Rightarrow> TextReply t), db) else (Inl (PlainErr []), db)
   | [c, script, keys, k, old, new] \<Rightarrow>
       if c = lit ''EVAL'' \<and> script = usage_script
       then (case usage_script_effect k old new db of (n, db') \<Rightarrow> (Inr (IntReply (num_of_int n)), db')) else (Inl (PlainErr []), db)
   | _ \<Rightarrow> (Inl (PlainErr []), db))"

interpretation memory: valkey_server memory_command "\<lambda>db. db"
  by unfold_locales (auto simp: memory_command_def usage_script_effect_def Let_def split: if_splits)

section \<open>Sums and keys of a part of a run\<close>

lemma subseq_sum_le:
  fixes f :: "'a \<Rightarrow> rat"
  assumes "subseq xs ys" and "\<forall>y \<in> set ys. 0 \<le> f y"
  shows "sum_list (map f xs) \<le> sum_list (map f ys)"
  using assms by (induction rule: list_emb.induct) (auto intro!: sum_list_nonneg intro: add_mono)

lemma subseq_concat_distinct:
  assumes "subseq xs ys" and "distinct (concat (map f ys))"
  shows "distinct (concat (map f xs)) \<and> set (concat (map f xs)) \<subseteq> set (concat (map f ys))"
  using assms by (induction rule: list_emb.induct) auto

lemma charged_nonneg:
  assumes "trace (evaluated legacy m) s entries t"
  shows "\<forall>qd \<in> set entries. 0 \<le> charged (\<lambda>d. dec_val (d_amount d)) qd"
  using assms
proof (induction rule: trace.induct)
  case (trace_snoc s qs t qd u)
  obtain q k where qd: "qd = (q, k)" by (cases qd)
  have "0 \<le> dec_val (d_amount (effectiveConsumption q))" if "k = Allow"
  proof -
    from trace_snoc.hyps(2) qd that obtain a where "applyConsumption (normalizedUsage t) (effectiveConsumption q) q = Inr a"
      by (auto elim: evaluated_Allow)
    then show ?thesis by (auto simp: applyConsumption_def exn_iff intro: dec_val_nonneg dest: addDecimal_Inr(2))
  qed
  with trace_snoc.IH qd show ?case by (auto simp: charged_def)
qed simp

section \<open>Two requests racing\<close>

definition race_store :: "(database, jstring) OatiUsageStore" where
  "race_store = ValkeyUsageStore memory_command (\<lambda>bs. bs) []"

definition race_end :: database where
  "race_end = (\<lambda>_. None)(usage_key (\<lambda>bs. bs) [] commerce_mandate \<mapsto> JSON_stringify (JObj (usage_json (purchase_usage\<lparr>us_quantity := Some (lit ''1'')\<rparr>))))"

lemma fresh_empty: "fresh_usage = empty_usage"
  by (simp add: fresh_usage_def empty_usage_def)

text \<open>Both requests load the fresh usage; the exchange of the second finds the first one's.\<close>

lemma race:
  "shared_run no_legacy race_store (\<lambda>w. w (usage_key (\<lambda>bs. bs) [] commerce_mandate)) commerce_mandate (\<lambda>_. None)
     (2 :: nat) {([], empty_usage)} [(commerce_request, Allow)] race_end"
proof -
  let ?run = "shared_run no_legacy race_store (\<lambda>w. w (usage_key (\<lambda>bs. bs) [] commerce_mandate)) commerce_mandate (\<lambda>_. None)"
  note store = race_store_def ValkeyUsageStore_def ValkeyUsageStore_load_def ValkeyUsageStore_compareAndSet_def memory_command_def usage_script_effect_def
  have load: "store_load race_store (man_id commerce_mandate) (\<lambda>_. None) = (Inr ([], empty_usage), \<lambda>_. None)" by (simp add: store bindA_def)
  have q: "er_mandate commerce_request = commerce_mandate" "er_usage commerce_request = snd ([], empty_usage)" "er_consumption commerce_request = None"
    by (simp_all add: commerce_request_def sample_request_def fresh_empty)
  let ?next = "purchase_usage\<lparr>us_quantity := Some (lit ''1'')\<rparr>"
  let ?r = "allow_result (lit ''mandate-3'') ?next"
  have r: "res_decision ?r = Allow" "res_next_usage ?r = ?next" by (simp_all add: allow_result_def)
  have written: "JSON_stringify (JObj (usage_json ?next)) \<noteq> []" by (simp only: JSON_stringify.simps) simp
  have first: "store_compareAndSet race_store (man_id commerce_mandate) ([], empty_usage) (res_next_usage ?r) (\<lambda>_. None) = (Inr True, race_end)"
    by (simp add: store bindA_def race_end_def usage_key_def num_eq_def or_else_def num_of_int_def r(2) del: JSON_stringify.simps)
  have second: "store_compareAndSet race_store (man_id commerce_mandate) ([], empty_usage) (res_next_usage ?r) race_end = (Inr False, race_end)"
    using written by (simp add: store bindA_def race_end_def usage_key_def num_eq_def or_else_def num_of_int_def r(2) del: JSON_stringify.simps)
  have "?run 0 {([], empty_usage)} [] (\<lambda>_. None)" using shared_run.load [OF shared_run.start load] by simp
  from shared_run.exchange [OF this _ q commerce_allowed r(1) first]
  have "?run 1 {([], empty_usage)} [(commerce_request, Allow)] race_end" by simp
  from shared_run.exchange [OF this _ q commerce_allowed r(1) second]
  show ?thesis by (simp add: numeral_2_eq_2)
qed

lemma race_start:
  "shared_usage ((\<lambda>_. None) k) = Inr empty_usage" "calls_of empty_usage = num_of_int 0" "amount_of empty_usage = 0"
  by (simp_all add: shared_usage_def calls_of_def amount_of_def empty_usage_def normalizedUsage_def num_of_int_def dec_val_def split_decimal_def
    lit_def digits_val_def digit_val_def)

section \<open>Guarantees\<close>

text \<open>
  C6: Requests that load and exchange usage concurrently through the shared store linearise: however
  the loads and exchanges of any number of gateways interleave, also when replies are lost, what the
  store holds is the result of one sequential run of the evaluator, and every request that was told
  its exchange succeeded is a step of that run, in the order of the exchanges.
\<close>

theorem concurrent_requests_linearise:
  assumes "valkey_server command stored"
    and "shared_run legacy (ValkeyUsageStore command sha256 key_prefix) (\<lambda>w. stored w (usage_key sha256 key_prefix m)) m w0 n seen accepted w"
    and "shared_usage (stored w0 (usage_key sha256 key_prefix m)) = Inr v0"
    and "calls_of v0 = num_of_int c0" and "0 \<le> c0" and "c0 + int n \<le> max_safe"
  shows "\<exists>log v. subseq accepted log \<and> trace (evaluated legacy m) v0 log v \<and>
     shared_usage (stored w (usage_key sha256 key_prefix m)) = Inr v"
  using valkey_server.run_linear [OF assms] by (auto simp: linear_def)

theorem concurrent_requests_linearise_witness:
  "\<exists>log v. subseq [(commerce_request, Allow)] log \<and> trace (evaluated no_legacy commerce_mandate) empty_usage log v \<and>
     shared_usage (race_end (usage_key (\<lambda>bs. bs) [] commerce_mandate)) = Inr v"
  using concurrent_requests_linearise [OF memory.valkey_server_axioms race [unfolded race_store_def], of empty_usage 0] race_start(1,2)
  by (simp add: max_safe_def)

text \<open>
  C5: The budget of a Mandate (of its limits or of its commerce terms) and its idempotency keys hold
  across all gateways that share the store: under any interleaving the amounts of the requests told
  that they were accepted stay within the budget, and no idempotency key is accepted twice.
\<close>

theorem concurrent_requests_within_budget:
  assumes "valkey_server command stored"
    and "shared_run legacy (ValkeyUsageStore command sha256 key_prefix) (\<lambda>w. stored w (usage_key sha256 key_prefix m)) m w0 n seen accepted w"
    and "shared_usage (stored w0 (usage_key sha256 key_prefix m)) = Inr v0"
    and "calls_of v0 = num_of_int c0" and "0 \<le> c0" and "c0 + int n \<le> max_safe"
    and "budget_cap m = Some cap \<or> commerce_cap m = Some cap" and "amount_of v0 \<le> cap"
  shows "amount_of v0 + (\<Sum>q\<leftarrow>allowed_entries accepted. dec_val (d_amount (effectiveConsumption q))) \<le> cap \<and>
     distinct (concat (map key_of accepted)) \<and> set (concat (map key_of accepted)) \<inter> spent_keys v0 = {}"
proof -
  from valkey_server.run_linear [OF assms(1-6)] obtain log v where l: "subseq accepted log" "trace (evaluated legacy m) v0 log v"
    by (auto simp: linear_def)
  have "amount_of v0 + sum_list (map (charged (\<lambda>d. dec_val (d_amount d))) log) \<le> cap"
    using assms(7,8) budget.total_charge_capped [OF l(2)] commerce_budget.total_charge_capped [OF l(2)] by blast
  moreover have "sum_list (map (charged (\<lambda>d. dec_val (d_amount d))) accepted) \<le> sum_list (map (charged (\<lambda>d. dec_val (d_amount d))) log)"
    by (rule subseq_sum_le [OF l(1) charged_nonneg [OF l(2)]])
  ultimately have "amount_of v0 + (\<Sum>q\<leftarrow>allowed_entries accepted. dec_val (d_amount (effectiveConsumption q))) \<le> cap"
    by (simp add: charged_total)
  with keys.run_fresh [OF l(2)] subseq_concat_distinct [OF l(1), of key_of] show ?thesis by blast
qed

theorem concurrent_requests_within_budget_witness:
  "0 + dec_val (lit ''0.20'') \<le> dec_val (lit ''1.00'')"
proof -
  have cap: "commerce_cap commerce_mandate = Some (dec_val (lit ''1.00''))"
    by (simp add: commerce_cap_def commerce_mandate_def COMMERCE_PROFILE_def objectAt_def jget_opt_def jget_def String_def)
  have amount: "d_amount (effectiveConsumption commerce_request) = lit ''0.20''"
    by (simp add: effectiveConsumption_def commerce_request_def commerce_context_def or_else_def Let_def)
  have "0 \<le> dec_val (lit ''1.00'')" by (rule dec_val_nonneg) (rule sample_isDecimal)
  then show ?thesis
    using concurrent_requests_within_budget [OF memory.valkey_server_axioms race [unfolded race_store_def], of empty_usage 0 "dec_val (lit ''1.00'')"] cap race_start(1,2)
    by (simp add: max_safe_def race_start(3) allowed_entries_def amount)
qed

end
