(* ===== verification/GatewayPolicy.thy ===== *)
theory GatewayPolicy
  imports Valkey TrustSpec
begin

text \<open>
  How the Envoy authorizer of \<^verbatim>\<open>services/envoy-authorizer/server.mjs\<close> binds a request to the public
  registry: \<open>gatewayVerificationPolicy\<close> builds the policy for each document.  A Mandate must be the
  published one and takes the status of its public record; the key of an Envelope resolves only if
  the agent's published Passport is verified and names it, and the registry publishes the same key.
  The lookup client is a parameter, as for \<open>LookupTrustResolver\<close>.
\<close>

section \<open>Resolvers\<close>

definition lifecycleResolver :: "TrustResolver \<Rightarrow> json option \<Rightarrow> jobject \<Rightarrow> TrustResolver" where
  "lifecycleResolver upstream documentID record =
     \<lparr>resolveKey = resolveKey upstream, resolveIssuer = resolveIssuer upstream,
      resolveRevocation = (\<lambda>target. if documentID = Some (JStr target) \<and> member_text record (lit ''status'') \<noteq> lit ''active''
        then Inr (Some \<lparr>rs_target = target,
            rs_status = (if member_text record (lit ''status'') = lit ''suspended'' then lit ''suspended'' else lit ''revoked''),
            rs_effectiveAt = as_string (jget record (lit ''issued_at''))\<rparr>)
        else resolveRevocation upstream target)\<rparr>"

definition unavailableRuntimeResolver :: "TrustResolver \<Rightarrow> json option \<Rightarrow> TrustResolver" where
  "unavailableRuntimeResolver upstream runtimeKeyID =
     \<lparr>resolveKey = (\<lambda>i. if runtimeKeyID = Some (JStr i) then Inr None else resolveKey upstream i),
      resolveIssuer = resolveIssuer upstream, resolveRevocation = resolveRevocation upstream\<rparr>"

section \<open>Public documents\<close>

definition identifier_of :: "json option \<Rightarrow> jstring result" where
  "identifier_of v = (case v of Some (JStr i) \<Rightarrow> Inr i | _ \<Rightarrow> Inl (TypeErr []))"

text \<open>The record; the signed document it carries is text.\<close>

definition boundPublicDocument :: "lookup_port \<Rightarrow> jstring \<Rightarrow> json option \<Rightarrow> json option \<Rightarrow> jobject result" where
  "boundPublicDocument lookup kind documentID presented =
     bindE (identifier_of documentID) (\<lambda>i.
     bindE (port_lookup lookup kind i) (\<lambda>record.
     case jget (public_attributes record) (lit ''signed_document'') of
       Some (JStr text) \<Rightarrow>
         if member_text record (lit ''proof_status'') \<noteq> lit ''verified'' then Inl (PlainErr (kind @ lit '' public projection is not verified''))
         else bindE (JSON_parse text) (\<lambda>signed_document.
           case presented of
             None \<Rightarrow> Inr record
           | Some document \<Rightarrow>
               bindE (canonicalJson_tree signed_document) (\<lambda>a. bindE (canonicalJson_tree document) (\<lambda>b.
               if a \<noteq> b then Inl (PlainErr (kind @ lit '' does not match its public projection'')) else Inr record)))
     | _ \<Rightarrow> Inl (PlainErr (kind @ lit '' public projection is not verified''))))"

section \<open>The policy\<close>

record gateway_trust =
  gt_trustAnchors :: "jstring list"
  gt_clockSkewMs :: int
  gt_maxProofAgeMs :: int
  gt_maxTrustDepth :: int
  gt_expectedAudience :: jstring
  gt_mandateAudience :: jstring
  gt_passportAudience :: jstring
  gt_maxHeaderBytes :: int

type_synonym 'w replay_port = "'w \<Rightarrow> jstring \<Rightarrow> int option \<Rightarrow> int \<Rightarrow> (bool \<times> 'w) result"

text \<open>A replay cache as the verifier calls it.  A command that fails leaves no trace in the model's world.\<close>

definition replay_port_of :: "(jstring \<Rightarrow> int option \<Rightarrow> int \<Rightarrow> ('w, bool) act) \<Rightarrow> 'w replay_port" where
  "replay_port_of cache w key expiresAt now = (case cache key expiresAt now w of (Inl e, _) \<Rightarrow> Inl e | (Inr fresh, w') \<Rightarrow> Inr (fresh, w'))"

definition base_policy :: "gateway_trust \<Rightarrow> TrustResolver \<Rightarrow> 'w replay_port \<Rightarrow> jstring \<Rightarrow> 'w VerificationPolicy" where
  "base_policy config resolver replay audience =
     \<lparr>vp_resolver = resolver, vp_trustAnchors = gt_trustAnchors config, vp_expectedAudience = audience, vp_checkAndStore = replay, vp_now = None,
      vp_allowedAlgorithms = None, vp_clockSkewMs = Some (gt_clockSkewMs config), vp_maxProofAgeMs = Some (gt_maxProofAgeMs config),
      vp_maxTrustDepth = Some (gt_maxTrustDepth config)\<rparr>"

text \<open>\<^verbatim>\<open>new MemoryReplayCache()\<close>, and the age check switched off.\<close>

definition passport_policy :: "gateway_trust \<Rightarrow> TrustResolver \<Rightarrow> replay_entries VerificationPolicy" where
  "passport_policy config resolver = (base_policy config resolver
     (\<lambda>entries key expiresAt now. Inr (MemoryReplayCache_checkAndStore entries key expiresAt now)) (gt_passportAudience config))
       \<lparr>vp_maxProofAgeMs := Some max_safe\<rparr>"

text \<open>Members of a parsed document; only \<^verbatim>\<open>null\<close> has none to ask for.\<close>

definition members_of :: "json \<Rightarrow> jobject result" where
  "members_of v = (case v of JObj r \<Rightarrow> Inr r | JNull \<Rightarrow> Inl (TypeErr []) | _ \<Rightarrow> Inr [])"

definition get_member :: "json \<Rightarrow> string \<Rightarrow> json option result" where
  "get_member v k = mapR (\<lambda>r. jget r (lit k)) (members_of v)"

text \<open>\<^verbatim>\<open>passport.verification_methods?.find((candidate) => candidate.id === ...)\<close>\<close>

fun find_method :: "json option \<Rightarrow> json list \<Rightarrow> json option result" where
  "find_method wanted [] = Inr None"
| "find_method wanted (candidate # rest) =
     bindE (get_member candidate ''id'') (\<lambda>i. if strict_eq_opt i wanted then Inr (Some candidate) else find_method wanted rest)"

definition runtime_method :: "jobject \<Rightarrow> json option \<Rightarrow> json option result" where
  "runtime_method passport wanted = (case jget passport (lit ''verification_methods'') of
     None \<Rightarrow> Inr None | Some JNull \<Rightarrow> Inr None | Some (JArr methods) \<Rightarrow> find_method wanted methods | Some _ \<Rightarrow> Inl (TypeErr []))"

definition parse_attribute :: "json option \<Rightarrow> json result" where
  "parse_attribute v = JSON_parse (String v)"

definition canonical_member :: "json option \<Rightarrow> jstring result" where
  "canonical_member v = (case v of None \<Rightarrow> Inl (invalid (lit ''undefined'')) | Some j \<Rightarrow> canonicalJson_tree j)"

text \<open>The published key record against the Passport and its method; \<^verbatim>\<open>&&\<close> stops at the first mismatch.\<close>

definition runtime_matches :: "jobject \<Rightarrow> jobject \<Rightarrow> jobject \<Rightarrow> bool result" where
  "runtime_matches runtimeRecord passport method =
     (if member_text runtimeRecord (lit ''status'') = lit ''active'' \<and> member_text runtimeRecord (lit ''proof_status'') = lit ''verified''
         \<and> strict_eq_opt (jget runtimeRecord (lit ''issuer'')) (jget passport (lit ''issuer''))
         \<and> strict_eq_opt (jget (public_attributes runtimeRecord) (lit ''controller'')) (jget passport (lit ''id''))
      then bindE (parse_attribute (jget (public_attributes runtimeRecord) (lit ''public_key_jwk''))) (\<lambda>jwk.
        bindE (canonicalJson_tree jwk) (\<lambda>a. bindE (canonical_member (jget method (lit ''public_key_jwk''))) (\<lambda>b. Inr (a = b))))
      else Inr False)"

definition runtime_bound :: "lookup_port \<Rightarrow> jobject \<Rightarrow> bool \<Rightarrow> json option \<Rightarrow> bool result" where
  "runtime_bound lookup passport verified_passport wanted =
     bindE (runtime_method passport wanted) (\<lambda>found. case found of
         None \<Rightarrow> Inr False
       | Some method_value \<Rightarrow> if \<not> truthy (Some method_value) then Inr False else
           bindE (members_of method_value) (\<lambda>method.
           bindE (identifier_of (jget method (lit ''id''))) (\<lambda>i.
           bindE (port_lookup lookup (lit ''key'') i) (\<lambda>runtimeRecord.
           mapR (\<lambda>matches. verified_passport \<and> strict_eq_opt (jget method (lit ''controller'')) (jget passport (lit ''id'')) \<and> matches)
             (runtime_matches runtimeRecord passport method)))))"

definition document_policy :: "gateway_trust \<Rightarrow> lookup_port \<Rightarrow> TrustResolver \<Rightarrow> 'w replay_port \<Rightarrow> json option \<Rightarrow> 'w VerificationPolicy result" where
  "document_policy config lookup resolver replay document = (case document of
     None \<Rightarrow> Inr (base_policy config resolver replay (gt_mandateAudience config))
   | Some d \<Rightarrow>
       if \<not> truthy (Some d) then Inr (base_policy config resolver replay (gt_mandateAudience config))
       else bindE (get_member d ''id'') (\<lambda>i.
         bindE (boundPublicDocument lookup (lit ''mandate'') i (Some d)) (\<lambda>record.
         Inr (base_policy config (lifecycleResolver resolver i record) replay (gt_mandateAudience config)))))"

definition envelope_policy :: "('w, 'k) host \<Rightarrow> gateway_trust \<Rightarrow> lookup_port \<Rightarrow> TrustResolver \<Rightarrow> 'w replay_port \<Rightarrow> json \<Rightarrow> int \<Rightarrow> 'w VerificationPolicy result" where
  "envelope_policy host config lookup resolver replay envelope clock =
     bindE (get_member envelope ''agent_id'') (\<lambda>agent.
     bindE (boundPublicDocument lookup (lit ''passport'') agent None) (\<lambda>passportRecord.
     bindE (bindE (parse_attribute (jget (public_attributes passportRecord) (lit ''signed_document''))) members_of) (\<lambda>passport.
     bindE (verifyDocument (h_legacy host) clock (h_crypto host) passport
         (passport_policy config (lifecycleResolver resolver (jget passport (lit ''id'')) passportRecord)) []) (\<lambda>(verifiedPassport, _).
     bindE (get_member envelope ''proof'') (\<lambda>proof.
     let wanted = (case proof of Some (JObj p) \<Rightarrow> jget p (lit ''verification_method'') | _ \<Rightarrow> None) in
     bindE (runtime_bound lookup passport (vr_verified verifiedPassport) wanted) (\<lambda>bound.
     Inr (base_policy config (if bound then resolver else unavailableRuntimeResolver resolver wanted) replay (gt_expectedAudience config))))))))"

definition gatewayVerificationPolicy :: "('w, 'k) host \<Rightarrow> gateway_trust \<Rightarrow> lookup_port \<Rightarrow> TrustResolver \<Rightarrow> 'w replay_port
    \<Rightarrow> OatiDocumentKind \<Rightarrow> Request \<Rightarrow> ('w, 'w VerificationPolicy) act" where
  "gatewayVerificationPolicy host config lookup resolver replay kind request w =
     (bindE (extractOatiHeaders request (Some (num_of_int (gt_maxHeaderBytes config)))) (\<lambda>extracted.
        case kind of
          KMandate \<Rightarrow> document_policy config lookup resolver replay (Some (ex_mandate extracted))
        | KParentMandate \<Rightarrow> document_policy config lookup resolver replay (ex_parentMandate extracted)
        | KEnvelope \<Rightarrow> envelope_policy host config lookup resolver replay (ex_envelope extracted) (h_now host w)), w)"

section \<open>What a policy guarantees\<close>

lemma boundPublicDocument_Inr:
  assumes "boundPublicDocument lookup kind documentID presented = Inr record"
  shows "\<exists>i t published. documentID = Some (JStr i) \<and> port_lookup lookup kind i = Inr record \<and>
    jget (public_attributes record) (lit ''signed_document'') = Some (JStr t) \<and> member_text record (lit ''proof_status'') = lit ''verified'' \<and>
    JSON_parse t = Inr published \<and>
    (\<forall>document. presented = Some document \<longrightarrow> (\<exists>c. canonicalJson_tree published = Inr c \<and> canonicalJson_tree document = Inr c))"
  using assms by (cases presented) (auto simp: boundPublicDocument_def identifier_of_def exn_iff split: option.splits json.splits if_splits)

lemma find_method_Some: "find_method wanted ms = Inr (Some m) \<Longrightarrow> m \<in> set ms \<and> (\<exists>i. get_member m ''id'' = Inr i \<and> strict_eq_opt i wanted)"
  by (induction ms) (auto simp: exn_iff split: if_splits)

text \<open>The key a Passport names for itself, published by the registry under the same controller and issuer.\<close>

definition published_key :: "lookup_port \<Rightarrow> jobject \<Rightarrow> jstring \<Rightarrow> bool" where
  "published_key lookup passport k \<longleftrightarrow> (\<exists>methods method runtimeRecord jwkText jwk t.
     jget passport (lit ''verification_methods'') = Some (JArr methods) \<and> JObj method \<in> set methods \<and>
     jget method (lit ''id'') = Some (JStr k) \<and> strict_eq_opt (jget method (lit ''controller'')) (jget passport (lit ''id'')) \<and>
     port_lookup lookup (lit ''key'') k = Inr runtimeRecord \<and>
     member_text runtimeRecord (lit ''status'') = lit ''active'' \<and> member_text runtimeRecord (lit ''proof_status'') = lit ''verified'' \<and>
     strict_eq_opt (jget runtimeRecord (lit ''issuer'')) (jget passport (lit ''issuer'')) \<and>
     strict_eq_opt (jget (public_attributes runtimeRecord) (lit ''controller'')) (jget passport (lit ''id'')) \<and>
     jwkText = String (jget (public_attributes runtimeRecord) (lit ''public_key_jwk'')) \<and> JSON_parse jwkText = Inr jwk \<and>
     canonicalJson_tree jwk = Inr t \<and> canonical_member (jget method (lit ''public_key_jwk'')) = Inr t)"

lemma runtime_matches_True:
  "runtime_matches r passport method = Inr True \<Longrightarrow>
     member_text r (lit ''status'') = lit ''active'' \<and> member_text r (lit ''proof_status'') = lit ''verified'' \<and>
     strict_eq_opt (jget r (lit ''issuer'')) (jget passport (lit ''issuer'')) \<and>
     strict_eq_opt (jget (public_attributes r) (lit ''controller'')) (jget passport (lit ''id'')) \<and>
     (\<exists>jwk t. JSON_parse (String (jget (public_attributes r) (lit ''public_key_jwk''))) = Inr jwk \<and> canonicalJson_tree jwk = Inr t \<and>
        canonical_member (jget method (lit ''public_key_jwk'')) = Inr t)"
  by (auto simp: runtime_matches_def parse_attribute_def exn_iff split: if_splits)

lemma bound_key:
  assumes "runtime_bound lookup passport v (Some (JStr k)) = Inr True"
  shows "v" and "published_key lookup passport k"
proof -
  from assms obtain method_value named i r where b: "runtime_method passport (Some (JStr k)) = Inr (Some method_value)" "members_of method_value = Inr named"
      "identifier_of (jget named (lit ''id'')) = Inr i" "port_lookup lookup (lit ''key'') i = Inr r" "v"
      "strict_eq_opt (jget named (lit ''controller'')) (jget passport (lit ''id''))" "runtime_matches r passport named = Inr True"
    by (auto simp: runtime_bound_def exn_iff split: option.splits if_splits)
  from b(1) obtain methods where m: "jget passport (lit ''verification_methods'') = Some (JArr methods)" "find_method (Some (JStr k)) methods = Inr (Some method_value)"
    by (auto simp: runtime_method_def split: option.splits json.splits)
  from find_method_Some [OF m(2)] b(2) have f: "method_value \<in> set methods" "jget named (lit ''id'') = Some (JStr k)"
    by (auto simp: get_member_def exn_iff dest: strict_eq_opt_imp_eq)
  have "method_value = JObj named" using b(2) f(2) by (auto simp: members_of_def jget_def split: json.splits)
  moreover have "i = k" using b(3) f(2) by (simp add: identifier_of_def)
  ultimately show "published_key lookup passport k" using m f b runtime_matches_True [OF b(7)] unfolding published_key_def by blast
  show "v" by (rule b)
qed

text \<open>The published Passport of the agent that an Envelope names, accepted by the verifier under the Passport policy.\<close>

definition accepted_passport :: "('w, 'k) host \<Rightarrow> gateway_trust \<Rightarrow> lookup_port \<Rightarrow> TrustResolver \<Rightarrow> jobject \<Rightarrow> int \<Rightarrow> jobject \<Rightarrow> bool" where
  "accepted_passport host config lookup resolver envelope clock passport \<longleftrightarrow>
     (\<exists>agent record t p key anchor. jget envelope (lit ''agent_id'') = Some (JStr agent) \<and> port_lookup lookup (lit ''passport'') agent = Inr record \<and>
        member_text record (lit ''proof_status'') = lit ''verified'' \<and>
        jget (public_attributes record) (lit ''signed_document'') = Some (JStr t) \<and> JSON_parse t = Inr (JObj passport) \<and>
        accepted (h_legacy host) (h_crypto host) passport (passport_policy config (lifecycleResolver resolver (jget passport (lit ''id'')) record)) clock p key anchor)"

lemma verified_accepted:
  assumes "verifyDocument legacy clock crypto document policy c = Inr (r, c')" and "vr_verified r"
  shows "\<exists>p key anchor. accepted legacy crypto document policy (policy_now clock policy) p key anchor"
  using assms by (cases rule: verifyDocument_cases [of legacy clock crypto document policy c]) auto

lemma empty_passport: "verifyDocument legacy clock crypto [] policy c = Inr (r, c') \<Longrightarrow> \<not> vr_verified r"
  using verified_accepted [of legacy clock crypto "[]" policy c r c'] by (auto simp: accepted_def Let_def jget_def)

theorem envelope_key_bound:
  assumes "envelope_policy host config lookup resolver replay (JObj envelope) clock = Inr policy"
    and "jget envelope (lit ''proof'') = Some (JObj members)" and "jget members (lit ''verification_method'') = Some (JStr k)"
    and "resolveKey (vp_resolver policy) k = Inr (Some key)"
  shows "\<exists>passport. accepted_passport host config lookup resolver envelope clock passport \<and> published_key lookup passport k \<and>
     resolveKey resolver k = Inr (Some key)"
proof -
  from assms(1-3) obtain agent_value passportRecord passport v c bound where
      r: "jget envelope (lit ''agent_id'') = agent_value" "boundPublicDocument lookup (lit ''passport'') agent_value None = Inr passportRecord"
    and p: "bindE (parse_attribute (jget (public_attributes passportRecord) (lit ''signed_document''))) members_of = Inr passport"
    and v: "verifyDocument (h_legacy host) clock (h_crypto host) passport
         (passport_policy config (lifecycleResolver resolver (jget passport (lit ''id'')) passportRecord)) [] = Inr (v, c)"
    and b: "runtime_bound lookup passport (vr_verified v) (Some (JStr k)) = Inr bound"
    and policy: "policy = base_policy config (if bound then resolver else unavailableRuntimeResolver resolver (Some (JStr k))) replay (gt_expectedAudience config)"
    unfolding envelope_policy_def get_member_def members_of_def [of "JObj envelope"] by (auto simp: exn_iff Let_def)
  have bound: "bound" "resolveKey resolver k = Inr (Some key)"
    using assms(4) policy by (auto simp: base_policy_def unavailableRuntimeResolver_def split: if_splits)
  with b have k: "vr_verified v" "published_key lookup passport k" using bound_key [of lookup passport "vr_verified v" k] by simp_all
  from boundPublicDocument_Inr [OF r(2)] obtain agent t0 where a: "agent_value = Some (JStr agent)" "port_lookup lookup (lit ''passport'') agent = Inr passportRecord"
      "jget (public_attributes passportRecord) (lit ''signed_document'') = Some (JStr t0)" "member_text passportRecord (lit ''proof_status'') = lit ''verified''"
    by blast
  from verified_accepted [OF v k(1)] obtain q anchor signer where
      acc: "accepted (h_legacy host) (h_crypto host) passport (passport_policy config (lifecycleResolver resolver (jget passport (lit ''id'')) passportRecord)) clock q signer anchor"
    by (auto simp: policy_now_def passport_policy_def base_policy_def)
  have "passport \<noteq> []"
  proof
    assume e: "passport = []"
    from empty_passport [OF v [unfolded e]] k(1) show False ..
  qed
  moreover obtain j where "JSON_parse t0 = Inr j" "members_of j = Inr passport" using p a(3) by (auto simp: parse_attribute_def String_def exn_iff)
  ultimately have "JSON_parse t0 = Inr (JObj passport)" by (cases j) (auto simp: members_of_def)
  with a r acc have "accepted_passport host config lookup resolver envelope clock passport" unfolding accepted_passport_def by blast
  with k bound show ?thesis by blast
qed

end
