(* ===== verification/GatewayProperties.thy ===== *)
theory GatewayProperties
  imports GatewayPolicy MiddlewareSamples
begin

text \<open>
  What a request that the Envoy authorizer verifies is bound to in the public registry, with a
  registry that publishes the sample Mandate, a Passport and its key as witness.
\<close>

section \<open>The lifecycle of a public record\<close>

text \<open>The public record lets the document through: it is active, or it was issued after the present.\<close>

definition lifecycle_open :: "legacy_dates \<Rightarrow> jobject \<Rightarrow> int \<Rightarrow> bool" where
  "lifecycle_open legacy record now \<longleftrightarrow> member_text record (lit ''status'') = lit ''active'' \<or>
     (\<exists>s t. jget record (lit ''issued_at'') = Some (JStr s) \<and> Date_parse legacy s = Some t \<and> now < t)"

lemma opt_time_Some: "opt_time legacy v = Some (Some t) \<Longrightarrow> \<exists>s. v = Some s \<and> Date_parse legacy s = Some t"
  by (auto simp: opt_time_def split: option.splits if_splits)

lemma not_revoked_open:
  assumes "not_revoked legacy (lifecycleResolver upstream (Some (JStr i)) record) now i" and "i \<noteq> []"
  shows "lifecycle_open legacy record now"
  using assms by (auto simp: not_revoked_def lifecycleResolver_def lifecycle_open_def split: if_splits option.splits dest: opt_time_Some)

section \<open>A registry\<close>

lemma url_unit_plain: "list_all url_unit s \<Longrightarrow> plain_text s"
  by (auto simp: plain_text_def list_all_iff url_unit_def is_digit_def is_upper_def is_lower_def is_high_surrogate_def
    is_low_surrogate_def word_le_def word_less_def)

definition trust_sample :: gateway_trust where
  "trust_sample = \<lparr>gt_trustAnchors = [lit ''root-1''], gt_clockSkewMs = 30000, gt_maxProofAgeMs = 300000, gt_maxTrustDepth = 8,
     gt_expectedAudience = lit ''merchant'', gt_mandateAudience = lit ''merchant'', gt_passportAudience = lit ''merchant'', gt_maxHeaderBytes = 65536\<rparr>"

abbreviation resolver_sample :: TrustResolver where
  "resolver_sample \<equiv> StaticTrustResolver [sample_key] [] []"

definition published :: "jobject \<Rightarrow> jobject" where
  "published document = [(lit ''status'', JStr (lit ''active'')), (lit ''proof_status'', JStr (lit ''verified'')),
     (lit ''public_attributes'', JObj [(lit ''signed_document'', JStr (JSON_stringify (JObj document)))])]"

definition method_sample :: jobject where
  "method_sample = [(lit ''id'', JStr (lit ''key-1'')), (lit ''controller'', JStr (lit ''agent-1'')),
     (lit ''public_key_jwk'', JObj [(lit ''kty'', JStr (lit ''EC'')), (lit ''crv'', JStr (lit ''P-256''))])]"

definition passport_sample :: jobject where
  "passport_sample = signed_sample [(lit ''id'', JStr (lit ''agent-1'')), (lit ''issuer'', JStr (lit ''root-1'')),
     (lit ''verification_methods'', JArr [JObj method_sample])]"

definition key_record :: jobject where
  "key_record = [(lit ''status'', JStr (lit ''active'')), (lit ''proof_status'', JStr (lit ''verified'')), (lit ''issuer'', JStr (lit ''root-1'')),
     (lit ''public_attributes'', JObj [(lit ''controller'', JStr (lit ''agent-1'')),
        (lit ''public_key_jwk'', JStr (JSON_stringify (JObj [(lit ''kty'', JStr (lit ''EC'')), (lit ''crv'', JStr (lit ''P-256''))])))])]"

definition registry_sample :: lookup_port where
  "registry_sample = \<lparr>port_lookup = (\<lambda>kind i. if kind = lit ''mandate'' then Inr (published passing_mandate)
       else if kind = lit ''passport'' then Inr (published passport_sample) else Inr key_record), port_revocation = (\<lambda>_. Inl (PlainErr []))\<rparr>"

lemma published_record [simp]:
  "member_text (published d) (lit ''status'') = lit ''active''" "member_text (published d) (lit ''proof_status'') = lit ''verified''"
  "jget (public_attributes (published d)) (lit ''signed_document'') = Some (JStr (JSON_stringify (JObj d)))"
  by (simp_all add: published_def member_text_def public_attributes_def jget_def del: JSON_stringify.simps)

lemma lifecycle_active [simp]: "member_text record (lit ''status'') = lit ''active'' \<Longrightarrow> lifecycleResolver upstream i record = upstream"
  by (cases upstream) (simp add: lifecycleResolver_def)

lemma put_member_keys_distinct: "distinct (map fst ps) \<Longrightarrow> distinct (map fst (put_member k v ps))"
  by (auto simp: put_member_alt)

text \<open>A signed sample document with unique keys is text that canonicalises and reads back.\<close>

lemma signed_sample_text:
  assumes "canonical_document d" and "integer_json (JObj d)"
  shows "JSON_parse (JSON_stringify (JObj (signed_sample d))) = Inr (JObj (signed_sample d))" and "\<exists>c. canonicalJson_tree (JObj (signed_sample d)) = Inr c"
proof -
  let ?p = "JObj (op_members sample_proof)"
  have "plain_text (a @ b) \<longleftrightarrow> plain_text a \<and> plain_text b" for a b by (simp add: plain_text_def)
  then have "is_scalar (op_signature sample_proof)"
    unfolding sample_proof_def signed_proof_def Let_def using url_unit_plain [OF base64url_units] by (intro scalar_plain) simp
  moreover have "op_members sample_proof = proof_members sample_options 1000000 1060000 @ [(lit ''signature'', JStr (op_signature sample_proof))]"
    by (simp add: sample_proof_def signed_proof_def Let_def)
  moreover have "is_scalar (toISOString 1000000)" "is_scalar (toISOString 1060000)" by (rule scalar_plain [OF toISOString_plain])+
  ultimately have p: "i_json ?p" "depth_le 255 ?p" "unique_keys ?p" "integer_json ?p"
    by (auto simp: proof_members_def sample_options_def audience_json_def scalar_plain OATI_PROOF_TYPE_def suite_def)
  show "JSON_parse (JSON_stringify (JObj (signed_sample d))) = Inr (JObj (signed_sample d))"
    using p(4) assms(2) by (intro stringify_reads_back) (auto simp: signed_sample_def put_member_list_all put_member_keys_distinct)
  have "canonical_document (signed_sample d)"
    using p(1-3) assms(1) unfolding canonical_document_def signed_sample_def
    by (auto intro!: put_member_list_all put_member_keys_distinct simp: scalar_plain)
  then show "\<exists>c. canonicalJson_tree (JObj (signed_sample d)) = Inr c"
    using canonicalJson_tree_complete unfolding canonical_document_def by blast
qed

abbreviation memory_replay :: "replay_entries replay_port" where
  "memory_replay \<equiv> (\<lambda>entries key expiresAt now. Inr (MemoryReplayCache_checkAndStore entries key expiresAt now))"

lemma trust_sample_policy:
  "vp_resolver (base_policy trust_sample r p a) = r" "vp_trustAnchors (base_policy trust_sample r p a) = [lit ''root-1'']"
  "vp_expectedAudience (base_policy trust_sample r p a) = a" "vp_allowedAlgorithms (base_policy trust_sample r p a) = None"
  "policy_skew (base_policy trust_sample r p a) = 30000" "0 \<le> max_links (base_policy trust_sample r p a)"
  "vp_maxProofAgeMs (base_policy trust_sample r p a) = Some 300000" "policy_now t (base_policy trust_sample r p a) = t"
  by (simp_all add: base_policy_def trust_sample_def policy_skew_def max_links_def policy_now_def)

section \<open>Mandates\<close>

text \<open>
  C8: The Envoy authorizer accepts a Mandate (or parent Mandate) only as the registry publishes it:
  when the document verifies under the policy the gateway chose for it, the registry has a record
  for its id with a verified proof, the record carries a signed document with the same canonical
  JSON as the one presented, and the record is active (or, where the clock is behind the registry's,
  issued later than the present), whatever status the document states itself.
\<close>

theorem gateway_mandate_published_and_active:
  assumes "document_policy config lookup resolver replay (Some (JObj document)) = Inr policy"
    and "jget document (lit ''id'') = Some (JStr i)" and "i \<noteq> []"
    and "verify_with host document (reusableDocumentPolicy policy) w = (Inr r, w')" and "vr_verified r"
  shows "\<exists>record t published c. port_lookup lookup (lit ''mandate'') i = Inr record \<and>
     member_text record (lit ''proof_status'') = lit ''verified'' \<and> lifecycle_open (h_legacy host) record (h_now host w) \<and>
     jget (public_attributes record) (lit ''signed_document'') = Some (JStr t) \<and> JSON_parse t = Inr published \<and>
     canonicalJson_tree published = Inr c \<and> canonicalJson_tree (JObj document) = Inr c"
proof -
  from assms(1,2) obtain found where b: "boundPublicDocument lookup (lit ''mandate'') (Some (JStr i)) (Some (JObj document)) = Inr found"
    and p: "policy = base_policy config (lifecycleResolver resolver (Some (JStr i)) found) replay (gt_mandateAudience config)"
    by (auto simp: document_policy_def get_member_def members_of_def exn_iff)
  from verify_with_proven [OF assms(4,5)] have "not_revoked (h_legacy host) (lifecycleResolver resolver (Some (JStr i)) found) (h_now host w) (documentId document)"
    by (auto simp: proven_def accepted_def Let_def p reusableDocumentPolicy_def base_policy_def policy_now_def)
  then have "lifecycle_open (h_legacy host) found (h_now host w)" using assms(2,3) not_revoked_open by (simp add: documentId_def)
  with boundPublicDocument_Inr [OF b] show ?thesis by auto
qed

lemma mandate_sample:
  "document_policy trust_sample registry_sample resolver_sample memory_replay (Some (JObj passing_mandate)) =
     Inr (base_policy trust_sample resolver_sample memory_replay (lit ''merchant''))"
  "jget passing_mandate (lit ''id'') = Some (JStr (lit ''oati:mandate:m''))"
proof -
  show i: "jget passing_mandate (lit ''id'') = Some (JStr (lit ''oati:mandate:m''))"
    by (simp add: passing_mandate_def signed_sample_def jget_def put_member_def)
  have "JSON_parse (JSON_stringify (JObj passing_mandate)) = Inr (JObj passing_mandate)" "\<exists>c. canonicalJson_tree (JObj passing_mandate) = Inr c"
    unfolding passing_mandate_def using signed_sample_text [OF passing_bodies(1)] by simp_all
  then show "document_policy trust_sample registry_sample resolver_sample memory_replay (Some (JObj passing_mandate)) =
     Inr (base_policy trust_sample resolver_sample memory_replay (lit ''merchant''))"
    using i by (auto simp: document_policy_def get_member_def members_of_def boundPublicDocument_def identifier_of_def registry_sample_def trust_sample_def
      simp del: JSON_stringify.simps)
qed

theorem gateway_mandate_published_and_active_witness:
  "\<exists>record. port_lookup registry_sample (lit ''mandate'') (lit ''oati:mandate:m'') = Inr record \<and> lifecycle_open no_legacy record 1000000"
proof -
  let ?policy = "base_policy trust_sample resolver_sample memory_replay (lit ''merchant'')"
  have "\<exists>r. verify_with passing_host passing_mandate (reusableDocumentPolicy ?policy) [] = (Inr r, []) \<and> vr_verified r"
    by (rule verify_with_accepted [where p = sample_proof and key = sample_key and anchor = "lit ''root-1''"])
      (simp_all add: passing_host_def reusableDocumentPolicy_def base_policy_def trust_sample_def policy_skew_def max_links_def policy_now_def passing_accepted)
  then obtain r where r: "verify_with passing_host passing_mandate (reusableDocumentPolicy ?policy) [] = (Inr r, [])" "vr_verified r" by blast
  have "lit ''oati:mandate:m'' \<noteq> []" by simp
  from gateway_mandate_published_and_active [OF mandate_sample this r] show ?thesis by (auto simp: passing_host_def)
qed

section \<open>Envelopes\<close>

text \<open>
  C7: The Envoy authorizer resolves the key of an Envelope only when the agent's Passport vouches
  for it: the registry publishes a Passport of the Envelope's agent that the verifier accepts, the
  Passport names the key with itself as controller, and the registry's own record of the key is
  active and verified, with the Passport's issuer and controller and the same public key.
\<close>

theorem gateway_envelope_key_published:
  assumes "gatewayVerificationPolicy host config lookup resolver replay KEnvelope request w = (Inr policy, w')"
    and "extractOatiHeaders request (Some (num_of_int (gt_maxHeaderBytes config))) = Inr x" and "ex_envelope x = JObj envelope"
    and "jget envelope (lit ''proof'') = Some (JObj members)" and "jget members (lit ''verification_method'') = Some (JStr k)"
    and "resolveKey (vp_resolver policy) k = Inr (Some key)"
  shows "\<exists>passport. accepted_passport host config lookup resolver envelope (h_now host w) passport \<and> published_key lookup passport k \<and>
     resolveKey resolver k = Inr (Some key)"
proof -
  from assms(1-3) have "envelope_policy host config lookup resolver replay (JObj envelope) (h_now host w) = Inr policy"
    by (auto simp: gatewayVerificationPolicy_def)
  from envelope_key_bound [OF this assms(4-6)] show ?thesis .
qed

definition passport_body :: jobject where
  "passport_body = [(lit ''id'', JStr (lit ''agent-1'')), (lit ''issuer'', JStr (lit ''root-1'')),
     (lit ''verification_methods'', JArr [JObj method_sample])]"

lemma passport_body: "passport_sample = signed_sample passport_body" "canonical_document passport_body" "integer_json (JObj passport_body)"
  by (simp_all add: passport_sample_def passport_body_def method_sample_def canonical_document_def scalar_plain)

lemma passport_members:
  "jget passport_sample (lit ''id'') = Some (JStr (lit ''agent-1''))" "jget passport_sample (lit ''issuer'') = Some (JStr (lit ''root-1''))"
  "jget passport_sample (lit ''verification_methods'') = Some (JArr [JObj method_sample])"
  by (simp_all add: passport_body(1) passport_body_def signed_sample_def jget_def put_member_def)

lemma passport_verified:
  "\<exists>v c. verifyDocument no_legacy 1000000 (Some zero_provider) passport_sample (passport_policy trust_sample resolver_sample) [] = Inr (v, c) \<and> vr_verified v"
proof -
  let ?policy = "passport_policy trust_sample resolver_sample"
  have m: "document_current no_legacy passport_sample 1000000 30000" "signer_bound passport_sample sample_key"
    by (simp_all add: document_current_def document_start_def document_end_def after_start_def before_end_def signer_bound_def claimed_signer_def
      passport_body(1) passport_body_def signed_sample_def jget_def put_member_def sample_key_def)
  have "accepted no_legacy (Some zero_provider) passport_sample ?policy 1000000 sample_proof sample_key (lit ''root-1'')"
    unfolding passport_body(1)
    by (rule signed_sample_accepted [OF _ _ passport_body(2) m [unfolded passport_body(1)]])
      (simp_all add: passport_policy_def base_policy_def trust_sample_def policy_skew_def max_links_def max_safe_def)
  then have "\<exists>v. verify_with passing_host passport_sample ?policy [] =
      (Inr v, snd (MemoryReplayCache_checkAndStore [] (replayKey sample_proof (lit ''merchant'')) (Some 1060000) 1000000)) \<and> vr_verified v"
    by (intro verify_with_accepted [where p = sample_proof and key = sample_key and anchor = "lit ''root-1''"])
      (simp_all add: passing_host_def passport_policy_def base_policy_def policy_now_def trust_sample_def passing_expiry MemoryReplayCache_checkAndStore_def Let_def)
  then show ?thesis by (auto simp: verify_with_def passing_host_def split: sum.splits)
qed

lemma key_bound: "runtime_bound registry_sample passport_sample True (Some (JStr (lit ''key-1''))) = Inr True"
proof -
  let ?jwk = "JObj [(lit ''kty'', JStr (lit ''EC'')), (lit ''crv'', JStr (lit ''P-256''))]"
  have "JSON_parse (JSON_stringify ?jwk) = Inr ?jwk" by (rule stringify_reads_back) simp
  moreover have "\<exists>c. canonicalJson_tree ?jwk = Inr c" using canonicalJson_tree_complete [of ?jwk] by (simp add: scalar_plain)
  ultimately have "runtime_matches key_record passport_sample method_sample = Inr True"
    by (auto simp: runtime_matches_def key_record_def member_text_def public_attributes_def jget_def [of "(_, _) # _"] passport_members parse_attribute_def String_def
      canonical_member_def method_sample_def simp del: JSON_stringify.simps)
  then show ?thesis
    by (simp add: runtime_bound_def runtime_method_def passport_members get_member_def members_of_def identifier_of_def registry_sample_def)
      (simp add: method_sample_def jget_def identifier_of_def members_of_def)
qed

definition envelope_sample :: jobject where
  "envelope_sample = [(lit ''agent_id'', JStr (lit ''agent-1'')), (lit ''proof'', JObj [(lit ''verification_method'', JStr (lit ''key-1''))])]"

theorem gateway_envelope_key_published_witness:
  "\<exists>passport. accepted_passport passing_host trust_sample registry_sample resolver_sample envelope_sample 1000000 passport \<and>
     published_key registry_sample passport (lit ''key-1'')"
proof -
  have canon: "canon (JObj envelope_sample) = JObj envelope_sample" and int: "integer_json (JObj envelope_sample)"
    by (simp_all add: envelope_sample_def own_members_def)
  have "canonicalJson_tree (JObj envelope_sample) = Inr (serializeCanonical (canon (JObj envelope_sample)))"
    by (rule canonicalJson_tree_complete) (simp_all add: envelope_sample_def scalar_plain)
  then obtain header where header: "encodeOatiHeader (JObj envelope_sample) = Inr header" by (simp add: encodeOatiHeader_def)
  let ?config = "trust_sample\<lparr>gt_maxHeaderBytes := int (length header)\<rparr>"
  let ?request = "passing_request\<lparr>req_header := (\<lambda>_. Some header)\<rparr>"
  let ?x = "\<lparr>ex_envelope = JObj envelope_sample, ex_mandate = JObj envelope_sample, ex_parentMandate = Some (JObj envelope_sample)\<rparr>"
  have limit: "\<not> num_less (num_of_int (gt_maxHeaderBytes ?config)) (num_of_int (int (length header)))" by simp
  note decoded = encoded_header [OF int header limit, unfolded canon]
  have x: "extractOatiHeaders ?request (Some (num_of_int (gt_maxHeaderBytes ?config))) = Inr ?x"
    using decoded by (simp add: extractOatiHeaders_def Let_def)
  obtain v c where v: "verifyDocument no_legacy 1000000 (Some zero_provider) passport_sample (passport_policy trust_sample resolver_sample) [] = Inr (v, c)" "vr_verified v"
    using passport_verified by blast
  have config: "passport_policy ?config r = passport_policy trust_sample r" "base_policy ?config r p a = base_policy trust_sample r p a" for r p a
    by (simp_all add: passport_policy_def base_policy_def)
  have "JSON_parse (JSON_stringify (JObj passport_sample)) = Inr (JObj passport_sample)"
    unfolding passport_body(1) by (rule signed_sample_text [OF passport_body(2,3)])
  then have "boundPublicDocument registry_sample (lit ''passport'') (Some (JStr (lit ''agent-1''))) None = Inr (published passport_sample)"
    by (simp add: boundPublicDocument_def identifier_of_def registry_sample_def del: JSON_stringify.simps)
  then have "envelope_policy passing_host ?config registry_sample resolver_sample memory_replay (JObj envelope_sample) 1000000 =
      Inr (base_policy trust_sample resolver_sample memory_replay (lit ''merchant''))"
    using v key_bound \<open>JSON_parse _ = _\<close>
    by (simp add: envelope_policy_def get_member_def members_of_def envelope_sample_def jget_def [of "(_, _) # _"] parse_attribute_def String_def passing_host_def config Let_def)
      (simp add: trust_sample_def)
  then have p: "gatewayVerificationPolicy passing_host ?config registry_sample resolver_sample memory_replay KEnvelope ?request [] =
      (Inr (base_policy trust_sample resolver_sample memory_replay (lit ''merchant'')), [])"
    using x by (simp add: gatewayVerificationPolicy_def) (simp add: passing_host_def)
  have "resolveKey (vp_resolver (base_policy trust_sample resolver_sample memory_replay (lit ''merchant''))) (lit ''key-1'') = Inr (Some sample_key)"
    by (simp add: trust_sample_policy StaticTrustResolver_def) (simp add: sample_key_def)
  moreover have "ex_envelope ?x = JObj envelope_sample" by simp
  moreover have "jget envelope_sample (lit ''proof'') = Some (JObj [(lit ''verification_method'', JStr (lit ''key-1''))])"
    by (simp add: envelope_sample_def jget_def)
  moreover have "jget [(lit ''verification_method'', JStr (lit ''key-1''))] (lit ''verification_method'') = Some (JStr (lit ''key-1''))" by (simp add: jget_def)
  moreover have "accepted_passport passing_host ?config = accepted_passport passing_host trust_sample" by (intro ext) (simp add: accepted_passport_def config)
  moreover have "h_now passing_host [] = 1000000" by (simp add: passing_host_def)
  ultimately show ?thesis using gateway_envelope_key_published [OF p x] by metis
qed

end
