(* ===== verification/GatewayConfig.thy ===== *)
theory GatewayConfig
  imports GatewayPolicy
begin

text \<open>
  The configuration of the Envoy authorizer, \<^verbatim>\<open>services/envoy-authorizer/server.mjs\<close>: the environment
  read into a record or an error, the tokens and the check of an invalidation request.  The URL
  parser is the host's; files are read through \<open>read_file\<close>.
\<close>

section \<open>Reading the environment\<close>

type_synonym environment = "jstring \<Rightarrow> jstring option"

record gateway_url = url_parts +
  url_href :: jstring

type_synonym gateway_url_parser = "jstring \<Rightarrow> gateway_url option"

definition parse_url :: "gateway_url_parser \<Rightarrow> jstring \<Rightarrow> gateway_url result" where
  "parse_url url value = (case url value of None \<Rightarrow> Inl (TypeErr []) | Some u \<Rightarrow> Inr u)"

definition required_variable :: "environment \<Rightarrow> string \<Rightarrow> jstring result" where
  "required_variable env name = (case env (lit name) of
     None \<Rightarrow> Inl (PlainErr (lit name @ lit '' is required''))
   | Some v \<Rightarrow> if trim v = [] then Inl (PlainErr (lit name @ lit '' is required'')) else Inr (trim v))"

text \<open>The fallback \<open>None\<close> is \<^verbatim>\<open>undefined\<close>.\<close>

definition integer_variable :: "environment \<Rightarrow> string \<Rightarrow> int option \<Rightarrow> int \<Rightarrow> int \<Rightarrow> int result" where
  "integer_variable env name fallback minimum maximum =
     (let value = (case env (lit name) of Some v \<Rightarrow> string_to_number v | None \<Rightarrow> (case fallback of Some n \<Rightarrow> num_of_int n | None \<Rightarrow> NaN));
          message = lit name @ lit '' must be an integer between '' @ int_to_string minimum @ lit '' and '' @ int_to_string maximum
      in case value of
           Fin x \<Rightarrow> if of_int \<lfloor>x\<rfloor> \<noteq> x \<or> x < of_int minimum \<or> of_int maximum < x then Inl (PlainErr message) else Inr \<lfloor>x\<rfloor>
         | _ \<Rightarrow> Inl (PlainErr message))"

definition default_variable :: "environment \<Rightarrow> string \<Rightarrow> string \<Rightarrow> jstring" where
  "default_variable env name fallback = (case env (lit name) of Some v \<Rightarrow> v | None \<Rightarrow> lit fallback)"

definition list_of :: "jstring \<Rightarrow> jstring list" where
  "list_of value = filter (\<lambda>v. v \<noteq> []) (map trim (split_unit 44 value))"

definition strip_trailing_slash :: "jstring \<Rightarrow> jstring" where
  "strip_trailing_slash s = (if s \<noteq> [] \<and> last s = 47 then butlast s else s)"

text \<open>\<^verbatim>\<open>!text\<close> for an optional text.\<close>

definition missing_text :: "jstring option \<Rightarrow> bool" where
  "missing_text v \<longleftrightarrow> v = None \<or> v = Some []"

definition normalizedOrigin :: "gateway_url_parser \<Rightarrow> jstring \<Rightarrow> bool \<Rightarrow> jstring result" where
  "normalizedOrigin url value production =
     bindE (parse_url url value) (\<lambda>u.
     if url_pathname u \<noteq> lit ''/'' \<or> url_search u \<noteq> [] \<or> url_hash u \<noteq> [] \<or> url_username u \<noteq> [] \<or> url_password u \<noteq> []
     then Inl (PlainErr (lit ''OATI_GATEWAY_EXTERNAL_ORIGIN must be an origin without path, credentials, query, or fragment''))
     else if production \<and> url_protocol u \<noteq> lit ''https:'' then Inl (PlainErr (lit ''production gateway external origin must use HTTPS''))
     else if url_protocol u \<notin> {lit ''http:'', lit ''https:''} then Inl (PlainErr (lit ''gateway external origin must use HTTP or HTTPS''))
     else Inr (url_origin u))"

definition optionalServiceUrl :: "gateway_url_parser \<Rightarrow> jstring option \<Rightarrow> bool \<Rightarrow> string \<Rightarrow> jstring option result" where
  "optionalServiceUrl url value production name = (case value of None \<Rightarrow> Inr None
     | Some v \<Rightarrow> if trim v = [] then Inr None
         else bindE (parse_url url (trim v)) (\<lambda>u.
           if url_username u \<noteq> [] \<or> url_password u \<noteq> [] \<or> url_search u \<noteq> [] \<or> url_hash u \<noteq> [] \<or> url_pathname u \<noteq> lit ''/''
           then Inl (PlainErr (lit name @ lit '' must be an origin without path, credentials, query, or fragment''))
           else if production \<and> url_protocol u \<notin> {lit ''https:'', lit ''http:''} then Inl (PlainErr (lit name @ lit '' must use HTTP or HTTPS''))
           else Inr (Some (strip_trailing_slash (url_href u)))))"

section \<open>The configuration\<close>

record gateway_config = gateway_trust +
  gc_port :: int
  gc_externalOrigin :: jstring
  gc_receiptIssuer :: jstring
  gc_receiptVerificationMethod :: jstring
  gc_resolverUrls :: "jstring list"
  gc_valkeyUrl :: jstring
  gc_valkeyPasswordFile :: "jstring option"
  gc_valkeyTlsCAFile :: "jstring option"
  gc_valkeyTlsServerName :: "jstring option"
  gc_replayPrefix :: jstring
  gc_usagePrefix :: jstring
  gc_receiptStream :: jstring
  gc_lookupTimeoutMs :: int
  gc_lookupCacheMs :: int
  gc_maxBodyBytes :: int
  gc_receiptProofLifetimeMs :: int
  gc_transitAddr :: jstring
  gc_transitMount :: jstring
  gc_transitKeyName :: jstring
  gc_transitKeyVersion :: int
  gc_transitTokenFile :: jstring
  gc_invalidationTokenFile :: "jstring option"
  gc_evidenceUrl :: "jstring option"
  gc_evidenceTokenFile :: "jstring option"
  gc_evidenceTimeoutMs :: int
  gc_transitTimeoutMs :: int
  gc_tlsCertFile :: "jstring option"
  gc_tlsKeyFile :: "jstring option"
  gc_tlsClientCAFile :: "jstring option"
  gc_production :: bool

text \<open>The object literal: its members are evaluated in order, and the first error is thrown.\<close>

definition read_configuration :: "gateway_url_parser \<Rightarrow> environment \<Rightarrow> bool \<Rightarrow> gateway_config result" where
  "read_configuration url env production =
     bindE (integer_variable env ''PORT'' (Some 9001) 1 65535) (\<lambda>port.
     bindE (bindE (required_variable env ''OATI_GATEWAY_EXTERNAL_ORIGIN'') (\<lambda>v. normalizedOrigin url v production)) (\<lambda>externalOrigin.
     bindE (required_variable env ''OATI_GATEWAY_EXPECTED_AUDIENCE'') (\<lambda>expectedAudience.
     bindE (required_variable env ''OATI_GATEWAY_RECEIPT_ISSUER'') (\<lambda>receiptIssuer.
     bindE (required_variable env ''OATI_GATEWAY_RECEIPT_VERIFICATION_METHOD'') (\<lambda>receiptMethod.
     bindE (required_variable env ''OATI_GATEWAY_TRUST_ANCHORS'') (\<lambda>anchors.
     bindE (required_variable env ''OATI_LOOKUP_RESOLVER_URLS'') (\<lambda>resolvers.
     bindE (required_variable env ''VALKEY_URL'') (\<lambda>valkeyUrl.
     bindE (integer_variable env ''OATI_GATEWAY_LOOKUP_TIMEOUT_MS'' (Some 1500) 100 10000) (\<lambda>lookupTimeoutMs.
     bindE (integer_variable env ''OATI_GATEWAY_LOOKUP_CACHE_MS'' (Some 15000) 0 60000) (\<lambda>lookupCacheMs.
     bindE (integer_variable env ''OATI_GATEWAY_CLOCK_SKEW_MS'' (Some 30000) 0 300000) (\<lambda>clockSkewMs.
     bindE (integer_variable env ''OATI_GATEWAY_MAX_PROOF_AGE_MS'' (Some 300000) 1000 900000) (\<lambda>maxProofAgeMs.
     bindE (integer_variable env ''OATI_GATEWAY_MAX_TRUST_DEPTH'' (Some 8) 1 32) (\<lambda>maxTrustDepth.
     bindE (integer_variable env ''OATI_GATEWAY_MAX_HEADER_BYTES'' (Some 65536) 1024 262144) (\<lambda>maxHeaderBytes.
     bindE (integer_variable env ''OATI_GATEWAY_MAX_BODY_BYTES'' (Some 1048576) 0 10485760) (\<lambda>maxBodyBytes.
     bindE (integer_variable env ''OATI_GATEWAY_RECEIPT_PROOF_LIFETIME_MS'' (Some 300000) 10000 900000) (\<lambda>lifetimeMs.
     bindE (required_variable env ''OATI_TRANSIT_ADDR'') (\<lambda>transitAddr.
     bindE (required_variable env ''OATI_GATEWAY_TRANSIT_KEY_NAME'') (\<lambda>transitKeyName.
     bindE (integer_variable env ''OATI_GATEWAY_TRANSIT_KEY_VERSION'' None 1 2147483647) (\<lambda>transitKeyVersion.
     bindE (required_variable env ''OATI_TRANSIT_TOKEN_FILE'') (\<lambda>transitTokenFile.
     bindE (optionalServiceUrl url (env (lit ''OATI_GATEWAY_EVIDENCE_URL'')) production ''OATI_GATEWAY_EVIDENCE_URL'') (\<lambda>evidenceUrl.
     bindE (integer_variable env ''OATI_GATEWAY_EVIDENCE_TIMEOUT_MS'' (Some 1500) 100 10000) (\<lambda>evidenceTimeoutMs.
     bindE (integer_variable env ''OATI_GATEWAY_TRANSIT_TIMEOUT_MS'' (Some 1500) 100 10000) (\<lambda>transitTimeoutMs.
     Inr \<lparr>gt_trustAnchors = list_of anchors, gt_clockSkewMs = clockSkewMs, gt_maxProofAgeMs = maxProofAgeMs, gt_maxTrustDepth = maxTrustDepth,
       gt_expectedAudience = expectedAudience,
       gt_mandateAudience = default_variable env ''OATI_GATEWAY_MANDATE_AUDIENCE'' ''oati:production:mandate'',
       gt_passportAudience = default_variable env ''OATI_GATEWAY_PASSPORT_AUDIENCE'' ''oati:production:passport'',
       gt_maxHeaderBytes = maxHeaderBytes, gc_port = port, gc_externalOrigin = externalOrigin, gc_receiptIssuer = receiptIssuer,
       gc_receiptVerificationMethod = receiptMethod, gc_resolverUrls = list_of resolvers, gc_valkeyUrl = valkeyUrl,
       gc_valkeyPasswordFile = env (lit ''VALKEY_PASSWORD_FILE''), gc_valkeyTlsCAFile = env (lit ''VALKEY_TLS_CA_FILE''),
       gc_valkeyTlsServerName = env (lit ''VALKEY_TLS_SERVER_NAME''),
       gc_replayPrefix = default_variable env ''OATI_GATEWAY_REPLAY_PREFIX'' ''oati:gateway:replay:'',
       gc_usagePrefix = default_variable env ''OATI_GATEWAY_USAGE_PREFIX'' ''oati:gateway:usage:'',
       gc_receiptStream = default_variable env ''OATI_GATEWAY_RECEIPT_STREAM'' ''oati:gateway:receipts'',
       gc_lookupTimeoutMs = lookupTimeoutMs, gc_lookupCacheMs = lookupCacheMs, gc_maxBodyBytes = maxBodyBytes, gc_receiptProofLifetimeMs = lifetimeMs,
       gc_transitAddr = strip_trailing_slash transitAddr, gc_transitMount = default_variable env ''OATI_TRANSIT_MOUNT'' ''transit'',
       gc_transitKeyName = transitKeyName, gc_transitKeyVersion = transitKeyVersion, gc_transitTokenFile = transitTokenFile,
       gc_invalidationTokenFile = env (lit ''OATI_GATEWAY_INVALIDATION_TOKEN_FILE''), gc_evidenceUrl = evidenceUrl,
       gc_evidenceTokenFile = env (lit ''OATI_GATEWAY_EVIDENCE_TOKEN_FILE''), gc_evidenceTimeoutMs = evidenceTimeoutMs,
       gc_transitTimeoutMs = transitTimeoutMs, gc_tlsCertFile = env (lit ''OATI_GATEWAY_TLS_CERT_FILE''),
       gc_tlsKeyFile = env (lit ''OATI_GATEWAY_TLS_KEY_FILE''), gc_tlsClientCAFile = env (lit ''OATI_GATEWAY_TLS_CLIENT_CA_FILE''),
       gc_production = production\<rparr>)))))))))))))))))))))))"

fun some_not_https :: "gateway_url_parser \<Rightarrow> jstring list \<Rightarrow> bool result" where
  "some_not_https url [] = Inr False"
| "some_not_https url (v # vs) = bindE (parse_url url v) (\<lambda>u. if url_protocol u \<noteq> lit ''https:'' then Inr True else some_not_https url vs)"

text \<open>A check that throws the message when the condition holds.\<close>

definition refuse_when :: "bool result \<Rightarrow> string \<Rightarrow> unit result" where
  "refuse_when condition message = bindE condition (\<lambda>c. if c then Inl (PlainErr (lit message)) else Inr ())"

definition configuration :: "gateway_url_parser \<Rightarrow> environment \<Rightarrow> gateway_config result" where
  "configuration url env =
     (let production = (env (lit ''OATI_ENVIRONMENT'') = Some (lit ''production'')) in
      bindE (read_configuration url env production) (\<lambda>config.
      bindE (refuse_when (Inr (gt_trustAnchors config = [] \<or> gc_resolverUrls config = []))
        ''at least one trust anchor and resolver URL are required'') (\<lambda>_.
      bindE (refuse_when (Inr (production \<and> (missing_text (gc_tlsCertFile config) \<or> missing_text (gc_tlsKeyFile config) \<or> missing_text (gc_tlsClientCAFile config))))
        ''production authorizer requires mTLS certificate, key, and client CA'') (\<lambda>_.
      bindE (refuse_when (Inr (production \<and> missing_text (gc_invalidationTokenFile config)))
        ''production authorizer requires an invalidation bearer token file'') (\<lambda>_.
      bindE (refuse_when (Inr (production \<and> (missing_text (gc_evidenceUrl config) \<or> missing_text (gc_evidenceTokenFile config))))
        ''production authorizer requires the evidence service URL and bearer token file'') (\<lambda>_.
      bindE (refuse_when (if production then some_not_https url (gc_resolverUrls config) else Inr False)
        ''production lookup resolvers must use HTTPS'') (\<lambda>_.
      bindE (refuse_when (if production then mapR (\<lambda>u. url_protocol u \<noteq> lit ''https:'') (parse_url url (gc_transitAddr config)) else Inr False)
        ''production Transit endpoint must use HTTPS'') (\<lambda>_.
      bindE (parse_url url (gc_valkeyUrl config)) (\<lambda>valkey.
      bindE (refuse_when (Inr (production \<and> url_protocol valkey \<noteq> lit ''rediss:''))
        ''production authorizer requires TLS-protected Valkey (rediss)'') (\<lambda>_.
      bindE (refuse_when (Inr (production \<and> (url_username valkey = [] \<or> url_password valkey = [] \<and> missing_text (gc_valkeyPasswordFile config))))
        ''production authorizer requires a Valkey ACL username and password file'') (\<lambda>_.
      Inr config)))))))))))"

section \<open>Tokens\<close>

text \<open>An injected token, else the trimmed content of the configured file.\<close>

definition file_token :: "(jstring \<Rightarrow> jstring result) \<Rightarrow> jstring option \<Rightarrow> jstring option \<Rightarrow> jstring option result" where
  "file_token read_file given path = (case given of Some t \<Rightarrow> Inr (Some t)
     | None \<Rightarrow> if missing_text path then Inr None else mapR (\<lambda>t. Some (trim t)) (read_file (the path)))"

definition configuredInvalidationToken :: "(jstring \<Rightarrow> jstring result) \<Rightarrow> jstring option \<Rightarrow> gateway_config \<Rightarrow> jstring option result" where
  "configuredInvalidationToken read_file given config =
     bindE (file_token read_file given (gc_invalidationTokenFile config)) (\<lambda>token.
     case token of
       Some t \<Rightarrow> if length t < 32 then Inl (PlainErr (lit ''gateway invalidation bearer token must contain at least 32 characters'')) else Inr token
     | None \<Rightarrow> if gc_production config then Inl (PlainErr (lit ''production authorizer requires an invalidation bearer token'')) else Inr None)"

definition configuredEvidenceToken :: "(jstring \<Rightarrow> jstring result) \<Rightarrow> jstring option \<Rightarrow> gateway_config \<Rightarrow> jstring option result" where
  "configuredEvidenceToken read_file given config =
     (if missing_text (gc_evidenceUrl config) then Inr None
      else bindE (file_token read_file given (gc_evidenceTokenFile config)) (\<lambda>token.
        case token of
          Some t \<Rightarrow> if length t < 32 then Inl (PlainErr (lit ''evidence bearer token must contain at least 32 characters'')) else Inr token
        | None \<Rightarrow> Inl (PlainErr (lit ''evidence bearer token must contain at least 32 characters''))))"

definition strip_bearer :: "jstring \<Rightarrow> jstring" where
  "strip_bearer s = (if startsWith s (lit ''Bearer '') then drop 7 s else s)"

definition cacheInvalidationAuthorized :: "jstring option \<Rightarrow> jstring option \<Rightarrow> bool" where
  "cacheInvalidationAuthorized authorization invalidationToken = (case invalidationToken of None \<Rightarrow> False
     | Some expected \<Rightarrow> 32 \<le> length expected \<and>
         TextEncoder_encode expected = TextEncoder_encode (case authorization of None \<Rightarrow> [] | Some value \<Rightarrow> strip_bearer value))"

section \<open>What a configuration guarantees\<close>

lemma parse_url_Inr [exn_iff]: "parse_url url v = Inr u \<longleftrightarrow> url v = Some u"
  by (simp add: parse_url_def split: option.splits)

lemma refuse_when_Inr [exn_iff]: "refuse_when c m = Inr x \<longleftrightarrow> c = Inr False"
  by (auto simp: refuse_when_def exn_iff)

lemma integer_variable_range:
  assumes "integer_variable env name fallback a b = Inr n"
  shows "a \<le> n \<and> n \<le> b"
  using assms by (auto simp: integer_variable_def Let_def split: jsnum.splits if_splits)

definition https :: "gateway_url_parser \<Rightarrow> jstring \<Rightarrow> bool" where
  "https url v \<longleftrightarrow> (\<exists>u. url v = Some u \<and> url_protocol u = lit ''https:'')"

lemma some_not_https_False: "some_not_https url vs = Inr False \<longleftrightarrow> list_all (https url) vs"
  by (induction vs) (auto simp: https_def exn_iff split: if_splits)

lemma missing_text_iff: "\<not> missing_text v \<longleftrightarrow> (\<exists>t. v = Some t \<and> t \<noteq> [])"
  by (cases v) (auto simp: missing_text_def)

text \<open>The ranges of the numbers of a configuration.\<close>

definition numbers_in_range :: "gateway_config \<Rightarrow> bool" where
  "numbers_in_range config \<longleftrightarrow> gc_port config \<in> {1..65535} \<and> gc_lookupTimeoutMs config \<in> {100..10000} \<and> gc_lookupCacheMs config \<in> {0..60000} \<and>
     gt_clockSkewMs config \<in> {0..300000} \<and> gt_maxProofAgeMs config \<in> {1000..900000} \<and> gt_maxTrustDepth config \<in> {1..32} \<and>
     gt_maxHeaderBytes config \<in> {1024..262144} \<and> gc_maxBodyBytes config \<in> {0..10485760} \<and>
     gc_receiptProofLifetimeMs config \<in> {10000..900000} \<and> gc_transitKeyVersion config \<in> {1..2147483647} \<and>
     gc_evidenceTimeoutMs config \<in> {100..10000} \<and> gc_transitTimeoutMs config \<in> {100..10000}"

text \<open>What production demands: mutual TLS, authenticated side channels and encrypted connections.\<close>

definition production_ready :: "gateway_url_parser \<Rightarrow> gateway_config \<Rightarrow> bool" where
  "production_ready url config \<longleftrightarrow>
     \<not> missing_text (gc_tlsCertFile config) \<and> \<not> missing_text (gc_tlsKeyFile config) \<and> \<not> missing_text (gc_tlsClientCAFile config) \<and>
     \<not> missing_text (gc_invalidationTokenFile config) \<and> \<not> missing_text (gc_evidenceUrl config) \<and> \<not> missing_text (gc_evidenceTokenFile config) \<and>
     list_all (https url) (gc_resolverUrls config) \<and> https url (gc_transitAddr config) \<and>
     (\<exists>v. url (gc_valkeyUrl config) = Some v \<and> url_protocol v = lit ''rediss:'' \<and> url_username v \<noteq> [] \<and>
        (url_password v \<noteq> [] \<or> \<not> missing_text (gc_valkeyPasswordFile config))) \<and>
     (\<exists>v u. url v = Some u \<and> url_protocol u = lit ''https:'' \<and> gc_externalOrigin config = url_origin u)"

lemma normalizedOrigin_Inr:
  "normalizedOrigin url v p = Inr r \<Longrightarrow> p \<Longrightarrow> \<exists>u. url v = Some u \<and> url_protocol u = lit ''https:'' \<and> r = url_origin u"
  by (auto simp: normalizedOrigin_def exn_iff split: if_splits)

lemma Inr_field: "Inr x = Inr y \<Longrightarrow> f x = b \<Longrightarrow> f y = b"
  by simp

lemma external_origin:
  "normalizedOrigin url v p = Inr r \<Longrightarrow> Inr x = Inr config \<Longrightarrow> gc_externalOrigin x = r \<Longrightarrow>
     p \<longrightarrow> (\<exists>v u. url v = Some u \<and> url_protocol u = lit ''https:'' \<and> gc_externalOrigin config = url_origin u)"
  using normalizedOrigin_Inr [of url v p r] by auto

lemma read_configuration_Inr:
  assumes "read_configuration url env p = Inr config"
  shows "numbers_in_range config" "gc_production config = p"
    "p \<longrightarrow> (\<exists>v u. url v = Some u \<and> url_protocol u = lit ''https:'' \<and> gc_externalOrigin config = url_origin u)"
proof -
  show "numbers_in_range config"
    using assms unfolding read_configuration_def exn_iff
    by (elim exE conjE) ((drule integer_variable_range)+, clarsimp simp: numbers_in_range_def)
  show "gc_production config = p"
    using assms unfolding read_configuration_def exn_iff by (elim exE conjE) (erule Inr_field [where f = gc_production], simp (no_asm))
  show "p \<longrightarrow> (\<exists>v u. url v = Some u \<and> url_protocol u = lit ''https:'' \<and> gc_externalOrigin config = url_origin u)"
    using assms unfolding read_configuration_def exn_iff
    by (elim exE conjE) (erule external_origin, assumption, simp (no_asm))
qed

text \<open>
  C35: Whatever the environment, a configuration that is returned is complete: it has a trust anchor
  and a resolver, every number lies in its documented range, and in production it has the files
  for mutual TLS, bearer tokens for invalidation and evidence, only HTTPS resolvers, Transit endpoint
  and external origin, and a TLS connection to Valkey with a user name and a password.
\<close>

theorem configuration_complete:
  assumes "configuration url env = Inr config"
  shows "gt_trustAnchors config \<noteq> [] \<and> gc_resolverUrls config \<noteq> [] \<and> numbers_in_range config \<and>
     (env (lit ''OATI_ENVIRONMENT'') = Some (lit ''production'') \<longrightarrow> production_ready url config)"
proof -
  let ?p = "env (lit ''OATI_ENVIRONMENT'') = Some (lit ''production'')"
  from assms obtain valkey where c: "read_configuration url env ?p = Inr config" "url (gc_valkeyUrl config) = Some valkey"
    "gt_trustAnchors config \<noteq> []" "gc_resolverUrls config \<noteq> []"
    and s: "?p \<longrightarrow> \<not> missing_text (gc_tlsCertFile config) \<and> \<not> missing_text (gc_tlsKeyFile config) \<and> \<not> missing_text (gc_tlsClientCAFile config)"
      "?p \<longrightarrow> \<not> missing_text (gc_invalidationTokenFile config)"
      "?p \<longrightarrow> \<not> missing_text (gc_evidenceUrl config) \<and> \<not> missing_text (gc_evidenceTokenFile config)"
      "?p \<longrightarrow> list_all (https url) (gc_resolverUrls config)" "?p \<longrightarrow> https url (gc_transitAddr config)"
      "?p \<longrightarrow> url_protocol valkey = lit ''rediss:'' \<and> url_username valkey \<noteq> [] \<and> (url_password valkey \<noteq> [] \<or> \<not> missing_text (gc_valkeyPasswordFile config))"
    unfolding configuration_def Let_def
    by (auto simp: exn_iff some_not_https_False https_def split: if_splits)
  with read_configuration_Inr [OF c(1)] show ?thesis by (auto simp: production_ready_def)
qed


definition environment_sample :: environment where
  "environment_sample = map_of (map (\<lambda>(k, v). (lit k, lit v))
     [(''OATI_ENVIRONMENT'', ''production''), (''OATI_GATEWAY_EXTERNAL_ORIGIN'', ''https://g''), (''OATI_GATEWAY_EXPECTED_AUDIENCE'', ''a''),
      (''OATI_GATEWAY_RECEIPT_ISSUER'', ''i''), (''OATI_GATEWAY_RECEIPT_VERIFICATION_METHOD'', ''k''), (''OATI_GATEWAY_TRUST_ANCHORS'', ''root''),
      (''OATI_LOOKUP_RESOLVER_URLS'', ''https://r''), (''VALKEY_URL'', ''rediss://v''), (''VALKEY_PASSWORD_FILE'', ''f''), (''OATI_TRANSIT_ADDR'', ''https://t''),
      (''OATI_GATEWAY_TRANSIT_KEY_NAME'', ''n''), (''OATI_GATEWAY_TRANSIT_KEY_VERSION'', ''1''), (''OATI_TRANSIT_TOKEN_FILE'', ''f''),
      (''OATI_GATEWAY_EVIDENCE_URL'', ''https://e''), (''OATI_GATEWAY_EVIDENCE_TOKEN_FILE'', ''f''), (''OATI_GATEWAY_INVALIDATION_TOKEN_FILE'', ''f''),
      (''OATI_GATEWAY_TLS_CERT_FILE'', ''c''), (''OATI_GATEWAY_TLS_KEY_FILE'', ''c''), (''OATI_GATEWAY_TLS_CLIENT_CA_FILE'', ''c'')])"

definition url_sample :: gateway_url_parser where
  "url_sample v = Some \<lparr>url_protocol = (if v = lit ''rediss://v'' then lit ''rediss:'' else lit ''https:''),
     url_username = (if v = lit ''rediss://v'' then lit ''u'' else []), url_password = [], url_pathname = lit ''/'', url_search = [], url_hash = [],
     url_origin = v, url_href = v @ lit ''/''\<rparr>"

lemma default_number:
  "env (lit name) = None \<Longrightarrow> a \<le> n \<Longrightarrow> n \<le> b \<Longrightarrow> \<bar>n\<bar> \<le> 2 ^ 53 \<Longrightarrow> integer_variable env name (Some n) a b = Inr n"
  by (simp add: integer_variable_def num_of_int_def fl_of_int_exact)

lemma sample_number: "integer_variable environment_sample ''OATI_GATEWAY_TRANSIT_KEY_VERSION'' None 1 2147483647 = Inr 1"
proof -
  have "string_to_number (lit ''1'') = Fin 1" by code_simp
  then show ?thesis by (simp add: integer_variable_def environment_sample_def)
qed

lemma trim_spaceless: "list_all (\<lambda>c. \<not> is_space c) s \<Longrightarrow> trim s = s"
proof -
  assume *: "list_all (\<lambda>c. \<not> is_space c) s"
  then have "list_all (\<lambda>c. \<not> is_space c) (rev s)" by (simp add: list_all_iff)
  have keep: "list_all (\<lambda>c. \<not> is_space c) t \<Longrightarrow> dropWhile is_space t = t" for t by (cases t) simp_all
  show ?thesis using keep [OF *] keep [OF \<open>list_all _ (rev s)\<close>] by (simp add: trim_def)
qed

lemma sample_texts:
  "list_of (lit ''root'') = [lit ''root'']" "list_of (lit ''https://r'') = [lit ''https://r'']"
  "strip_trailing_slash (lit ''https://t'') = lit ''https://t''" "strip_trailing_slash (lit ''https://e'' @ lit ''/'') = lit ''https://e''"
  by code_simp+

lemma plain_literals:
  "list_all (\<lambda>c. \<not> is_space c) (lit s) \<Longrightarrow> env (lit name) = Some (lit s) \<Longrightarrow> s \<noteq> [] \<Longrightarrow> required_variable env name = Inr (lit s)"
  by (simp add: required_variable_def trim_spaceless)

lemma environment_sample_values:
  "environment_sample (lit ''PORT'') = None"
  "environment_sample (lit ''OATI_GATEWAY_CLOCK_SKEW_MS'') = None"
  "environment_sample (lit ''OATI_GATEWAY_MAX_PROOF_AGE_MS'') = None"
  "environment_sample (lit ''OATI_GATEWAY_MAX_TRUST_DEPTH'') = None"
  "environment_sample (lit ''OATI_GATEWAY_MAX_HEADER_BYTES'') = None"
  "environment_sample (lit ''OATI_GATEWAY_MAX_BODY_BYTES'') = None"
  "environment_sample (lit ''OATI_GATEWAY_RECEIPT_PROOF_LIFETIME_MS'') = None"
  "environment_sample (lit ''OATI_GATEWAY_EVIDENCE_TIMEOUT_MS'') = None"
  "environment_sample (lit ''OATI_GATEWAY_TRANSIT_TIMEOUT_MS'') = None"
  "environment_sample (lit ''OATI_GATEWAY_LOOKUP_TIMEOUT_MS'') = None"
  "environment_sample (lit ''OATI_GATEWAY_LOOKUP_CACHE_MS'') = None"
  "environment_sample (lit ''OATI_ENVIRONMENT'') = Some (lit ''production'')"
  "environment_sample (lit ''OATI_GATEWAY_EXTERNAL_ORIGIN'') = Some (lit ''https://g'')"
  "environment_sample (lit ''OATI_GATEWAY_EXPECTED_AUDIENCE'') = Some (lit ''a'')"
  "environment_sample (lit ''OATI_GATEWAY_RECEIPT_ISSUER'') = Some (lit ''i'')"
  "environment_sample (lit ''OATI_GATEWAY_RECEIPT_VERIFICATION_METHOD'') = Some (lit ''k'')"
  "environment_sample (lit ''OATI_GATEWAY_TRUST_ANCHORS'') = Some (lit ''root'')"
  "environment_sample (lit ''OATI_LOOKUP_RESOLVER_URLS'') = Some (lit ''https://r'')"
  "environment_sample (lit ''VALKEY_URL'') = Some (lit ''rediss://v'')"
  "environment_sample (lit ''VALKEY_PASSWORD_FILE'') = Some (lit ''f'')"
  "environment_sample (lit ''OATI_TRANSIT_ADDR'') = Some (lit ''https://t'')"
  "environment_sample (lit ''OATI_GATEWAY_TRANSIT_KEY_NAME'') = Some (lit ''n'')"
  "environment_sample (lit ''OATI_GATEWAY_TRANSIT_KEY_VERSION'') = Some (lit ''1'')"
  "environment_sample (lit ''OATI_TRANSIT_TOKEN_FILE'') = Some (lit ''f'')"
  "environment_sample (lit ''OATI_GATEWAY_EVIDENCE_URL'') = Some (lit ''https://e'')"
  "environment_sample (lit ''OATI_GATEWAY_EVIDENCE_TOKEN_FILE'') = Some (lit ''f'')"
  "environment_sample (lit ''OATI_GATEWAY_INVALIDATION_TOKEN_FILE'') = Some (lit ''f'')"
  "environment_sample (lit ''OATI_GATEWAY_TLS_CERT_FILE'') = Some (lit ''c'')"
  "environment_sample (lit ''OATI_GATEWAY_TLS_KEY_FILE'') = Some (lit ''c'')"
  "environment_sample (lit ''OATI_GATEWAY_TLS_CLIENT_CA_FILE'') = Some (lit ''c'')"
  by (simp_all add: environment_sample_def)

lemma environment_sample_read: "\<exists>config. configuration url_sample environment_sample = Inr config"
proof -
  have plain: "list_all (\<lambda>c. \<not> is_space c) (lit s)"
    if "s \<in> {''https://g'', ''a'', ''i'', ''k'', ''root'', ''https://r'', ''rediss://v'', ''https://t'', ''n'', ''f'', ''https://e''}" for s
    using that by (auto simp: lit_def is_space_def)
  have required: "required_variable environment_sample name = Inr (lit v)"
    if "environment_sample (lit name) = Some (lit v)"
      and "v \<in> {''https://g'', ''a'', ''i'', ''k'', ''root'', ''https://r'', ''rediss://v'', ''https://t'', ''n'', ''f''}" for name v
    using that by (intro plain_literals plain) auto
  note numbers = default_number [where env = environment_sample]
  have evidence: "optionalServiceUrl url_sample (Some (lit ''https://e'')) True ''OATI_GATEWAY_EVIDENCE_URL'' =
      Inr (Some (lit ''https://e''))"
    by (simp add: optionalServiceUrl_def environment_sample_def trim_spaceless plain parse_url_def url_sample_def sample_texts)
  have origin: "normalizedOrigin url_sample (lit ''https://g'') True = Inr (lit ''https://g'')"
    by (simp add: normalizedOrigin_def parse_url_def url_sample_def)
  have "\<exists>config. read_configuration url_sample environment_sample True = Inr config \<and> gt_trustAnchors config = [lit ''root''] \<and>
      gc_resolverUrls config = [lit ''https://r''] \<and> gc_tlsCertFile config = Some (lit ''c'') \<and> gc_tlsKeyFile config = Some (lit ''c'') \<and>
      gc_tlsClientCAFile config = Some (lit ''c'') \<and> gc_invalidationTokenFile config = Some (lit ''f'') \<and> gc_evidenceUrl config = Some (lit ''https://e'') \<and>
      gc_evidenceTokenFile config = Some (lit ''f'') \<and> gc_transitAddr config = lit ''https://t'' \<and> gc_valkeyUrl config = lit ''rediss://v'' \<and>
      gc_valkeyPasswordFile config = Some (lit ''f'')"
    unfolding read_configuration_def
    by (simp add: required numbers evidence origin sample_number sample_texts environment_sample_values default_variable_def)
  moreover have "environment_sample (lit ''OATI_ENVIRONMENT'') = Some (lit ''production'')" by (simp add: environment_sample_def)
  ultimately show ?thesis
    by (auto simp: configuration_def refuse_when_def parse_url_def url_sample_def missing_text_def)
qed

theorem configuration_complete_witness:
  "\<exists>config. configuration url_sample environment_sample = Inr config \<and> production_ready url_sample config"
proof -
  obtain config where "configuration url_sample environment_sample = Inr config" using environment_sample_read by blast
  from configuration_complete [OF this] this show ?thesis by (auto simp: environment_sample_def)
qed

end
