(* ===== verification/Development.thy ===== *)
theory Development
  imports Signing Validation Projection Effects OrderedMap Stringify
begin

text \<open>
  The development issuer of \<^verbatim>\<open>development.ts\<close>: an in-memory registry that registers agents, issues
  Mandates and receipts, signs transactions and withdraws credentials.  The issuer's private
  fields are a record, its methods actions on it; a call runs to its end before the next one.
  What a call draws from the host (a key pair, random identifiers) is an argument; the legacy date
  parser, the case tables, the schema validators and the Web Crypto API are the host's.
\<close>

section \<open>The issuer\<close>

record 'k dev_issuer =
  di_organisationId :: jstring
  di_issuerId :: jstring
  di_verificationMethod :: jstring
  di_privateKey :: 'k
  di_publicKey :: jobject
  di_records :: "(jstring \<times> jobject) list"
  di_agentKeys :: "(jstring \<times> ('k \<times> jstring)) list"
  di_sequence :: nat

record 'k dev_host =
  dh_legacy :: legacy_dates
  dh_table :: case_map
  dh_validators :: validators
  dh_crypto :: "'k host_crypto"

text \<open>\<^verbatim>\<open>generateKey\<close> with the exported public key, and \<^verbatim>\<open>randomUUID\<close> (at most two a call).\<close>

record 'k draws =
  dr_pair :: "('k \<times> jobject) result"
  dr_uuid :: jstring
  dr_uuid2 :: jstring

type_synonym ('k, 'a) dev_act = "('k dev_issuer, 'a) act"

definition updateA :: "('w \<Rightarrow> 'w) \<Rightarrow> ('w, unit) act" where
  "updateA f w = (Inr (), f w)"

section \<open>Inputs\<close>

record DevelopmentAgentInput =
  dai_slug :: jstring
  dai_displayName :: jstring
  dai_capabilities :: "jstring list option"
  dai_protocols :: "jstring list option"

record DevelopmentMandateInput =
  dmi_purpose :: jstring
  dmi_actions :: "jstring list"
  dmi_resources :: "jstring list option"
  dmi_counterparties :: "jstring list option"
  dmi_destinations :: "jstring list option"
  dmi_limits :: "jobject option"
  dmi_dataUse :: "jobject option"
  dmi_profile :: "jstring option"
  dmi_extensions :: "jobject option"
  dmi_expiresInSeconds :: "jsnum option"

record DevelopmentTransactionInput =
  dti_action :: jstring
  dti_resource :: jstring
  dti_purpose :: "jstring option"
  dti_destination :: "jstring option"
  dti_counterparty :: "jstring option"
  dti_protocol :: "jstring option"
  dti_commercialProfile :: "jstring option"
  dti_requestDigest :: "jstring option"
  dti_profile :: "jstring option"
  dti_extensions :: "jobject option"
  dti_audience :: "jstring option"
  dti_expiresInSeconds :: "jsnum option"

record DevelopmentReceiptInput =
  dri_transaction :: TransactionEnvelope
  dri_decision :: jstring
  dri_outcome :: jstring
  dri_audience :: jstring
  dri_profile :: "jstring option"
  dri_extensions :: "jobject option"
  dri_policyDigest :: "jstring option"

datatype DevelopmentRecordStatus = DevSuspended | DevRevoked

definition status_text :: "DevelopmentRecordStatus \<Rightarrow> jstring" where
  "status_text s = (case s of DevSuspended \<Rightarrow> lit ''suspended'' | DevRevoked \<Rightarrow> lit ''revoked'')"

datatype status_subject = SubjectAgent | SubjectPassport | SubjectMandate

definition subject_text :: "status_subject \<Rightarrow> jstring" where
  "subject_text s = (case s of SubjectAgent \<Rightarrow> lit ''agent'' | SubjectPassport \<Rightarrow> lit ''passport'' | SubjectMandate \<Rightarrow> lit ''mandate'')"

section \<open>Identifiers and dates\<close>

definition slug_unit :: "code_unit \<Rightarrow> bool" where
  "slug_unit u \<longleftrightarrow> is_lower u \<or> is_digit u \<or> u \<in> {46, 95, 58, 45}"

text \<open>\<^verbatim>\<open>replace(/[^a-z0-9._:-]+/g, "-")\<close>; the flag says that the run of a dash goes on.\<close>

fun dash_runs :: "bool \<Rightarrow> jstring \<Rightarrow> jstring" where
  "dash_runs run [] = []"
| "dash_runs run (u # us) = (if slug_unit u then u # dash_runs False us else if run then dash_runs True us else 45 # dash_runs True us)"

definition strip_dashes :: "jstring \<Rightarrow> jstring" where
  "strip_dashes s = rev (dropWhile (\<lambda>u. u = 45) (rev (dropWhile (\<lambda>u. u = 45) s)))"

definition identifier_of_slug :: "case_map \<Rightarrow> jstring \<Rightarrow> jstring result" where
  "identifier_of_slug table value =
     (let normalized = strip_dashes (dash_runs False (toLowerCase table (trim value)))
      in if normalized = [] then Inl (TypeErr (lit ''A valid slug is required'')) else Inr normalized)"

text \<open>A \<^verbatim>\<open>Date\<close> is its time value, which \<^verbatim>\<open>None\<close> makes invalid.\<close>

definition validDate :: "int option \<Rightarrow> jstring \<Rightarrow> int result" where
  "validDate value name = (case value of None \<Rightarrow> Inl (TypeErr (name @ lit '' must be a valid Date'')) | Some t \<Rightarrow> Inr t)"

definition time_limit :: int where
  "time_limit = 8640000000000000"

definition date_at :: "int \<Rightarrow> jsnum \<Rightarrow> int option" where
  "date_at now ms = (case num_add (num_of_int now) ms of
     Fin x \<Rightarrow> if of_int time_limit < \<bar>x\<bar> then None else Some (if 0 \<le> x then \<lfloor>x\<rfloor> else \<lceil>x\<rceil>) | _ \<Rightarrow> None)"

definition iso_date :: "int option \<Rightarrow> jstring result" where
  "iso_date d = (case d of None \<Rightarrow> Inl (RangeErr (lit ''Invalid time value'')) | Some t \<Rightarrow> Inr (toISOString t))"

definition one_day :: jsnum where
  "one_day = num_of_int 86400000"

definition unit36 :: "nat \<Rightarrow> code_unit" where
  "unit36 d = of_nat (if d < 10 then 48 + d else 87 + d)"

function radix36 :: "nat \<Rightarrow> jstring" where
  "radix36 n = (if n < 36 then [unit36 n] else radix36 (n div 36) @ [unit36 (n mod 36)])"
  by pat_completeness auto
termination by (relation "measure id") auto

declare radix36.simps [simp del]

definition base36 :: "int \<Rightarrow> jstring" where
  "base36 i = (if i < 0 then 45 # radix36 (nat (- i)) else radix36 (nat i))"

definition nextId :: "int \<Rightarrow> ('k, jstring) dev_act" where
  "nextId now w = (let w' = w\<lparr>di_sequence := di_sequence w + 1\<rparr> in (Inr (base36 now @ lit ''-'' @ radix36 (di_sequence w')), w'))"

section \<open>Records\<close>

definition record_key :: "jstring \<Rightarrow> jstring \<Rightarrow> jstring" where
  "record_key type i = type @ lit '':'' @ i"

definition record_at :: "'k dev_issuer \<Rightarrow> jstring \<Rightarrow> jstring \<Rightarrow> jobject option" where
  "record_at w type i = map_of (di_records w) (record_key type i)"

definition put :: "jobject \<Rightarrow> ('k, unit) dev_act" where
  "put r = updateA (\<lambda>w. w\<lparr>di_records := om_set (record_key (String (jget r (lit ''type''))) (String (jget r (lit ''id'')))) r (di_records w)\<rparr>)"

definition some_text :: "string \<Rightarrow> jstring option \<Rightarrow> jobject" where
  "some_text k v = (case v of None \<Rightarrow> [] | Some t \<Rightarrow> if t = [] then [] else [(lit k, JStr t)])"

definition some_texts :: "string \<Rightarrow> jstring list option \<Rightarrow> jobject" where
  "some_texts k v = (case v of None \<Rightarrow> [] | Some ts \<Rightarrow> [(lit k, JArr (map JStr ts))])"

definition some_object :: "string \<Rightarrow> jobject option \<Rightarrow> jobject" where
  "some_object k v = (case v of None \<Rightarrow> [] | Some r \<Rightarrow> [(lit k, JObj r)])"

definition nullish_or :: "json option \<Rightarrow> json option \<Rightarrow> json option" where
  "nullish_or a b = (if a = None \<or> a = Some JNull then b else a)"

definition date_member :: "string \<Rightarrow> json option \<Rightarrow> jobject" where
  "date_member k v = (if truthy v then [(lit k, JStr (String v))] else [])"

definition credentialRecord :: "string \<Rightarrow> jobject \<Rightarrow> jstring \<Rightarrow> jstring \<Rightarrow> jobject" where
  "credentialRecord type value displayName organisationId =
     (let proof = (case as_object (jget value (lit ''proof'')) of Some p \<Rightarrow> p | None \<Rightarrow> []);
          issuedAt = nullish_or (jget value (lit ''issued_at'')) (nullish_or (jget value (lit ''not_before'')) (jget value (lit ''occurred_at'')));
          expiresAt = nullish_or (jget value (lit ''expires_at'')) (jget proof (lit ''expires''))
      in [(lit ''type'', JStr (lit type)), (lit ''id'', JStr (String (jget value (lit ''id'')))), (lit ''display_name'', JStr displayName),
          (lit ''status'', JStr (if type = ''receipt'' then lit ''active'' else String (jget value (lit ''status'')))),
          (lit ''issuer'', JStr (String (jget value (lit ''issuer'')))), (lit ''organisation_id'', JStr organisationId)]
         @ date_member ''issued_at'' issuedAt @ date_member ''expires_at'' expiresAt @
         [(lit ''proof_status'', JStr (lit ''verified'')),
          (lit ''public_attributes'', JObj [(lit ''subject'', JStr (String (nullish_or (jget value (lit ''subject'')) (jget value (lit ''id'')))))]),
          (lit ''private_attributes'', JObj [(lit ''credential'', JObj value)])])"

text \<open>The builders of \<^verbatim>\<open>builders.ts\<close> on documents.\<close>

definition versioned :: "jobject \<Rightarrow> jobject" where
  "versioned input = put_member (lit ''oati_version'') (JStr version_1_0) input"

section \<open>Construction\<close>

definition organisation_record :: "jstring \<Rightarrow> jstring \<Rightarrow> jstring \<Rightarrow> jstring \<Rightarrow> jobject" where
  "organisation_record organisationId issuerId displayName issuedAt =
     [(lit ''type'', JStr (lit ''organisation'')), (lit ''id'', JStr organisationId), (lit ''display_name'', JStr displayName),
      (lit ''status'', JStr (lit ''active'')), (lit ''issuer'', JStr issuerId), (lit ''issued_at'', JStr issuedAt),
      (lit ''assurance_level'', JStr (lit ''development'')), (lit ''proof_status'', JStr (lit ''verified'')),
      (lit ''public_attributes'', JObj [(lit ''environment'', JStr (lit ''development''))])]"

definition issuer_record :: "jstring \<Rightarrow> jstring \<Rightarrow> jstring \<Rightarrow> jstring \<Rightarrow> jobject" where
  "issuer_record organisationId issuerId displayName issuedAt =
     [(lit ''type'', JStr (lit ''issuer'')), (lit ''id'', JStr issuerId), (lit ''display_name'', JStr (displayName @ lit '' development issuer'')),
      (lit ''status'', JStr (lit ''active'')), (lit ''issuer'', JStr issuerId), (lit ''organisation_id'', JStr organisationId),
      (lit ''issued_at'', JStr issuedAt), (lit ''proof_status'', JStr (lit ''verified'')),
      (lit ''public_attributes'', JObj [(lit ''environment'', JStr (lit ''development''))])]"

definition key_record :: "jstring \<Rightarrow> jstring \<Rightarrow> jstring \<Rightarrow> jstring \<Rightarrow> jstring \<Rightarrow> jstring \<Rightarrow> jstring \<Rightarrow> jobject \<Rightarrow> jobject" where
  "key_record i displayName issuerId organisationId issuedAt expiresAt controller jwk =
     [(lit ''type'', JStr (lit ''key'')), (lit ''id'', JStr i), (lit ''display_name'', JStr displayName), (lit ''status'', JStr (lit ''active'')),
      (lit ''issuer'', JStr issuerId), (lit ''organisation_id'', JStr organisationId), (lit ''issued_at'', JStr issuedAt),
      (lit ''expires_at'', JStr expiresAt), (lit ''proof_status'', JStr (lit ''verified'')),
      (lit ''public_attributes'', JObj [(lit ''controller'', JStr controller), (lit ''algorithm'', JStr (lit ''EdDSA'')),
         (lit ''public_key_jwk'', JStr (JSON_stringify (JObj jwk)))])]"

definition new_issuer :: "'k dev_host \<Rightarrow> jstring \<Rightarrow> jstring \<Rightarrow> 'k \<Rightarrow> jobject \<Rightarrow> int \<Rightarrow> 'k dev_issuer result" where
  "new_issuer host slugInput displayName privateKey publicKey now =
     bindE (identifier_of_slug (dh_table host) slugInput) (\<lambda>slug.
     let organisationId = lit ''oati:org:'' @ slug; issuerId = lit ''oati:issuer:'' @ slug @ lit '':development'';
         verificationMethod = lit ''oati:key:'' @ slug @ lit '':development-1''; issuedAt = toISOString now
     in bindE (iso_date (date_at now one_day)) (\<lambda>keyExpiry.
        Inr (snd (bindA (put (organisation_record organisationId issuerId displayName issuedAt)) (\<lambda>_.
          bindA (put (issuer_record organisationId issuerId displayName issuedAt)) (\<lambda>_.
          put (key_record verificationMethod (lit ''Development signing key'') issuerId organisationId issuedAt keyExpiry issuerId publicKey)))
          \<lparr>di_organisationId = organisationId, di_issuerId = issuerId, di_verificationMethod = verificationMethod, di_privateKey = privateKey,
           di_publicKey = publicKey, di_records = [], di_agentKeys = [], di_sequence = 0\<rparr>))))"

definition create_issuer :: "'k dev_host \<Rightarrow> 'k draws \<Rightarrow> jstring \<Rightarrow> jstring \<Rightarrow> int option \<Rightarrow> 'k dev_issuer result" where
  "create_issuer host drawn slug displayName date =
     (if trim displayName = [] then Inl (TypeErr (lit ''displayName is required''))
      else bindE (validDate date (lit ''now'')) (\<lambda>now.
        bindE (dr_pair drawn) (\<lambda>(privateKey, publicKey). new_issuer host slug displayName privateKey publicKey now)))"

section \<open>Operations\<close>

definition dev_signing_options :: "jstring \<Rightarrow> jstring \<Rightarrow> jstring \<Rightarrow> int \<Rightarrow> int option \<Rightarrow> SigningOptions" where
  "dev_signing_options verificationMethod audience nonce created expires =
     \<lparr>so_algorithm = EdDSA, so_verificationMethod = verificationMethod, so_audience = Audience audience, so_nonce = nonce,
      so_created = Some (DateValue (Some created)), so_expires = DateValue expires\<rparr>"

definition dev_sign :: "'k dev_host \<Rightarrow> jstring \<Rightarrow> jobject \<Rightarrow> jstring \<Rightarrow> int \<Rightarrow> int option \<Rightarrow> ('k, jobject) dev_act" where
  "dev_sign host uuid value audience created expires =
     bindA (nextId created) (\<lambda>i. \<lambda>w.
       liftA (signDocument (dh_legacy host) created (dh_crypto host) (KeyObject (di_privateKey w)) value
         (dev_signing_options (di_verificationMethod w) audience (uuid @ lit '':'' @ i) created expires)) w)"

definition assert_schema :: "'k dev_host \<Rightarrow> string \<Rightarrow> jobject \<Rightarrow> unit result" where
  "assert_schema host name document = assertSchema (dh_table host) (dh_validators host) (lit name) (JObj document)"

definition registered_protocols :: "DevelopmentAgentInput \<Rightarrow> jstring list" where
  "registered_protocols input = (case dai_protocols input of Some ps \<Rightarrow> ps | None \<Rightarrow> [lit ''http''])"

definition agent_passport :: "'k dev_issuer \<Rightarrow> DevelopmentAgentInput \<Rightarrow> jstring \<Rightarrow> jstring \<Rightarrow> jobject \<Rightarrow> jstring \<Rightarrow> jstring \<Rightarrow> jobject" where
  "agent_passport w input agentId method publicKey issuedAt expiresAt = versioned
     [(lit ''id'', JStr agentId), (lit ''organisation_id'', JStr (di_organisationId w)), (lit ''issuer'', JStr (di_issuerId w)),
      (lit ''status'', JStr (lit ''active'')), (lit ''display_name'', JStr (dai_displayName input)),
      (lit ''capabilities'', JArr (map JStr (case dai_capabilities input of Some cs \<Rightarrow> cs | None \<Rightarrow> []))),
      (lit ''protocols'', JArr (map JStr (registered_protocols input))), (lit ''assurance_level'', JStr (lit ''development'')),
      (lit ''verification_methods'', JArr [JObj [(lit ''id'', JStr method), (lit ''type'', JStr (lit ''JsonWebKey2020'')),
         (lit ''controller'', JStr agentId), (lit ''public_key_jwk'', JObj publicKey)]]),
      (lit ''issued_at'', JStr issuedAt), (lit ''expires_at'', JStr expiresAt)]"

definition agent_record :: "'k dev_issuer \<Rightarrow> DevelopmentAgentInput \<Rightarrow> jstring \<Rightarrow> jstring \<Rightarrow> jstring \<Rightarrow> jobject \<Rightarrow> jobject" where
  "agent_record w input agentId issuedAt expiresAt passport =
     [(lit ''type'', JStr (lit ''agent'')), (lit ''id'', JStr agentId), (lit ''display_name'', JStr (dai_displayName input)),
      (lit ''status'', JStr (lit ''active'')), (lit ''issuer'', JStr (di_issuerId w)), (lit ''organisation_id'', JStr (di_organisationId w)),
      (lit ''issued_at'', JStr issuedAt), (lit ''expires_at'', JStr expiresAt), (lit ''assurance_level'', JStr (lit ''development'')),
      (lit ''proof_status'', JStr (lit ''verified'')),
      (lit ''public_attributes'', JObj [(lit ''protocols'', JStr (join (lit '','') (registered_protocols input)))]),
      (lit ''private_attributes'', JObj [(lit ''passport'', JObj passport)])]"

definition agent_slug :: "'k dev_issuer \<Rightarrow> jstring" where
  "agent_slug w = drop 9 (di_organisationId w)"

definition registerAgent :: "'k dev_host \<Rightarrow> 'k draws \<Rightarrow> DevelopmentAgentInput \<Rightarrow> int option \<Rightarrow> ('k, jobject) dev_act" where
  "registerAgent host drawn input date w =
     bindA (liftA (bindE (validDate date (lit ''now'')) (\<lambda>now.
         if trim (dai_displayName input) = [] then Inl (TypeErr (lit ''displayName is required''))
         else bindE (identifier_of_slug (dh_table host) (dai_slug input)) (\<lambda>slug. Inr (now, slug))))) (\<lambda>(now, slug).
     let agentId = lit ''oati:agent:'' @ agent_slug w @ lit '':'' @ slug; expires = date_at now one_day;
         method = lit ''oati:key:'' @ agent_slug w @ lit '':'' @ slug @ lit '':development-1'' in
     bindA (liftA (if record_at w (lit ''agent'') agentId \<noteq> None then Inl (RangeErr (lit ''Agent '' @ agentId @ lit '' is already registered''))
         else dr_pair drawn)) (\<lambda>(privateKey, publicKey).
     bindA (updateA (\<lambda>w. w\<lparr>di_agentKeys := om_set agentId (privateKey, method) (di_agentKeys w)\<rparr>)) (\<lambda>_.
     bindA (liftA (iso_date expires)) (\<lambda>expiresAt.
     bindA (dev_sign host (dr_uuid drawn) (agent_passport w input agentId method publicKey (toISOString now) expiresAt)
         (lit ''oati:development:passport'') now expires) (\<lambda>passport.
     bindA (liftA (assert_schema host ''passport'' passport)) (\<lambda>_.
     bindA (put (agent_record w input agentId (toISOString now) expiresAt passport)) (\<lambda>_.
     bindA (put (credentialRecord ''passport'' passport (dai_displayName input) (di_organisationId w))) (\<lambda>_.
     bindA (put (key_record method (dai_displayName input @ lit '' transaction key'') (di_issuerId w) (di_organisationId w) (toISOString now) expiresAt agentId publicKey)) (\<lambda>_.
     returnA passport))))))))) w"

definition lifetime_of :: "jsnum option \<Rightarrow> int \<Rightarrow> jsnum result" where
  "lifetime_of seconds fallback = (let lifetime = (case seconds of Some s \<Rightarrow> s | None \<Rightarrow> num_of_int fallback)
     in if num_is_integer lifetime \<and> num_less (Fin 0) lifetime then Inr lifetime else Inl (RangeErr (lit ''expiresInSeconds must be a positive integer'')))"

definition expiry_after :: "int \<Rightarrow> jsnum \<Rightarrow> int option" where
  "expiry_after now lifetime = date_at now (num_mul lifetime (num_of_int 1000))"

definition mandate_document :: "'k dev_issuer \<Rightarrow> jstring \<Rightarrow> jstring \<Rightarrow> DevelopmentMandateInput \<Rightarrow> jstring \<Rightarrow> jstring \<Rightarrow> jobject" where
  "mandate_document w mandateId agentId input notBefore expiresAt = versioned (
     [(lit ''id'', JStr mandateId), (lit ''issuer'', JStr (di_issuerId w)), (lit ''subject'', JStr agentId),
      (lit ''purpose'', JStr (dmi_purpose input)), (lit ''actions'', JArr (map JStr (dmi_actions input)))]
     @ some_texts ''resources'' (dmi_resources input) @ some_texts ''counterparties'' (dmi_counterparties input)
     @ some_texts ''destinations'' (dmi_destinations input) @ some_object ''limits'' (dmi_limits input) @ some_object ''data_use'' (dmi_dataUse input)
     @ some_text ''profile'' (dmi_profile input) @ some_object ''extensions'' (dmi_extensions input) @
     [(lit ''not_before'', JStr notBefore), (lit ''expires_at'', JStr expiresAt), (lit ''status'', JStr (lit ''active'')),
      (lit ''delegation'', JObj [(lit ''allowed'', JBool False), (lit ''max_depth'', JNum (Fin 0))])])"

text \<open>What \<^verbatim>\<open>createMandate\<close> checks before it builds the Mandate.\<close>

definition active_agent :: "'k dev_issuer \<Rightarrow> jstring \<Rightarrow> bool" where
  "active_agent w agentId \<longleftrightarrow> (\<exists>r \<in> set_option (record_at w (lit ''agent'') agentId). jget r (lit ''status'') = Some (JStr (lit ''active'')))"

definition mandate_request :: "'k dev_issuer \<Rightarrow> jstring \<Rightarrow> DevelopmentMandateInput \<Rightarrow> int option \<Rightarrow> (int \<times> jsnum) result" where
  "mandate_request w agentId input date =
     bindE (validDate date (lit ''now'')) (\<lambda>now.
     if record_at w (lit ''agent'') agentId = None then Inl (RangeErr (lit ''Agent '' @ agentId @ lit '' is not registered''))
     else if \<not> active_agent w agentId then Inl (RangeErr (lit ''Agent '' @ agentId @ lit '' is not active''))
     else if trim (dmi_purpose input) = [] then Inl (TypeErr (lit ''purpose is required''))
     else if dmi_actions input = [] then Inl (TypeErr (lit ''at least one action is required''))
     else bindE (lifetime_of (dmi_expiresInSeconds input) 3600) (\<lambda>lifetime. Inr (now, lifetime)))"

definition dev_createMandate :: "'k dev_host \<Rightarrow> 'k draws \<Rightarrow> jstring \<Rightarrow> DevelopmentMandateInput \<Rightarrow> int option \<Rightarrow> ('k, jobject) dev_act" where
  "dev_createMandate host drawn agentId input date w =
     bindA (liftA (mandate_request w agentId input date)) (\<lambda>(now, lifetime).
     let expires = expiry_after now lifetime in
     bindA (liftA (identifier_of_slug (dh_table host) (drop 11 agentId))) (\<lambda>slug.
     bindA (nextId now) (\<lambda>i.
     bindA (liftA (iso_date expires)) (\<lambda>expiresAt.
     bindA (dev_sign host (dr_uuid drawn) (mandate_document w (lit ''oati:mandate:'' @ slug @ lit '':'' @ i) agentId input (toISOString now) expiresAt)
         (lit ''oati:development:mandate'') now expires) (\<lambda>mandate.
     bindA (liftA (assert_schema host ''mandate'' mandate)) (\<lambda>_.
     bindA (put (credentialRecord ''mandate'' mandate (dmi_purpose input @ lit '' mandate'') (di_organisationId w))) (\<lambda>_.
     returnA mandate))))))) w"

text \<open>The guards of \<^verbatim>\<open>signTransaction\<close>, in order; a date that cannot be read compares false.\<close>

definition stored_credential :: "jobject \<Rightarrow> json option" where
  "stored_credential r = (case as_object (jget r (lit ''private_attributes'')) of None \<Rightarrow> None | Some attributes \<Rightarrow> jget attributes (lit ''credential''))"

definition is_object :: "json option \<Rightarrow> bool" where
  "is_object v = (case v of Some (JObj _) \<Rightarrow> True | Some (JArr _) \<Rightarrow> True | _ \<Rightarrow> False)"

definition mandate_usable :: "'k dev_issuer \<Rightarrow> jstring \<Rightarrow> jobject \<Rightarrow> jobject \<Rightarrow> bool" where
  "mandate_usable w agentId mandate issuedMandate \<longleftrightarrow> jget issuedMandate (lit ''status'') = Some (JStr (lit ''active'')) \<and>
     jget mandate (lit ''issuer'') = Some (JStr (di_issuerId w)) \<and> jget mandate (lit ''subject'') = Some (JStr agentId) \<and>
     jget mandate (lit ''status'') = Some (JStr (lit ''active''))"

definition mandate_matches :: "jobject \<Rightarrow> jobject \<Rightarrow> unit result" where
  "mandate_matches issuedMandate mandate =
     (let mismatch = Inl (RangeErr (lit ''The Mandate does not match the credential issued by this development issuer'')) in
      if \<not> is_object (stored_credential issuedMandate) then mismatch
      else bindE (canonicalJson_tree (the (stored_credential issuedMandate))) (\<lambda>a. bindE (canonicalJson_tree (JObj mandate)) (\<lambda>b.
        if a \<noteq> b then mismatch else Inr ())))"

definition outside_window :: "legacy_dates \<Rightarrow> jobject \<Rightarrow> int \<Rightarrow> bool" where
  "outside_window legacy mandate now \<longleftrightarrow>
     (case Date_parse legacy (String (jget mandate (lit ''not_before''))) of Some t \<Rightarrow> now < t | None \<Rightarrow> False) \<or>
     (case Date_parse legacy (String (jget mandate (lit ''expires_at''))) of Some t \<Rightarrow> t \<le> now | None \<Rightarrow> False)"

definition transaction_request ::
  "'k dev_host \<Rightarrow> 'k dev_issuer \<Rightarrow> jstring \<Rightarrow> jobject \<Rightarrow> DevelopmentTransactionInput \<Rightarrow> int option \<Rightarrow> (int \<times> ('k \<times> jstring) \<times> jsnum \<times> jstring) result" where
  "transaction_request host w agentId mandate input date =
     bindE (validDate date (lit ''now'')) (\<lambda>now.
     if \<not> active_agent w agentId then Inl (RangeErr (lit ''Agent '' @ agentId @ lit '' is not active''))
     else bindE (case record_at w (lit ''mandate'') (String (jget mandate (lit ''id''))) of
         None \<Rightarrow> Inl (RangeErr (lit ''An active Mandate issued by this development issuer is required''))
       | Some issued \<Rightarrow> if mandate_usable w agentId mandate issued then Inr issued
           else Inl (RangeErr (lit ''An active Mandate issued by this development issuer is required''))) (\<lambda>issuedMandate.
     bindE (mandate_matches issuedMandate mandate) (\<lambda>_.
     if outside_window (dh_legacy host) mandate now then Inl (RangeErr (lit ''The Mandate is not active at the transaction time''))
     else case map_of (di_agentKeys w) agentId of
         None \<Rightarrow> Inl (RangeErr (lit ''Agent '' @ agentId @ lit '' has no signing key''))
       | Some agentKey \<Rightarrow>
           bindE (lifetime_of (dti_expiresInSeconds input) 300) (\<lambda>lifetime.
           let audience = (case dti_audience input of Some a \<Rightarrow> a | None \<Rightarrow> lit ''oati:development:transaction'') in
           if trim audience = [] then Inl (TypeErr (lit ''audience is required'')) else Inr (now, agentKey, lifetime, audience)))))"

text \<open>A member of the Mandate in a string or object position; the stored credential has it.\<close>

definition copied_member :: "string \<Rightarrow> json option \<Rightarrow> jobject" where
  "copied_member k v = (case v of None \<Rightarrow> [] | Some j \<Rightarrow> [(lit k, j)])"

definition text_json :: "jstring option \<Rightarrow> json option" where
  "text_json v = map_option JStr v"

definition truthy_member :: "string \<Rightarrow> json option \<Rightarrow> jobject" where
  "truthy_member k v = (if truthy v then copied_member k v else [])"

definition envelope_document ::
  "'k dev_issuer \<Rightarrow> jstring \<Rightarrow> jstring \<Rightarrow> jobject \<Rightarrow> DevelopmentTransactionInput \<Rightarrow> jstring \<Rightarrow> jstring \<Rightarrow> jobject" where
  "envelope_document w envelopeId agentId mandate input issuedAt nonce = versioned (
     [(lit ''id'', JStr envelopeId), (lit ''agent_id'', JStr agentId), (lit ''organisation_id'', JStr (di_organisationId w))]
     @ copied_member ''mandate_id'' (jget mandate (lit ''id'')) @ [(lit ''action'', JStr (dti_action input)), (lit ''resource'', JStr (dti_resource input))]
     @ copied_member ''purpose'' (nullish_or (text_json (dti_purpose input)) (jget mandate (lit ''purpose'')))
     @ some_text ''destination'' (dti_destination input) @ some_text ''counterparty'' (dti_counterparty input) @ some_text ''protocol'' (dti_protocol input)
     @ some_text ''commercial_profile'' (dti_commercialProfile input) @ some_text ''request_digest'' (dti_requestDigest input)
     @ truthy_member ''profile'' (nullish_or (text_json (dti_profile input)) (jget mandate (lit ''profile'')))
     @ some_object ''extensions'' (dti_extensions input) @ [(lit ''issued_at'', JStr issuedAt), (lit ''nonce'', JStr nonce)])"

definition signTransaction ::
  "'k dev_host \<Rightarrow> 'k draws \<Rightarrow> jstring \<Rightarrow> jobject \<Rightarrow> DevelopmentTransactionInput \<Rightarrow> int option \<Rightarrow> ('k, jobject) dev_act" where
  "signTransaction host drawn agentId mandate input date w =
     bindA (liftA (transaction_request host w agentId mandate input date)) (\<lambda>(now, (privateKey, verificationMethod), lifetime, audience).
     bindA (liftA (identifier_of_slug (dh_table host) (drop 11 agentId))) (\<lambda>slug.
     bindA (nextId now) (\<lambda>i.
     bindA (nextId now) (\<lambda>j.
     bindA (liftA (signDocument (dh_legacy host) now (dh_crypto host) (KeyObject privateKey)
         (envelope_document w (lit ''oati:tx:'' @ slug @ lit '':'' @ i) agentId mandate input (toISOString now) (dr_uuid drawn))
         (dev_signing_options verificationMethod audience (dr_uuid2 drawn @ lit '':'' @ j) now (expiry_after now lifetime)))) (\<lambda>envelope.
     bindA (liftA (assert_schema host ''envelope'' envelope)) (\<lambda>_.
     returnA envelope)))))) w"

definition receipt_document :: "'k dev_issuer \<Rightarrow> jstring \<Rightarrow> DevelopmentReceiptInput \<Rightarrow> jstring \<Rightarrow> jobject" where
  "receipt_document w receiptId input occurredAt = versioned (
     [(lit ''id'', JStr receiptId), (lit ''transaction_id'', JStr (env_id (dri_transaction input))), (lit ''agent_id'', JStr (env_agent_id (dri_transaction input))),
      (lit ''organisation_id'', JStr (env_organisation_id (dri_transaction input))), (lit ''mandate_id'', JStr (env_mandate_id (dri_transaction input))),
      (lit ''decision'', JStr (dri_decision input)), (lit ''outcome'', JStr (dri_outcome input)), (lit ''occurred_at'', JStr occurredAt),
      (lit ''issuer'', JStr (di_issuerId w))]
     @ some_text ''profile'' (dri_profile input) @ some_object ''extensions'' (dri_extensions input) @ some_text ''policy_digest'' (dri_policyDigest input)
     @ [(lit ''proof'', JObj [(lit ''type'', JStr OATI_PROOF_TYPE)])])"

definition dev_issueReceipt :: "'k dev_host \<Rightarrow> 'k draws \<Rightarrow> DevelopmentReceiptInput \<Rightarrow> int option \<Rightarrow> ('k, jobject) dev_act" where
  "dev_issueReceipt host drawn input date w =
     bindA (liftA (bindE (validDate date (lit ''now'')) (\<lambda>now.
         if trim (dri_audience input) = [] then Inl (TypeErr (lit ''audience is required''))
         else bindE (identifier_of_slug (dh_table host) (env_id (dri_transaction input))) (\<lambda>slug. Inr (now, slug))))) (\<lambda>(now, slug).
     bindA (nextId now) (\<lambda>i.
     bindA (dev_sign host (dr_uuid drawn) (receipt_document w (lit ''oati:receipt:'' @ slug @ lit '':'' @ i) input (toISOString now))
         (dri_audience input) now (date_at now one_day)) (\<lambda>receipt.
     bindA (liftA (assert_schema host ''receipt'' receipt)) (\<lambda>_.
     bindA (put (credentialRecord ''receipt'' receipt (lit ''Receipt for '' @ env_id (dri_transaction input)) (di_organisationId w))) (\<lambda>_.
     returnA receipt))))) w"

definition publish :: "'k dev_host \<Rightarrow> jstring \<Rightarrow> jstring \<Rightarrow> 'k dev_issuer \<Rightarrow> PublicOatiRecord result" where
  "publish host type i w = (case record_at w type i of
     None \<Rightarrow> Inl (RangeErr (type @ lit '' '' @ i @ lit '' is not registered'')) | Some r \<Rightarrow> projectPublicRecord (dh_table host) r)"

definition registryRecords :: "'k dev_issuer \<Rightarrow> jobject list" where
  "registryRecords w = map snd (di_records w)"

definition revocation_record :: "'k dev_issuer \<Rightarrow> jstring \<Rightarrow> jstring \<Rightarrow> DevelopmentRecordStatus \<Rightarrow> jstring \<Rightarrow> jobject" where
  "revocation_record w revocationId i status issuedAt =
     [(lit ''type'', JStr (lit ''revocation'')), (lit ''id'', JStr revocationId), (lit ''display_name'', JStr (status_text status @ lit '' '' @ i)),
      (lit ''status'', JStr (status_text status)), (lit ''issuer'', JStr (di_issuerId w)), (lit ''organisation_id'', JStr (di_organisationId w)),
      (lit ''issued_at'', JStr issuedAt), (lit ''proof_status'', JStr (lit ''verified'')),
      (lit ''public_attributes'', JObj [(lit ''target'', JStr i), (lit ''revocation_status'', JStr (status_text status)),
         (lit ''effective_at'', JStr issuedAt)])]"

definition setStatus :: "'k dev_host \<Rightarrow> status_subject \<Rightarrow> jstring \<Rightarrow> DevelopmentRecordStatus \<Rightarrow> int option \<Rightarrow> ('k, PublicOatiRecord) dev_act" where
  "setStatus host subject i status date w =
     bindA (liftA (bindE (validDate date (lit ''now'')) (\<lambda>now. case record_at w (subject_text subject) i of
         None \<Rightarrow> Inl (RangeErr (subject_text subject @ lit '' '' @ i @ lit '' is not registered'')) | Some r \<Rightarrow> Inr (now, r)))) (\<lambda>(now, r).
     bindA (updateA (\<lambda>w. w\<lparr>di_records := om_set (record_key (subject_text subject) i)
         (put_member (lit ''status'') (JStr (status_text status)) r) (di_records w)\<rparr>)) (\<lambda>_.
     bindA (liftA (identifier_of_slug (dh_table host) i)) (\<lambda>slug.
     bindA (nextId now) (\<lambda>n.
     let revocationId = lit ''oati:revocation:'' @ slug @ lit '':'' @ n in
     bindA (put (revocation_record w revocationId i status (toISOString now))) (\<lambda>_. \<lambda>w.
     liftA (publish host (lit ''revocation'') revocationId w) w))))) w"

end
