(* ===== verification/DevelopmentProperties.thy ===== *)
theory DevelopmentProperties
  imports Development VerificationProperties
begin

text \<open>
  Histories of the development issuer: calls that follow one another from its creation.  A record
  changes only by being added under a new key or by a change of status, and Mandate identifiers
  end in an ever larger sequence number; so a withdrawn agent or Mandate stays withdrawn.
\<close>

section \<open>Sequence numbers in base 36\<close>

lemma unit36_eq_iff: "d < 36 \<Longrightarrow> e < 36 \<Longrightarrow> unit36 d = unit36 e \<longleftrightarrow> d = e"
  unfolding unit36_def by (simp add: word_unat_eq_iff unat_of_nat take_bit_eq_mod del: of_nat_add)

lemma radix36_no_dash: "45 \<notin> set (radix36 n)"
proof (induction n rule: radix36.induct)
  case (1 n)
  have "unit36 d \<noteq> 45" if "d < 36" for d
    using that unfolding unit36_def by (simp add: word_unat_eq_iff unat_of_nat take_bit_eq_mod del: of_nat_add)
  then show ?case using 1 by (simp add: radix36.simps [of n])
qed

lemma radix36_not_Nil: "radix36 n \<noteq> []"
  by (simp add: radix36.simps [of n])

lemma radix36_inject: "radix36 m = radix36 n \<longleftrightarrow> m = n"
proof (induction m arbitrary: n rule: radix36.induct)
  case (1 m)
  show ?case
  proof
    assume eq: "radix36 m = radix36 n"
    show "m = n"
    proof (cases "m < 36"; cases "n < 36")
      assume "\<not> m < 36" "\<not> n < 36"
      with eq have "radix36 (m div 36) = radix36 (n div 36)" "m mod 36 = n mod 36"
        by (simp_all add: radix36.simps [of m] radix36.simps [of n] unit36_eq_iff)
      then show ?thesis using 1 \<open>\<not> m < 36\<close> by (metis div_mult_mod_eq)
    qed (use eq in \<open>auto simp: radix36.simps [of m] radix36.simps [of n] unit36_eq_iff radix36_not_Nil radix36_not_Nil [symmetric]\<close>)
  qed simp
qed

text \<open>An identifier carries number \<open>k\<close> when it ends in a dash and \<open>k\<close> in base 36.\<close>

definition numbered :: "nat \<Rightarrow> jstring \<Rightarrow> bool" where
  "numbered k s \<longleftrightarrow> (\<exists>p. s = p @ 45 # radix36 k)"

lemma numbered_unique:
  assumes "numbered k s" and "numbered l s"
  shows "k = l"
proof -
  from assms obtain p q where "rev (radix36 k) @ 45 # rev p = rev (radix36 l) @ 45 # rev q"
    unfolding numbered_def by (metis append.assoc append_Cons append_Nil rev.simps(2) rev_append)
  moreover have "takeWhile (\<lambda>u. u \<noteq> 45) (rev (radix36 n) @ 45 # t) = rev (radix36 n)" for n t
    using radix36_no_dash [of n] by (subst takeWhile_append2) auto
  ultimately have "radix36 k = radix36 l" by (metis rev_is_rev_conv)
  then show ?thesis by (simp add: radix36_inject)
qed

section \<open>How the registry changes\<close>

definition withdrawn :: "'k dev_issuer \<Rightarrow> jstring \<Rightarrow> bool" where
  "withdrawn w key \<longleftrightarrow> (\<exists>r. map_of (di_records w) key = Some r \<and> jget r (lit ''status'') \<noteq> Some (JStr (lit ''active'')))"

definition of_type :: "string \<Rightarrow> jstring \<Rightarrow> bool" where
  "of_type type key \<longleftrightarrow> startsWith key (lit type @ lit '':'')"

text \<open>What may happen to the record of a key between two states.\<close>

definition key_change :: "'k dev_issuer \<Rightarrow> 'k dev_issuer \<Rightarrow> jstring \<Rightarrow> bool" where
  "key_change w w' key \<longleftrightarrow> map_of (di_records w') key = map_of (di_records w) key \<or> key \<in> dom (map_of (di_records w)) \<and> withdrawn w' key
     \<or> \<not> of_type ''agent'' key \<and> \<not> of_type ''mandate'' key \<or> of_type ''agent'' key \<and> key \<notin> dom (map_of (di_records w))
     \<or> of_type ''mandate'' key \<and> (\<exists>k. numbered k key \<and> di_sequence w < k \<and> k \<le> di_sequence w')"

definition evolves :: "'k dev_issuer \<Rightarrow> 'k dev_issuer \<Rightarrow> bool" where
  "evolves w w' \<longleftrightarrow> di_sequence w \<le> di_sequence w' \<and> (\<forall>key. key_change w w' key)"

lemma evolves_same: "di_records w' = di_records w \<Longrightarrow> di_sequence w \<le> di_sequence w' \<Longrightarrow> evolves w w'"
  by (simp add: evolves_def key_change_def)

lemma evolves_refl [simp, intro]: "evolves w w"
  by (simp add: evolves_same)

lemma key_change_trans:
  assumes "key_change w w' key" and "key_change w' w'' key" and "di_sequence w \<le> di_sequence w'" and "di_sequence w' \<le> di_sequence w''"
  shows "key_change w w'' key"
proof -
  have "\<exists>k. numbered k key \<and> di_sequence w < k \<and> k \<le> di_sequence w''"
    if "\<exists>k. numbered k key \<and> di_sequence w < k \<and> k \<le> di_sequence w' \<or> numbered k key \<and> di_sequence w' < k \<and> k \<le> di_sequence w''"
    using that assms(3,4) by (metis le_less_trans le_trans)
  with assms(1,2) show ?thesis unfolding key_change_def withdrawn_def dom_def mem_Collect_eq by (elim disjE conjE) (simp | metis)+
qed

lemma evolves_trans: "evolves w w' \<Longrightarrow> evolves w' w'' \<Longrightarrow> evolves w w''"
  unfolding evolves_def using key_change_trans by (metis le_trans)

lemma evolves_grow: "evolves w w' \<Longrightarrow> di_records w'' = di_records w' \<Longrightarrow> di_sequence w' \<le> di_sequence w'' \<Longrightarrow> evolves w w''"
  using evolves_trans evolves_same by blast

text \<open>Adding a record under a key that is new, or of another type.\<close>

lemma evolves_put:
  assumes "evolves w (w'\<lparr>di_records := rs\<rparr>)"
    and "\<not> of_type ''agent'' key \<and> \<not> of_type ''mandate'' key \<or> of_type ''agent'' key \<and> key \<notin> dom (map_of (di_records w))
      \<or> of_type ''mandate'' key \<and> (\<exists>k. numbered k key \<and> di_sequence w < k \<and> k \<le> di_sequence w')"
  shows "evolves w (w'\<lparr>di_records := om_set key r rs\<rparr>)"
  unfolding evolves_def
proof (intro conjI allI)
  fix key'
  from assms(1) have "key_change w (w'\<lparr>di_records := rs\<rparr>) key'" by (simp add: evolves_def)
  with assms(2) show "key_change w (w'\<lparr>di_records := om_set key r rs\<rparr>) key'"
    by (cases "key' = key") (auto simp: key_change_def withdrawn_def)
qed (use assms(1) in \<open>simp add: evolves_def\<close>)

lemmas evolves_other = evolves_put [OF _ disjI1]
lemmas evolves_agent = evolves_put [OF _ disjI2 [OF disjI1]]
lemmas evolves_mandate = evolves_put [OF _ disjI2 [OF disjI2]]

lemma evolves_bind:
  assumes "evolves w (snd (m w'))" and "\<And>a. fst (m w') = Inr a \<Longrightarrow> evolves w (snd (f a (snd (m w'))))"
  shows "evolves w (snd (bindA m f w'))"
  using assms by (auto simp: bindA_def split: prod.splits sum.splits)

lemma evolves_lift: "evolves w w' \<Longrightarrow> (\<And>a. m = Inr a \<Longrightarrow> evolves w (snd (f a w'))) \<Longrightarrow> evolves w (snd (bindA (liftA m) f w'))"
  by (cases m) (simp_all add: bindA_def)

lemma put_state: "snd (put r w) = w\<lparr>di_records := om_set (record_key (String (jget r (lit ''type''))) (String (jget r (lit ''id'')))) r (di_records w)\<rparr>"
  "fst (put r w) = Inr ()"
  by (simp_all add: put_def updateA_def)

lemma nextId_state: "nextId now w = (Inr (base36 now @ lit ''-'' @ radix36 (Suc (di_sequence w))), w\<lparr>di_sequence := Suc (di_sequence w)\<rparr>)"
  by (simp add: nextId_def Let_def)

lemma dev_sign_state: "snd (dev_sign host uuid value audience created expires w) = w\<lparr>di_sequence := Suc (di_sequence w)\<rparr>"
  by (simp add: dev_sign_def bindA_def nextId_state)

lemma dev_sign_signed:
  assumes "fst (dev_sign host uuid value audience created expires w) = Inr signed_value"
  shows "\<exists>p. signed_value = put_member (lit ''proof'') p value"
  using assms by (auto simp: dev_sign_def bindA_def nextId_state signDocument_def elim!: signPreparedDocument_Inr)

lemma of_type_key:
  "of_type ''agent'' (record_key (lit ''agent'') i)" "of_type ''mandate'' (record_key (lit ''mandate'') i)"
  "type \<in> {''passport'', ''key'', ''receipt'', ''revocation'', ''mandate'', ''organisation'', ''issuer''} \<Longrightarrow> \<not> of_type ''agent'' (record_key (lit type) i)"
  "type \<in> {''passport'', ''key'', ''receipt'', ''revocation'', ''agent'', ''organisation'', ''issuer''} \<Longrightarrow> \<not> of_type ''mandate'' (record_key (lit type) i)"
  by (auto simp: of_type_def record_key_def startsWith_def lit_def)

lemma numbered_key: "numbered k (record_key t (p @ q @ lit '':'' @ u @ lit ''-'' @ radix36 k))"
  unfolding numbered_def record_key_def by (intro exI [of _ "t @ lit '':'' @ p @ q @ lit '':'' @ u"]) (simp add: lit_def)

lemma bindA_put [simp]: "bindA (put r) f w =
    f () (w\<lparr>di_records := om_set (record_key (String (jget r (lit ''type''))) (String (jget r (lit ''id'')))) r (di_records w)\<rparr>)"
  by (simp add: bindA_def put_def updateA_def)

lemma bindA_update [simp]: "bindA (updateA g) f w = f () (g w)"
  by (simp add: bindA_def updateA_def)

lemma bindA_nextId [simp]:
  "bindA (nextId now) f w = f (base36 now @ lit ''-'' @ radix36 (Suc (di_sequence w))) (w\<lparr>di_sequence := Suc (di_sequence w)\<rparr>)"
  by (simp add: bindA_def nextId_state)

section \<open>The operations\<close>

text \<open>The keys under which the records are put.\<close>

lemma credentialRecord_key:
  "String (jget (credentialRecord type value name org) (lit ''type'')) = lit type"
  "String (jget (credentialRecord type value name org) (lit ''id'')) = String (jget value (lit ''id''))"
  by (simp_all add: credentialRecord_def Let_def jget_def String_def)

lemma record_keys:
  "jget (agent_record w input i a b c) (lit ''type'') = Some (JStr (lit ''agent''))" "jget (agent_record w input i a b c) (lit ''id'') = Some (JStr i)"
  "jget (key_record k n iss org a b cn j) (lit ''type'') = Some (JStr (lit ''key''))" "jget (key_record k n iss org a b cn j) (lit ''id'') = Some (JStr k)"
  "jget (revocation_record w r i st a) (lit ''type'') = Some (JStr (lit ''revocation''))" "jget (revocation_record w r i st a) (lit ''id'') = Some (JStr r)"
  "jget (revocation_record w r i st a) (lit ''status'') = Some (JStr (status_text st))"
  "jget (organisation_record i1 i2 n a) (lit ''type'') = Some (JStr (lit ''organisation''))" "jget (organisation_record i1 i2 n a) (lit ''id'') = Some (JStr i1)"
  "jget (issuer_record i1 i2 n a) (lit ''type'') = Some (JStr (lit ''issuer''))" "jget (issuer_record i1 i2 n a) (lit ''id'') = Some (JStr i2)"
  by (simp_all add: agent_record_def key_record_def revocation_record_def organisation_record_def issuer_record_def jget_def)

lemma String_JStr [simp]: "String (Some (JStr s)) = s"
  by (simp add: String_def)

lemma evolves_registerAgent: "evolves w (snd (registerAgent host drawn input date w))"
proof -
  have registered: "evolves w (w'\<lparr>di_records := om_set (record_key (lit ''key'') k) c (om_set (record_key (lit ''passport'') p) b
      (om_set (record_key (lit ''agent'') i) a (di_records w)))\<rparr>)"
    if "record_at w (lit ''agent'') i = None" "di_sequence w \<le> di_sequence w'" for w' k c p b i a
  proof -
    have "evolves w (w'\<lparr>di_records := di_records w\<rparr>)" using that(2) by (intro evolves_same) simp_all
    with that(1) show ?thesis by (intro evolves_other evolves_agent) (auto simp: of_type_key record_at_def)
  qed
  show ?thesis
    unfolding registerAgent_def Let_def case_prod_unfold
    apply (rule evolves_lift, rule evolves_refl)
    apply (rule evolves_lift, rule evolves_refl)
    apply (simp only: bindA_update)
    apply (rule evolves_lift, simp add: evolves_same)
    apply (rule evolves_bind, simp add: dev_sign_state evolves_same)
    apply (rule evolves_lift, simp add: dev_sign_state evolves_same)
    apply (simp add: credentialRecord_key record_keys dev_sign_state)
    apply (rule registered)
     apply (simp_all split: if_splits)
    done
qed

lemma mandate_document_id: "jget (mandate_document w m i input a b) (lit ''id'') = Some (JStr m)"
  by (simp add: mandate_document_def versioned_def) (simp add: jget_def)

lemma evolves_createMandate: "evolves w (snd (dev_createMandate host drawn agentId input date w))"
proof -
  have issued: "evolves w (w'\<lparr>di_records := om_set (record_key (lit ''mandate'') m) r (di_records w)\<rparr>)"
    if "numbered (Suc (di_sequence w)) (record_key (lit ''mandate'') m)" "Suc (di_sequence w) \<le> di_sequence w'" for w' m r
    using that by (intro evolves_mandate evolves_same) (auto simp: of_type_key)
  show ?thesis
    unfolding dev_createMandate_def Let_def case_prod_unfold
    apply (rule evolves_lift, rule evolves_refl)
    apply (rule evolves_lift, rule evolves_refl)
    apply (simp only: bindA_nextId)
    apply (rule evolves_lift, simp add: evolves_same)
    apply (rule evolves_bind, simp add: dev_sign_state evolves_same)
    apply (rule evolves_lift, simp add: dev_sign_state evolves_same)
    apply (drule dev_sign_signed, clarify)
    apply (simp add: credentialRecord_key dev_sign_state mandate_document_id)
    apply (rule issued)
     apply (simp_all add: numbered_key)
    done
qed

lemma evolves_signTransaction: "evolves w (snd (signTransaction host drawn agentId mandate input date w))"
  unfolding signTransaction_def case_prod_unfold
  apply (rule evolves_lift, rule evolves_refl)
  apply (rule evolves_lift, rule evolves_refl)
  apply (simp only: bindA_nextId)
  apply (rule evolves_lift, simp add: evolves_same)+
  apply (simp add: evolves_same)
  done

lemma evolves_issueReceipt: "evolves w (snd (dev_issueReceipt host drawn input date w))"
  unfolding dev_issueReceipt_def case_prod_unfold
  apply (rule evolves_lift, rule evolves_refl)
  apply (simp only: bindA_nextId)
  apply (rule evolves_bind, simp add: dev_sign_state evolves_same)
  apply (rule evolves_lift, simp add: dev_sign_state evolves_same)
  apply (simp add: credentialRecord_key dev_sign_state)
  apply (intro evolves_other evolves_same)
    apply (simp_all add: of_type_key)
  done

text \<open>A change of status withdraws the record, whatever happens after it.\<close>

lemma withdrawn_status:
  "map_of rs key = Some (put_member (lit ''status'') (JStr (status_text status)) r) \<Longrightarrow> withdrawn (w\<lparr>di_records := rs\<rparr>) key"
  by (auto simp: withdrawn_def status_text_def split: DevelopmentRecordStatus.splits)

lemma evolves_withdraw:
  assumes "map_of (di_records w) key = Some r"
  shows "evolves w (w\<lparr>di_records := om_set key (put_member (lit ''status'') (JStr (status_text status)) r) (di_records w)\<rparr>)"
  using assms withdrawn_status [of _ key status r w]
  by (auto simp: evolves_def key_change_def)

lemma evolves_setStatus: "evolves w (snd (setStatus host subject i status date w))"
  unfolding setStatus_def case_prod_unfold Let_def
  apply (rule evolves_lift, rule evolves_refl)
  subgoal for found
    apply (simp only: bindA_update)
    apply (rule evolves_lift)
     apply (rule evolves_withdraw, simp add: record_at_def exn_iff split: option.splits, force)
    apply (simp add: record_keys)
    apply (rule evolves_other)
     apply (rule evolves_grow, rule evolves_withdraw [where status = status and r = "snd found" and key = "record_key (subject_text subject) i"])
       apply (auto simp: record_at_def exn_iff of_type_key split: option.splits)
    done
  done

section \<open>Histories\<close>

datatype 'k dev_call =
    CallRegisterAgent "'k draws" DevelopmentAgentInput "int option"
  | CallCreateMandate "'k draws" jstring DevelopmentMandateInput "int option"
  | CallSignTransaction "'k draws" jstring jobject DevelopmentTransactionInput "int option"
  | CallIssueReceipt "'k draws" DevelopmentReceiptInput "int option"
  | CallSetStatus status_subject jstring DevelopmentRecordStatus "int option"

fun after_call :: "'k dev_host \<Rightarrow> 'k dev_call \<Rightarrow> 'k dev_issuer \<Rightarrow> 'k dev_issuer" where
  "after_call host (CallRegisterAgent drawn input date) w = snd (registerAgent host drawn input date w)"
| "after_call host (CallCreateMandate drawn agentId input date) w = snd (dev_createMandate host drawn agentId input date w)"
| "after_call host (CallSignTransaction drawn agentId mandate input date) w = snd (signTransaction host drawn agentId mandate input date w)"
| "after_call host (CallIssueReceipt drawn input date) w = snd (dev_issueReceipt host drawn input date w)"
| "after_call host (CallSetStatus subject i status date) w = snd (setStatus host subject i status date w)"

definition after_calls :: "'k dev_host \<Rightarrow> 'k dev_call list \<Rightarrow> 'k dev_issuer \<Rightarrow> 'k dev_issuer" where
  "after_calls host calls w = fold (after_call host) calls w"

inductive issuer_reachable :: "'k dev_host \<Rightarrow> 'k dev_issuer \<Rightarrow> bool" for host where
  created: "create_issuer host drawn slug displayName date = Inr w \<Longrightarrow> issuer_reachable host w"
| called: "issuer_reachable host w \<Longrightarrow> issuer_reachable host (after_call host c w)"

lemma evolves_call: "evolves w (after_call host c w)"
  by (cases c) (simp_all add: evolves_registerAgent evolves_createMandate evolves_signTransaction evolves_issueReceipt evolves_setStatus)

text \<open>The number in the identifier of every Mandate has been drawn.\<close>

definition ids_drawn :: "'k dev_issuer \<Rightarrow> bool" where
  "ids_drawn w \<longleftrightarrow> (\<forall>key \<in> dom (map_of (di_records w)). of_type ''mandate'' key \<longrightarrow> (\<exists>k \<le> di_sequence w. numbered k key))"

lemma of_type_exclusive: "of_type ''agent'' key \<Longrightarrow> \<not> of_type ''mandate'' key"
  by (cases key) (auto simp: of_type_def startsWith_def lit_def)

lemma ids_drawn_evolves:
  assumes "ids_drawn w" and "evolves w w'"
  shows "ids_drawn w'"
  unfolding ids_drawn_def
proof (intro ballI impI)
  fix key assume key: "key \<in> dom (map_of (di_records w'))" "of_type ''mandate'' key"
  from assms(2) have "key_change w w' key" and seq: "di_sequence w \<le> di_sequence w'" by (simp_all add: evolves_def)
  moreover have "\<exists>k \<le> di_sequence w'. numbered k key" if "key \<in> dom (map_of (di_records w))"
    using that assms(1) key(2) seq unfolding ids_drawn_def by (meson le_trans)
  ultimately show "\<exists>k \<le> di_sequence w'. numbered k key"
    using key of_type_exclusive [of key] by (auto simp: key_change_def domIff)
qed

lemma ids_drawn_reachable: "issuer_reachable host w \<Longrightarrow> ids_drawn w"
proof (induction rule: issuer_reachable.induct)
  case (created drawn slug displayName date w)
  then obtain a b c i j k where "di_records w = om_set (record_key (lit ''key'') i) a (om_set (record_key (lit ''issuer'') j) b
      (om_set (record_key (lit ''organisation'') k) c []))"
    by (auto simp: create_issuer_def new_issuer_def exn_iff Let_def put_state record_keys
        split: if_splits)
  then show ?case by (auto simp: ids_drawn_def of_type_key split: if_splits)
next
  case (called w c)
  then show ?case using evolves_call ids_drawn_evolves by blast
qed

lemma withdrawn_evolves:
  assumes "ids_drawn w" and "evolves w w'" and "withdrawn w key" and "of_type ''agent'' key \<or> of_type ''mandate'' key"
  shows "withdrawn w' key"
proof -
  have "key_change w w' key" using assms(2) by (simp add: evolves_def)
  moreover have key: "key \<in> dom (map_of (di_records w))" using assms(3) by (auto simp: withdrawn_def)
  moreover have "\<not> (numbered k key \<and> di_sequence w < k)" if mandate: "of_type ''mandate'' key" for k
  proof -
    obtain l where "l \<le> di_sequence w" "numbered l key" using bspec [OF assms(1) [unfolded ids_drawn_def] key] mandate by auto
    with numbered_unique [of l key k] show ?thesis by auto
  qed
  ultimately show ?thesis using assms(3,4) by (auto simp: key_change_def withdrawn_def)
qed

lemma withdrawn_after_calls:
  "ids_drawn w \<Longrightarrow> withdrawn w key \<Longrightarrow> of_type ''agent'' key \<or> of_type ''mandate'' key \<Longrightarrow> withdrawn (after_calls host calls w) key"
  unfolding after_calls_def
proof (induction calls arbitrary: w)
  case (Cons c calls)
  with evolves_call [of w host c] show ?case using ids_drawn_evolves withdrawn_evolves by (metis fold_simps(2))
qed simp

lemma setStatus_withdraws:
  assumes "record_at w (subject_text subject) i = Some r"
  shows "withdrawn (snd (setStatus host subject i status (Some now) w)) (record_key (subject_text subject) i)"
  using assms(1) by (simp add: setStatus_def validDate_def bindA_def [of "liftA _"] Let_def record_keys split: sum.splits)
    (auto simp: withdrawn_def record_keys status_text_def split: DevelopmentRecordStatus.splits)

lemma withdrawn_not_signed:
  assumes "withdrawn w (record_key (lit ''agent'') agentId) \<or> withdrawn w (record_key (lit ''mandate'') (String (jget mandate (lit ''id''))))"
  shows "\<exists>e. signTransaction host drawn agentId mandate input date w = (Inl e, w)"
proof -
  have "\<not> active_agent w agentId \<or> (\<forall>r. record_at w (lit ''mandate'') (String (jget mandate (lit ''id''))) = Some r \<longrightarrow> \<not> mandate_usable w agentId mandate r)"
    using assms by (auto simp: active_agent_def mandate_usable_def withdrawn_def record_at_def)
  then have "\<exists>e. transaction_request host w agentId mandate input date = Inl e"
    unfolding transaction_request_def by (cases "validDate date (lit ''now'')") (auto split: option.splits)
  then show ?thesis by (auto simp: signTransaction_def bindA_def)
qed

section \<open>Properties\<close>

text \<open>
  C38: In the development issuer a withdrawn agent or Mandate stays withdrawn.  Once \<^verbatim>\<open>setStatus\<close> has
  suspended or revoked a registered agent or Mandate, then after any further sequence of calls
  (registrations, Mandates, transactions, receipts and changes of status) \<^verbatim>\<open>signTransaction\<close> with
  that agent or that Mandate throws and changes nothing.
\<close>

theorem withdrawn_credential_never_signs:
  assumes "issuer_reachable host w" and "record_at w (subject_text subject) i \<noteq> None"
    and "subject = SubjectAgent \<and> agentId = i \<or> subject = SubjectMandate \<and> String (jget mandate (lit ''id'')) = i"
    and "w' = after_calls host calls (snd (setStatus host subject i status (Some now) w))"
  shows "\<exists>e. signTransaction host drawn agentId mandate input date w' = (Inl e, w')"
proof -
  from assms(2) obtain r where "record_at w (subject_text subject) i = Some r" by auto
  note after = setStatus_withdraws [OF this]
  have "of_type ''agent'' (record_key (subject_text subject) i) \<or> of_type ''mandate'' (record_key (subject_text subject) i)"
    using assms(3) by (auto simp: subject_text_def of_type_key)
  with after ids_drawn_evolves [OF ids_drawn_reachable [OF assms(1)] evolves_setStatus]
  have "withdrawn w' (record_key (subject_text subject) i)" unfolding assms(4) by (intro withdrawn_after_calls)
  with assms(3) show ?thesis by (intro withdrawn_not_signed) (auto simp: subject_text_def)
qed

definition dev_sample_host :: "unit dev_host" where
  "dev_sample_host = \<lparr>dh_legacy = no_legacy, dh_table = (\<lambda>s. s), dh_validators = (\<lambda>_ _. (True, None)), dh_crypto = Some zero_provider\<rparr>"

definition dev_sample_draws :: "unit draws" where
  "dev_sample_draws = \<lparr>dr_pair = Inr ((), [(lit ''kty'', JStr (lit ''OKP''))]), dr_uuid = lit ''00000000-0000-0000'', dr_uuid2 = lit ''00000000-0000-0001''\<rparr>"

definition dev_sample_agent :: DevelopmentAgentInput where
  "dev_sample_agent = \<lparr>dai_slug = lit ''bot'', dai_displayName = lit ''Bot'', dai_capabilities = None, dai_protocols = None\<rparr>"

lemma dev_sample_names:
  "identifier_of_slug (\<lambda>s. s) (lit ''acme'') = Inr (lit ''acme'')" "identifier_of_slug (\<lambda>s. s) (lit ''bot'') = Inr (lit ''bot'')"
  "trim (lit ''Acme'') \<noteq> []" "trim (lit ''Bot'') \<noteq> []" "trim (lit ''oati:key:acme:development-1'') \<noteq> []"
  by code_simp+

lemma dev_sample_expiry: "date_at 0 one_day = Some 86400000"
  by (simp add: date_at_def one_day_def num_of_int_def time_limit_def fl_of_int_exact [of 86400000, simplified])

lemma dev_sample_issuer:
  "\<exists>w. create_issuer dev_sample_host dev_sample_draws (lit ''acme'') (lit ''Acme'') (Some 0) = Inr w \<and> di_organisationId w = lit ''oati:org:'' @ lit ''acme'' \<and>
     di_issuerId w = lit ''oati:issuer:acme:development'' \<and> di_verificationMethod w = lit ''oati:key:acme:development-1'' \<and> di_sequence w = 0 \<and>
     record_at w (lit ''agent'') i = None"
  by (simp add: create_issuer_def new_issuer_def validDate_def dev_sample_host_def dev_sample_draws_def dev_sample_names dev_sample_expiry iso_date_def
    put_state record_keys lit_append [symmetric] Let_def record_at_def record_key_def) (simp add: lit_def)

lemma dev_sample_signed:
  assumes "canonical_document d" and "di_verificationMethod w = lit ''oati:key:acme:development-1''" and "di_sequence w = 0"
  shows "\<exists>p. dev_sign dev_sample_host (dr_uuid dev_sample_draws) d (lit ''oati:development:passport'') 0 (Some 86400000) w =
     (Inr (put_member (lit ''proof'') p d), w\<lparr>di_sequence := 1\<rparr>)"
proof -
  define nonce where "nonce = lit ''00000000-0000-0000:0-1''"
  let ?options = "dev_signing_options (lit ''oati:key:acme:development-1'') (lit ''oati:development:passport'') nonce 0 (Some 86400000)"
  have n: "dr_uuid dev_sample_draws @ lit '':'' @ base36 0 @ lit ''-'' @ radix36 (Suc 0) = nonce"
    by (simp add: nonce_def dev_sample_draws_def base36_def radix36.simps unit36_def lit_def)
  have "signing_window no_legacy 0 ?options = Inr (0, 86400000)"
    by (simp add: signing_window_def dev_signing_options_def OATI_SUPPORTED_ALGORITHMS_def normalizeAudience_def audience_json_def instant_def
      dev_sample_names nonce_def List.map_filter_simps)
  moreover have "plain_options ?options"
    by (simp add: plain_options_def dev_signing_options_def audience_texts_def nonce_def scalar_plain)
  ultimately have "\<exists>p. signDocument no_legacy 0 (Some zero_provider) (KeyObject (di_privateKey w)) d ?options = Inr (put_member (lit ''proof'') p d)"
    using signDocument_signed [OF _ _ assms(1), where c = zero_provider and sg = "\<lambda>_. replicate 64 0"] by (auto simp: zero_provider_def)
  then show ?thesis by (simp add: dev_sign_def assms n) (simp add: dev_sample_host_def)
qed

lemma dev_sample_registered:
  "\<exists>w. issuer_reachable dev_sample_host w \<and> record_at w (lit ''agent'') (lit ''oati:agent:acme:bot'') \<noteq> None"
proof -
  obtain w where w: "create_issuer dev_sample_host dev_sample_draws (lit ''acme'') (lit ''Acme'') (Some 0) = Inr w"
    "di_organisationId w = lit ''oati:org:'' @ lit ''acme''" "di_issuerId w = lit ''oati:issuer:acme:development''"
    "di_verificationMethod w = lit ''oati:key:acme:development-1''" "di_sequence w = 0" "record_at w (lit ''agent'') (lit ''oati:agent:acme:bot'') = None"
    using dev_sample_issuer by blast
  let ?passport = "agent_passport w dev_sample_agent (lit ''oati:agent:acme:bot'') (lit ''oati:key:acme:bot:development-1'')
      [(lit ''kty'', JStr (lit ''OKP''))] (toISOString 0) (toISOString 86400000)"
  have canonical: "canonical_document ?passport"
    by (simp add: agent_passport_def versioned_def version_1_0_def put_member_def canonical_document_def dev_sample_agent_def registered_protocols_def w
      scalar_plain toISOString_plain lit_append [symmetric])
  have names: "lit ''oati:agent:'' @ agent_slug w @ lit '':'' @ lit ''bot'' = lit ''oati:agent:acme:bot''"
    "lit ''oati:key:'' @ agent_slug w @ lit '':'' @ lit ''bot'' @ lit '':development-1'' = lit ''oati:key:acme:bot:development-1''"
    by (simp_all add: agent_slug_def w) (simp_all add: lit_append [symmetric])
  obtain p where p: "dev_sign dev_sample_host (dr_uuid dev_sample_draws) ?passport (lit ''oati:development:passport'') 0 (Some 86400000)
      (w\<lparr>di_agentKeys := om_set (lit ''oati:agent:acme:bot'') ((), lit ''oati:key:acme:bot:development-1'') (di_agentKeys w)\<rparr>) =
    (Inr (put_member (lit ''proof'') p ?passport), w\<lparr>di_agentKeys := om_set (lit ''oati:agent:acme:bot'') ((), lit ''oati:key:acme:bot:development-1'') (di_agentKeys w), di_sequence := 1\<rparr>)"
    using dev_sample_signed [OF canonical, of "w\<lparr>di_agentKeys := om_set (lit ''oati:agent:acme:bot'') ((), lit ''oati:key:acme:bot:development-1'') (di_agentKeys w)\<rparr>"] w
    by auto
  have host: "dh_table dev_sample_host = (\<lambda>s. s)" "dr_pair dev_sample_draws = Inr ((), [(lit ''kty'', JStr (lit ''OKP''))])"
    "dai_slug dev_sample_agent = lit ''bot''" "dai_displayName dev_sample_agent = lit ''Bot''" "assert_schema dev_sample_host name d = Inr ()" for name d
    by (simp_all add: dev_sample_host_def dev_sample_draws_def dev_sample_agent_def assert_schema_def assertSchema_def)
  have "record_at (snd (registerAgent dev_sample_host dev_sample_draws dev_sample_agent (Some 0) w)) (lit ''agent'') (lit ''oati:agent:acme:bot'') \<noteq> None"
    unfolding registerAgent_def
    by (simp add: validDate_def host dev_sample_names dev_sample_expiry iso_date_def names w Let_def bindA_def [of "dev_sign _ _ _ _ _ _"] p credentialRecord_key record_keys)
      (simp add: record_at_def)
  moreover have "issuer_reachable dev_sample_host w" using w(1) by (rule issuer_reachable.created)
  ultimately show ?thesis by (metis issuer_reachable.called after_call.simps(1))
qed

theorem withdrawn_credential_never_signs_witness:
  "\<exists>w. record_at w (lit ''agent'') (lit ''oati:agent:acme:bot'') \<noteq> None \<and> (\<forall>drawn mandate input date. \<exists>e.
     fst (signTransaction dev_sample_host drawn (lit ''oati:agent:acme:bot'') mandate input date
       (after_calls dev_sample_host [CallRegisterAgent dev_sample_draws dev_sample_agent (Some 5)]
         (snd (setStatus dev_sample_host SubjectAgent (lit ''oati:agent:acme:bot'') DevRevoked (Some 1) w)))) = Inl e)"
proof -
  obtain w where w: "issuer_reachable dev_sample_host w" "record_at w (lit ''agent'') (lit ''oati:agent:acme:bot'') \<noteq> None"
    using dev_sample_registered by blast
  moreover from w(2) have "record_at w (subject_text SubjectAgent) (lit ''oati:agent:acme:bot'') \<noteq> None" by (simp add: subject_text_def)
  ultimately show ?thesis using withdrawn_credential_never_signs [OF w(1) _ disjI1 [OF conjI [OF refl refl]] refl] by (metis fst_conv)
qed

end
