(* ===== verification/Dpop.thy ===== *)
theory Dpop
  imports Middleware
begin

text \<open>
  The OAuth half of \<^verbatim>\<open>adapters.ts\<close>: DPoP proofs (RFC 9449) with their binding to the request, the
  access token and the key, JWK thumbprints and the binding of token claims to an Envelope.  The
  replay store is an action on the world; Web Crypto, SHA-256 and the URL parser are the host's.
\<close>

definition adapterError :: "jstring \<Rightarrow> exn" where
  "adapterError message = OatiErr (OatiError ADAPTER_INVALID_INPUT message no_options)"

definition required_text :: "jstring \<Rightarrow> jstring \<Rightarrow> unit result" where
  "required_text value name = (if trim value = [] then Inl (adapterError (name @ lit '' is required'')) else Inr ())"

section \<open>Thumbprints and hashes\<close>

definition accessTokenHash :: "('w, 'k) host \<Rightarrow> jstring \<Rightarrow> jstring result" where
  "accessTokenHash host token = mapR base64url (h_digest host (TextEncoder_encode token))"

definition thumbprint_members :: "jobject \<Rightarrow> jstring list result" where
  "thumbprint_members jwk =
     (let kty = jget jwk (lit ''kty'') in
      if kty = Some (JStr (lit ''EC'')) then Inr [lit ''crv'', lit ''kty'', lit ''x'', lit ''y'']
      else if kty = Some (JStr (lit ''OKP'')) then Inr [lit ''crv'', lit ''kty'', lit ''x'']
      else if kty = Some (JStr (lit ''RSA'')) then Inr [lit ''e'', lit ''kty'', lit ''n'']
      else Inl (adapterError (lit ''Unsupported JWK type for thumbprint'')))"

definition jwkThumbprint :: "('w, 'k) host \<Rightarrow> jobject \<Rightarrow> jstring result" where
  "jwkThumbprint host jwk =
     bindE (thumbprint_members jwk) (\<lambda>names.
     if list_ex (\<lambda>name. nonempty_text (case jget jwk name of Some v \<Rightarrow> v | None \<Rightarrow> JNull) = None) names
     then Inl (adapterError (lit ''JWK thumbprint members are incomplete''))
     else bindE (canonicalJson_tree (JObj (map (\<lambda>name. (name, the (jget jwk name))) names))) (\<lambda>t.
       mapR base64url (h_digest host (TextEncoder_encode t))))"

definition length_32 :: "json option \<Rightarrow> bool" where
  "length_32 v = (case as_string v of None \<Rightarrow> False
     | Some s \<Rightarrow> (case fromBase64url s of Inl _ \<Rightarrow> False | Inr bytes \<Rightarrow> length bytes = 32))"

definition dpopJwkMatchesAlgorithm :: "jobject \<Rightarrow> json option \<Rightarrow> bool" where
  "dpopJwkMatchesAlgorithm jwk algorithm =
     (if algorithm = Some (JStr EdDSA) then jget jwk (lit ''kty'') = Some (JStr (lit ''OKP'')) \<and> jget jwk (lit ''crv'') = Some (JStr (lit ''Ed25519''))
        \<and> isValidEd25519PublicKey (as_string (jget jwk (lit ''x'')))
      else if algorithm = Some (JStr ES256) then jget jwk (lit ''kty'') = Some (JStr (lit ''EC'')) \<and> jget jwk (lit ''crv'') = Some (JStr (lit ''P-256''))
        \<and> length_32 (jget jwk (lit ''x'')) \<and> length_32 (jget jwk (lit ''y''))
      else False)"

section \<open>DPoP proofs\<close>

record 'w DpopVerificationOptions =
  dp_accessToken :: jstring
  dp_expectedJkt :: "jstring option"
  dp_now :: "int option option"
  dp_clockSkewSeconds :: "jsnum option"
  dp_maxAgeSeconds :: "jsnum option"
  dp_checkAndStore :: "jstring \<Rightarrow> int option \<Rightarrow> ('w, bool) act"

record DpopVerificationResult =
  dpr_valid :: bool
  dpr_jkt :: "jstring option"
  dpr_claims :: "jobject option"
  dpr_issues :: "jstring list"

definition dpop_refused :: "string \<Rightarrow> DpopVerificationResult" where
  "dpop_refused code = \<lparr>dpr_valid = False, dpr_jkt = None, dpr_claims = None, dpr_issues = [lit code]\<rparr>"

definition issue_when :: "bool \<Rightarrow> string \<Rightarrow> jstring list" where
  "issue_when c code = (if c then [lit code] else [])"

lemma issue_when_Nil [simp]: "issue_when c code = [] \<longleftrightarrow> \<not> c"
  by (simp add: issue_when_def)

definition dpop_policy_invalid :: "'w DpopVerificationOptions \<Rightarrow> bool" where
  "dpop_policy_invalid options \<longleftrightarrow>
     (case dp_clockSkewSeconds options of None \<Rightarrow> False | Some s \<Rightarrow> \<not> num_is_finite s \<or> num_less s (Fin 0)) \<or>
     (case dp_maxAgeSeconds options of None \<Rightarrow> False | Some a \<Rightarrow> \<not> num_is_finite a \<or> num_le a (Fin 0))"

definition dpop_parts :: "jstring \<Rightarrow> (jstring \<times> jstring \<times> jstring) option" where
  "dpop_parts proof = (case split_unit 46 proof of
     [h, p, s] \<Rightarrow> if h = [] \<or> p = [] \<or> s = [] then None else Some (h, p, s) | _ \<Rightarrow> None)"

definition decodeObject :: "jstring \<Rightarrow> jobject result" where
  "decodeObject value = bindE (fromBase64url value) (\<lambda>bytes. bindE (JSON_parse (TextDecoder_decode bytes)) (\<lambda>parsed.
     case parsed of JObj r \<Rightarrow> Inr r | _ \<Rightarrow> Inl (PlainErr (lit ''not object''))))"

definition dpop_skew :: "'w DpopVerificationOptions \<Rightarrow> jsnum" where
  "dpop_skew options = (case dp_clockSkewSeconds options of None \<Rightarrow> Fin 30 | Some s \<Rightarrow> s)"

definition dpop_max_age :: "'w DpopVerificationOptions \<Rightarrow> jsnum" where
  "dpop_max_age options = (case dp_maxAgeSeconds options of None \<Rightarrow> Fin 300 | Some a \<Rightarrow> a)"

text \<open>\<^verbatim>\<open>Math.floor((options.now ?? new Date()).getTime() / 1000)\<close>\<close>

definition dpop_now :: "('w, 'k) host \<Rightarrow> 'w DpopVerificationOptions \<Rightarrow> 'w \<Rightarrow> jsnum" where
  "dpop_now host options w = (case (case dp_now options of None \<Rightarrow> Some (h_now host w) | Some t \<Rightarrow> t) of
     None \<Rightarrow> NaN | Some ms \<Rightarrow> num_of_int (ms div 1000))"

definition dpop_time_invalid :: "'w DpopVerificationOptions \<Rightarrow> jsnum \<Rightarrow> json option \<Rightarrow> bool" where
  "dpop_time_invalid options now iat = (case as_number iat of None \<Rightarrow> True
     | Some t \<Rightarrow> num_less (num_add now (dpop_skew options)) t \<or> num_less t (num_sub (num_sub now (dpop_max_age options)) (dpop_skew options)))"

definition dpop_jti_invalid :: "json option \<Rightarrow> bool" where
  "dpop_jti_invalid jti = (case as_string jti of None \<Rightarrow> True | Some j \<Rightarrow> j = [] \<or> 256 < length j)"

text \<open>The key of the header, the thumbprint, and what is wrong with header and claims.\<close>

definition dpop_claim_issues ::
  "('w, 'k) host \<Rightarrow> Request \<Rightarrow> 'w DpopVerificationOptions \<Rightarrow> jsnum \<Rightarrow> jobject \<Rightarrow> jobject \<Rightarrow> (jstring option \<times> jstring list) result" where
  "dpop_claim_issues host request options now header claims =
     (let alg = jget header (lit ''alg''); jwk = as_object (jget header (lit ''jwk'')) in
      bindE (case jwk of None \<Rightarrow> Inr None | Some k \<Rightarrow> mapR Some (jwkThumbprint host k)) (\<lambda>jkt.
      case h_url host (req_url request) of
        None \<Rightarrow> Inl (TypeErr [])
      | Some url \<Rightarrow>
          bindE (accessTokenHash host (dp_accessToken options)) (\<lambda>ath.
          Inr (jkt,
            issue_when (jget header (lit ''typ'') \<noteq> Some (JStr (lit ''dpop+jwt''))) ''DPOP_TYP_INVALID''
            @ issue_when (alg \<noteq> Some (JStr ES256) \<and> alg \<noteq> Some (JStr EdDSA)) ''DPOP_ALGORITHM_UNSUPPORTED''
            @ issue_when (case jwk of None \<Rightarrow> True | Some k \<Rightarrow> jget k (lit ''d'') \<noteq> None \<or> \<not> dpopJwkMatchesAlgorithm k alg) ''DPOP_JWK_INVALID''
            @ issue_when (case dp_expectedJkt options of None \<Rightarrow> False | Some e \<Rightarrow> e \<noteq> [] \<and> jkt \<noteq> Some e) ''DPOP_KEY_BINDING_MISMATCH''
            @ issue_when (jget claims (lit ''htm'') \<noteq> Some (JStr (toUpperCase (h_upper host) (req_method request)))) ''DPOP_METHOD_MISMATCH''
            @ issue_when (jget claims (lit ''htu'') \<noteq> Some (JStr (url_origin url @ url_pathname url))) ''DPOP_URI_MISMATCH''
            @ issue_when (jget claims (lit ''ath'') \<noteq> Some (JStr ath)) ''DPOP_TOKEN_HASH_MISMATCH''
            @ issue_when (dpop_time_invalid options now (jget claims (lit ''iat''))) ''DPOP_TIME_INVALID''
            @ issue_when (dpop_jti_invalid (jget claims (lit ''jti''))) ''DPOP_JTI_INVALID''))))"

text \<open>The signature, checked only when nothing was wrong before.\<close>

definition dpop_signature_issues :: "('w, 'k) host \<Rightarrow> jobject \<Rightarrow> jstring \<Rightarrow> jstring \<Rightarrow> jstring \<Rightarrow> jstring list result" where
  "dpop_signature_issues host header encodedHeader encodedPayload encodedSignature =
     (case as_object (jget header (lit ''jwk'')) of
        None \<Rightarrow> Inr []
      | Some jwk \<Rightarrow>
          let alg = (if jget header (lit ''alg'') = Some (JStr EdDSA) then EdDSA else ES256) in
          bindE (fromBase64url encodedSignature) (\<lambda>signature.
          let malformed = length signature \<noteq> 64 \<or> alg = EdDSA \<and> \<not> isValidEd25519PublicKey (Some (base64url (take 32 signature)));
              signingInput = TextEncoder_encode (encodedHeader @ lit ''.'' @ encodedPayload) in
          Inr (case bindE (cryptoProvider (h_crypto host)) (\<lambda>c. bindE (subtle_importKey c (JObj jwk) (webCryptoImportAlgorithm alg) (lit ''verify'')) (\<lambda>key.
              if malformed then Inr False else subtle_verify c (webCryptoAlgorithm alg) key signature signingInput)) of
            Inl _ \<Rightarrow> issue_when malformed ''DPOP_SIGNATURE_INVALID'' @ [lit ''DPOP_JWK_INVALID'']
          | Inr verified \<Rightarrow> issue_when (\<not> verified) ''DPOP_SIGNATURE_INVALID'')))"

text \<open>\<^verbatim>\<open>new Date(((claims.iat) + maxAge + skew) * 1000)\<close>: the time value, if it is one.\<close>

definition time_value :: "jsnum \<Rightarrow> int option" where
  "time_value ms = (case ms of Fin x \<Rightarrow> if 8640000000000000 < \<bar>x\<bar> then None else Some (if 0 \<le> x then \<lfloor>x\<rfloor> else \<lceil>x\<rceil>) | _ \<Rightarrow> None)"

definition dpop_expiry :: "'w DpopVerificationOptions \<Rightarrow> jobject \<Rightarrow> int option" where
  "dpop_expiry options claims = (case as_number (jget claims (lit ''iat'')) of None \<Rightarrow> None
     | Some iat \<Rightarrow> time_value (num_mul (num_add (num_add iat (dpop_max_age options)) (dpop_skew options)) (Fin 1000)))"

definition dpop_replay_key :: "jstring option \<Rightarrow> jobject \<Rightarrow> jstring" where
  "dpop_replay_key jkt claims = (case jkt of None \<Rightarrow> lit ''undefined'' | Some t \<Rightarrow> t) @ 0 # String (jget claims (lit ''jti''))"

definition dpop_body :: "('w, 'k) host \<Rightarrow> jstring \<Rightarrow> Request \<Rightarrow> 'w DpopVerificationOptions \<Rightarrow> ('w, DpopVerificationResult) act" where
  "dpop_body host proof request options w =
     (case dpop_parts proof of
        None \<Rightarrow> throwA (PlainErr (lit ''malformed JWT'')) w
      | Some (encodedHeader, encodedPayload, encodedSignature) \<Rightarrow>
          bindA (liftA (bindE (decodeObject encodedHeader) (\<lambda>header. bindE (decodeObject encodedPayload) (\<lambda>claims.
            bindE (dpop_claim_issues host request options (dpop_now host options w) header claims) (\<lambda>(jkt, issues).
            bindE (if issues = [] then dpop_signature_issues host header encodedHeader encodedPayload encodedSignature else Inr issues) (\<lambda>found.
            Inr (jkt, claims, found))))))) (\<lambda>(jkt, claims, issues).
          bindA (if issues \<noteq> [] then returnA issues
                 else bindA (attemptA (dp_checkAndStore options (dpop_replay_key jkt claims) (dpop_expiry options claims))) (\<lambda>stored.
                   returnA (case stored of Inl _ \<Rightarrow> [lit ''DPOP_REPLAY_UNAVAILABLE''] | Inr fresh \<Rightarrow> issue_when (\<not> fresh) ''DPOP_REPLAY''))) (\<lambda>all_issues.
          returnA \<lparr>dpr_valid = (all_issues = []), dpr_jkt = (case jkt of Some t \<Rightarrow> if t = [] then None else jkt | None \<Rightarrow> None),
            dpr_claims = Some claims, dpr_issues = all_issues\<rparr>)) w)"

definition verifyDpopProof :: "('w, 'k) host \<Rightarrow> jstring \<Rightarrow> Request \<Rightarrow> 'w DpopVerificationOptions \<Rightarrow> ('w, DpopVerificationResult) act" where
  "verifyDpopProof host proof request options =
     (if dp_accessToken options = [] then returnA (dpop_refused ''DPOP_TOKEN_INVALID'')
      else if dpop_policy_invalid options then returnA (dpop_refused ''DPOP_POLICY_INVALID'')
      else catchA (dpop_body host proof request options) (\<lambda>_. returnA (dpop_refused ''DPOP_MALFORMED'')))"

section \<open>OAuth bindings\<close>

definition dpopAuthorizationHeaders :: "jstring \<Rightarrow> jstring \<Rightarrow> http_headers result" where
  "dpopAuthorizationHeaders accessToken proof =
     bindE (required_text accessToken (lit ''accessToken'')) (\<lambda>_. bindE (required_text proof (lit ''proof'')) (\<lambda>_.
     bindE (headers_set (lit ''Authorization'') (lit ''DPoP '' @ accessToken) []) (\<lambda>headers. headers_set (lit ''DPoP'') proof headers)))"

definition oatiOAuthClaims :: "TransactionEnvelope \<Rightarrow> AgentMandate \<Rightarrow> jstring \<Rightarrow> jobject result" where
  "oatiOAuthClaims envelope mandate dpopJkt =
     bindE (required_text dpopJkt (lit ''dpopJkt'')) (\<lambda>_.
     Inr [(lit ''cnf'', JObj [(lit ''jkt'', JStr dpopJkt)]),
          (lit ''oati'', JObj [(lit ''agent_id'', JStr (env_agent_id envelope)), (lit ''organisation_id'', JStr (env_organisation_id envelope)),
             (lit ''mandate_id'', JStr (man_id mandate)), (lit ''transaction_id'', JStr (env_id envelope))])])"

definition object_or_empty :: "json option \<Rightarrow> jobject" where
  "object_or_empty v = (case as_object v of Some r \<Rightarrow> r | None \<Rightarrow> [])"

definition validateOAuthBinding :: "jobject \<Rightarrow> TransactionEnvelope \<Rightarrow> jstring \<Rightarrow> jstring list" where
  "validateOAuthBinding claims envelope dpopJkt =
     (let cnf = object_or_empty (jget claims (lit ''cnf'')); oati = object_or_empty (jget claims (lit ''oati'')) in
      sort (issue_when (jget cnf (lit ''jkt'') \<noteq> Some (JStr dpopJkt)) ''OAUTH_DPOP_KEY_MISMATCH''
        @ issue_when (jget oati (lit ''agent_id'') \<noteq> Some (JStr (env_agent_id envelope))) ''OAUTH_AGENT_MISMATCH''
        @ issue_when (jget oati (lit ''organisation_id'') \<noteq> Some (JStr (env_organisation_id envelope))) ''OAUTH_ORGANISATION_MISMATCH''
        @ issue_when (jget oati (lit ''mandate_id'') \<noteq> Some (JStr (env_mandate_id envelope))) ''OAUTH_MANDATE_MISMATCH''
        @ issue_when (jget oati (lit ''transaction_id'') \<noteq> Some (JStr (env_id envelope))) ''OAUTH_TRANSACTION_MISMATCH''))"

end
