(* ===== verification/DpopProperties.thy ===== *)
theory DpopProperties
  imports Dpop VerificationProperties HeaderText
begin

text \<open>
  When a DPoP proof is valid, and what a replay store makes of it over a session.  A server with an
  in-memory store accepts a proof once until the store forgets it; the store forgets it at the
  start of the last second in which the proof is still current.
\<close>

section \<open>The verdict\<close>

definition dpop_signed :: "('w, 'k) host \<Rightarrow> jobject \<Rightarrow> jobject \<Rightarrow> jstring \<Rightarrow> jstring \<Rightarrow> jstring \<Rightarrow> bool" where
  "dpop_signed host header jwk encodedHeader encodedPayload encodedSignature \<longleftrightarrow>
     (\<exists>alg c key signature. jget header (lit ''alg'') = Some (JStr alg) \<and> alg \<in> {ES256, EdDSA} \<and> dpopJwkMatchesAlgorithm jwk (Some (JStr alg)) \<and>
        fromBase64url encodedSignature = Inr signature \<and> length signature = 64 \<and>
        (alg = EdDSA \<longrightarrow> isValidEd25519PublicKey (Some (base64url (take 32 signature)))) \<and>
        h_crypto host = Some c \<and> subtle_importKey c (JObj jwk) (webCryptoImportAlgorithm alg) (lit ''verify'') = Inr key \<and>
        subtle_verify c (webCryptoAlgorithm alg) key signature (TextEncoder_encode (encodedHeader @ lit ''.'' @ encodedPayload)) = Inr True)"

text \<open>The header names a public key of thumbprint \<open>jkt\<close>; the claims are for this request, this token and this time.\<close>

definition dpop_claims_ok :: "('w, 'k) host \<Rightarrow> Request \<Rightarrow> 'w DpopVerificationOptions \<Rightarrow> jsnum \<Rightarrow> jobject \<Rightarrow> jobject \<Rightarrow> jobject \<Rightarrow> jstring \<Rightarrow> bool" where
  "dpop_claims_ok host request options now header claims jwk jkt \<longleftrightarrow>
     jget header (lit ''typ'') = Some (JStr (lit ''dpop+jwt'')) \<and> jget header (lit ''jwk'') = Some (JObj jwk) \<and> jget jwk (lit ''d'') = None \<and>
     (\<exists>alg \<in> {ES256, EdDSA}. jget header (lit ''alg'') = Some (JStr alg) \<and> dpopJwkMatchesAlgorithm jwk (Some (JStr alg))) \<and>
     jwkThumbprint host jwk = Inr jkt \<and> (\<forall>e. dp_expectedJkt options = Some e \<and> e \<noteq> [] \<longrightarrow> e = jkt) \<and>
     jget claims (lit ''htm'') = Some (JStr (toUpperCase (h_upper host) (req_method request))) \<and>
     (\<exists>url. h_url host (req_url request) = Some url \<and> jget claims (lit ''htu'') = Some (JStr (url_origin url @ url_pathname url))) \<and>
     (\<exists>ath. accessTokenHash host (dp_accessToken options) = Inr ath \<and> jget claims (lit ''ath'') = Some (JStr ath)) \<and>
     (\<exists>iat. jget claims (lit ''iat'') = Some (JNum iat) \<and> \<not> num_less (num_add now (dpop_skew options)) iat \<and>
       \<not> num_less iat (num_sub (num_sub now (dpop_max_age options)) (dpop_skew options))) \<and>
     (\<exists>jti. jget claims (lit ''jti'') = Some (JStr jti) \<and> jti \<noteq> [] \<and> length jti \<le> 256)"

text \<open>The proof shows possession of the key.\<close>

definition dpop_bound :: "('w, 'k) host \<Rightarrow> jstring \<Rightarrow> Request \<Rightarrow> 'w DpopVerificationOptions \<Rightarrow> jsnum \<Rightarrow> jobject \<Rightarrow> jstring \<Rightarrow> bool" where
  "dpop_bound host proof request options now claims jkt \<longleftrightarrow>
     (\<exists>h p s header jwk. dpop_parts proof = Some (h, p, s) \<and> decodeObject h = Inr header \<and> decodeObject p = Inr claims \<and>
        dpop_claims_ok host request options now header claims jwk jkt \<and> dpop_signed host header jwk h p s)"

lemma dpop_signature_issues_Nil:
  assumes "jget header (lit ''jwk'') = Some (JObj jwk)" and "jget header (lit ''alg'') = Some (JStr alg)" and "alg \<in> {ES256, EdDSA}"
    and "dpopJwkMatchesAlgorithm jwk (Some (JStr alg))"
  shows "dpop_signature_issues host header h p s = Inr [] \<longleftrightarrow> dpop_signed host header jwk h p s"
proof -
  have alg: "(if jget header (lit ''alg'') = Some (JStr EdDSA) then EdDSA else ES256) = alg" using assms(2,3) by auto
  show ?thesis
  proof (cases "fromBase64url s")
    case (Inr signature)
    define malformed where "malformed \<longleftrightarrow> length signature \<noteq> 64 \<or> alg = EdDSA \<and> \<not> isValidEd25519PublicKey (Some (base64url (take 32 signature)))"
    define input where "input = TextEncoder_encode (h @ lit ''.'' @ p)"
    define checked where "checked = bindE (cryptoProvider (h_crypto host)) (\<lambda>c. bindE (subtle_importKey c (JObj jwk) (webCryptoImportAlgorithm alg) (lit ''verify'')) (\<lambda>key.
        if malformed then Inr False else subtle_verify c (webCryptoAlgorithm alg) key signature input))"
    have "dpop_signature_issues host header h p s = Inr [] \<longleftrightarrow> checked = Inr True"
      unfolding dpop_signature_issues_def assms(1) as_object.simps option.case Let_def alg Inr bindE_simps malformed_def [symmetric] input_def [symmetric] checked_def [symmetric]
      by (simp split: sum.split)
    also have "\<dots> \<longleftrightarrow> dpop_signed host header jwk h p s"
      using assms(2-4) Inr by (cases "h_crypto host")
        (auto simp: checked_def dpop_signed_def exn_iff cryptoProvider_def malformed_def input_def simp del: insert_iff)
    finally show ?thesis .
  qed (simp add: dpop_signature_issues_def dpop_signed_def assms(1))
qed

lemma dpop_time_valid: "\<not> dpop_time_invalid options now v \<longleftrightarrow> (\<exists>iat. v = Some (JNum iat) \<and> \<not> num_less (num_add now (dpop_skew options)) iat \<and>
     \<not> num_less iat (num_sub (num_sub now (dpop_max_age options)) (dpop_skew options)))"
  by (cases "as_number v") (auto simp: dpop_time_invalid_def)

lemma dpop_jti_valid: "\<not> dpop_jti_invalid v \<longleftrightarrow> (\<exists>jti. v = Some (JStr jti) \<and> jti \<noteq> [] \<and> length jti \<le> 256)"
  by (cases "as_string v") (auto simp: dpop_jti_invalid_def)

lemma dpop_claim_issues_Nil:
  "dpop_claim_issues host request options now header claims = Inr (key, []) \<longleftrightarrow>
     (\<exists>jwk jkt. key = Some jkt \<and> dpop_claims_ok host request options now header claims jwk jkt)"
proof (cases "as_object (jget header (lit ''jwk''))")
  case None
  then show ?thesis by (auto simp: dpop_claim_issues_def Let_def dpop_claims_ok_def dpop_time_valid [symmetric] dpop_jti_valid [symmetric] exn_iff split: option.splits)
next
  case (Some jwk)
  then show ?thesis
    by (cases "h_url host (req_url request)"; cases "dp_expectedJkt options")
      (auto simp: dpop_claim_issues_def Let_def dpop_claims_ok_def dpop_time_valid [symmetric] dpop_jti_valid [symmetric] exn_iff)
qed

lemma dpop_signature_Nil:
  "dpop_claims_ok host request options now header claims jwk jkt \<Longrightarrow>
     dpop_signature_issues host header h p s = Inr [] \<longleftrightarrow> dpop_signed host header jwk h p s"
  unfolding dpop_claims_ok_def using dpop_signature_issues_Nil by blast

text \<open>A bound proof goes to the replay store, any other proof stops before it.\<close>

definition dpop_acceptable :: "('w, 'k) host \<Rightarrow> jstring \<Rightarrow> Request \<Rightarrow> 'w DpopVerificationOptions \<Rightarrow> 'w \<Rightarrow> jobject \<Rightarrow> jstring \<Rightarrow> bool" where
  "dpop_acceptable host proof request options w claims jkt \<longleftrightarrow> dp_accessToken options \<noteq> [] \<and> \<not> dpop_policy_invalid options \<and>
     dpop_bound host proof request options (dpop_now host options w) claims jkt"

lemma dpop_stored:
  assumes "dpop_acceptable host proof request options w claims jkt"
  defines "stored \<equiv> dp_checkAndStore options (dpop_replay_key (Some jkt) claims) (dpop_expiry options claims) w"
  shows "\<exists>r. verifyDpopProof host proof request options w = (Inr r, snd stored) \<and> (dpr_valid r \<longleftrightarrow> fst stored = Inr True)"
proof -
  from assms(1) obtain h p s header jwk where b: "dpop_parts proof = Some (h, p, s)" "decodeObject h = Inr header" "decodeObject p = Inr claims"
    "dpop_claims_ok host request options (dpop_now host options w) header claims jwk jkt" "dpop_signed host header jwk h p s"
    by (auto simp: dpop_acceptable_def dpop_bound_def)
  from b(4) have "dpop_claim_issues host request options (dpop_now host options w) header claims = Inr (Some jkt, [])"
    by (auto simp: dpop_claim_issues_Nil)
  moreover have "dpop_signature_issues host header h p s = Inr []" using dpop_signature_Nil [OF b(4)] b(5) by blast
  ultimately have "dpop_body host proof request options w =
      (Inr \<lparr>dpr_valid = (fst stored = Inr True), dpr_jkt = (if jkt = [] then None else Some jkt), dpr_claims = Some claims,
        dpr_issues = (case fst stored of Inl _ \<Rightarrow> [lit ''DPOP_REPLAY_UNAVAILABLE''] | Inr fresh \<Rightarrow> issue_when (\<not> fresh) ''DPOP_REPLAY'')\<rparr>, snd stored)"
    using b(1-3) by (simp add: dpop_body_def bindA_def stored_def split: sum.split)
  then show ?thesis using assms(1) by (auto simp: verifyDpopProof_def dpop_acceptable_def catchA_def)
qed

lemma dpop_not_stored:
  assumes "\<nexists>claims jkt. dpop_acceptable host proof request options w claims jkt"
  shows "\<exists>r. verifyDpopProof host proof request options w = (Inr r, w) \<and> \<not> dpr_valid r"
proof (cases "dp_accessToken options = [] \<or> dpop_policy_invalid options")
  case False
  then have unbound: "\<not> dpop_bound host proof request options (dpop_now host options w) claims jkt" for claims jkt
    using assms by (auto simp: dpop_acceptable_def)
  have "(\<exists>e. dpop_body host proof request options w = (Inl e, w)) \<or> (\<exists>r. dpop_body host proof request options w = (Inr r, w) \<and> \<not> dpr_valid r)"
  proof (cases "dpop_parts proof")
    case (Some parts)
    obtain h p s where parts: "parts = (h, p, s)" by (cases parts)
    define checks where "checks = bindE (decodeObject h) (\<lambda>header. bindE (decodeObject p) (\<lambda>claims.
            bindE (dpop_claim_issues host request options (dpop_now host options w) header claims) (\<lambda>(jkt, issues).
            bindE (if issues = [] then dpop_signature_issues host header h p s else Inr issues) (\<lambda>found. Inr (jkt, claims, found)))))"
    show ?thesis
    proof (cases checks)
      case (Inl e)
      then show ?thesis by (simp add: dpop_body_def Some parts checks_def [symmetric])
    next
      case (Inr result)
      obtain jkt claims found where result: "result = (jkt, claims, found)" by (cases result)
      have "found \<noteq> []"
      proof
        assume "found = []"
        with Inr result obtain header where c: "decodeObject h = Inr header" "decodeObject p = Inr claims"
          "dpop_claim_issues host request options (dpop_now host options w) header claims = Inr (jkt, [])" "dpop_signature_issues host header h p s = Inr []"
          by (auto simp: checks_def exn_iff split: if_splits)
        from c(3) obtain jwk t where ok: "dpop_claims_ok host request options (dpop_now host options w) header claims jwk t"
          by (auto simp: dpop_claim_issues_Nil)
        with c dpop_signature_Nil [OF ok] unbound show False unfolding dpop_bound_def Some parts by blast
      qed
      with Inr result show ?thesis by (simp add: dpop_body_def Some parts checks_def [symmetric])
    qed
  qed (simp add: dpop_body_def)
  then show ?thesis using False by (auto simp: verifyDpopProof_def catchA_def dpop_refused_def)
qed (auto simp: verifyDpopProof_def dpop_refused_def)

section \<open>Sessions\<close>

text \<open>The world of a server with an in-memory replay store: the entries and the clock.\<close>

type_synonym dpop_world = "replay_entries \<times> int"

definition memory_store :: "(dpop_world, 'k) host \<Rightarrow> dpop_world DpopVerificationOptions \<Rightarrow> bool" where
  "memory_store host options \<longleftrightarrow> h_now host = snd \<and> dp_now options = None \<and>
     dp_checkAndStore options = (\<lambda>key expiry (entries, clock).
       (Inr (fst (MemoryReplayCache_checkAndStore entries key expiry clock)), (snd (MemoryReplayCache_checkAndStore entries key expiry clock), clock)))"

fun dpop_session :: "(dpop_world, 'k) host \<Rightarrow> dpop_world DpopVerificationOptions \<Rightarrow> replay_entries \<Rightarrow> (int \<times> jstring \<times> Request) list \<Rightarrow> bool list" where
  "dpop_session host options entries [] = []"
| "dpop_session host options entries ((clock, proof, request) # requests) =
     (case verifyDpopProof host proof request options (entries, clock) of
        (Inr r, (entries', _)) \<Rightarrow> dpr_valid r # dpop_session host options entries' requests
      | (Inl _, (entries', _)) \<Rightarrow> False # dpop_session host options entries' requests)"

text \<open>Claims and thumbprint are functions of the proof.\<close>

definition dpop_claims :: "jstring \<Rightarrow> jobject" where
  "dpop_claims proof = (case dpop_parts proof of None \<Rightarrow> [] | Some (_, p, _) \<Rightarrow> (case decodeObject p of Inr claims \<Rightarrow> claims | Inl _ \<Rightarrow> []))"

definition dpop_thumbprint :: "('w, 'k) host \<Rightarrow> jstring \<Rightarrow> jstring" where
  "dpop_thumbprint host proof = (case dpop_parts proof of None \<Rightarrow> [] | Some (h, _, _) \<Rightarrow>
     (case decodeObject h of Inl _ \<Rightarrow> [] | Inr header \<Rightarrow> (case jget header (lit ''jwk'') of
        Some (JObj jwk) \<Rightarrow> (case jwkThumbprint host jwk of Inr t \<Rightarrow> t | Inl _ \<Rightarrow> []) | _ \<Rightarrow> [])))"

lemma dpop_acceptable_parts:
  "dpop_acceptable host proof request options w claims jkt \<Longrightarrow> claims = dpop_claims proof \<and> jkt = dpop_thumbprint host proof"
  by (auto simp: dpop_acceptable_def dpop_bound_def dpop_claims_ok_def dpop_claims_def dpop_thumbprint_def)

definition dpop_call :: "(dpop_world, 'k) host \<Rightarrow> dpop_world DpopVerificationOptions \<Rightarrow> int \<times> jstring \<times> Request \<Rightarrow> bool \<times> jstring \<times> int option \<times> int" where
  "dpop_call host options = (\<lambda>(clock, proof, request).
     (dpop_acceptable host proof request options ([], clock) (dpop_claims proof) (dpop_thumbprint host proof),
      dpop_replay_key (Some (dpop_thumbprint host proof)) (dpop_claims proof), dpop_expiry options (dpop_claims proof), clock))"

lemma dpop_acceptable_entries:
  "memory_store host options \<Longrightarrow> dpop_acceptable host proof request options (entries, clock) = dpop_acceptable host proof request options ([], clock)"
  by (intro ext) (simp add: dpop_acceptable_def dpop_now_def memory_store_def)

lemma dpop_session_answers:
  assumes "memory_store host options"
  shows "dpop_session host options entries requests = memory_cache.answers entries (map (dpop_call host options) requests)"
proof (induction requests arbitrary: entries)
  case (Cons request requests)
  obtain clock jws req where r: "request = (clock, jws, req)" by (cases request)
  note same = dpop_acceptable_entries [OF assms, where entries = entries]
  show ?case
  proof (cases "dpop_acceptable host jws req options (entries, clock) (dpop_claims jws) (dpop_thumbprint host jws)")
    case True
    define key expiry where "key = dpop_replay_key (Some (dpop_thumbprint host jws)) (dpop_claims jws)" and "expiry = dpop_expiry options (dpop_claims jws)"
    have store: "dp_checkAndStore options key expiry (entries, clock) =
        (Inr (fst (MemoryReplayCache_checkAndStore entries key expiry clock)), (snd (MemoryReplayCache_checkAndStore entries key expiry clock), clock))"
      using assms by (simp add: memory_store_def)
    from dpop_stored [OF True] obtain res where v:
      "verifyDpopProof host jws req options (entries, clock) = (Inr res, (snd (MemoryReplayCache_checkAndStore entries key expiry clock), clock))"
      "dpr_valid res \<longleftrightarrow> fst (MemoryReplayCache_checkAndStore entries key expiry clock)"
      unfolding key_def [symmetric] expiry_def [symmetric] store by (simp only: fst_conv snd_conv sum.inject simp_thms) blast
    from True have "dpop_call host options request = (True, key, expiry, clock)" by (simp add: r dpop_call_def same key_def expiry_def)
    then show ?thesis by (simp add: r v Cons.IH)
  next
    case False
    have "\<nexists>claims jkt. dpop_acceptable host jws req options (entries, clock) claims jkt"
    proof (intro notI, elim exE)
      fix claims jkt assume a: "dpop_acceptable host jws req options (entries, clock) claims jkt"
      from dpop_acceptable_parts [OF a] a False show False by simp
    qed
    from dpop_not_stored [OF this] obtain res where v: "verifyDpopProof host jws req options (entries, clock) = (Inr res, (entries, clock))" "\<not> dpr_valid res"
      by blast
    from False have "\<not> fst (dpop_call host options request)" unfolding same by (simp add: r dpop_call_def)
    then show ?thesis by (cases "dpop_call host options request") (simp add: r v Cons.IH)
  qed
qed simp

section \<open>The time window in whole seconds\<close>

text \<open>Options left at their defaults, and a proof issued at second \<open>n\<close>.\<close>

definition default_window :: "'w DpopVerificationOptions \<Rightarrow> jstring \<Rightarrow> int \<Rightarrow> bool" where
  "default_window options jws n \<longleftrightarrow> dp_clockSkewSeconds options = None \<and> dp_maxAgeSeconds options = None \<and>
     jget (dpop_claims jws) (lit ''iat'') = Some (JNum (num_of_int n)) \<and> \<bar>n\<bar> \<le> 2 ^ 41"

lemma num_sub_of_int: "\<bar>a - b\<bar> \<le> 2 ^ 53 \<Longrightarrow> num_sub (num_of_int a) (num_of_int b) = num_of_int (a - b)"
  using num_add_of_int [of a "- b"] by (simp add: num_sub_def num_of_int_def)

lemma default_bounds:
  assumes "default_window options jws n"
  shows "dpop_skew options = num_of_int 30" "dpop_max_age options = num_of_int 300"
  using assms by (simp_all add: default_window_def dpop_skew_def dpop_max_age_def num_of_int_def)

lemma default_expiry:
  assumes "default_window options jws n"
  shows "dpop_expiry options (dpop_claims jws) = Some ((n + 330) * 1000)"
proof -
  have n: "\<bar>n\<bar> \<le> 2 ^ 41" using assms by (simp add: default_window_def)
  then have "num_add (num_add (num_of_int n) (num_of_int 300)) (num_of_int 30) = num_of_int (n + 330)"
    by (simp add: num_add_of_int add.commute)
  moreover have "num_mul (num_of_int (n + 330)) (Fin 1000) = Fin (of_int ((n + 330) * 1000))"
    using n fl_of_int_exact [of "(n + 330) * 1000"] by (simp add: num_of_int_def)
  moreover have "time_value (Fin (of_int ((n + 330) * 1000))) = Some ((n + 330) * 1000)"
  proof -
    have "\<bar>(n + 330) * 1000\<bar> \<le> 8640000000000000" using n by simp
    then have "\<bar>of_int ((n + 330) * 1000) :: rat\<bar> \<le> 8640000000000000" by linarith
    then show ?thesis by (simp add: time_value_def del: of_int_mult of_int_add)
  qed
  ultimately show ?thesis
    using assms default_bounds [OF assms] by (simp add: dpop_expiry_def default_window_def del: of_int_mult of_int_add)
qed

lemma default_times:
  assumes "default_window options jws n" and "\<bar>clock\<bar> \<le> 8640000000000000"
  shows "dpop_time_invalid options (num_of_int (clock div 1000)) (jget (dpop_claims jws) (lit ''iat'')) \<longleftrightarrow>
     clock div 1000 + 30 < n \<or> n + 330 < clock div 1000"
proof -
  have "\<bar>clock div 1000\<bar> \<le> 8640000000000" using assms(2) by linarith
  then have "num_add (num_of_int (clock div 1000)) (num_of_int 30) = num_of_int (clock div 1000 + 30)"
    "num_sub (num_sub (num_of_int (clock div 1000)) (num_of_int 300)) (num_of_int 30) = num_of_int (clock div 1000 - 330)"
    by (simp_all add: num_add_of_int num_sub_of_int)
  then show ?thesis
    using assms(1) default_bounds [OF assms(1)] by (auto simp: dpop_time_invalid_def default_window_def)
qed

lemma acceptable_time:
  assumes "dpop_acceptable host jws request options ([], clock) claims jkt" and "memory_store host options"
  shows "\<not> dpop_time_invalid options (num_of_int (clock div 1000)) (jget (dpop_claims jws) (lit ''iat''))"
proof -
  have "claims = dpop_claims jws" using dpop_acceptable_parts [OF assms(1)] by simp
  then show ?thesis
    using assms by (auto simp: dpop_acceptable_def dpop_bound_def dpop_claims_ok_def dpop_time_invalid_def dpop_now_def memory_store_def)
qed

text \<open>Only the time window looks at the clock.\<close>

lemma claims_later:
  assumes "dpop_claims_ok host request options now header claims jwk jkt" and "\<not> dpop_time_invalid options now' (jget claims (lit ''iat''))"
  shows "dpop_claims_ok host request options now' header claims jwk jkt"
  using assms unfolding dpop_claims_ok_def dpop_time_valid [symmetric] by simp

lemma acceptable_later:
  assumes "dpop_acceptable host jws request options ([], clock) claims jkt" and "memory_store host options"
    and "\<not> dpop_time_invalid options (num_of_int (clock' div 1000)) (jget (dpop_claims jws) (lit ''iat''))"
  shows "dpop_acceptable host jws request options ([], clock') claims jkt"
proof -
  have "claims = dpop_claims jws" using dpop_acceptable_parts [OF assms(1)] by simp
  moreover have "dpop_now host options ([], clock') = num_of_int (clock' div 1000)" using assms(2) by (simp add: dpop_now_def memory_store_def)
  ultimately show ?thesis
    using assms(1,3) claims_later unfolding dpop_acceptable_def dpop_bound_def by metis
qed

section \<open>A sample proof\<close>

definition dpop_part :: "json \<Rightarrow> jstring" where
  "dpop_part j = base64url (TextEncoder_encode (serializeCanonical j))"

lemma decode_dpop_part:
  assumes "canonical_form (JObj r)"
  shows "decodeObject (dpop_part (JObj r)) = Inr r" and "dpop_part (JObj r) \<noteq> []"
  using encoded_not_Nil [OF assms] serialize_reads_back [OF assms]
  by (simp_all add: decodeObject_def dpop_part_def fromBase64url_base64url base64url_not_Nil del: serializeCanonical.simps)

definition dpop_coordinate :: jstring where
  "dpop_coordinate = lit ''AAAAAAAAAAAAAAAAAAAAAAAAAAAAAAAAAAAAAAAAAAA''"

definition dpop_sample_jwk :: jobject where
  "dpop_sample_jwk = [(lit ''crv'', JStr (lit ''P-256'')), (lit ''kty'', JStr (lit ''EC'')), (lit ''x'', JStr dpop_coordinate), (lit ''y'', JStr dpop_coordinate)]"

definition dpop_sample_header :: jobject where
  "dpop_sample_header = [(lit ''alg'', JStr ES256), (lit ''jwk'', JObj dpop_sample_jwk), (lit ''typ'', JStr (lit ''dpop+jwt''))]"

definition dpop_sample_claims :: jobject where
  "dpop_sample_claims = [(lit ''ath'', JStr (base64url [0])), (lit ''htm'', JStr (lit ''POST'')), (lit ''htu'', JStr (lit ''https://b/'')),
     (lit ''iat'', JNum (num_of_int 1000)), (lit ''jti'', JStr (lit ''jti-1''))]"

definition dpop_sample :: jstring where
  "dpop_sample = dpop_part (JObj dpop_sample_header) @ 46 # dpop_part (JObj dpop_sample_claims) @ 46 # base64url (replicate 64 0)"

definition dpop_sample_host :: "(dpop_world, unit) host" where
  "dpop_sample_host = \<lparr>h_legacy = no_legacy, h_crypto = Some zero_provider, h_digest = (\<lambda>_. Inr [0]),
     h_url = (\<lambda>_. Some \<lparr>url_protocol = lit ''https:'', url_username = [], url_password = [], url_pathname = lit ''/'', url_search = [], url_hash = [],
       url_origin = lit ''https://b''\<rparr>),
     h_upper = (\<lambda>s. s), h_validators = (\<lambda>_ _. (True, None)), h_now = snd, h_randomUUID = None, h_getRandomValues = (\<lambda>_. None)\<rparr>"

definition dpop_sample_options :: "dpop_world DpopVerificationOptions" where
  "dpop_sample_options = \<lparr>dp_accessToken = lit ''token'', dp_expectedJkt = None, dp_now = None, dp_clockSkewSeconds = None, dp_maxAgeSeconds = None,
     dp_checkAndStore = (\<lambda>key expiry (entries, clock).
       (Inr (fst (MemoryReplayCache_checkAndStore entries key expiry clock)), (snd (MemoryReplayCache_checkAndStore entries key expiry clock), clock)))\<rparr>"

definition dpop_sample_request :: Request where
  "dpop_sample_request = \<lparr>req_method = lit ''POST'', req_url = lit ''https://b/'', req_header = (\<lambda>_. None), req_body = Inr []\<rparr>"

lemma dpop_sample_store: "memory_store dpop_sample_host dpop_sample_options"
  by (simp add: memory_store_def dpop_sample_host_def dpop_sample_options_def)

lemma dpop_coordinate_bytes: "fromBase64url dpop_coordinate = Inr (replicate 32 0)"
  by code_simp

lemma dpop_sample_forms: "canonical_form (JObj dpop_sample_header)" "canonical_form (JObj dpop_sample_claims)"
  by (simp_all add: dpop_sample_header_def dpop_sample_claims_def dpop_sample_jwk_def num_of_int_def max_safe_def)

lemma dpop_sample_parts: "dpop_parts dpop_sample = Some (dpop_part (JObj dpop_sample_header), dpop_part (JObj dpop_sample_claims), base64url (replicate 64 0))"
proof -
  have plain: "46 \<notin> set (dpop_part j)" "46 \<notin> set (base64url bytes)" for j bytes
    unfolding dpop_part_def by (rule url_units_no_dot [OF base64url_units])+
  have full: "dpop_part (JObj dpop_sample_header) \<noteq> []" "dpop_part (JObj dpop_sample_claims) \<noteq> []" "base64url (replicate 64 0) \<noteq> []"
    by (rule decode_dpop_part(2) [OF dpop_sample_forms(1)] decode_dpop_part(2) [OF dpop_sample_forms(2)] base64url_not_Nil; simp)+
  show ?thesis
    using full by (simp add: dpop_parts_def dpop_sample_def split_unit_once [OF plain(1)] split_unit_none [OF plain(2)])
qed

lemma dpop_sample_reads: "dpop_claims dpop_sample = dpop_sample_claims"
  using decode_dpop_part(1) [OF dpop_sample_forms(2)] by (simp add: dpop_claims_def dpop_sample_parts)

lemma dpop_sample_window: "default_window dpop_sample_options dpop_sample 1000"
  by (simp add: default_window_def dpop_sample_options_def dpop_sample_reads) (simp add: dpop_sample_claims_def jget_def)

lemma dpop_sample_thumbprint: "jwkThumbprint dpop_sample_host dpop_sample_jwk = Inr (base64url [0])"
proof -
  have "is_scalar dpop_coordinate" by (simp add: dpop_coordinate_def scalar_plain)
  then have "\<exists>t. canonicalJson_tree (JObj dpop_sample_jwk) = Inr t"
    using canonicalJson_tree_complete [of "JObj dpop_sample_jwk"] by (simp add: dpop_sample_jwk_def scalar_plain)
  moreover have "dpop_coordinate \<noteq> []" by (simp add: dpop_coordinate_def)
  ultimately show ?thesis
    by (auto simp: jwkThumbprint_def thumbprint_members_def dpop_sample_jwk_def jget_def) (auto simp: dpop_sample_host_def)
qed

lemma dpop_sample_acceptable:
  assumes "\<bar>clock\<bar> \<le> 8640000000000000" and "970 \<le> clock div 1000" and "clock div 1000 \<le> 1330"
  shows "\<exists>claims jkt. dpop_acceptable dpop_sample_host dpop_sample dpop_sample_request dpop_sample_options ([], clock) claims jkt"
proof -
  have time: "\<not> dpop_time_invalid dpop_sample_options (num_of_int (clock div 1000)) (jget dpop_sample_claims (lit ''iat''))"
    using default_times [OF dpop_sample_window assms(1)] assms(2,3) by (simp add: dpop_sample_reads)
  have now: "dpop_now dpop_sample_host dpop_sample_options ([], clock) = num_of_int (clock div 1000)"
    by (simp add: dpop_now_def dpop_sample_host_def dpop_sample_options_def)
  have ath: "accessTokenHash dpop_sample_host (dp_accessToken dpop_sample_options) = Inr (base64url [0])"
    by (simp add: accessTokenHash_def dpop_sample_host_def)
  have url: "lit ''https://b'' @ lit ''/'' = lit ''https://b/''" by (simp add: lit_append [symmetric])
  have jwk: "dpopJwkMatchesAlgorithm dpop_sample_jwk (Some (JStr ES256))"
    by (simp add: dpopJwkMatchesAlgorithm_def length_32_def dpop_coordinate_bytes dpop_sample_jwk_def jget_def)
  have upper: "toUpperCase (h_upper dpop_sample_host) (req_method dpop_sample_request) = lit ''POST''"
    unfolding dpop_sample_host_def dpop_sample_request_def by (simp only: host.simps Request.simps) code_simp
  have ok: "dpop_claims_ok dpop_sample_host dpop_sample_request dpop_sample_options (num_of_int (clock div 1000)) dpop_sample_header dpop_sample_claims
      dpop_sample_jwk (base64url [0])"
    unfolding dpop_claims_ok_def dpop_time_valid [symmetric] upper
  proof (intro conjI bexI [of _ ES256] time dpop_sample_thumbprint)
    show "\<exists>u. h_url dpop_sample_host (req_url dpop_sample_request) = Some u \<and> jget dpop_sample_claims (lit ''htu'') = Some (JStr (url_origin u @ url_pathname u))"
      by (simp add: dpop_sample_host_def dpop_sample_claims_def jget_def url)
  qed (use ath jwk in \<open>simp_all add: dpop_sample_header_def dpop_sample_claims_def dpop_sample_jwk_def dpop_sample_options_def jget_def\<close>)
  have "dpop_signed dpop_sample_host dpop_sample_header dpop_sample_jwk h p (base64url (replicate 64 0))" for h p
    using jwk fromBase64url_base64url [of "replicate 64 0"]
    by (simp add: dpop_signed_def dpop_sample_host_def zero_provider_def dpop_sample_header_def jget_def)
  with ok now dpop_sample_parts decode_dpop_part(1) dpop_sample_forms
  have "dpop_bound dpop_sample_host dpop_sample dpop_sample_request dpop_sample_options (dpop_now dpop_sample_host dpop_sample_options ([], clock))
      dpop_sample_claims (base64url [0])"
    unfolding dpop_bound_def now by blast
  moreover have "dp_accessToken dpop_sample_options \<noteq> [] \<and> \<not> dpop_policy_invalid dpop_sample_options"
    by (simp add: dpop_sample_options_def dpop_policy_invalid_def)
  ultimately show ?thesis unfolding dpop_acceptable_def by blast
qed

lemma dpop_sample_accepted:
  assumes "\<bar>clock\<bar> \<le> 8640000000000000" and "970 \<le> clock div 1000" and "clock div 1000 \<le> 1330"
  shows "dpop_session dpop_sample_host dpop_sample_options [] [(clock, dpop_sample, dpop_sample_request)] = [True]"
proof -
  from dpop_sample_acceptable [OF assms] obtain claims jkt where
    a: "dpop_acceptable dpop_sample_host dpop_sample dpop_sample_request dpop_sample_options ([], clock) claims jkt" by blast
  with dpop_acceptable_parts [OF a] show ?thesis
    unfolding dpop_session_answers [OF dpop_sample_store] by (simp add: dpop_call_def MemoryReplayCache_checkAndStore_def Let_def)
qed

section \<open>Properties\<close>

text \<open>
  C15: A DPoP proof is reported valid exactly when a policy of sane bounds finds it well formed and
  typed, made with a public key of the announced algorithm and of the expected thumbprint, for the
  method and address of this request and for this access token, within the time window, signed by
  that key, and the replay store accepts its identifier; the call never throws, and a proof that
  fails any check before the last leaves the replay store alone.
\<close>

theorem dpop_valid_iff:
  "\<exists>r. verifyDpopProof host proof request options w =
       (Inr r, if \<exists>claims jkt. dpop_acceptable host proof request options w claims jkt
               then snd (dp_checkAndStore options (dpop_replay_key (Some (dpop_thumbprint host proof)) (dpop_claims proof)) (dpop_expiry options (dpop_claims proof)) w)
               else w) \<and>
     (dpr_valid r \<longleftrightarrow> (\<exists>claims jkt. dpop_acceptable host proof request options w claims jkt \<and>
        fst (dp_checkAndStore options (dpop_replay_key (Some jkt) claims) (dpop_expiry options claims) w) = Inr True))"
proof (cases "\<exists>claims jkt. dpop_acceptable host proof request options w claims jkt")
  case True
  then obtain claims jkt where a: "dpop_acceptable host proof request options w claims jkt" by blast
  have unique: "claims' = claims \<and> jkt' = jkt" if "dpop_acceptable host proof request options w claims' jkt'" for claims' jkt'
    using dpop_acceptable_parts [OF a] dpop_acceptable_parts [OF that] by simp
  from dpop_stored [OF a] obtain r where "verifyDpopProof host proof request options w =
      (Inr r, snd (dp_checkAndStore options (dpop_replay_key (Some jkt) claims) (dpop_expiry options claims) w))"
    "dpr_valid r \<longleftrightarrow> fst (dp_checkAndStore options (dpop_replay_key (Some jkt) claims) (dpop_expiry options claims) w) = Inr True" by blast
  moreover from this(2) have "dpr_valid r \<longleftrightarrow> (\<exists>claims jkt. dpop_acceptable host proof request options w claims jkt \<and>
        fst (dp_checkAndStore options (dpop_replay_key (Some jkt) claims) (dpop_expiry options claims) w) = Inr True)"
    using a unique by blast
  ultimately show ?thesis using True dpop_acceptable_parts [OF a] by auto
next
  case False
  from dpop_not_stored [OF False] False show ?thesis by auto
qed

text \<open>
  C16: A server with an in-memory replay store and the default time window (thirty seconds of skew,
  five minutes of age) accepts the same DPoP proof a second time only within the one second that
  ends the window: 330 seconds after it was issued, when the store has just forgotten it.
\<close>

theorem dpop_proof_accepted_once:
  assumes "memory_store host options" and "default_window options jws n"
    and "sorted (map fst requests)" and "\<forall>q \<in> set requests. \<bar>fst q\<bar> \<le> 8640000000000000"
    and "i < j" and "j < length requests" and "fst (snd (requests ! i)) = jws" and "fst (snd (requests ! j)) = jws"
    and "dpop_session host options [] requests ! i" and "dpop_session host options [] requests ! j"
  shows "(n + 330) * 1000 \<le> fst (requests ! j) \<and> fst (requests ! j) < (n + 331) * 1000"
proof -
  let ?calls = "map (dpop_call host options) requests"
  note session = dpop_session_answers [OF assms(1), of "[]" requests]
  have call: "dpop_call host options (requests ! k) = (dpop_acceptable host jws (snd (snd (requests ! k))) options ([], fst (requests ! k))
        (dpop_claims jws) (dpop_thumbprint host jws), dpop_replay_key (Some (dpop_thumbprint host jws)) (dpop_claims jws), Some ((n + 330) * 1000), fst (requests ! k))"
    if "k = i \<or> k = j" for k
    using that assms(7,8) default_expiry [OF assms(2)] by (cases "requests ! k") (auto simp: dpop_call_def)
  have times: "(\<lambda>c. snd (snd (snd c))) \<circ> dpop_call host options = fst" by (auto simp: dpop_call_def fun_eq_iff)
  have "\<not> time_less (Some (fst (requests ! j))) (Some ((n + 330) * 1000))"
    using memory_cache.accepted_once [of "[]" ?calls i j] assms(3,5,6,9,10) call times by (simp add: session)
  moreover have "dpop_acceptable host jws (snd (snd (requests ! j))) options ([], fst (requests ! j)) (dpop_claims jws) (dpop_thumbprint host jws)"
    using memory_cache.answered_reached [where c = "[]" and calls = ?calls and j = j] assms(6,10) call by (simp add: session)
  from acceptable_time [OF this assms(1)] have "fst (requests ! j) div 1000 \<le> n + 330"
    using default_times [OF assms(2), of "fst (requests ! j)"] assms(4,6) by simp
  ultimately show ?thesis by simp
qed

text \<open>
  C40: In that last second a DPoP proof is accepted again: the store keeps the identifier until the
  end of the window in milliseconds, while the window itself is compared in whole seconds, so a proof
  that was accepted once and is sent again 330 seconds after it was issued is accepted twice.
\<close>

theorem dpop_replayed_in_last_second:
  assumes "memory_store host options" and "default_window options jws n"
    and "dpop_session host options [] [(first, jws, request)] = [True]" and "\<bar>again\<bar> \<le> 8640000000000000"
    and "(n + 330) * 1000 \<le> again" and "again < (n + 331) * 1000"
  shows "dpop_session host options [] [(first, jws, request), (again, jws, request)] = [True, True]"
proof -
  let ?jkt = "dpop_thumbprint host jws" and ?claims = "dpop_claims jws"
  note session = dpop_session_answers [OF assms(1), of "[]"]
  have acceptable: "dpop_acceptable host jws request options ([], first) ?claims ?jkt"
    using assms(3) unfolding session by (simp add: dpop_call_def split: if_splits)
  have "again div 1000 = n + 330"
    using assms(5,6) by (intro int_div_pos_eq [where r = "again - (n + 330) * 1000"]) simp_all
  then have "dpop_acceptable host jws request options ([], again) ?claims ?jkt"
    using acceptable_later [OF acceptable assms(1)] default_times [OF assms(2,4)] by simp
  with acceptable assms(5) default_expiry [OF assms(2)] show ?thesis
    unfolding session by (simp add: dpop_call_def MemoryReplayCache_checkAndStore_def Let_def om_set_def)
qed

theorem dpop_replayed_in_last_second_witness:
  "dpop_session dpop_sample_host dpop_sample_options []
     [(1000000, dpop_sample, dpop_sample_request), (1330500, dpop_sample, dpop_sample_request)] = [True, True]"
  by (rule dpop_replayed_in_last_second [OF dpop_sample_store dpop_sample_window dpop_sample_accepted]) simp_all

lemma dpop_sample_session:
  "dpop_session dpop_sample_host dpop_sample_options []
     [(1000000, dpop_sample, dpop_sample_request), (1330500, dpop_sample, dpop_sample_request)] = [True, True]"
proof -
  have "\<exists>claims jkt. dpop_acceptable dpop_sample_host dpop_sample dpop_sample_request dpop_sample_options ([], 1000000) claims jkt"
    "\<exists>claims jkt. dpop_acceptable dpop_sample_host dpop_sample dpop_sample_request dpop_sample_options ([], 1330500) claims jkt"
    by (rule dpop_sample_acceptable; simp)+
  with default_expiry [OF dpop_sample_window] show ?thesis
    unfolding dpop_session_answers [OF dpop_sample_store]
    by (auto simp: dpop_call_def MemoryReplayCache_checkAndStore_def Let_def om_set_def dest: dpop_acceptable_parts)
qed

theorem dpop_proof_accepted_once_witness: "(1000 + 330) * 1000 \<le> (1330500 :: int) \<and> (1330500 :: int) < (1000 + 331) * 1000"
  using dpop_proof_accepted_once [OF dpop_sample_store dpop_sample_window, of
      "[(1000000, dpop_sample, dpop_sample_request), (1330500, dpop_sample, dpop_sample_request)]" 0 1]
  by (simp add: dpop_sample_session del: dpop_session.simps)

end
