(* ===== verification/Adapters.thy ===== *)
theory Adapters
  imports Dpop
begin

text \<open>
  The protocol half of \<^verbatim>\<open>adapters.ts\<close>: OATI authority in MCP tool calls and A2A messages, the
  inputs of the AuthZEN, Cedar and OPA engines and their answers, and the Envoy external
  authorisation request.  An Envelope or Mandate is the document with its view at the declared
  type; an \<^verbatim>\<open>unknown\<close> argument is a JSON value, and a member that may be \<^verbatim>\<open>undefined\<close> is an option.
\<close>

section \<open>Helpers\<close>

definition lenUtf8 :: "jstring \<Rightarrow> nat" where
  "lenUtf8 value = length (TextEncoder_encode value)"

definition isHttps :: "('w, 'k) host \<Rightarrow> jstring \<Rightarrow> bool" where
  "isHttps host value = (case h_url host value of None \<Rightarrow> False | Some url \<Rightarrow> url_protocol url = lit ''https:'')"

definition stringArray :: "json option \<Rightarrow> jstring list" where
  "stringArray value = (case as_array value of None \<Rightarrow> [] | Some xs \<Rightarrow> List.map_filter (\<lambda>item. as_string (Some item)) xs)"

definition stringOr :: "json option \<Rightarrow> jstring \<Rightarrow> jstring" where
  "stringOr value fallback = (case as_string value of None \<Rightarrow> fallback | Some s \<Rightarrow> if s = [] then fallback else s)"

text \<open>\<^verbatim>\<open>/[^A-Za-z0-9._:-]/g\<close> is the complement of \<open>id_unit\<close>.\<close>

definition safeId :: "jstring \<Rightarrow> jstring" where
  "safeId value = map (\<lambda>u. if id_unit u then u else 45) value"

definition digestJson :: "('w, 'k) host \<Rightarrow> json \<Rightarrow> jstring result" where
  "digestJson host value = bindE (canonicalJson_tree value) (\<lambda>t. mapR (\<lambda>d. lit ''sha256:'' @ hex d) (h_digest host (TextEncoder_encode t)))"

definition array_or_empty :: "json option \<Rightarrow> json list" where
  "array_or_empty v = (case as_array v of Some xs \<Rightarrow> xs | None \<Rightarrow> [])"

definition adapterHeaders :: "TransactionEnvelope narrowed \<Rightarrow> AgentMandate narrowed \<Rightarrow> http_headers result" where
  "adapterHeaders envelopeValue mandate =
     bindE (encodeOatiHeader (JObj (fst envelopeValue))) (\<lambda>e. bindE (encodeOatiHeader (JObj (fst mandate))) (\<lambda>m.
     bindE (headers_set (hn_envelope OATI_HTTP_HEADERS) e []) (\<lambda>headers.
     bindE (headers_set (hn_mandate OATI_HTTP_HEADERS) m headers) (\<lambda>headers.
     headers_set (hn_transactionId OATI_HTTP_HEADERS) (env_id (snd envelopeValue)) headers))))"

section \<open>MCP\<close>

definition OATI_MCP_EXTENSION_URI :: jstring where
  "OATI_MCP_EXTENSION_URI = lit ''https://specs.intelliger.ai/oati/extensions/mcp/v0.1''"

definition OATI_A2A_EXTENSION_URI :: jstring where
  "OATI_A2A_EXTENSION_URI = lit ''https://specs.intelliger.ai/oati/extensions/a2a/v0.1''"

record AdapterEnvelopeInput =
  ai_id :: jstring
  ai_agentId :: jstring
  ai_organisationId :: jstring
  ai_mandateId :: jstring
  ai_purpose :: jstring
  ai_issuedAt :: jstring
  ai_nonce :: jstring

text \<open>The loop over the identifiers.\<close>

definition required_prefix :: "jstring \<times> jstring \<times> jstring \<Rightarrow> unit \<Rightarrow> unit result" where
  "required_prefix = (\<lambda>(value, name, start) _.
     if \<not> startsWith value start \<or> length value = length start
     then Inl (adapterError (name @ lit '' must be a valid '' @ start @ lit '' identifier'')) else Inr ())"

definition adapter_envelope :: "('w, 'k) host \<Rightarrow> AdapterEnvelopeInput \<Rightarrow> jstring \<Rightarrow> jstring \<Rightarrow> protocol \<Rightarrow> jobject \<Rightarrow> TransactionEnvelope result" where
  "adapter_envelope host input action resource protocol extensions =
     bindE (foldE required_prefix
       [(ai_id input, lit ''id'', lit ''oati:tx:''), (ai_agentId input, lit ''agentId'', lit ''oati:agent:''),
        (ai_organisationId input, lit ''organisationId'', lit ''oati:org:''), (ai_mandateId input, lit ''mandateId'', lit ''oati:mandate:'')] ()) (\<lambda>_.
     bindE (required_text (ai_purpose input) (lit ''purpose'')) (\<lambda>_.
     if lenUtf8 (ai_nonce input) < 16 then Inl (adapterError (lit ''nonce must contain at least 16 UTF-8 bytes''))
     else if Date_parse (h_legacy host) (ai_issuedAt input) = None then Inl (adapterError (lit ''issuedAt must be a valid instant''))
     else Inr \<lparr>env_oati_version = lit ''1.0'', env_id = ai_id input, env_agent_id = ai_agentId input, env_organisation_id = ai_organisationId input,
       env_mandate_id = ai_mandateId input, env_action = action, env_resource = resource, env_purpose = Some (ai_purpose input),
       env_destination = None, env_counterparty = None, env_protocol = Some protocol, env_commercial_profile = None, env_request_digest = None,
       env_issued_at = ai_issuedAt input, env_nonce = ai_nonce input, env_profile = None, env_extensions = Some extensions, env_proof = None\<rparr>))"

definition mcpProtectedResourceMetadata :: "('w, 'k) host \<Rightarrow> jstring \<Rightarrow> jstring list \<Rightarrow> jstring \<Rightarrow> jstring list option \<Rightarrow> jobject result" where
  "mcpProtectedResourceMetadata host resource authorizationServers lookupUrl scopes =
     (if \<not> isHttps host resource \<or> \<not> isHttps host lookupUrl \<or> authorizationServers = [] \<or> \<not> list_all (isHttps host) authorizationServers
      then Inl (adapterError (lit ''MCP metadata requires HTTPS resource, lookup, and authorization server URLs''))
      else Inr ([(lit ''resource'', JStr resource), (lit ''authorization_servers'', JArr (map JStr authorizationServers))]
        @ (case scopes of None \<Rightarrow> [] | Some s \<Rightarrow> [(lit ''scopes_supported'', JArr (map JStr s))])
        @ [(lit ''oati'', JObj [(lit ''extension'', JStr OATI_MCP_EXTENSION_URI), (lit ''lookup_url'', JStr lookupUrl),
             (lit ''mandate_header'', JStr (hn_mandate OATI_HTTP_HEADERS)), (lit ''envelope_header'', JStr (hn_envelope OATI_HTTP_HEADERS))])]))"

definition mcpToolCallEnvelope :: "('w, 'k) host \<Rightarrow> AdapterEnvelopeInput \<Rightarrow> jstring \<Rightarrow> jstring \<Rightarrow> jobject \<Rightarrow> TransactionEnvelope result" where
  "mcpToolCallEnvelope host input serverId toolName arguments =
     bindE (required_text serverId (lit ''serverId'')) (\<lambda>_. bindE (required_text toolName (lit ''toolName'')) (\<lambda>_.
     bindE (digestJson host (JObj arguments)) (\<lambda>digest.
     adapter_envelope host input (lit ''mcp.tools.call'') (lit ''mcp:server:'' @ serverId @ lit '':tool:'' @ toolName) Mcp
       [(lit ''mcp'', JObj [(lit ''server_id'', JStr serverId), (lit ''tool_name'', JStr toolName), (lit ''arguments_digest'', JStr digest)])])))"

definition mcpAuthorizationHeaders :: "TransactionEnvelope narrowed \<Rightarrow> AgentMandate narrowed \<Rightarrow> jstring option \<Rightarrow> http_headers result" where
  "mcpAuthorizationHeaders envelope mandate accessToken =
     bindE (adapterHeaders envelope mandate) (\<lambda>headers.
     case accessToken of None \<Rightarrow> Inr headers
     | Some token \<Rightarrow> if token = [] then Inr headers else headers_set (lit ''Authorization'') (lit ''Bearer '' @ token) headers)"

definition mcpResultWithReceipt :: "jobject \<Rightarrow> jobject \<Rightarrow> jobject" where
  "mcpResultWithReceipt result receipt =
     (let existing = object_or_empty (jget result (lit ''_meta''))
      in om_set (lit ''_meta'') (JObj (om_set OATI_MCP_EXTENSION_URI (JObj [(lit ''receipt'', JObj receipt)]) existing)) result)"

section \<open>A2A\<close>

definition has_extension :: "json list \<Rightarrow> bool" where
  "has_extension = list_ex (\<lambda>item. case item of JObj r \<Rightarrow> jget r (lit ''uri'') = Some (JStr OATI_A2A_EXTENSION_URI) | _ \<Rightarrow> False)"

definition has_oauth :: "json list \<Rightarrow> bool" where
  "has_oauth = list_ex (\<lambda>requirement. case requirement of
     JObj r \<Rightarrow> length r = 1 \<and> as_array (jget r (lit ''oati_oauth'')) \<noteq> None | _ \<Rightarrow> False)"

definition a2aAgentCard :: "('w, 'k) host \<Rightarrow> jobject \<Rightarrow> jstring \<Rightarrow> jstring \<Rightarrow> jobject \<Rightarrow> jobject result" where
  "a2aAgentCard host agent_card authorizationUrl tokenUrl scopes =
     (if \<not> isHttps host authorizationUrl \<or> \<not> isHttps host tokenUrl then Inl (adapterError (lit ''A2A OAuth endpoints must use HTTPS''))
      else
        let capabilities = object_or_empty (jget agent_card (lit ''capabilities''));
            declared = array_or_empty (jget capabilities (lit ''extensions''));
            extensions = (if has_extension declared then declared
              else declared @ [JObj [(lit ''uri'', JStr OATI_A2A_EXTENSION_URI), (lit ''required'', JBool True)]]);
            required = array_or_empty (jget agent_card (lit ''security''));
            security = (if has_oauth required then required else required @ [JObj [(lit ''oati_oauth'', JArr (map (\<lambda>s. JStr (fst s)) scopes))]]);
            flows = JObj [(lit ''authorizationCode'', JObj [(lit ''authorizationUrl'', JStr authorizationUrl), (lit ''tokenUrl'', JStr tokenUrl), (lit ''scopes'', JObj scopes)])]
        in Inr (om_set (lit ''security'') (JArr security)
            (om_set (lit ''securitySchemes'') (JObj (om_set (lit ''oati_oauth'') (JObj [(lit ''oauth2SecurityScheme'', JObj [(lit ''flows'', flows)])])
               (object_or_empty (jget agent_card (lit ''securitySchemes'')))))
            (om_set (lit ''capabilities'') (JObj (om_set (lit ''extensions'') (JArr extensions) capabilities)) agent_card))))"

definition text_member :: "string \<Rightarrow> jstring option \<Rightarrow> jobject" where
  "text_member name v = (case v of None \<Rightarrow> [] | Some s \<Rightarrow> if s = [] then [] else [(lit name, JStr s)])"

definition a2aMessageEnvelope ::
  "('w, 'k) host \<Rightarrow> AdapterEnvelopeInput \<Rightarrow> jstring \<Rightarrow> jstring \<Rightarrow> jstring option \<Rightarrow> jstring option \<Rightarrow> json list \<Rightarrow> TransactionEnvelope result" where
  "a2aMessageEnvelope host input targetAgentId messageId contextId taskId parts =
     bindE (required_text targetAgentId (lit ''targetAgentId'')) (\<lambda>_. bindE (required_text messageId (lit ''messageId'')) (\<lambda>_.
     bindE (digestJson host (JArr parts)) (\<lambda>digest.
     adapter_envelope host input (lit ''a2a.message.send'') targetAgentId A2a
       [(lit ''a2a'', JObj ([(lit ''message_id'', JStr messageId)] @ text_member ''context_id'' contextId @ text_member ''task_id'' taskId
          @ [(lit ''parts_digest'', JStr digest), (lit ''extension'', JStr OATI_A2A_EXTENSION_URI)]))])))"

definition a2aMessageWithAuthority :: "jobject \<Rightarrow> TransactionEnvelope narrowed \<Rightarrow> AgentMandate narrowed \<Rightarrow> jobject" where
  "a2aMessageWithAuthority message envelope mandate =
     (let metadata = object_or_empty (jget message (lit ''metadata''))
      in om_set (lit ''metadata'') (JObj (om_set OATI_A2A_EXTENSION_URI
           (JObj [(lit ''envelope'', JObj (fst envelope)), (lit ''mandate'', JObj (fst mandate))]) metadata)) message)"

section \<open>Policy engines\<close>

text \<open>Members of an object literal; \<open>None\<close> is \<^verbatim>\<open>undefined\<close>.\<close>

type_synonym literal_members = "(jstring \<times> json option) list"

record AuthZenEntity =
  ze_type :: jstring
  ze_id :: jstring
  ze_properties :: "jobject option"

record AuthZenEvaluationRequest =
  zr_subject :: AuthZenEntity
  zr_action :: AuthZenEntity
  zr_resource :: AuthZenEntity
  zr_context :: literal_members

definition purpose_of :: "TransactionEnvelope \<Rightarrow> AgentMandate \<Rightarrow> jstring" where
  "purpose_of envelope mandate = (case env_purpose envelope of None \<Rightarrow> man_purpose mandate | Some p \<Rightarrow> p)"

definition toAuthZenRequest :: "TransactionEnvelope narrowed \<Rightarrow> AgentMandate narrowed \<Rightarrow> AuthZenEvaluationRequest" where
  "toAuthZenRequest envelope mandate =
     (let e = snd envelope; m = snd mandate in
      \<lparr>zr_subject = \<lparr>ze_type = lit ''oati_agent'', ze_id = env_agent_id e, ze_properties = Some [(lit ''organisation_id'', JStr (env_organisation_id e))]\<rparr>,
       zr_action = \<lparr>ze_type = lit ''oati_action'', ze_id = env_action e, ze_properties = None\<rparr>,
       zr_resource = \<lparr>ze_type = lit ''oati_resource'', ze_id = env_resource e, ze_properties = None\<rparr>,
       zr_context = [(lit ''transaction_id'', Some (JStr (env_id e))), (lit ''mandate_id'', Some (JStr (man_id m))), (lit ''purpose'', Some (JStr (purpose_of e m))),
         (lit ''counterparty'', map_option JStr (env_counterparty e)), (lit ''destination'', map_option JStr (env_destination e)),
         (lit ''mandate'', Some (JObj (fst mandate))), (lit ''envelope'', Some (JObj (fst envelope)))]\<rparr>)"

text \<open>\<^verbatim>\<open>at = new Date()\<close> reads the clock; \<open>Some None\<close> is an invalid date.\<close>

definition fromAuthZenResponse :: "('w, 'k) host \<Rightarrow> 'w \<Rightarrow> jobject \<Rightarrow> TransactionEnvelope \<Rightarrow> jstring \<Rightarrow> int option option \<Rightarrow> AuthorisationDecision result" where
  "fromAuthZenResponse host w response envelope issuer at_time =
     (case jget response (lit ''decision'') of
        Some (JBool decision) \<Rightarrow>
          bindE (required_text issuer (lit ''issuer'')) (\<lambda>_.
          case (case at_time of None \<Rightarrow> Some (h_now host w) | Some t \<Rightarrow> t) of
            None \<Rightarrow> Inl (adapterError (lit ''AuthZEN decision time must be valid''))
          | Some ms \<Rightarrow>
              let context_members = object_or_empty (jget response (lit ''context''));
                  obligations = List.map_filter (\<lambda>item. as_object (Some item)) (array_or_empty (jget context_members (lit ''obligations'')))
              in Inr \<lparr>dec_oati_version = lit ''1.0'', dec_id = lit ''oati:decision:authzen:'' @ safeId (env_id envelope), dec_transaction_id = env_id envelope,
                   dec_decision = (if decision then Allow else Deny), dec_policy_digest = stringOr (jget context_members (lit ''policy_digest'')) (lit ''authzen:unspecified''),
                   dec_reason_codes = Some (stringArray (jget context_members (lit ''reason_codes''))),
                   dec_obligations = (if obligations = [] then None else Some obligations),
                   dec_decided_at = toISOString ms, dec_expires_at = None, dec_issuer = issuer, dec_proof = None\<rparr>)
      | _ \<Rightarrow> Inl (adapterError (lit ''AuthZEN response decision must be boolean'')))"

record CedarEntityUid =
  cu_type :: jstring
  cu_id :: jstring

record CedarRequest =
  cq_principal :: CedarEntityUid
  cq_action :: CedarEntityUid
  cq_resource :: CedarEntityUid
  cq_context :: jobject

definition mandate_status_text :: "mandate_status \<Rightarrow> jstring" where
  "mandate_status_text s = (case s of Active \<Rightarrow> lit ''active'' | Suspended \<Rightarrow> lit ''suspended'' | Revoked \<Rightarrow> lit ''revoked''
     | Expired \<Rightarrow> lit ''expired'' | Consumed \<Rightarrow> lit ''consumed'')"

definition normalizedPolicyContext :: "TransactionEnvelope \<Rightarrow> AgentMandate \<Rightarrow> jobject" where
  "normalizedPolicyContext envelopeValue mandate =
     [(lit ''transaction_id'', JStr (env_id envelopeValue)), (lit ''mandate_id'', JStr (man_id mandate)),
      (lit ''purpose'', JStr (purpose_of envelopeValue mandate)),
      (lit ''counterparty'', JStr (case env_counterparty envelopeValue of None \<Rightarrow> [] | Some c \<Rightarrow> c)),
      (lit ''destination'', JStr (case env_destination envelopeValue of None \<Rightarrow> [] | Some d \<Rightarrow> d)),
      (lit ''organisation_id'', JStr (env_organisation_id envelopeValue)), (lit ''mandate_status'', JStr (mandate_status_text (man_status mandate))),
      (lit ''mandate_expires_at'', JStr (man_expires_at mandate))]"

definition toCedarRequest :: "TransactionEnvelope \<Rightarrow> AgentMandate \<Rightarrow> CedarRequest" where
  "toCedarRequest envelope mandate =
     \<lparr>cq_principal = \<lparr>cu_type = lit ''OatiAgent'', cu_id = env_agent_id envelope\<rparr>, cq_action = \<lparr>cu_type = lit ''OatiAction'', cu_id = env_action envelope\<rparr>,
      cq_resource = \<lparr>cu_type = lit ''OatiResource'', cu_id = env_resource envelope\<rparr>, cq_context = normalizedPolicyContext envelope mandate\<rparr>"

record OpaInput =
  op_principal :: jstring
  op_action :: jstring
  op_resource :: jstring
  op_context :: jobject
  op_envelope :: "TransactionEnvelope narrowed"
  op_mandate :: "AgentMandate narrowed"
  op_decision :: "decision_kind option"

definition toOpaInput :: "TransactionEnvelope narrowed \<Rightarrow> AgentMandate narrowed \<Rightarrow> AuthorisationDecision option \<Rightarrow> OpaInput" where
  "toOpaInput envelope mandate decision =
     \<lparr>op_principal = env_agent_id (snd envelope), op_action = env_action (snd envelope), op_resource = env_resource (snd envelope),
      op_context = normalizedPolicyContext (snd envelope) (snd mandate), op_envelope = envelope, op_mandate = mandate,
      op_decision = map_option dec_decision decision\<rparr>"

definition opaAllowed :: "json option \<Rightarrow> bool" where
  "opaAllowed response = (case as_object response of None \<Rightarrow> False | Some r \<Rightarrow> jget r (lit ''result'') = Some (JBool True))"

section \<open>Envoy\<close>

record EnvoyHttp =
  eh_method :: "jstring option"
  eh_path :: "jstring option"
  eh_host :: "jstring option"
  eh_headers :: "(jstring \<times> jstring) list option"
  eh_body :: "jstring option"

text \<open>\<^verbatim>\<open>CheckRequest.attributes\<close>, with \<^verbatim>\<open>request?.http\<close> flattened.\<close>

record EnvoyAttributes =
  ea_http :: "EnvoyHttp option"
  ea_source :: "json option"
  ea_destination :: "json option"
  ea_metadataContext :: "json option"

record EnvoyOatiInput =
  ei_method :: jstring
  ei_path :: jstring
  ei_host :: jstring
  ei_headers :: "(jstring \<times> jstring) list"
  ei_body :: "jstring option"
  ei_source :: "json option"
  ei_destination :: "json option"
  ei_metadata :: "json option"
  ei_envelope :: json
  ei_mandate :: json
  ei_parentMandate :: "json option"

text \<open>\<^verbatim>\<open>/^[!#$%&'*+.^_`|~0-9a-z-]+$/\<close>\<close>

definition header_unit :: "code_unit \<Rightarrow> bool" where
  "header_unit u \<longleftrightarrow> is_lower u \<or> is_digit u \<or> u \<in> {33, 35, 36, 37, 38, 39, 42, 43, 45, 46, 94, 95, 96, 124, 126}"

text \<open>
  One turn of the loop of \<^verbatim>\<open>lowerHeaders\<close>.  \<^verbatim>\<open>lowered in result\<close> also finds the members every
  object literal inherits; of those only \<^verbatim>\<open>constructor\<close> and \<^verbatim>\<open>__proto__\<close> are in lower case.
\<close>

definition lowerHeader :: "case_map \<Rightarrow> jstring \<times> jstring \<Rightarrow> (jstring \<times> jstring) list \<times> nat \<Rightarrow> ((jstring \<times> jstring) list \<times> nat) result" where
  "lowerHeader table = (\<lambda>(key, value) (headers, bytes).
     let lowered = toLowerCase table key; bytes' = bytes + (lenUtf8 key + lenUtf8 value) in
     if \<not> (lowered = lit '':authority'' \<or> lowered \<noteq> [] \<and> list_all header_unit lowered) \<or> list_ex (\<lambda>u. u \<in> {0, 10, 13}) value
     then Inl (adapterError (lit ''Envoy CheckRequest contains an unsafe header''))
     else if 98304 < bytes' then Inl (adapterError (lit ''Envoy CheckRequest headers exceed 98304 bytes''))
     else if lowered \<in> fst ` set headers \<or> lowered \<in> {lit ''constructor'', lit ''__proto__''}
     then Inl (adapterError (lit ''Envoy CheckRequest contains duplicate '' @ lowered @ lit '' headers''))
     else Inr (headers @ [(lowered, value)], bytes'))"

definition lowerHeaders :: "case_map \<Rightarrow> (jstring \<times> jstring) list \<Rightarrow> (jstring \<times> jstring) list result" where
  "lowerHeaders table headers = mapR fst (foldE (lowerHeader table) headers ([], 0))"

definition decodeAuthorityHeader :: "jstring option \<Rightarrow> jstring \<Rightarrow> json result" where
  "decodeAuthorityHeader value name =
     (let v = (case value of None \<Rightarrow> [] | Some s \<Rightarrow> s) in
      if v = [] then Inl (adapterError (lit ''OATI '' @ name @ lit '' header is missing''))
      else if 65536 < lenUtf8 v then Inl (adapterError (lit ''OATI '' @ name @ lit '' header exceeds 65536 bytes''))
      else (case bindE (fromBase64url v) (\<lambda>bytes. case decode_fatal bytes of None \<Rightarrow> Inl (TypeErr []) | Some t \<Rightarrow> JSON_parse t) of
          Inl _ \<Rightarrow> Inl (adapterError (lit ''OATI '' @ name @ lit '' header is malformed''))
        | Inr j \<Rightarrow> Inr j))"

definition fromEnvoyCheckRequest :: "('w, 'k) host \<Rightarrow> case_map \<Rightarrow> EnvoyAttributes option \<Rightarrow> EnvoyOatiInput result" where
  "fromEnvoyCheckRequest host lower_table attributes =
     (case Option.bind attributes ea_http of
        None \<Rightarrow> Inl (adapterError (lit ''Envoy CheckRequest is missing HTTP attributes''))
      | Some http \<Rightarrow> (case (eh_method http, eh_path http) of
          (Some method_name, Some path) \<Rightarrow>
            if method_name = [] \<or> path = [] then Inl (adapterError (lit ''Envoy CheckRequest is missing HTTP attributes''))
            else
              bindE (lowerHeaders lower_table (case eh_headers http of None \<Rightarrow> [] | Some hs \<Rightarrow> hs)) (\<lambda>headers.
              if (case eh_body http of None \<Rightarrow> False | Some body \<Rightarrow> 1048576 < lenUtf8 body)
              then Inl (adapterError (lit ''Envoy CheckRequest body exceeds 1048576 bytes''))
              else
                bindE (decodeAuthorityHeader (map_of headers (map lower_unit (hn_envelope OATI_HTTP_HEADERS))) (lit ''Envelope'')) (\<lambda>envelope.
                bindE (decodeAuthorityHeader (map_of headers (map lower_unit (hn_mandate OATI_HTTP_HEADERS))) (lit ''Mandate'')) (\<lambda>mandate.
                let parentValue = map_of headers (map lower_unit (hn_parentMandate OATI_HTTP_HEADERS)) in
                bindE (if parentValue = None \<or> parentValue = Some [] then Inr None
                       else mapR Some (decodeAuthorityHeader parentValue (lit ''Parent Mandate''))) (\<lambda>parentMandate.
                Inr \<lparr>ei_method = toUpperCase (h_upper host) method_name, ei_path = path,
                  ei_host = (case eh_host http of Some h \<Rightarrow> h | None \<Rightarrow> (case map_of headers (lit '':authority'') of Some a \<Rightarrow> a | None \<Rightarrow> [])),
                  ei_headers = headers, ei_body = eh_body http, ei_source = Option.bind attributes ea_source,
                  ei_destination = Option.bind attributes ea_destination, ei_metadata = Option.bind attributes ea_metadataContext,
                  ei_envelope = envelope, ei_mandate = mandate, ei_parentMandate = parentMandate\<rparr>))))
        | _ \<Rightarrow> Inl (adapterError (lit ''Envoy CheckRequest is missing HTTP attributes''))))"

definition envoyDecisionHeaders :: "AuthorisationDecision \<Rightarrow> ActionReceipt narrowed option \<Rightarrow> (jstring \<times> jstring) list result" where
  "envoyDecisionHeaders decision receipt =
     bindE (case receipt of None \<Rightarrow> Inr []
            | Some (document, view) \<Rightarrow> bindE (encodeOatiHeader (JObj document)) (\<lambda>encoded.
                Inr [(lit ''x-oati-receipt-id'', rcp_id view), (lit ''x-oati-receipt'', encoded)])) (\<lambda>receipt_headers.
     Inr ([(lit ''x-oati-decision'', decision_text (dec_decision decision)), (lit ''x-oati-transaction-id'', dec_transaction_id decision),
           (lit ''x-oati-reason-codes'', join (lit '','') (case dec_reason_codes decision of None \<Rightarrow> [] | Some codes \<Rightarrow> codes))] @ receipt_headers))"

end
