(* ===== verification/AdapterProperties.thy ===== *)
theory AdapterProperties
  imports Adapters HeaderText Samples
begin

text \<open>
  The adapters' headers and claims: what \<open>adapterHeaders\<close> writes, \<open>fromEnvoyCheckRequest\<close> reads
  back; the OAuth claims made for an Envelope are the ones the binding check accepts; and the
  headers of an Envoy request that is accepted are distinct, in lower case and bounded.
\<close>

section \<open>Headers of an Envoy request\<close>

lemma lower_unit_same: "TextCase.lower_unit = lower_unit"
  by (simp add: fun_eq_iff TextCase.lower_unit_def LookupRecords.lower_unit_def)

definition plain_header :: "jstring \<times> jstring \<Rightarrow> bool" where
  "plain_header = (\<lambda>(name, content). ascii name \<and> map lower_unit name = name \<and> name \<noteq> [] \<and> list_all header_unit name \<and>
     name \<notin> {lit ''constructor'', lit ''__proto__''} \<and> \<not> list_ex (\<lambda>u. u \<in> {0, 10, 13}) content)"

definition header_bytes :: "(jstring \<times> jstring) list \<Rightarrow> nat" where
  "header_bytes headers = sum_list (map (\<lambda>(name, content). lenUtf8 name + lenUtf8 content) headers)"

lemma header_bytes_simps [simp]: "header_bytes [] = 0" "header_bytes ((name, content) # headers) = lenUtf8 name + lenUtf8 content + header_bytes headers"
  by (simp_all add: header_bytes_def)

lemma lower_loop:
  "list_all plain_header headers \<Longrightarrow> distinct (map fst (done_headers @ headers)) \<Longrightarrow> bytes + header_bytes headers \<le> 98304 \<Longrightarrow>
     foldE (lowerHeader table) headers (done_headers, bytes) = Inr (done_headers @ headers, bytes + header_bytes headers)"
proof (induction headers arbitrary: done_headers bytes)
  case (Cons h headers)
  obtain name content where h: "h = (name, content)" by (cases h)
  with Cons.prems have "lowerHeader table h (done_headers, bytes) = Inr (done_headers @ [h], bytes + (lenUtf8 name + lenUtf8 content))"
    by (auto simp: lowerHeader_def plain_header_def toLowerCase_def lower_unit_same Let_def)
  with Cons.IH [of "done_headers @ [h]" "bytes + (lenUtf8 name + lenUtf8 content)"] Cons.prems show ?case
    by (simp add: h add.assoc)
qed simp

lemma lowerHeaders_plain:
  assumes "list_all plain_header headers" and "distinct (map fst headers)" and "header_bytes headers \<le> 98304"
  shows "lowerHeaders table headers = Inr headers"
  using lower_loop [of headers "[]" 0 table] assms by (simp add: lowerHeaders_def)

text \<open>Whatever the client sent, the accepted headers are distinct, and name and content within the byte limit.\<close>

theorem accepted_headers_distinct:
  assumes "lowerHeaders table headers = Inr received"
  shows "distinct (map fst received) \<and> map snd received = map snd headers \<and>
     (\<forall>(name, content) \<in> set received. (name = lit '':authority'' \<or> list_all header_unit name) \<and> \<not> list_ex (\<lambda>u. u \<in> {0, 10, 13}) content)"
proof -
  from assms obtain bytes where "foldE (lowerHeader table) headers ([], 0) = Inr (received, bytes)" by (auto simp: lowerHeaders_def exn_iff)
  moreover have "distinct (map fst received) \<and> map snd received = map snd done_headers @ map snd hs \<and>
     (\<forall>(name, content) \<in> set received. (name = lit '':authority'' \<or> list_all header_unit name) \<and> \<not> list_ex (\<lambda>u. u \<in> {0, 10, 13}) content)"
    if "foldE (lowerHeader table) hs (done_headers, n) = Inr (received, bytes)" and "distinct (map fst done_headers)"
      and "\<forall>(name, content) \<in> set done_headers. (name = lit '':authority'' \<or> list_all header_unit name) \<and> \<not> list_ex (\<lambda>u. u \<in> {0, 10, 13}) content"
    for hs done_headers n
    using that
  proof (induction hs arbitrary: done_headers n)
    case (Cons h hs)
    obtain name content where h: "h = (name, content)" by (cases h)
    let ?state = "(done_headers @ [(toLowerCase table name, content)], n + (lenUtf8 name + lenUtf8 content))"
    from Cons.prems(1) have "lowerHeader table h (done_headers, n) = Inr ?state" "foldE (lowerHeader table) hs ?state = Inr (received, bytes)"
      by (auto simp: h exn_iff lowerHeader_def Let_def split: if_splits)
    moreover from this(1) have "toLowerCase table name \<notin> fst ` set done_headers"
      "toLowerCase table name = lit '':authority'' \<or> list_all header_unit (toLowerCase table name)" "\<not> list_ex (\<lambda>u. u \<in> {0, 10, 13}) content"
      by (auto simp: h lowerHeader_def Let_def split: if_splits)
    ultimately show ?case using Cons.IH [of "done_headers @ [(toLowerCase table name, content)]"] Cons.prems(2,3) by (simp add: h)
  qed auto
  ultimately show ?thesis by force
qed

section \<open>The headers of an authority\<close>

lemma url_unit_safe: "url_unit u \<Longrightarrow> \<not> header_space u \<and> \<not> 255 < u \<and> u \<notin> {0, 10, 13}"
  by (auto simp: url_unit_def header_space_def is_upper_def is_lower_def is_digit_def word_le_def word_less_def)

lemma header_trim_plain: "\<forall>u \<in> set content. \<not> header_space u \<Longrightarrow> header_trim content = content"
proof -
  assume plain: "\<forall>u \<in> set content. \<not> header_space u"
  have "dropWhile header_space us = us" if "set us \<subseteq> set content" for us
    using that plain by (cases us) auto
  then show ?thesis by (simp add: header_trim_def)
qed

lemma headers_set_url:
  assumes "list_all url_unit content"
  shows "headers_set name content headers = Inr (om_set (map lower_unit name) content headers)"
  using assms url_unit_safe by (auto simp: headers_set_Inr header_trim_plain list_all_iff list_ex_iff)

lemma headers_set_safe:
  assumes "headers_set name content headers = Inr headers'"
  shows "\<exists>v. headers' = om_set (map lower_unit name) v headers \<and> \<not> list_ex (\<lambda>u. u \<in> {0, 10, 13}) v"
  using assms unfolding headers_set_Inr list_ex_iff by blast

lemma encoded_units: "encodeOatiHeader document = Inr header \<Longrightarrow> list_all url_unit header"
  using base64url_units by (auto simp: encodeOatiHeader_def exn_iff)

lemma decode_authority:
  assumes "integer_json document" and "encodeOatiHeader document = Inr header" and "lenUtf8 header \<le> 65536"
  shows "decodeAuthorityHeader (Some header) name = Inr (canon document)"
proof -
  have form: "canonical_form (canon document)" using assms(1) by (rule canonical_form_canon)
  from assms(2) have h: "header = base64url (TextEncoder_encode (serializeCanonical (canon document)))"
    using canonicalJson_tree_canon [OF _ integer_json_unique [OF assms(1)]] by (auto simp: encodeOatiHeader_def exn_iff)
  obtain c cs where c: "serializeCanonical (canon document) = c # cs" "starts_value c" using serialize_starts [OF form] by blast
  then have "\<forall>r. serializeCanonical (canon document) \<noteq> 0xfeff # r" by (auto simp: starts_value_def is_digit_def)
  from decode_fatal_encode [OF serialize_well_formed [OF form] this] JSON_parse_serialize [OF form]
  have "bindE (fromBase64url header) (\<lambda>bytes. case decode_fatal bytes of None \<Rightarrow> Inl (TypeErr []) | Some t \<Rightarrow> JSON_parse t) = Inr (canon document)"
    using h fromBase64url_base64url encoded_not_Nil [OF form] by simp
  moreover have "header \<noteq> []" using h base64url_not_Nil encoded_not_Nil [OF form] by simp
  ultimately show ?thesis using assms(3) by (simp add: decodeAuthorityHeader_def)
qed

text \<open>What the MCP adapter writes: the two documents and plain headers.\<close>

lemma authority_headers:
  assumes "mcpAuthorizationHeaders envelope mandate token = Inr headers"
  obtains e m where "encodeOatiHeader (JObj (fst envelope)) = Inr e" and "encodeOatiHeader (JObj (fst mandate)) = Inr m"
    and "map_of headers (lit ''oati-envelope'') = Some e" and "map_of headers (lit ''oati-mandate'') = Some m"
    and "map_of headers (lit ''oati-parent-mandate'') = None" and "list_all plain_header headers" and "distinct (map fst headers)"
proof -
  have auth: "map lower_unit (lit ''Authorization'') = lit ''authorization''" by code_simp
  note names = lower_header_names auth
  have plain: "plain_header (name, v)" if "name \<in> set [lit ''oati-envelope'', lit ''oati-mandate'', lit ''oati-transaction-id'', lit ''authorization'']"
    "\<not> list_ex (\<lambda>u. u \<in> {0, 10, 13}) v" for name v
  proof -
    have "list_all (\<lambda>name. ascii name \<and> map lower_unit name = name \<and> name \<noteq> [] \<and> list_all header_unit name \<and> name \<notin> {lit ''constructor'', lit ''__proto__''})
        [lit ''oati-envelope'', lit ''oati-mandate'', lit ''oati-transaction-id'', lit ''authorization'']" by code_simp
    with that show ?thesis unfolding plain_header_def list_all_iff by blast
  qed
  from assms obtain e m h where em: "encodeOatiHeader (JObj (fst envelope)) = Inr e" "encodeOatiHeader (JObj (fst mandate)) = Inr m"
    and h: "headers_set (hn_transactionId OATI_HTTP_HEADERS) (env_id (snd envelope)) [(lit ''oati-envelope'', e), (lit ''oati-mandate'', m)] = Inr h"
    and a: "headers = h \<or> (\<exists>t. headers_set (lit ''Authorization'') t h = Inr headers)"
  proof -
    from assms obtain h where h: "adapterHeaders envelope mandate = Inr h" "headers = h \<or> (\<exists>t. headers_set (lit ''Authorization'') t h = Inr headers)"
      by (cases token) (auto simp: mcpAuthorizationHeaders_def exn_iff split: if_splits)
    moreover from h(1) obtain e m where "encodeOatiHeader (JObj (fst envelope)) = Inr e" "encodeOatiHeader (JObj (fst mandate)) = Inr m"
      "headers_set (hn_transactionId OATI_HTTP_HEADERS) (env_id (snd envelope)) [(lit ''oati-envelope'', e), (lit ''oati-mandate'', m)] = Inr h"
      by (auto simp: adapterHeaders_def exn_iff headers_set_url encoded_units names om_set_def)
    ultimately show thesis using that by blast
  qed
  from headers_set_safe [OF h] names obtain v where v: "h = [(lit ''oati-envelope'', e), (lit ''oati-mandate'', m), (lit ''oati-transaction-id'', v)]"
    "\<not> list_ex (\<lambda>u. u \<in> {0, 10, 13}) v" by (auto simp: om_set_def)
  have safe: "\<not> list_ex (\<lambda>u. u \<in> {0, 10, 13}) e" "\<not> list_ex (\<lambda>u. u \<in> {0, 10, 13}) m"
    using encoded_units [OF em(1)] encoded_units [OF em(2)] url_unit_safe by (auto simp: list_all_iff list_ex_iff)
  have "headers = h \<or> (\<exists>t. headers = h @ [(lit ''authorization'', t)] \<and> \<not> list_ex (\<lambda>u. u \<in> {0, 10, 13}) t)"
    using a headers_set_safe [of "lit ''Authorization''" _ h headers] auth v by (auto simp: om_set_def)
  then have "map_of headers (lit ''oati-envelope'') = Some e \<and> map_of headers (lit ''oati-mandate'') = Some m \<and>
      map_of headers (lit ''oati-parent-mandate'') = None \<and> list_all plain_header headers \<and> distinct (map fst headers)"
    using v safe plain by auto
  with em that show thesis by blast
qed

section \<open>OAuth claims\<close>

text \<open>The claims a token server makes for an Envelope and a Mandate pass the binding check exactly when the Envelope names that Mandate.\<close>

theorem oauth_claims_bind:
  assumes "oatiOAuthClaims envelope mandate jkt = Inr claims"
  shows "validateOAuthBinding claims envelope jkt = [] \<longleftrightarrow> env_mandate_id envelope = man_id mandate"
  using assms by (auto simp: oatiOAuthClaims_def exn_iff validateOAuthBinding_def object_or_empty_def jget_def issue_when_def split: if_splits)

section \<open>A sample request\<close>

definition adapter_headers_sample :: "(jstring \<times> jstring) list" where
  "adapter_headers_sample = [(lit ''oati-envelope'', lit ''eyJpZCI6InR4LTEifQ''), (lit ''oati-mandate'', lit ''eyJpZCI6Im1hbmRhdGUtMSJ9''),
     (lit ''oati-transaction-id'', lit ''tx-1''), (lit ''authorization'', lit ''Bearer token'')]"

lemma adapter_headers_written:
  "mcpAuthorizationHeaders ([(lit ''id'', JStr (lit ''tx-1''))], sample_envelope) ([(lit ''id'', JStr (lit ''mandate-1''))], sample_mandate) (Some (lit ''token'')) =
     Inr adapter_headers_sample"
  by code_simp

lemma adapter_headers_sizes:
  "map (\<lambda>(name, content). (lenUtf8 name, lenUtf8 content)) adapter_headers_sample = [(13, 18), (12, 24), (19, 4), (13, 12)]"
  by code_simp

lemma adapter_headers_limits:
  "\<forall>(name, content) \<in> set adapter_headers_sample. lenUtf8 content \<le> 65536" "header_bytes adapter_headers_sample \<le> 98304"
  using adapter_headers_sizes by (simp_all add: adapter_headers_sample_def)

definition check_sample :: EnvoyAttributes where
  "check_sample = \<lparr>ea_http = Some \<lparr>eh_method = Some (lit ''post''), eh_path = Some (lit ''/''), eh_host = None, eh_headers = Some adapter_headers_sample, eh_body = None\<rparr>,
     ea_source = None, ea_destination = None, ea_metadataContext = None\<rparr>"

section \<open>Property\<close>

text \<open>
  C17: The headers the MCP adapter writes for an Envelope and a Mandate are read back by the Envoy
  adapter: a request that carries them, with a method and a path and within the size limits, gives
  the two documents with their members in canonical order, no parent Mandate, the method in upper
  case, and exactly these headers.
\<close>

theorem adapter_headers_roundtrip:
  assumes "integer_json (JObj (fst envelope))" and "integer_json (JObj (fst mandate))"
    and "mcpAuthorizationHeaders envelope mandate token = Inr headers"
    and "\<forall>(name, content) \<in> set headers. lenUtf8 content \<le> 65536" and "header_bytes headers \<le> 98304"
    and "ea_http attributes = Some \<lparr>eh_method = Some verb, eh_path = Some path, eh_host = host_name, eh_headers = Some headers, eh_body = None\<rparr>"
    and "verb \<noteq> []" and "path \<noteq> []"
  shows "\<exists>input. fromEnvoyCheckRequest host table (Some attributes) = Inr input \<and> ei_envelope input = canon (JObj (fst envelope)) \<and>
     ei_mandate input = canon (JObj (fst mandate)) \<and> ei_parentMandate input = None \<and> ei_headers input = headers \<and>
     ei_method input = toUpperCase (h_upper host) verb \<and> ei_path input = path"
proof -
  from authority_headers [OF assms(3)] obtain e m where h: "encodeOatiHeader (JObj (fst envelope)) = Inr e" "encodeOatiHeader (JObj (fst mandate)) = Inr m"
    "map_of headers (lit ''oati-envelope'') = Some e" "map_of headers (lit ''oati-mandate'') = Some m"
    "map_of headers (lit ''oati-parent-mandate'') = None" "list_all plain_header headers" "distinct (map fst headers)" by blast
  have "lenUtf8 e \<le> 65536" "lenUtf8 m \<le> 65536" using assms(4) map_of_SomeD [OF h(3)] map_of_SomeD [OF h(4)] by auto
  with decode_authority [OF assms(1) h(1)] decode_authority [OF assms(2) h(2)]
  have "decodeAuthorityHeader (Some e) name = Inr (canon (JObj (fst envelope)))" "decodeAuthorityHeader (Some m) name = Inr (canon (JObj (fst mandate)))" for name
    by simp_all
  then show ?thesis
    using lowerHeaders_plain [OF h(6,7) assms(5)] h assms(6-8) by (simp add: fromEnvoyCheckRequest_def lower_header_names)
qed

theorem adapter_headers_roundtrip_witness:
  "\<forall>host table. \<exists>input. fromEnvoyCheckRequest host table (Some check_sample) = Inr input \<and> ei_envelope input = JObj [(lit ''id'', JStr (lit ''tx-1''))] \<and>
     ei_mandate input = JObj [(lit ''id'', JStr (lit ''mandate-1''))] \<and> ei_headers input = adapter_headers_sample"
proof (intro allI)
  fix host :: "('w, 'k) host" and table
  from adapter_headers_roundtrip [OF _ _ adapter_headers_written adapter_headers_limits, of check_sample "lit ''post''" "lit ''/''" None host table]
  show "\<exists>input. fromEnvoyCheckRequest host table (Some check_sample) = Inr input \<and> ei_envelope input = JObj [(lit ''id'', JStr (lit ''tx-1''))] \<and>
     ei_mandate input = JObj [(lit ''id'', JStr (lit ''mandate-1''))] \<and> ei_headers input = adapter_headers_sample"
    by (auto simp: check_sample_def own_members_def)
qed

end
