(* ===== verification/GatewayApplication.thy ===== *)
theory GatewayApplication
  imports GatewayConfig GatewayPolicy Lookup
begin

text \<open>
  The request handler of the Envoy authorizer, \<^verbatim>\<open>createApplication\<close> in
  \<^verbatim>\<open>services/envoy-authorizer/server.mjs\<close>: health, readiness, cache invalidation and the
  authorisation of a forwarded request by the middleware.  The services it calls are actions on
  the world; the HTTP server hands over the request and writes the answer.
\<close>

section \<open>Requests and answers\<close>

datatype header_value = OneValue jstring | ManyValues "jstring list"

record incoming =
  in_url :: "jstring option"
  in_method :: jstring
  in_headers :: "(jstring \<times> header_value) list"
  in_chunks :: "byte list list"
  in_end :: body_end

record answer =
  an_status :: int
  an_headers :: http_headers
  an_body :: "byte list"

text \<open>
  Valkey, the signing key, HTTP requests to other services (whether the response was \<^verbatim>\<open>ok\<close>; the
  status of a POST), the cache of the lookup client and the URL parser with a base.
\<close>

record 'w gateway_services =
  gs_command :: "'w commander"
  gs_signer_ready :: "('w, unit) act"
  gs_fetch_ok :: "jstring \<Rightarrow> int \<Rightarrow> ('w, bool) act"
  gs_post :: "jstring \<Rightarrow> int \<Rightarrow> jstring \<Rightarrow> jstring \<Rightarrow> ('w, int) act"
  gs_cache :: "(cache_entries \<Rightarrow> cache_entries) \<Rightarrow> 'w \<Rightarrow> 'w"
  gs_resolve :: "jstring \<Rightarrow> jstring \<Rightarrow> jstring option"

text \<open>\<^verbatim>\<open>json\<close>; \<open>prior\<close> are headers that were set on the response before.\<close>

definition json_answer :: "http_headers \<Rightarrow> int \<Rightarrow> json \<Rightarrow> answer" where
  "json_answer prior status value =
     (let body = TextEncoder_encode (JSON_stringify value) in
      \<lparr>an_status = status, an_headers = om_set (lit ''content-length'') (int_to_string (int (length body)))
         (om_set (lit ''content-type'') (lit ''application/json'') prior), an_body = body\<rparr>)"

definition error_json :: "string \<Rightarrow> json" where
  "error_json code = JObj [(lit ''error'', JStr (lit code))]"

datatype body_read = BodyRead "byte list" | BodyTooLarge | BodyBroken

fun read_body :: "int \<Rightarrow> int \<Rightarrow> byte list list \<Rightarrow> body_end \<Rightarrow> body_read" where
  "read_body maximum got [] Finished = BodyRead []"
| "read_body maximum got [] Broken = BodyBroken"
| "read_body maximum got (chunk # chunks) fin =
     (if maximum < got + int (length chunk) then BodyTooLarge
      else (case read_body maximum (got + int (length chunk)) chunks fin of BodyRead rest \<Rightarrow> BodyRead (chunk @ rest) | failed \<Rightarrow> failed))"

definition boundedBody :: "incoming \<Rightarrow> int \<Rightarrow> body_read" where
  "boundedBody request maximum = read_body maximum 0 (in_chunks request) (in_end request)"

section \<open>Receipts and readiness\<close>

definition persistEvidence :: "'w gateway_services \<Rightarrow> gateway_config \<Rightarrow> jstring \<Rightarrow> jstring \<Rightarrow> json \<Rightarrow> ('w, unit) act" where
  "persistEvidence services config url token receipt =
     bindA (gs_post services (url @ lit ''/evidence/v1/receipts'') (gc_evidenceTimeoutMs config) (lit ''Bearer '' @ token)
       (JSON_stringify (JObj [(lit ''receipt'', receipt)]))) (\<lambda>status.
     if status \<noteq> 201 then throwA (PlainErr (lit ''evidence service returned '' @ int_to_string status)) else returnA ())"

definition emit_receipt :: "'w gateway_services \<Rightarrow> gateway_config \<Rightarrow> jstring option \<Rightarrow> json \<Rightarrow> ('w, unit) act" where
  "emit_receipt services config evidenceToken receipt =
     bindA (liftA (canonicalJson_tree receipt)) (\<lambda>t.
     bindA (gs_command services [lit ''XADD'', gc_receiptStream config, lit ''*'', lit ''receipt'', t]) (\<lambda>_.
     case gc_evidenceUrl config of None \<Rightarrow> returnA ()
     | Some url \<Rightarrow> if url = [] then returnA ()
         else persistEvidence services config url (case evidenceToken of None \<Rightarrow> lit ''undefined'' | Some token \<Rightarrow> token) receipt))"

text \<open>The options \<^verbatim>\<open>createApplication\<close> hands to \<^verbatim>\<open>createOatiMiddleware\<close>.\<close>

definition gateway_options :: "('w, 'k) host \<Rightarrow> 'w gateway_services \<Rightarrow> gateway_config \<Rightarrow> jstring option \<Rightarrow> lookup_port \<Rightarrow> TrustResolver \<Rightarrow> (byte list \<Rightarrow> byte list)
    \<Rightarrow> (Request \<Rightarrow> narrowed_request \<Rightarrow> ('w, OatiEvaluationExtensions option) act) \<Rightarrow> (jobject \<Rightarrow> OatiMiddlewareContext \<Rightarrow> ('w, json) act)
    \<Rightarrow> ('w, jstring) OatiMiddlewareOptions" where
  "gateway_options host services config evidenceToken lookup resolver sha256 extensions sign_receipt =
     \<lparr>mo_verificationPolicy = gatewayVerificationPolicy host (gateway_trust.truncate config) lookup resolver
        (replay_port_of (ValkeyReplayCache_checkAndStore (gs_command services) sha256 (gc_replayPrefix config))),
      mo_receiptIssuer = gc_receiptIssuer config, mo_signReceipt = sign_receipt,
      mo_usageStore = Some (ValkeyUsageStore (gs_command services) sha256 (gc_usagePrefix config)), mo_evaluationExtensions = Some extensions,
      mo_extract = None, mo_emitReceipt = Some (\<lambda>receipt _. emit_receipt services config evidenceToken receipt), mo_now = None,
      mo_generateCorrelationId = None, mo_generateReceiptId = None, mo_policyDigest = None,
      mo_maxHeaderBytes = Some (num_of_int (gt_maxHeaderBytes config)), mo_requireRequestDigest = Some True,
      mo_maxBodyBytes = Some (num_of_int (gc_maxBodyBytes config)), mo_allowedReceiptOutcome = Some Pending\<rparr>"

text \<open>\<^verbatim>\<open>Promise.any\<close>: every resolver is asked, and one that answers is enough.\<close>

fun any_ready :: "'w gateway_services \<Rightarrow> int \<Rightarrow> jstring list \<Rightarrow> ('w, bool) act" where
  "any_ready services timeout [] = returnA False"
| "any_ready services timeout (base # bases) =
     bindA (attemptA (gs_fetch_ok services (strip_trailing_slash base @ lit ''/status'') timeout)) (\<lambda>checked.
     bindA (any_ready services timeout bases) (\<lambda>others. returnA (checked = Inr True \<or> others)))"

definition lookupReady :: "'w gateway_services \<Rightarrow> gateway_config \<Rightarrow> ('w, unit) act" where
  "lookupReady services config =
     bindA (any_ready services (gc_lookupTimeoutMs config) (gc_resolverUrls config)) (\<lambda>ready.
     if ready then returnA () else throwA (PlainErr []))"

definition evidenceReady :: "'w gateway_services \<Rightarrow> gateway_config \<Rightarrow> jstring \<Rightarrow> ('w, unit) act" where
  "evidenceReady services config url =
     bindA (gs_fetch_ok services (url @ lit ''/readyz'') (gc_evidenceTimeoutMs config)) (\<lambda>ok.
     if ok then returnA () else throwA (PlainErr (lit ''evidence service unavailable'')))"

definition readiness :: "'w gateway_services \<Rightarrow> gateway_config \<Rightarrow> ('w, unit) act" where
  "readiness services config =
     bindA (gs_command services [lit ''PING'']) (\<lambda>_. bindA (gs_signer_ready services) (\<lambda>_. bindA (lookupReady services config) (\<lambda>_.
     case gc_evidenceUrl config of None \<Rightarrow> returnA () | Some url \<Rightarrow> if url = [] then returnA () else evidenceReady services config url)))"

section \<open>The receipt signer\<close>

text \<open>\<^verbatim>\<open>value?.k\<close>\<close>

definition member_at :: "string \<Rightarrow> json option \<Rightarrow> json option" where
  "member_at k v = (case as_object v of None \<Rightarrow> None | Some r \<Rightarrow> jget r (lit k))"

record transit_reply =
  tr_ok :: bool
  tr_status :: int
  tr_json :: "json result"

text \<open>The Transit service, the token file, \<^verbatim>\<open>encodeURIComponent\<close> and \<^verbatim>\<open>Buffer.from(text, "base64")\<close>.\<close>

record 'w transit_port =
  tp_post :: "jstring \<Rightarrow> jstring \<Rightarrow> int \<Rightarrow> jstring \<Rightarrow> ('w, transit_reply) act"
  tp_get :: "jstring \<Rightarrow> jstring \<Rightarrow> int \<Rightarrow> ('w, transit_reply) act"
  tp_token :: "('w, jstring) act"
  tp_component :: "jstring \<Rightarrow> jstring"
  tp_base64 :: "jstring \<Rightarrow> byte list"

definition transit_url :: "'w transit_port \<Rightarrow> gateway_config \<Rightarrow> string \<Rightarrow> jstring" where
  "transit_url transit config operation = gc_transitAddr config @ lit ''/v1/'' @ tp_component transit (gc_transitMount config) @ lit ''/'' @ lit operation @ lit ''/''
     @ tp_component transit (gc_transitKeyName config)"

definition pinned_version :: "gateway_config \<Rightarrow> jstring \<Rightarrow> bool" where
  "pinned_version config signature = (case split_unit 58 signature of
     _ # version # _ \<Rightarrow> version = lit ''v'' @ int_to_string (gc_transitKeyVersion config) | _ \<Rightarrow> False)"

text \<open>The second half: the signature goes back to Transit for verification.\<close>

definition transit_verify :: "'w transit_port \<Rightarrow> gateway_config \<Rightarrow> jstring \<Rightarrow> jstring \<Rightarrow> jstring \<Rightarrow> ('w, byte list) act" where
  "transit_verify transit config token encoded signature =
     bindA (tp_post transit (transit_url transit config ''verify'') token (gc_transitTimeoutMs config) (JSON_stringify (JObj
       [(lit ''input'', JStr encoded), (lit ''signature'', JStr signature), (lit ''signature_algorithm'', JStr (lit ''ed25519'')), (lit ''prehashed'', JBool False)]))) (\<lambda>verified.
     bindA (liftA (if tr_ok verified then mapR (\<lambda>payload. member_at ''valid'' (member_at ''data'' (Some payload)) = Some (JBool True)) (tr_json verified) else Inr False)) (\<lambda>valid.
     if \<not> valid then throwA (PlainErr (lit ''Transit did not verify its receipt signature'')) else
     let raw = tp_base64 transit (List.last (split_unit 58 signature)) in
     if length raw \<noteq> 64 then throwA (PlainErr (lit ''Transit returned a non-Ed25519 signature'')) else returnA raw))"

definition TransitSigner_signAndVerify :: "'w transit_port \<Rightarrow> gateway_config \<Rightarrow> byte list \<Rightarrow> ('w, byte list) act" where
  "TransitSigner_signAndVerify transit config input =
     bindA (tp_token transit) (\<lambda>file. let token = trim file; encoded = btoa input in
     if token = [] then throwA (PlainErr (lit ''Transit token is empty'')) else
     bindA (tp_post transit (transit_url transit config ''sign'') token (gc_transitTimeoutMs config) (JSON_stringify (JObj
       [(lit ''input'', JStr encoded), (lit ''signature_algorithm'', JStr (lit ''ed25519'')), (lit ''prehashed'', JBool False),
        (lit ''key_version'', JNum (num_of_int (gc_transitKeyVersion config)))]))) (\<lambda>signed_reply.
     if \<not> tr_ok signed_reply then throwA (PlainErr (lit ''Transit sign returned '' @ int_to_string (tr_status signed_reply))) else
     bindA (liftA (tr_json signed_reply)) (\<lambda>payload.
     case as_string (member_at ''signature'' (member_at ''data'' (Some payload))) of
       None \<Rightarrow> throwA (PlainErr (lit ''Transit sign response omitted signature''))
     | Some signature \<Rightarrow>
         if \<not> pinned_version config signature then throwA (PlainErr (lit ''Transit used a key version other than the pinned Receipt version''))
         else transit_verify transit config token encoded signature)))"

definition TransitSigner_ready :: "'w transit_port \<Rightarrow> gateway_config \<Rightarrow> ('w, unit) act" where
  "TransitSigner_ready transit config =
     bindA (tp_token transit) (\<lambda>file.
     bindA (tp_get transit (transit_url transit config ''keys'') (trim file) (gc_transitTimeoutMs config)) (\<lambda>reply.
     if \<not> tr_ok reply then throwA (PlainErr (lit ''Transit key unavailable'')) else
     bindA (liftA (tr_json reply)) (\<lambda>payload.
     if truthy (case as_object (member_at ''keys'' (member_at ''data'' (Some payload))) of None \<Rightarrow> None
        | Some keys \<Rightarrow> member_at ''public_key'' (jget keys (int_to_string (gc_transitKeyVersion config))))
     then returnA () else throwA (PlainErr (lit ''pinned Transit key version unavailable'')))))"

section \<open>Cache invalidation\<close>

definition invalidated_types :: "jstring list" where
  "invalidated_types = [lit ''organisation'', lit ''issuer'', lit ''key'', lit ''agent'', lit ''passport'', lit ''mandate'', lit ''receipt'',
     lit ''revocation'', lit ''service'', lit ''profile'']"

definition record_reference :: "json \<Rightarrow> (jstring \<times> jstring) option" where
  "record_reference record_value = (case record_value of
     JObj r \<Rightarrow> (case (as_string (jget r (lit ''type'')), as_string (jget r (lit ''id''))) of
         (Some t, Some i) \<Rightarrow> if t \<in> set invalidated_types \<and> 1 \<le> length i \<and> length i \<le> 512 then Some (t, i) else None
       | _ \<Rightarrow> None)
   | _ \<Rightarrow> None)"

definition clear_record :: "jstring \<times> jstring \<Rightarrow> cache_entries \<Rightarrow> cache_entries" where
  "clear_record = (\<lambda>(t, i) entries.
     (let cleared = clearCache (Some t) (Some i) entries in if t = lit ''revocation'' then clearRevocationTargetCache None cleared else cleared))"

text \<open>The loop; records before an invalid one have been cleared.\<close>

fun clear_records :: "'w gateway_services \<Rightarrow> json list \<Rightarrow> ('w, unit) act" where
  "clear_records services [] = returnA ()"
| "clear_records services (r # rs) = (case record_reference r of
     None \<Rightarrow> throwA (PlainErr (lit ''invalid record''))
   | Some reference \<Rightarrow> (\<lambda>w. clear_records services rs (gs_cache services (clear_record reference) w)))"

definition invalidation_records :: "incoming \<Rightarrow> json list result" where
  "invalidation_records request = (case boundedBody request 65536 of
     BodyRead bytes \<Rightarrow> bindE (JSON_parse (buffer_text bytes)) (\<lambda>payload. bindE (members_of payload) (\<lambda>r.
       case as_array (jget r (lit ''records'')) of
         None \<Rightarrow> Inl (PlainErr (lit ''invalid records''))
       | Some records \<Rightarrow> if length records < 1 \<or> 100 < length records then Inl (PlainErr (lit ''invalid records'')) else Inr records))
   | _ \<Rightarrow> Inl (PlainErr (lit ''body too large'')))"

definition authorization_header :: "incoming \<Rightarrow> jstring option" where
  "authorization_header request = (case map_of (in_headers request) (lit ''authorization'') of Some (OneValue v) \<Rightarrow> Some v | _ \<Rightarrow> None)"

definition invalidate_cache :: "'w gateway_services \<Rightarrow> jstring option \<Rightarrow> incoming \<Rightarrow> 'w \<Rightarrow> answer \<times> 'w" where
  "invalidate_cache services token request w =
     (if in_method request \<noteq> lit ''POST'' then (json_answer [] 405 (error_json ''method_not_allowed''), w)
      else if \<not> cacheInvalidationAuthorized (authorization_header request) token then (json_answer [] 401 (error_json ''unauthorized''), w)
      else (case bindA (liftA (invalidation_records request)) (\<lambda>records. bindA (clear_records services records) (\<lambda>_. returnA (length records))) w of
          (Inl _, w') \<Rightarrow> (json_answer [] 400 (error_json ''invalid_invalidation_request''), w')
        | (Inr n, w') \<Rightarrow> (json_answer [] 200 (JObj [(lit ''cache_invalidated'', JBool True), (lit ''records'', JNum (num_of_int (int n)))]), w')))"

section \<open>Authorisation\<close>

text \<open>\<^verbatim>\<open>headers.append\<close>: a further value is joined with a comma.\<close>

definition headers_append :: "jstring \<Rightarrow> jstring \<Rightarrow> http_headers \<Rightarrow> http_headers result" where
  "headers_append name value headers =
     (case map_of headers (map lower_unit name) of
        None \<Rightarrow> headers_set name value headers
      | Some v \<Rightarrow> bindE (headers_set name value headers) (\<lambda>updated. case map_of updated (map lower_unit name) of
          None \<Rightarrow> Inr updated | Some added \<Rightarrow> Inr (om_set (map lower_unit name) (v @ lit '', '' @ added) headers)))"

definition incoming_header :: "jstring \<times> header_value \<Rightarrow> http_headers \<Rightarrow> http_headers result" where
  "incoming_header = (\<lambda>(name, value) headers. case value of
     OneValue v \<Rightarrow> headers_set name v headers | ManyValues vs \<Rightarrow> foldE (headers_append name) vs headers)"

text \<open>\<^verbatim>\<open>new Request\<close> normalises the common methods and refuses the forbidden ones.\<close>

definition request_method :: "jstring \<Rightarrow> jstring result" where
  "request_method m =
     (let upper = map upper_unit m in
      if upper \<in> {lit ''CONNECT'', lit ''TRACE'', lit ''TRACK''} then Inl (TypeErr [])
      else if upper \<in> {lit ''DELETE'', lit ''GET'', lit ''HEAD'', lit ''OPTIONS'', lit ''POST'', lit ''PUT''} then Inr upper else Inr m)"

definition authorize_prefix :: jstring where
  "authorize_prefix = lit ''/authorize/''"

definition verification_request :: "'w gateway_services \<Rightarrow> gateway_config \<Rightarrow> incoming \<Rightarrow> jstring \<Rightarrow> byte list \<Rightarrow> Request result" where
  "verification_request services config request url body =
     (let target = drop 10 url in
      bindE (foldE incoming_header (in_headers request) []) (\<lambda>headers.
      case gs_resolve services (if target = [] then lit ''/'' else target) (gc_externalOrigin config) of
        None \<Rightarrow> Inl (TypeErr [])
      | Some href \<Rightarrow> bindE (request_method (in_method request)) (\<lambda>m.
          Inr \<lparr>req_method = m, req_url = href, req_header = (\<lambda>name. map_of headers (map lower_unit name)),
            req_body = Inr (if in_method request \<in> {lit ''GET'', lit ''HEAD''} then [] else body)\<rparr>)))"

text \<open>The handler behind the middleware: the answer for Envoy.\<close>

definition allow_response :: "OatiMiddlewareContext \<Rightarrow> Response result" where
  "allow_response context =
     bindE (headers_set (lit ''x-oati-decision'') (lit ''allow'') []) (\<lambda>headers.
     bindE (headers_set (lit ''x-oati-transaction-id'') (ctx_transactionId context) headers) (\<lambda>headers.
     bindE (headers_set (lit ''x-oati-correlation-id'') (ctx_correlationId context) headers) (\<lambda>headers.
     bindE (headers_set (lit ''x-oati-reason-codes'') (join (lit '','') (res_reason_codes (ctx_evaluation context))) headers) (\<lambda>headers.
     new_Response (RawBody []) 200 [] headers))))"

definition allow_handler :: "'w handler" where
  "allow_handler request context = liftA (allow_response context)"

definition ALLOWED_RESPONSE_HEADERS :: "jstring list" where
  "ALLOWED_RESPONSE_HEADERS = [lit ''content-type'', lit ''x-oati-decision'', lit ''x-oati-transaction-id'', lit ''x-oati-correlation-id'',
     lit ''x-oati-receipt-id'', lit ''x-oati-receipt'', lit ''x-oati-reason-codes'']"

definition decision_header_name :: "jstring \<Rightarrow> jstring" where
  "decision_header_name name = (if startsWith name (lit ''oati-'') then lit ''x-'' @ name else name)"

text \<open>\<^verbatim>\<open>response.setHeader\<close> refuses control characters.\<close>

definition node_header_value :: "jstring \<Rightarrow> bool" where
  "node_header_value v \<longleftrightarrow> list_all (\<lambda>u. u = 9 \<or> 32 \<le> u \<and> u \<le> 126 \<or> 128 \<le> u \<and> u \<le> 255) v"

fun set_headers :: "http_headers \<Rightarrow> http_headers \<Rightarrow> bool \<times> http_headers" where
  "set_headers [] written = (True, written)"
| "set_headers ((rawName, value) # headers) written =
     (let name = decision_header_name rawName in
      if name \<notin> set ALLOWED_RESPONSE_HEADERS then set_headers headers written
      else if \<not> node_header_value value then (False, written)
      else set_headers headers (om_set name value written))"

definition body_bytes :: "response_body \<Rightarrow> byte list" where
  "body_bytes body = (case body of JsonBody j \<Rightarrow> TextEncoder_encode (JSON_stringify j) | RawBody bytes \<Rightarrow> bytes)"

definition unavailable :: json where
  "unavailable = error_json ''authorization_unavailable''"

text \<open>The headers of a \<^verbatim>\<open>Response\<close> are visited in the order of their names.\<close>

definition writeDecision :: "Response \<Rightarrow> answer" where
  "writeDecision decision = (case set_headers (sort_key fst (rsp_headers decision)) [] of
     (False, written) \<Rightarrow> json_answer written 503 unavailable
   | (True, written) \<Rightarrow>
       if rsp_status decision = 200 then \<lparr>an_status = 200, an_headers = written, an_body = []\<rparr>
       else let body = body_bytes (rsp_body decision) in
         \<lparr>an_status = rsp_status decision, an_headers = om_set (lit ''content-length'') (int_to_string (int (length body))) written, an_body = body\<rparr>)"

definition authorize :: "('w, 'k) host \<Rightarrow> ('w, 'h) OatiMiddlewareOptions \<Rightarrow> 'w gateway_services \<Rightarrow> gateway_config \<Rightarrow> incoming \<Rightarrow> jstring \<Rightarrow> 'w \<Rightarrow> answer \<times> 'w" where
  "authorize host options services config request url w = (case boundedBody request (gc_maxBodyBytes config) of
     BodyTooLarge \<Rightarrow> (json_answer [] 413 (error_json ''request_too_large''), w)
   | BodyBroken \<Rightarrow> (json_answer [] 503 unavailable, w)
   | BodyRead body \<Rightarrow> (case verification_request services config request url body of
       Inl _ \<Rightarrow> (json_answer [] 503 unavailable, w)
     | Inr verificationRequest \<Rightarrow> (case oati_middleware host options allow_handler verificationRequest w of
         (Inl _, w') \<Rightarrow> (json_answer [] 503 unavailable, w')
       | (Inr decision, w') \<Rightarrow> (writeDecision decision, w'))))"

section \<open>The application\<close>

definition application :: "('w, 'k) host \<Rightarrow> ('w, 'h) OatiMiddlewareOptions \<Rightarrow> 'w gateway_services \<Rightarrow> gateway_config \<Rightarrow> jstring option \<Rightarrow> incoming \<Rightarrow> 'w \<Rightarrow> answer \<times> 'w" where
  "application host options services config token request w = (case in_url request of
     None \<Rightarrow> (json_answer [] 404 (error_json ''not_found''), w)
   | Some url \<Rightarrow>
       if url = lit ''/healthz'' then (json_answer [] 200 (JObj [(lit ''status'', JStr (lit ''ok''))]), w)
       else if url = lit ''/readyz'' then (case readiness services config w of
           (Inr _, w') \<Rightarrow> (json_answer [] 200 (JObj [(lit ''status'', JStr (lit ''ready''))]), w')
         | (Inl _, w') \<Rightarrow> (json_answer [] 503 (JObj [(lit ''status'', JStr (lit ''not_ready''))]), w'))
       else if url = lit ''/invalidate-cache'' then invalidate_cache services token request w
       else if \<not> startsWith url authorize_prefix then (json_answer [] 404 (error_json ''not_found''), w)
       else authorize host options services config request url w)"

end
