(* ===== verification/Spec2Isabelle.thy ===== *)
theory Spec2Isabelle
  imports EvaluatorProperties Profiles LookupTrust Projection MiddlewareProperties RespFraming SharedUsageProperties GatewayProperties GatewayConfig DevelopmentProperties DpopProperties AdapterProperties GatewayAnswers
begin

text \<open>
  A verification library for OATI, the authority protocol for autonomous agents: the TypeScript SDK
  in \<^verbatim>\<open>src/sdk/typescript/src\<close> and the Envoy authorizer in \<^verbatim>\<open>src/services/envoy-authorizer\<close> that is
  built on it.

  \<^bold>\<open>The program.\<close>  A sponsor gives an agent a signed Mandate; the agent signs an Envelope for each
  transaction.  \<^verbatim>\<open>middleware.ts\<close> receives both with an HTTP request.  It asks \<^verbatim>\<open>crypto.ts\<close> whether
  their proofs hold, which asks \<^verbatim>\<open>lookup.ts\<close> for keys, issuers and revocations; it compares the
  request with the digest in the Envelope; it asks \<^verbatim>\<open>evaluator.ts\<close> whether the transaction is
  within the Mandate and what the usage is afterwards; it exchanges the usage in a store, calls the
  handler, and answers with a signed receipt.  Signatures and digests are taken over the text of
  \<^verbatim>\<open>canonical.ts\<close>.  The authorizer puts this middleware behind Envoy, binds every document to the
  public registry and keeps usage and nonces in Valkey.  \<^verbatim>\<open>adapters.ts\<close> carries the documents in
  other protocols, \<^verbatim>\<open>development.ts\<close> issues them for tests, \<^verbatim>\<open>projection.ts\<close> cuts a registry record
  down to its public part.

  \<^bold>\<open>The language.\<close>  \<open>Prelude\<close>: strings as lists of 16-bit units, exceptions as the left summand of
  a sum, the combinators \<open>bindE\<close>, \<open>mapE\<close>, \<open>foldE\<close> and their rules.  \<open>JsNumber\<close>, \<open>JsonValue\<close>: binary64
  numbers as rounded rationals, values of \<^verbatim>\<open>JSON.parse\<close>.  \<open>JsonText\<close>, \<open>JsonPrinter\<close>, \<open>Stringify\<close>:
  \<^verbatim>\<open>JSON.parse\<close> and \<^verbatim>\<open>JSON.stringify\<close>, with one round trip for every printer (locale \<open>json_printer\<close>).
  \<open>DateTime\<close>, \<open>IsoFormat\<close>: \<^verbatim>\<open>Date.parse\<close> and \<^verbatim>\<open>toISOString\<close>.  \<open>Encoding\<close>: UTF-8 and base64url.
  \<open>TextCase\<close>: case mapping.  \<open>OrderedMap\<close>: \<^verbatim>\<open>Map\<close>.  \<open>Errors\<close>: the classes of \<^verbatim>\<open>errors.ts\<close> and the
  exceptions of the language.  \<open>Effects\<close>: asynchronous code as actions on a world.

  \<^bold>\<open>Documents.\<close>  \<open>Objects\<close>: the interfaces and builders of \<^verbatim>\<open>index.ts\<close> and \<^verbatim>\<open>builders.ts\<close> as
  records.  \<open>Profiles\<close>, \<open>Decimals\<close>: the validators and both decimal arithmetics.  \<open>Canonical\<close>:
  \<^verbatim>\<open>canonical.ts\<close> on a heap of values with sharing and cycles, against the tree a value denotes
  (\<open>denotes\<close>).  \<open>Documents\<close>: the same on trees, error for error.  \<open>Views\<close>: a document at its declared
  type; a document the schema lets through although it does not have that type counts as an error
  of the host.  \<open>Validation\<close>: \<^verbatim>\<open>validation.ts\<close>.

  \<^bold>\<open>The evaluator.\<close>  \<open>Evaluator\<close> is \<^verbatim>\<open>evaluator.ts\<close>, one definition per check.  \<open>EvaluatorChecks\<close>
  states what all checks share (locale \<open>reason_check\<close>).  \<open>Authority\<close> is the specification
  \<open>authorised\<close>, over rationals and sets, and shows that the evaluator decides it.
  \<open>NonAmplification\<close> (locales \<open>narrowing\<close>, \<open>scope_narrowing\<close>) shows that delegation never widens
  authority.  \<open>Accounting\<close> (locales \<open>metered\<close>, \<open>capped\<close>, \<open>token_register\<close>) shows what holds after
  any number of evaluations: budgets, quantities, calls, idempotency keys, minted supply.

  \<^bold>\<open>Proofs.\<close>  \<open>Signing\<close>, \<open>Verification\<close> and \<open>Ed25519\<close> are \<^verbatim>\<open>crypto.ts\<close>.  \<open>TrustSpec\<close> is the
  specification \<open>accepted\<close> of \<open>verifyDocument\<close>, with the chain of issuers as a path.  \<open>SignedText\<close> shows that what is
  verified is what was signed.  \<open>VerificationProperties\<close> has the contract of a replay cache (locale
  \<open>replay_cache\<close>) and the window in which a nonce is accepted once.

  \<^bold>\<open>Lookup.\<close>  \<open>LookupRecords\<close> and \<open>Lookup\<close> are \<^verbatim>\<open>lookup.ts\<close>.  \<open>LookupProperties\<close> and \<open>LookupTrust\<close>:
  the cache stays bounded, a record that is returned is the one that was asked for, the number of
  requests is bounded, the client fails over, and it is a source of trust (locale \<open>record_source\<close>).

  \<^bold>\<open>The middleware.\<close>  \<open>Middleware\<close> is \<^verbatim>\<open>middleware.ts\<close>.  \<open>Admission\<close> composes the specifications of
  the verifier and the evaluator into \<open>has_authority\<close>, and shows that nothing is let through
  without it.  \<open>HeaderText\<close> is about documents in headers, \<open>Receipts\<close> about what is answered.

  \<^bold>\<open>The authorizer.\<close>  \<open>Resp\<close>, \<open>RespFraming\<close>: the Valkey protocol; replies are read the same in
  whatever chunks they arrive.  \<open>Valkey\<close>, \<open>SharedUsage\<close>, \<open>SharedUsageProperties\<close>: the shared stores;
  concurrent requests on any number of gateways linearise (locale \<open>valkey_server\<close>, the documented
  behaviour of GET and of the compare-and-set script, interpreted on a server that keeps its keys in
  memory).  \<open>GatewayPolicy\<close>, \<open>GatewayProperties\<close>: what a request is bound to in the public registry.
  \<open>GatewayConfig\<close>: the configuration.  \<open>GatewayApplication\<close>, \<open>GatewayAnswers\<close>: the request handler
  and the Transit signer; status 200 needs \<open>has_authority\<close>, and invalidation needs the token.

  \<^bold>\<open>The rest of the SDK.\<close>  \<open>Dpop\<close>, \<open>DpopProperties\<close>, \<open>Adapters\<close>, \<open>AdapterProperties\<close>:
  \<^verbatim>\<open>adapters.ts\<close>.  \<open>Development\<close>, \<open>DevelopmentProperties\<close>: \<^verbatim>\<open>development.ts\<close> and its histories.
  \<open>Projection\<close>: \<^verbatim>\<open>projection.ts\<close>.  \<open>Samples\<close> and \<open>MiddlewareSamples\<close> hold the objects the properties
  are instantiated at.

  \<^bold>\<open>Bounds and fuel.\<close>  The parser of \<^verbatim>\<open>JSON.parse\<close> has the length of the text plus one as fuel and
  consumes a unit before every recursion.  Canonicalisation stops at depth 256, which is the code's
  own limit and gives termination on cyclic values; the visit of a public document stops at 32.  A
  trust chain is followed for \<^verbatim>\<open>maxTrustDepth\<close> plus one links, a lookup is retried until the retries
  are used up, the cache is evicted until it fits.  Statements about exact arithmetic bound what
  they count: calls to \<open>2 ^ 53 - 1\<close>, bulk replies to \<open>2 ^ 29\<close> bytes, the second of a DPoP proof to
  \<open>2 ^ 41\<close>, which keeps every sum and product of the code within the exact integers.

  \<^bold>\<open>Parameters.\<close>  The Web Crypto operations, SHA-256, \<^verbatim>\<open>fetch\<close>, the URL parser, random numbers, the
  clock, the validators Ajv compiles from the schemas, the part of \<^verbatim>\<open>Date.parse\<close> the language leaves
  to its host, the Unicode case tables, the Valkey server, the Transit service, and the functions a
  deployer supplies (policy, stores, signer, sink, handler).  Messages the engine itself makes up
  are empty texts.

  \<^bold>\<open>Not modelled.\<close>  \<^verbatim>\<open>generated-schemas.ts\<close> is generated data.  The HTTP and TLS servers and the
  sockets are input and output of the host.  The evaluation extensions and the signing options of the
  authorizer are arguments: they hand values of unknown type and random numbers through.  The sandbox
  service, the scripts and the conformance runners are demonstrations and build tools; the Go and
  Python SDKs are ports in other languages.  Calls of the development issuer run one after another,
  and the requests of \<^verbatim>\<open>Promise.any\<close> in the order of their list.
\<close>

end
